(* ===== verification/Py_Prelude.thy ===== *)
theory Py_Prelude
  imports Main "HOL-Library.AList" "HOL-Library.Char_ord" "HOL-Library.List_Lexorder"
begin

text \<open>
  What every component of the SDK model shares: exceptions as values of a sum type, the
  dynamic values that travel through \<^verbatim>\<open>Dict[str, Any]\<close> payloads, and the parts of Python
  and its standard library that the sources use on them (truth values, \<^verbatim>\<open>isinstance\<close>,
  \<^verbatim>\<open>dict.get\<close>, \<^verbatim>\<open>str\<close>, \<^verbatim>\<open>repr\<close>, \<^verbatim>\<open>int\<close>, string methods).

  Text is a list of code points below 256 (one \<^typ>\<open>char\<close> each), and so is a byte string.
  Numbers are unbounded integers, as in Python; payloads with floating-point numbers are
  outside the model.
\<close>

section \<open>Exceptions as values\<close>

named_theorems result_simps \<open>when a computation with exceptions returns normally\<close>

text \<open>
  The exception classes the SDK raises or catches. The first group is Python's own; the second
  is the hierarchy of \<^verbatim>\<open>signer.py\<close>; \<open>RequestException\<close> stands for the transport failures of the
  HTTP library, the next three are those of the SSH library the sources distinguish, and
  \<open>ForeignException\<close> stands for any other exception of code outside the SDK.
\<close>

datatype exc_class =
    ValueError | TypeError | KeyError | IndexError | AttributeError | RuntimeError
  | TimeoutError | OSError | JSONDecodeError
  | SignerError | AuthenticationError | SigningRejectedError | SignerUnavailableError
  | KeyNotFoundError | EnrollmentError | KeyDeletionError | TransactionRejectedError
  | LogicSigRejectedError | InsufficientFundsError | InvalidTransactionError
  | RequestException
  | SSHException | AuthenticationException | PasswordRequiredException
  | ForeignException

text \<open>An exception: its class, \<^verbatim>\<open>str(e)\<close>, and the wire code a signer error may carry.\<close>

datatype exc = Exc (exc_cls: exc_class) (exc_msg: string) (exc_code: string)

type_synonym 'a result = "exc + 'a"

text \<open>\<^verbatim>\<open>except SignerError\<close> catches the class and everything derived from it.\<close>

definition is_signer_error :: "exc \<Rightarrow> bool" where
  "is_signer_error e \<longleftrightarrow> exc_cls e \<in>
     {SignerError, AuthenticationError, SigningRejectedError, SignerUnavailableError,
      KeyNotFoundError, EnrollmentError, KeyDeletionError, TransactionRejectedError,
      LogicSigRejectedError, InsufficientFundsError, InvalidTransactionError}"

text \<open>\<^verbatim>\<open>json.JSONDecodeError\<close> derives from \<^verbatim>\<open>ValueError\<close>.\<close>

definition is_value_error :: "exc \<Rightarrow> bool" where
  "is_value_error e \<longleftrightarrow> exc_cls e \<in> {ValueError, JSONDecodeError}"

text \<open>
  \<^verbatim>\<open>paramiko\<close>: \<^verbatim>\<open>PasswordRequiredException\<close> derives from \<^verbatim>\<open>AuthenticationException\<close>, which derives from
  \<^verbatim>\<open>SSHException\<close>.
\<close>

definition is_ssh_exception :: "exc \<Rightarrow> bool" where
  "is_ssh_exception e \<longleftrightarrow> exc_cls e \<in> {SSHException, AuthenticationException, PasswordRequiredException}"

definition is_ssh_authentication :: "exc \<Rightarrow> bool" where
  "is_ssh_authentication e \<longleftrightarrow> exc_cls e \<in> {AuthenticationException, PasswordRequiredException}"

abbreviation value_error :: "string \<Rightarrow> exc" where
  "value_error m \<equiv> Exc ValueError m []"

abbreviation signer_error :: "string \<Rightarrow> exc" where
  "signer_error m \<equiv> Exc SignerError m []"

subsection \<open>Sequencing\<close>

definition rbind :: "'a result \<Rightarrow> ('a \<Rightarrow> 'b result) \<Rightarrow> 'b result" where
  "rbind m f = (case m of Inl e \<Rightarrow> Inl e | Inr x \<Rightarrow> f x)"

text \<open>\<open>raise_if c e k\<close> is \<^verbatim>\<open>if c: raise e\<close> followed by \<open>k\<close>.\<close>

definition raise_if :: "bool \<Rightarrow> exc \<Rightarrow> 'a result \<Rightarrow> 'a result" where
  "raise_if c e k = (if c then Inl e else k)"

text \<open>\<open>rewrap p w m\<close> is \<^verbatim>\<open>try: m; except <p> as e: raise w(e) from e\<close>.\<close>

definition rewrap :: "(exc \<Rightarrow> bool) \<Rightarrow> (exc \<Rightarrow> exc) \<Rightarrow> 'a result \<Rightarrow> 'a result" where
  "rewrap p w m = (case m of Inl e \<Rightarrow> Inl (if p e then w e else e) | Inr x \<Rightarrow> Inr x)"

text \<open>A \<^verbatim>\<open>for\<close> loop that threads a state and stops at the first exception.\<close>

fun rfold :: "('a \<Rightarrow> 's \<Rightarrow> 's result) \<Rightarrow> 'a list \<Rightarrow> 's \<Rightarrow> 's result" where
  "rfold f [] s = Inr s"
| "rfold f (x # xs) s = rbind (f x s) (rfold f xs)"

text \<open>A comprehension whose element expression may raise.\<close>

fun rmap :: "('a \<Rightarrow> 'b result) \<Rightarrow> 'a list \<Rightarrow> 'b list result" where
  "rmap f [] = Inr []"
| "rmap f (x # xs) = rbind (f x) (\<lambda>y. rbind (rmap f xs) (\<lambda>ys. Inr (y # ys)))"

text \<open>The exception of a \<open>raise_if\<close> is never rewritten: messages stay folded in goals.\<close>

lemma raise_if_cong [cong]: "c = c' \<Longrightarrow> (\<not> c' \<Longrightarrow> k = k') \<Longrightarrow> raise_if c e k = raise_if c' e k'"
  by (simp add: raise_if_def)

lemma raise_if_simps [simp]:
  "raise_if True e k = Inl e"
  "raise_if False e k = k"
  by (simp_all add: raise_if_def)

lemma raise_if_Inr [result_simps]: "raise_if c e k = Inr x \<longleftrightarrow> \<not> c \<and> k = Inr x"
  by (simp add: raise_if_def)

lemma raise_if_Inl [result_simps]: "raise_if c e k = Inl x \<longleftrightarrow> c \<and> x = e \<or> \<not> c \<and> k = Inl x"
  by (auto simp add: raise_if_def)

lemma rbind_simps [simp]:
  "rbind (Inr x) f = f x"
  "rbind (Inl e) f = Inl e"
  by (simp_all add: rbind_def)

lemma rbind_Inr [result_simps]: "rbind m f = Inr y \<longleftrightarrow> (\<exists>x. m = Inr x \<and> f x = Inr y)"
  by (cases m) simp_all

lemma rbind_Inl: "rbind m f = Inl e \<longleftrightarrow> m = Inl e \<or> (\<exists>x. m = Inr x \<and> f x = Inl e)"
  by (cases m) simp_all

lemma rbind_assoc: "rbind (rbind m f) g = rbind m (\<lambda>x. rbind (f x) g)"
  by (cases m) simp_all

lemma rbind_ret [simp]: "rbind m Inr = m"
  by (cases m) simp_all

lemma rewrap_simps [simp]:
  "rewrap p w (Inr x) = Inr x"
  "rewrap p w (Inl e) = Inl (if p e then w e else e)"
  by (simp_all add: rewrap_def)

lemma rewrap_Inr [result_simps]: "rewrap p w m = Inr x \<longleftrightarrow> m = Inr x"
  by (cases m) simp_all

lemma rfold_append: "rfold f (xs @ ys) s = rbind (rfold f xs s) (rfold f ys)"
  by (induction xs arbitrary: s) (simp_all add: rbind_def split: sum.split)

lemma rmap_Inr: "rmap f xs = Inr ys \<longleftrightarrow> length xs = length ys \<and> (\<forall>i < length xs. f (xs ! i) = Inr (ys ! i))"
proof (induction xs arbitrary: ys)
  case Nil
  then show ?case by auto
next
  case (Cons x xs)
  show ?case
    by (cases ys) (auto simp: Cons.IH result_simps less_Suc_eq_0_disj)
qed

lemma rmap_length: "rmap f xs = Inr ys \<Longrightarrow> length ys = length xs"
  by (simp add: rmap_Inr)

lemma rmap_total:
  assumes "\<And>x. x \<in> set xs \<Longrightarrow> f x = Inr (g x)"
  shows "rmap f xs = Inr (map g xs)"
  using assms by (induction xs) simp_all

text \<open>A loop keeps what each of its rounds keeps.\<close>

lemma rfold_invariant:
  assumes "rfold f xs s = Inr t" and "I s"
    and "\<And>x s t. x \<in> set xs \<Longrightarrow> f x s = Inr t \<Longrightarrow> I s \<Longrightarrow> I t"
  shows "I t"
  using assms by (induction xs arbitrary: s) (auto simp: result_simps)

text \<open>Every round of a loop that came to its end returned normally.\<close>

lemma rfold_rounds: "rfold f xs s = Inr t \<Longrightarrow> x \<in> set xs \<Longrightarrow> \<exists>u v. f x u = Inr v"
  by (induction xs arbitrary: s) (auto simp: result_simps)

lemma rfold_enumerate_rounds:
  "rfold f (List.enumerate k xs) s = Inr t \<Longrightarrow> i < length xs \<Longrightarrow> \<exists>u v. f (k + i, xs ! i) u = Inr v"
  by (rule rfold_rounds) (auto simp: in_set_enumerate_eq)

section \<open>Dynamic values\<close>

text \<open>
  The values of a payload: JSON and YAML data, and instances of the SDK's dataclasses
  (\<open>PData\<close>: the class and its fields in order). A dictionary keeps insertion order.
\<close>

datatype pyval =
    PNone
  | PBool bool
  | PInt int
  | PStr string
  | PList "pyval list"
  | PDict "(pyval \<times> pyval) list"
  | PData string "(string \<times> pyval) list"

definition pobj :: "(string \<times> pyval) list \<Rightarrow> pyval" where
  "pobj kvs = PDict (map (\<lambda>(k, v). (PStr k, v)) kvs)"

fun truthy :: "pyval \<Rightarrow> bool" where
  "truthy PNone = False"
| "truthy (PBool b) = b"
| "truthy (PInt i) = (i \<noteq> 0)"
| "truthy (PStr s) = (s \<noteq> [])"
| "truthy (PList xs) = (xs \<noteq> [])"
| "truthy (PDict kvs) = (kvs \<noteq> [])"
| "truthy (PData c fs) = True"

text \<open>\<^verbatim>\<open>a or b\<close>\<close>

definition py_or :: "pyval \<Rightarrow> pyval \<Rightarrow> pyval" where
  "py_or a b = (if truthy a then a else b)"

fun is_dict :: "pyval \<Rightarrow> bool" where
  "is_dict (PDict kvs) = True"
| "is_dict _ = False"

fun is_list :: "pyval \<Rightarrow> bool" where
  "is_list (PList xs) = True"
| "is_list _ = False"

fun is_str :: "pyval \<Rightarrow> bool" where
  "is_str (PStr s) = True"
| "is_str _ = False"

fun is_bool :: "pyval \<Rightarrow> bool" where
  "is_bool (PBool b) = True"
| "is_bool _ = False"

text \<open>\<^verbatim>\<open>isinstance(v, int)\<close> holds for booleans too, with their numeric value.\<close>

fun as_int :: "pyval \<Rightarrow> int option" where
  "as_int (PInt i) = Some i"
| "as_int (PBool b) = Some (if b then 1 else 0)"
| "as_int _ = None"

text \<open>\<^verbatim>\<open>type(v) is int\<close> excludes booleans.\<close>

fun exact_int :: "pyval \<Rightarrow> int option" where
  "exact_int (PInt i) = Some i"
| "exact_int _ = None"

text \<open>\<^verbatim>\<open>==\<close>: numbers compare by value across \<^verbatim>\<open>int\<close> and \<^verbatim>\<open>bool\<close>, everything else by structure.\<close>

definition py_eq :: "pyval \<Rightarrow> pyval \<Rightarrow> bool" where
  "py_eq a b = (case (as_int a, as_int b) of (Some i, Some j) \<Rightarrow> i = j | _ \<Rightarrow> a = b)"

fun type_name :: "pyval \<Rightarrow> string" where
  "type_name PNone = ''NoneType''"
| "type_name (PBool b) = ''bool''"
| "type_name (PInt i) = ''int''"
| "type_name (PStr s) = ''str''"
| "type_name (PList xs) = ''list''"
| "type_name (PDict kvs) = ''dict''"
| "type_name (PData c fs) = c"

subsection \<open>Dictionaries, lists and attributes\<close>

definition dict_lookup :: "(pyval \<times> pyval) list \<Rightarrow> string \<Rightarrow> pyval option" where
  "dict_lookup kvs k = map_of kvs (PStr k)"

text \<open>\<^verbatim>\<open>v.get(k)\<close>, \<^verbatim>\<open>v.get(k, d)\<close> and \<^verbatim>\<open>v[k]\<close> on a value that may not be a dictionary.\<close>

definition no_attribute :: "pyval \<Rightarrow> string \<Rightarrow> exc" where
  "no_attribute v a = Exc AttributeError
     (CHR 0x27 # type_name v @ CHR 0x27 # '' object has no attribute '' @ CHR 0x27 # a @ [CHR 0x27]) []"

fun py_get_or :: "pyval \<Rightarrow> string \<Rightarrow> pyval \<Rightarrow> pyval result" where
  "py_get_or (PDict kvs) k d = Inr (case dict_lookup kvs k of Some v \<Rightarrow> v | None \<Rightarrow> d)"
| "py_get_or v k d = Inl (no_attribute v ''get'')"

definition py_get :: "pyval \<Rightarrow> string \<Rightarrow> pyval result" where
  "py_get v k = py_get_or v k PNone"

text \<open>The entry of a dictionary, \<^verbatim>\<open>None\<close> when there is none: what \<^verbatim>\<open>get\<close> returns on a dictionary.\<close>

fun pget :: "pyval \<Rightarrow> string \<Rightarrow> pyval" where
  "pget (PDict kvs) k = (case dict_lookup kvs k of Some v \<Rightarrow> v | None \<Rightarrow> PNone)"
| "pget v k = PNone"

definition pget_or :: "pyval \<Rightarrow> string \<Rightarrow> pyval \<Rightarrow> pyval" where
  "pget_or v k d = (case py_get_or v k d of Inr x \<Rightarrow> x | Inl e \<Rightarrow> d)"

definition phas :: "pyval \<Rightarrow> string \<Rightarrow> bool" where
  "phas v k \<longleftrightarrow> truthy (pget v k)"

fun py_item :: "pyval \<Rightarrow> string \<Rightarrow> pyval result" where
  "py_item (PDict kvs) k =
     (case dict_lookup kvs k of Some v \<Rightarrow> Inr v
      | None \<Rightarrow> Inl (Exc KeyError (CHR 0x27 # k @ [CHR 0x27]) []))"
| "py_item v k = Inl (Exc TypeError (type_name v @ '' indices must be integers'') [])"

text \<open>\<^verbatim>\<open>v[k] = x\<close> on a dictionary: the entry keeps its place, a new key goes last.\<close>

fun py_set_item :: "string \<Rightarrow> pyval \<Rightarrow> pyval \<Rightarrow> pyval" where
  "py_set_item k x (PDict kvs) = PDict (AList.update (PStr k) x kvs)"
| "py_set_item k x v = v"

text \<open>\<^verbatim>\<open>for x in v\<close> and \<^verbatim>\<open>len(v)\<close>\<close>

fun py_iter :: "pyval \<Rightarrow> pyval list result" where
  "py_iter (PList xs) = Inr xs"
| "py_iter (PStr s) = Inr (map (\<lambda>c. PStr [c]) s)"
| "py_iter (PDict kvs) = Inr (map fst kvs)"
| "py_iter v = Inl (Exc TypeError (CHR 0x27 # type_name v @ CHR 0x27 # '' object is not iterable'') [])"

fun py_len :: "pyval \<Rightarrow> int result" where
  "py_len (PList xs) = Inr (int (length xs))"
| "py_len (PStr s) = Inr (int (length s))"
| "py_len (PDict kvs) = Inr (int (length kvs))"
| "py_len v = Inl (Exc TypeError (''object of type '' @ CHR 0x27 # type_name v @ CHR 0x27 # '' has no len()'') [])"

text \<open>\<^verbatim>\<open>v[i]\<close> for a non-negative index\<close>

fun py_index :: "pyval \<Rightarrow> nat \<Rightarrow> pyval result" where
  "py_index (PList xs) i =
     (if i < length xs then Inr (xs ! i) else Inl (Exc IndexError ''list index out of range'' []))"
| "py_index (PStr s) i =
     (if i < length s then Inr (PStr [s ! i]) else Inl (Exc IndexError ''string index out of range'' []))"
| "py_index (PDict kvs) i =
     (case map_of kvs (PInt (int i)) of Some v \<Rightarrow> Inr v | None \<Rightarrow> Inl (Exc KeyError ''key not found'' []))"
| "py_index v i = Inl (Exc TypeError (CHR 0x27 # type_name v @ CHR 0x27 # '' object is not subscriptable'') [])"

lemma dict_lookup_pobj [simp]: "dict_lookup (map (\<lambda>(k, v). (PStr k, v)) kvs) k = map_of kvs k"
  by (induction kvs) (auto simp: dict_lookup_def)

lemma dict_lookup_simps [simp]:
  "dict_lookup [] k = None"
  "dict_lookup ((PStr k', v) # kvs) k = (if k = k' then Some v else dict_lookup kvs k)"
  by (simp_all add: dict_lookup_def)

lemma py_get_eq: "py_get v k = (if is_dict v then Inr (pget v k) else Inl (no_attribute v ''get''))"
  by (cases v) (simp_all add: py_get_def)

lemma py_get_dict [simp]: "is_dict v \<Longrightarrow> py_get v k = Inr (pget v k)"
  by (simp add: py_get_eq)

lemma py_get_Inr_iff [result_simps]: "py_get v k = Inr x \<longleftrightarrow> is_dict v \<and> x = pget v k"
  by (auto simp: py_get_eq)

lemma py_get_or_dict [simp]: "is_dict v \<Longrightarrow> py_get_or v k d = Inr (pget_or v k d)"
  by (cases v) (simp_all add: pget_or_def)

lemma py_get_or_Inr_iff [result_simps]: "py_get_or v k d = Inr x \<longleftrightarrow> is_dict v \<and> x = pget_or v k d"
  by (cases v) (auto simp: pget_or_def)

lemma pget_or_pobj [simp]: "pget_or (pobj kvs) k d = (case map_of kvs k of Some y \<Rightarrow> y | None \<Rightarrow> d)"
  by (simp add: pget_or_def pobj_def)

lemma phas_pobj [simp]: "phas (pobj kvs) k = (case map_of kvs k of Some y \<Rightarrow> truthy y | None \<Rightarrow> False)"
  by (simp add: phas_def pobj_def split: option.split)

lemma py_iter_len: "py_iter v = Inr xs \<Longrightarrow> py_len v = Inr (int (length xs))"
  by (cases v) auto

lemma py_len_Inr [result_simps]: "py_len v = Inr n \<longleftrightarrow> (\<exists>xs. py_iter v = Inr xs \<and> n = int (length xs))"
  by (cases v) auto

lemma py_iter_truthy: "py_iter v = Inr xs \<Longrightarrow> truthy v \<longleftrightarrow> xs \<noteq> []"
  by (cases v) auto

lemma is_dict_pobj [simp]: "is_dict (pobj kvs)"
  by (simp add: pobj_def)

lemma pget_pobj [simp]: "pget (pobj kvs) k = (case map_of kvs k of Some y \<Rightarrow> y | None \<Rightarrow> PNone)"
  by (simp add: pobj_def)

lemma py_get_is_dict: "py_get v k = Inr x \<Longrightarrow> is_dict v"
  by (cases v) (simp_all add: py_get_def)

lemma py_get_pobj [simp]: "py_get (pobj kvs) k = Inr (case map_of kvs k of Some y \<Rightarrow> y | None \<Rightarrow> PNone)"
  by (simp add: py_get_def pobj_def)

lemma py_get_or_pobj [simp]: "py_get_or (pobj kvs) k d = Inr (case map_of kvs k of Some y \<Rightarrow> y | None \<Rightarrow> d)"
  by (simp add: pobj_def)

lemma py_item_pobj [simp]: "map_of kvs k = Some v \<Longrightarrow> py_item (pobj kvs) k = Inr v"
  by (simp add: pobj_def)

lemma py_item_pget: "py_item v k = Inr x \<Longrightarrow> is_dict v \<and> x = pget v k"
  by (cases v) (auto split: option.splits)

lemma py_or_simps [simp]:
  "py_or PNone b = b"
  "py_or (PList []) b = b"
  "py_or (PList (x # xs)) b = PList (x # xs)"
  "py_or (PStr (c # cs)) b = PStr (c # cs)"
  "py_or (PStr []) b = b"
  by (simp_all add: py_or_def)

lemma py_eq_refl [simp]: "py_eq v v"
  by (simp add: py_eq_def split: option.splits)

lemma py_eq_str: "py_eq v (PStr s) \<longleftrightarrow> v = PStr s"
  by (cases v) (simp_all add: py_eq_def)

lemma py_eq_int: "py_eq v (PInt i) \<longleftrightarrow> as_int v = Some i"
  by (cases v) (auto simp: py_eq_def)

lemma exact_int_Some [simp]: "exact_int v = Some i \<longleftrightarrow> v = PInt i"
  by (cases v) simp_all

lemma exact_int_as_int: "exact_int v = Some i \<Longrightarrow> as_int v = Some i"
  by (cases v) simp_all

subsection \<open>Dataclass payloads\<close>

text \<open>\<^verbatim>\<open>dataclasses.asdict\<close>: instances become dictionaries, also inside lists and dictionaries.\<close>

fun asdict :: "pyval \<Rightarrow> pyval" where
  "asdict (PData c fs) = PDict (map (\<lambda>(k, v). (PStr k, asdict v)) fs)"
| "asdict (PList xs) = PList (map asdict xs)"
| "asdict (PDict kvs) = PDict (map (\<lambda>(k, v). (k, asdict v)) kvs)"
| "asdict v = v"

section \<open>Text\<close>

fun show_nat :: "nat \<Rightarrow> string" where
  "show_nat n = (if n < 10 then [char_of (48 + n)] else show_nat (n div 10) @ [char_of (48 + n mod 10)])"

declare show_nat.simps [simp del]

definition show_int :: "int \<Rightarrow> string" where
  "show_int i = (if i < 0 then ''-'' @ show_nat (nat (- i)) else show_nat (nat i))"

abbreviation ord_of :: "char \<Rightarrow> nat" where
  "ord_of c \<equiv> of_char c"

text \<open>\<^verbatim>\<open>str.isalnum\<close> and \<^verbatim>\<open>str.isspace\<close> on the code points below 256.\<close>

definition is_ascii_alnum :: "char \<Rightarrow> bool" where
  "is_ascii_alnum c = (let n = ord_of c in
     48 \<le> n \<and> n \<le> 57 \<or> 65 \<le> n \<and> n \<le> 90 \<or> 97 \<le> n \<and> n \<le> 122)"

definition isalnum :: "char \<Rightarrow> bool" where
  "isalnum c = (let n = ord_of c in
     is_ascii_alnum c \<or> n \<in> {170, 178, 179, 181, 185, 186, 188, 189, 190} \<or>
     192 \<le> n \<and> n \<le> 214 \<or> 216 \<le> n \<and> n \<le> 246 \<or> 248 \<le> n)"

definition is_space :: "char \<Rightarrow> bool" where
  "is_space c = (let n = ord_of c in 9 \<le> n \<and> n \<le> 13 \<or> 28 \<le> n \<and> n \<le> 32 \<or> n = 133 \<or> n = 160)"

definition lstrip :: "string \<Rightarrow> string" where
  "lstrip s = dropWhile is_space s"

definition strip :: "string \<Rightarrow> string" where
  "strip s = rev (lstrip (rev (lstrip s)))"

definition rstrip_char :: "char \<Rightarrow> string \<Rightarrow> string" where
  "rstrip_char c s = rev (dropWhile (\<lambda>d. d = c) (rev s))"

definition lower_char :: "char \<Rightarrow> char" where
  "lower_char c = (let n = ord_of c in
     if 65 \<le> n \<and> n \<le> 90 \<or> 192 \<le> n \<and> n \<le> 222 \<and> n \<noteq> 215 then char_of (n + 32) else c)"

definition lower :: "string \<Rightarrow> string" where
  "lower s = map lower_char s"

fun starts_with :: "string \<Rightarrow> string \<Rightarrow> bool" where
  "starts_with [] s = True"
| "starts_with (c # cs) [] = False"
| "starts_with (c # cs) (d # ds) = (c = d \<and> starts_with cs ds)"

text \<open>\<^verbatim>\<open>p in s\<close> for text\<close>

fun contains_str :: "string \<Rightarrow> string \<Rightarrow> bool" where
  "contains_str p [] = (p = [])"
| "contains_str p (c # cs) = (starts_with p (c # cs) \<or> contains_str p cs)"

lemma starts_with_iff: "starts_with p s \<longleftrightarrow> (\<exists>t. s = p @ t)"
  by (induction p s rule: starts_with.induct) auto

lemma contains_str_iff: "contains_str p s \<longleftrightarrow> (\<exists>u t. s = u @ p @ t)"
proof (induction s)
  case Nil
  then show ?case by simp
next
  case (Cons c cs)
  have "(\<exists>u t. c # cs = u @ p @ t) \<longleftrightarrow> (\<exists>t. c # cs = p @ t) \<or> (\<exists>u t. cs = u @ p @ t)"
    by (metis append_Cons append_Nil list.inject neq_Nil_conv)
  then show ?case by (simp add: Cons.IH starts_with_iff del: starts_with.simps)
qed

lemma is_ascii_alnum_isalnum: "is_ascii_alnum c \<Longrightarrow> isalnum c"
  by (simp add: isalnum_def Let_def)

subsection \<open>\<^verbatim>\<open>repr\<close> and \<^verbatim>\<open>str\<close>\<close>

definition is_printable :: "char \<Rightarrow> bool" where
  "is_printable c = (let n = ord_of c in 32 \<le> n \<and> n \<le> 126 \<or> 161 \<le> n \<and> n \<noteq> 173)"

definition hex_digit :: "nat \<Rightarrow> char" where
  "hex_digit n = (if n < 10 then char_of (48 + n) else char_of (87 + n))"

definition repr_char :: "char \<Rightarrow> char \<Rightarrow> string" where
  "repr_char q c =
     (if c = q \<or> ord_of c = 92 then [char_of (92 :: nat), c]
      else if ord_of c = 9 then [char_of (92 :: nat), CHR ''t'']
      else if ord_of c = 10 then [char_of (92 :: nat), CHR ''n'']
      else if ord_of c = 13 then [char_of (92 :: nat), CHR ''r'']
      else if is_printable c then [c]
      else [char_of (92 :: nat), CHR ''x'', hex_digit (ord_of c div 16), hex_digit (ord_of c mod 16)])"

definition repr_str :: "string \<Rightarrow> string" where
  "repr_str s =
     (let q = (if CHR 0x27 \<in> set s \<and> CHR 0x22 \<notin> set s then CHR 0x22 else CHR 0x27)
      in q # concat (map (repr_char q) s) @ [q])"

fun join :: "string \<Rightarrow> string list \<Rightarrow> string" where
  "join sep [] = []"
| "join sep [s] = s"
| "join sep (s # ss) = s @ sep @ join sep ss"

fun py_repr :: "pyval \<Rightarrow> string" where
  "py_repr PNone = ''None''"
| "py_repr (PBool b) = (if b then ''True'' else ''False'')"
| "py_repr (PInt i) = show_int i"
| "py_repr (PStr s) = repr_str s"
| "py_repr (PList xs) = ''['' @ join '', '' (map py_repr xs) @ '']''"
| "py_repr (PDict kvs) = ''{'' @ join '', '' (map (\<lambda>(k, v). py_repr k @ '': '' @ py_repr v) kvs) @ ''}''"
| "py_repr (PData c fs) = c @ ''('' @ join '', '' (map (\<lambda>(k, v). k @ ''='' @ py_repr v) fs) @ '')''"

fun py_str :: "pyval \<Rightarrow> string" where
  "py_str (PStr s) = s"
| "py_str v = py_repr v"

subsection \<open>\<^verbatim>\<open>int(v)\<close>\<close>

text \<open>
  \<^verbatim>\<open>int(s)\<close> strips surrounding whitespace, accepts one sign, and then decimal digits in which
  single underscores may separate digits.
\<close>

definition digit_val :: "char \<Rightarrow> nat option" where
  "digit_val c = (let n = ord_of c in if 48 \<le> n \<and> n \<le> 57 then Some (n - 48) else None)"

fun parse_digits :: "string \<Rightarrow> int \<Rightarrow> int option" where
  "parse_digits [] a = Some a"
| "parse_digits (c # cs) a =
     (if c = CHR ''_'' then
        (case cs of [] \<Rightarrow> None
         | d # ds \<Rightarrow> (case digit_val d of None \<Rightarrow> None | Some n \<Rightarrow> parse_digits ds (a * 10 + int n)))
      else (case digit_val c of None \<Rightarrow> None | Some n \<Rightarrow> parse_digits cs (a * 10 + int n)))"

fun parse_unsigned :: "string \<Rightarrow> int option" where
  "parse_unsigned [] = None"
| "parse_unsigned (c # cs) = (if digit_val c = None then None else parse_digits (c # cs) 0)"

fun parse_signed :: "string \<Rightarrow> int option" where
  "parse_signed (c # cs) =
     (if c = CHR ''+'' then parse_unsigned cs
      else if c = CHR ''-'' then map_option uminus (parse_unsigned cs)
      else parse_unsigned (c # cs))"
| "parse_signed [] = None"

fun py_int :: "pyval \<Rightarrow> int result" where
  "py_int (PInt i) = Inr i"
| "py_int (PBool b) = Inr (if b then 1 else 0)"
| "py_int (PStr s) =
     (case parse_signed (strip s) of Some i \<Rightarrow> Inr i
      | None \<Rightarrow> Inl (value_error (''invalid literal for int() with base 10: '' @ repr_str s)))"
| "py_int v = Inl (Exc TypeError (''int() argument must be a string, a bytes-like object or a real number, not ''
     @ CHR 0x27 # type_name v @ [CHR 0x27]) [])"

lemma py_int_exact: "exact_int v = Some i \<Longrightarrow> py_int v = Inr i"
  by (cases v) simp_all

subsection \<open>Numbers and their text\<close>

lemma digit_val_char_of: "(n :: nat) < 10 \<Longrightarrow> digit_val (char_of (48 + n)) = Some n"
  by (simp add: digit_val_def)

lemma not_digit: "digit_val (CHR ''_'') = None" "digit_val (CHR ''+'') = None" "digit_val (CHR ''-'') = None" "digit_val (CHR '':'') = None"
  by (simp_all add: digit_val_def)

lemma digit_char_distinct:
  assumes "(n :: nat) < 10"
  shows "char_of (48 + n) \<noteq> CHR ''_''" "char_of (48 + n) \<noteq> CHR ''+''" "char_of (48 + n) \<noteq> CHR ''-''" "char_of (48 + n) \<noteq> CHR '':''"
  using digit_val_char_of [OF assms] not_digit by (metis option.distinct(1))+

lemma parse_digits_cons: "(n :: nat) < 10 \<Longrightarrow> parse_digits (char_of (48 + n) # cs) a = parse_digits cs (a * 10 + int n)"
  by (subst parse_digits.simps) (simp only: digit_char_distinct digit_val_char_of option.case if_False)

lemma parse_digits_show_nat: "parse_digits (show_nat n @ cs) 0 = parse_digits cs (int n)"
proof (induction n arbitrary: cs rule: show_nat.induct)
  case (1 n)
  show ?case
  proof (cases "n < 10")
    case True
    then show ?thesis by (subst show_nat.simps) (simp add: parse_digits_cons del: parse_digits.simps)
  next
    case False
    have "int (n div 10) * 10 + int (n mod 10) = int n" by presburger
    then show ?thesis using 1 [OF False] False
      by (subst show_nat.simps) (simp add: parse_digits_cons del: parse_digits.simps)
  qed
qed

lemma show_nat_head: "\<exists>(n' :: nat) cs. n' < 10 \<and> show_nat n = char_of (48 + n') # cs"
proof (induction n rule: show_nat.induct)
  case (1 n)
  show ?case
  proof (cases "n < 10")
    case True
    then show ?thesis by (subst show_nat.simps) auto
  next
    case False
    with 1 obtain n' :: nat and cs where "n' < 10" "show_nat (n div 10) = char_of (48 + n') # cs" by blast
    with False show ?thesis by (subst show_nat.simps) auto
  qed
qed

lemma show_nat_digits: "\<forall>c \<in> set (show_nat n). \<exists>k :: nat. k < 10 \<and> c = char_of (48 + k)"
proof (induction n rule: show_nat.induct)
  case (1 n)
  show ?case
  proof (cases "n < 10")
    case True
    then show ?thesis by (subst show_nat.simps) auto
  next
    case False
    then have "show_nat n = show_nat (n div 10) @ [char_of (48 + n mod 10)]" by (subst show_nat.simps) simp
    moreover have "\<exists>k :: nat. k < 10 \<and> char_of (48 + n mod 10) = (char_of (48 + k) :: char)" by (intro exI [of _ "n mod 10"]) simp
    ultimately show ?thesis using 1 [OF False] by auto
  qed
qed

lemma digit_not_space: "(k :: nat) < 10 \<Longrightarrow> \<not> is_space (char_of (48 + k))"
  by (simp add: is_space_def Let_def)

lemma strip_id: "s \<noteq> [] \<Longrightarrow> \<not> is_space (hd s) \<Longrightarrow> \<not> is_space (last s) \<Longrightarrow> strip s = s"
  by (simp add: strip_def lstrip_def dropWhile_eq_self_iff [THEN iffD2] hd_rev)

text \<open>\<^verbatim>\<open>int(str(i)) == i\<close>\<close>

lemma parse_unsigned_show_nat: "parse_unsigned (show_nat n) = Some (int n)"
proof -
  obtain n' :: nat and cs where h: "n' < 10" "show_nat n = char_of (48 + n') # cs" using show_nat_head by blast
  then have "parse_unsigned (show_nat n) = parse_digits (show_nat n @ []) 0" by (simp add: digit_val_char_of del: parse_digits.simps)
  then show ?thesis unfolding parse_digits_show_nat by simp
qed

lemma parse_signed_show_int: "parse_signed (show_int i) = Some i"
proof (cases "i < 0")
  case True
  then show ?thesis by (simp add: show_int_def parse_unsigned_show_nat)
next
  case False
  obtain n' :: nat and cs where h: "n' < 10" "show_nat (nat i) = char_of (48 + n') # cs" using show_nat_head by blast
  have "char_of (48 + n') \<noteq> CHR ''+''" "char_of (48 + n') \<noteq> CHR ''-''"
    using digit_char_distinct [OF h(1)] by simp_all
  with False h parse_unsigned_show_nat [of "nat i"] show ?thesis by (simp add: show_int_def)
qed

lemma show_int_inject: "show_int i = show_int j \<longleftrightarrow> i = j"
  by (metis option.inject parse_signed_show_int)

lemma show_int_no_colon: "CHR '':'' \<notin> set (show_int i)"
proof
  assume "CHR '':'' \<in> set (show_int i)"
  then have "\<exists>n. CHR '':'' \<in> set (show_nat n)" by (auto simp: show_int_def split: if_splits)
  then obtain k :: nat where k: "k < 10" "CHR '':'' = char_of (48 + k)" using show_nat_digits by blast
  with digit_char_distinct(4) [OF k(1)] show False by simp
qed

lemma append_colon_inject:
  assumes "a @ '':'' @ x = b @ '':'' @ y" and "CHR '':'' \<notin> set x" and "CHR '':'' \<notin> set y"
  shows "a = b \<and> x = y"
proof -
  have "takeWhile (\<lambda>c. c \<noteq> CHR '':'') (rev (u @ '':'' @ z)) = rev z" if "CHR '':'' \<notin> set z" for u z
  proof -
    have "rev (u @ '':'' @ z) = rev z @ CHR '':'' # rev u" by simp
    moreover have "takeWhile (\<lambda>c. c \<noteq> CHR '':'') (rev z @ CHR '':'' # rev u) = rev z @ takeWhile (\<lambda>c. c \<noteq> CHR '':'') (CHR '':'' # rev u)"
      using that by (intro takeWhile_append2) auto
    ultimately show ?thesis by simp
  qed
  from this [OF assms(2), of a] this [OF assms(3), of b] assms(1) have "x = y" by (metis rev_rev_ident)
  with assms(1) show ?thesis by simp
qed

lemma show_int_plain: "show_int i \<noteq> [] \<and> (\<forall>c \<in> set (show_int i). \<not> is_space c)"
proof -
  have "show_nat n \<noteq> [] \<and> (\<forall>c \<in> set (show_nat n). \<not> is_space c)" for n
    using show_nat_head [of n] show_nat_digits [of n] digit_not_space by fastforce
  moreover have "\<not> is_space (CHR ''-'')" by (simp add: is_space_def)
  ultimately show ?thesis by (simp add: show_int_def)
qed

lemma py_int_show_int: "py_int (PStr (show_int i)) = Inr i"
  using show_int_plain [of i] by (simp add: strip_id parse_signed_show_int)

end
