(* ===== verification/Lsig_Resources.thy ===== *)
theory Lsig_Resources
  imports Py_Prelude
begin

text \<open>
  LogicSig resource declarations (\<^verbatim>\<open>LogicSigResourceUsage\<close>): what a foreign or pre-signed slot
  declares of its program bytes, argument bytes and opcode cost, the checks that guard every
  such declaration before it is sent, and the payload compaction of \<^verbatim>\<open>_compact_payload\<close>.
\<close>

section \<open>Payload compaction\<close>

text \<open>
  \<^verbatim>\<open>_compact_payload\<close> turns a dataclass into a dictionary with \<^verbatim>\<open>asdict\<close> and drops \<^verbatim>\<open>None\<close>
  values at every level of dictionaries. The recursion below goes through an instance directly;
  \<open>compact_payload_asdict\<close> shows that converting first makes no difference.
\<close>

fun compact_payload :: "pyval \<Rightarrow> pyval" where
  "compact_payload (PData c fs) =
     PDict (map (\<lambda>(k, v). (PStr k, compact_payload v)) (filter (\<lambda>(k, v). v \<noteq> PNone) fs))"
| "compact_payload (PDict kvs) =
     PDict (map (\<lambda>(k, v). (k, compact_payload v)) (filter (\<lambda>(k, v). v \<noteq> PNone) kvs))"
| "compact_payload (PList xs) = PList (map compact_payload xs)"
| "compact_payload v = v"

text \<open>No dataclass instance and no \<^verbatim>\<open>None\<close> entry of a dictionary is left.\<close>

fun compacted :: "pyval \<Rightarrow> bool" where
  "compacted (PData c fs) = False"
| "compacted (PDict kvs) = (\<forall>(k, v) \<in> set kvs. v \<noteq> PNone \<and> compacted v)"
| "compacted (PList xs) = (\<forall>v \<in> set xs. compacted v)"
| "compacted v = True"

lemma asdict_eq_PNone [simp]: "asdict v = PNone \<longleftrightarrow> v = PNone"
  by (cases v) simp_all

lemma compact_payload_eq_PNone [simp]: "compact_payload v = PNone \<longleftrightarrow> v = PNone"
  by (cases v) simp_all

lemma compacted_id: "compacted v \<Longrightarrow> compact_payload v = v"
proof (induction v rule: compact_payload.induct)
  case (2 kvs)
  then have "filter (\<lambda>(k, v). v \<noteq> PNone) kvs = kvs"
    by (auto simp: filter_id_conv)
  moreover have "map (\<lambda>(k, v). (k, compact_payload v)) kvs = kvs"
    using 2 by (intro map_idI) (force simp: \<open>filter _ kvs = kvs\<close>)
  ultimately show ?case by simp
next
  case (3 xs)
  then show ?case by (auto intro: map_idI)
qed simp_all

lemma filter_asdict: "filter (\<lambda>(k, v). v \<noteq> PNone) (map (\<lambda>(k, v). (g k, asdict v)) kvs)
   = map (\<lambda>(k, v). (g k, asdict v)) (filter (\<lambda>(k, v). v \<noteq> PNone) kvs)"
  by (induction kvs) auto

lemma compact_payload_asdict: "compact_payload (asdict v) = compact_payload v"
proof (induction v rule: asdict.induct)
  case (1 c fs)
  then show ?case by (auto simp: filter_asdict)
next
  case (3 kvs)
  then show ?case by (auto simp: filter_asdict)
qed auto

section \<open>Resource declarations\<close>

record lsig_usage =
  program_bytes :: pyval
  argument_bytes :: pyval
  max_opcode_cost :: pyval

record lsig_profile =
  lp_default :: "lsig_usage option"
  lp_spend :: "lsig_usage option"
  lp_spending_rekey :: "lsig_usage option"
  lp_admin_rekey :: "lsig_usage option"

text \<open>An instance as it may occur inside a payload.\<close>

definition usage_data :: "lsig_usage \<Rightarrow> pyval" where
  "usage_data u = PData ''LogicSigResourceUsage''
     [(''program_bytes'', program_bytes u), (''argument_bytes'', argument_bytes u),
      (''max_opcode_cost'', max_opcode_cost u)]"

definition lsig_usage_ok :: "lsig_usage \<Rightarrow> bool" where
  "lsig_usage_ok u =
     (case (exact_int (program_bytes u), exact_int (argument_bytes u), exact_int (max_opcode_cost u)) of
        (Some p, Some a, Some m) \<Rightarrow> 0 < p \<and> p \<le> 16000 \<and> 0 \<le> a \<and> 0 < m \<and> m \<le> 320000
      | _ \<Rightarrow> False)"

definition resources_invalid :: "string \<Rightarrow> exc" where
  "resources_invalid label = value_error (label @ '' LogicSig resources are invalid'')"

definition validate_lsig_resources :: "lsig_usage \<Rightarrow> string \<Rightarrow> unit result" where
  "validate_lsig_resources u label = raise_if (\<not> lsig_usage_ok u) (resources_invalid label) (Inr ())"

definition lsig_field_names :: "string list" where
  "lsig_field_names = [''program_bytes'', ''argument_bytes'', ''max_opcode_cost'']"

definition field_of :: "(string \<times> pyval) list \<Rightarrow> string \<Rightarrow> pyval" where
  "field_of fs k = (case map_of fs k of Some v \<Rightarrow> v | None \<Rightarrow> PNone)"

definition require_lsig_resources :: "pyval \<Rightarrow> string \<Rightarrow> lsig_usage result" where
  "require_lsig_resources r label =
     raise_if (r = PNone) (value_error (label @ '' LogicSig resources are unavailable'')) (
     rbind
       (case r of
          PData c fs \<Rightarrow>
            raise_if (c \<noteq> ''LogicSigResourceUsage'') (resources_invalid label)
              (Inr \<lparr>program_bytes = field_of fs ''program_bytes'', argument_bytes = field_of fs ''argument_bytes'',
                    max_opcode_cost = field_of fs ''max_opcode_cost''\<rparr>)
        | PDict kvs \<Rightarrow>
            raise_if (set (map fst kvs) \<noteq> PStr ` set lsig_field_names) (resources_invalid label) (
            rbind (py_item r ''program_bytes'') (\<lambda>p.
            rbind (py_item r ''argument_bytes'') (\<lambda>a.
            rbind (py_item r ''max_opcode_cost'') (\<lambda>m.
              Inr \<lparr>program_bytes = p, argument_bytes = a, max_opcode_cost = m\<rparr>))))
        | _ \<Rightarrow> Inl (resources_invalid label))
       (\<lambda>u. rbind (validate_lsig_resources u label) (\<lambda>_. Inr u)))"

definition wire_lsig_resources :: "lsig_usage \<Rightarrow> pyval result" where
  "wire_lsig_resources u =
     rbind (validate_lsig_resources u ''lsig_resources'') (\<lambda>_.
       Inr (pobj [(''program_bytes'', program_bytes u), (''argument_bytes'', argument_bytes u),
                  (''max_opcode_cost'', max_opcode_cost u)]))"

text \<open>\<^verbatim>\<open>GUARDED_DUMMY_PROGRAM\<close> is \<^verbatim>\<open>bytes.fromhex("033120320312")\<close>.\<close>

definition GUARDED_DUMMY_PROGRAM :: string where
  "GUARDED_DUMMY_PROGRAM = map (char_of :: nat \<Rightarrow> char) [3, 49, 32, 50, 3, 18]"

definition guarded_dummy_lsig_resources :: lsig_usage where
  "guarded_dummy_lsig_resources =
     \<lparr>program_bytes = PInt (int (length GUARDED_DUMMY_PROGRAM)), argument_bytes = PInt 0, max_opcode_cost = PInt 1\<rparr>"

subsection \<open>Inventory profiles\<close>

definition parse_lsig_resource_usage :: "pyval \<Rightarrow> lsig_usage option result" where
  "parse_lsig_resource_usage d =
     (if \<not> is_dict d then Inr None else
      rbind (rbind (py_get_or d ''program_bytes'' (PInt 0)) py_int) (\<lambda>p.
      rbind (rbind (py_get_or d ''argument_bytes'' (PInt 0)) py_int) (\<lambda>a.
      rbind (rbind (py_get_or d ''max_opcode_cost'' (PInt 0)) py_int) (\<lambda>m.
        Inr (Some \<lparr>program_bytes = PInt p, argument_bytes = PInt a, max_opcode_cost = PInt m\<rparr>)))))"

definition parse_lsig_resource_profile :: "pyval \<Rightarrow> lsig_profile option result" where
  "parse_lsig_resource_profile d =
     (if \<not> is_dict d then Inr None else
      rbind (rbind (py_get d ''default'') parse_lsig_resource_usage) (\<lambda>de.
      rbind (rbind (py_get d ''spend'') parse_lsig_resource_usage) (\<lambda>sp.
      rbind (rbind (py_get d ''spending_rekey'') parse_lsig_resource_usage) (\<lambda>sr.
      rbind (rbind (py_get d ''admin_rekey'') parse_lsig_resource_usage) (\<lambda>ar.
        Inr (Some \<lparr>lp_default = de, lp_spend = sp, lp_spending_rekey = sr, lp_admin_rekey = ar\<rparr>))))))"

section \<open>Lemmas\<close>

lemma lsig_usage_ok_iff: "lsig_usage_ok u \<longleftrightarrow>
   (\<exists>p a m. u = \<lparr>program_bytes = PInt p, argument_bytes = PInt a, max_opcode_cost = PInt m\<rparr> \<and>
            0 < p \<and> p \<le> 16000 \<and> 0 \<le> a \<and> 0 < m \<and> m \<le> 320000)"
  by (cases u) (auto simp: lsig_usage_ok_def split: option.splits)

lemma validate_lsig_resources_Inr [result_simps]: "validate_lsig_resources u label = Inr x \<longleftrightarrow> lsig_usage_ok u"
  by (simp add: validate_lsig_resources_def result_simps)

text \<open>Whatever shape a declaration arrives in, what is accepted lies within the declared limits.\<close>

lemma require_lsig_resources_ok: "require_lsig_resources r label = Inr u \<Longrightarrow> lsig_usage_ok u"
  by (auto simp: require_lsig_resources_def result_simps)

lemma wire_lsig_resources_Inr:
  "wire_lsig_resources u = Inr w \<longleftrightarrow> lsig_usage_ok u \<and>
     w = pobj [(''program_bytes'', program_bytes u), (''argument_bytes'', argument_bytes u),
               (''max_opcode_cost'', max_opcode_cost u)]"
  by (auto simp: wire_lsig_resources_def result_simps)

lemma require_wire_roundtrip:
  assumes "wire_lsig_resources u = Inr w"
  shows "require_lsig_resources w label = Inr u"
  using assms
  by (cases u) (auto simp: wire_lsig_resources_Inr require_lsig_resources_def pobj_def
      lsig_field_names_def validate_lsig_resources_def)

lemma require_usage_data: "lsig_usage_ok u \<Longrightarrow> require_lsig_resources (usage_data u) label = Inr u"
  by (cases u) (simp add: require_lsig_resources_def usage_data_def field_of_def validate_lsig_resources_def)

lemma guarded_dummy_ok: "lsig_usage_ok guarded_dummy_lsig_resources"
  by (simp add: lsig_usage_ok_def guarded_dummy_lsig_resources_def GUARDED_DUMMY_PROGRAM_def)

end
