(* ===== verification/Py_Codec.thy ===== *)
theory Py_Codec
  imports Py_Prelude
begin

text \<open>
  The two text encodings of bytes the SDK uses on the wire: \<^verbatim>\<open>bytes.hex\<close> / \<^verbatim>\<open>bytes.fromhex\<close>
  and \<^verbatim>\<open>base64.b64encode\<close> / \<^verbatim>\<open>base64.b64decode\<close> (with and without \<^verbatim>\<open>validate=True\<close>). A locale
  states what a client needs of such a pair; each pair of functions is shown to provide it.
\<close>

type_synonym bytes = "char list"

section \<open>What a text codec promises\<close>

locale text_codec =
  fixes enc :: "bytes \<Rightarrow> string" and dec :: "string \<Rightarrow> bytes result"
  assumes dec_enc: "dec (enc b) = Inr b"
begin

lemma enc_inject: "enc a = enc b \<longleftrightarrow> a = b"
  by (metis dec_enc sum.inject(2))

lemma rmap_dec_enc: "rmap dec (map enc bs) = Inr bs"
  by (induction bs) (simp_all add: dec_enc)

text \<open>Decoding every part and joining gives back the joined payloads.\<close>

lemma join_parts: "rbind (rmap dec (map enc bs)) (\<lambda>ds. Inr (enc (concat ds))) = Inr (enc (concat bs))"
  by (simp add: rmap_dec_enc)

end

section \<open>Hexadecimal\<close>

definition hex_byte :: "char \<Rightarrow> string" where
  "hex_byte c = [hex_digit (ord_of c div 16), hex_digit (ord_of c mod 16)]"

definition bytes_hex :: "bytes \<Rightarrow> string" where
  "bytes_hex b = concat (map hex_byte b)"

definition hex_val :: "char \<Rightarrow> nat option" where
  "hex_val c = (let n = ord_of c in
     if 48 \<le> n \<and> n \<le> 57 then Some (n - 48)
     else if 97 \<le> n \<and> n \<le> 102 then Some (n - 87)
     else if 65 \<le> n \<and> n \<le> 70 then Some (n - 55)
     else None)"

text \<open>ASCII whitespace is skipped between bytes, not inside one.\<close>

definition hex_space :: "char \<Rightarrow> bool" where
  "hex_space c = (let n = ord_of c in 9 \<le> n \<and> n \<le> 13 \<or> n = 32)"

definition non_hex :: "nat \<Rightarrow> exc" where
  "non_hex pos = value_error (''non-hexadecimal number found in fromhex() arg at position '' @ show_nat pos)"

fun fromhex_at :: "nat \<Rightarrow> string \<Rightarrow> bytes result" where
  "fromhex_at pos [] = Inr []"
| "fromhex_at pos (c # cs) =
     (if hex_space c then fromhex_at (Suc pos) cs
      else case hex_val c of None \<Rightarrow> Inl (non_hex pos)
      | Some h \<Rightarrow>
          (case cs of [] \<Rightarrow> Inl (non_hex (Suc pos))
           | d # ds \<Rightarrow>
               (case hex_val d of None \<Rightarrow> Inl (non_hex (Suc pos))
                | Some l \<Rightarrow> rbind (fromhex_at (Suc (Suc pos)) ds) (\<lambda>b. Inr (char_of (16 * h + l) # b)))))"

definition bytes_fromhex :: "string \<Rightarrow> bytes result" where
  "bytes_fromhex s = fromhex_at 0 s"

lemma of_char_less_256 [simp]: "(of_char c :: nat) < 256"
  by (metis of_char_mod_256 mod_less_divisor zero_less_numeral)

lemma code_hex_digit: "n < 16 \<Longrightarrow> ord_of (hex_digit n) = (if n < 10 then 48 + n else 87 + n)"
  by (simp add: hex_digit_def)

lemma hex_val_digit: "n < 16 \<Longrightarrow> hex_val (hex_digit n) = Some n"
  by (simp add: hex_val_def code_hex_digit Let_def)

lemma hex_space_digit: "n < 16 \<Longrightarrow> \<not> hex_space (hex_digit n)"
  by (simp add: hex_space_def code_hex_digit Let_def)

lemma fromhex_at_hex: "fromhex_at pos (bytes_hex b) = Inr b"
proof (induction b arbitrary: pos)
  case Nil
  then show ?case by (simp add: bytes_hex_def)
next
  case (Cons c b)
  have hi: "ord_of c div 16 < 16"
    using of_char_less_256 [of c] by (simp add: less_mult_imp_div_less)
  have lo: "ord_of c mod 16 < 16" by simp
  have "fromhex_at pos (bytes_hex (c # b)) =
      rbind (fromhex_at (Suc (Suc pos)) (bytes_hex b))
        (\<lambda>b. Inr (char_of (16 * (ord_of c div 16) + ord_of c mod 16) # b))"
    by (simp add: bytes_hex_def hex_byte_def hex_val_digit hi lo hex_space_digit)
  then show ?case by (simp add: Cons.IH)
qed

lemma fromhex_hex: "bytes_fromhex (bytes_hex b) = Inr b"
  by (simp add: bytes_fromhex_def fromhex_at_hex)

interpretation hex: text_codec bytes_hex bytes_fromhex
  by unfold_locales (rule fromhex_hex)

lemma bytes_hex_simps [simp]:
  "bytes_hex [] = []"
  "bytes_hex (c # b) = hex_digit (ord_of c div 16) # hex_digit (ord_of c mod 16) # bytes_hex b"
  by (simp_all add: bytes_hex_def hex_byte_def)

lemma bytes_hex_append: "bytes_hex (a @ b) = bytes_hex a @ bytes_hex b"
  by (simp add: bytes_hex_def)

lemma bytes_hex_length: "length (bytes_hex b) = 2 * length b"
  by (induction b) simp_all

lemma bytes_hex_eq_Nil [simp]: "bytes_hex b = [] \<longleftrightarrow> b = []"
  by (cases b) simp_all

section \<open>Base64\<close>

definition b64_char :: "nat \<Rightarrow> char" where
  "b64_char n =
     (if n < 26 then char_of (65 + n)
      else if n < 52 then char_of (71 + n)
      else if n < 62 then char_of (n - 4)
      else if n = 62 then CHR ''+'' else CHR ''/'')"

definition b64_val :: "char \<Rightarrow> nat option" where
  "b64_val c = (let n = ord_of c in
     if 65 \<le> n \<and> n \<le> 90 then Some (n - 65)
     else if 97 \<le> n \<and> n \<le> 122 then Some (n - 71)
     else if 48 \<le> n \<and> n \<le> 57 then Some (n + 4)
     else if n = 43 then Some 62
     else if n = 47 then Some 63
     else None)"

fun b64encode :: "bytes \<Rightarrow> string" where
  "b64encode [] = []"
| "b64encode [a] = [b64_char (ord_of a div 4), b64_char (ord_of a mod 4 * 16), CHR ''='', CHR ''='']"
| "b64encode [a, b] =
     [b64_char (ord_of a div 4), b64_char (ord_of a mod 4 * 16 + ord_of b div 16),
      b64_char (ord_of b mod 16 * 4), CHR ''='']"
| "b64encode (a # b # c # r) =
     b64_char (ord_of a div 4) # b64_char (ord_of a mod 4 * 16 + ord_of b div 16)
     # b64_char (ord_of b mod 16 * 4 + ord_of c div 64) # b64_char (ord_of c mod 64) # b64encode r"

text \<open>
  The decoder of CPython's \<^verbatim>\<open>binascii.a2b_base64\<close>: \<open>quad\<close> is the position inside the current
  group of four, \<open>left\<close> the bits carried over, \<open>pads\<close> the padding seen. Without \<open>strict\<close>,
  characters outside the alphabet are skipped and everything after complete padding is ignored.
\<close>

definition b64_error :: "string \<Rightarrow> exc" where
  "b64_error m = value_error m"

fun a2b_base64 :: "bool \<Rightarrow> nat \<Rightarrow> nat \<Rightarrow> nat \<Rightarrow> bool \<Rightarrow> string \<Rightarrow> bytes result" where
  "a2b_base64 strict quad left pads started [] =
     (if quad = 0 then Inr []
      else if quad = 1 then Inl (b64_error ''number of data characters cannot be 1 more than a multiple of 4'')
      else Inl (b64_error ''Incorrect padding''))"
| "a2b_base64 strict quad left pads started (c # cs) =
     (if c = CHR ''='' then
        (if 2 \<le> quad \<and> 4 \<le> quad + Suc pads then
           (if strict \<and> cs \<noteq> [] then Inl (b64_error ''Excess data after padding'') else Inr [])
         else a2b_base64 strict quad left (if 2 \<le> quad then Suc pads else pads) True cs)
      else case b64_val c of
        None \<Rightarrow> (if strict then Inl (b64_error ''Only base64 data is allowed'')
                  else a2b_base64 strict quad left pads started cs)
      | Some v \<Rightarrow>
          (if strict \<and> started then Inl (b64_error ''Discontinuous padding not allowed'')
           else if quad = 0 then a2b_base64 strict 1 v 0 started cs
           else if quad = 1 then
             rbind (a2b_base64 strict 2 (v mod 16) 0 started cs) (\<lambda>b. Inr (char_of (left * 4 + v div 16) # b))
           else if quad = 2 then
             rbind (a2b_base64 strict 3 (v mod 4) 0 started cs) (\<lambda>b. Inr (char_of (left * 16 + v div 4) # b))
           else
             rbind (a2b_base64 strict 0 0 0 started cs) (\<lambda>b. Inr (char_of (left * 64 + v) # b))))"

definition b64decode :: "bool \<Rightarrow> string \<Rightarrow> bytes result" where
  "b64decode validate s =
     (if \<exists>c \<in> set s. 128 \<le> ord_of c then Inl (value_error ''string argument should contain only ASCII characters'')
      else if validate \<and> s \<noteq> [] \<and> hd s = CHR ''='' then Inl (b64_error ''Leading padding not allowed'')
      else a2b_base64 validate 0 0 0 False s)"

lemma code_b64_char: "n < 64 \<Longrightarrow> ord_of (b64_char n) =
   (if n < 26 then 65 + n else if n < 52 then 71 + n else if n < 62 then n - 4 else if n = 62 then 43 else 47)"
  by (simp add: b64_char_def)

lemma b64_val_char: "n < 64 \<Longrightarrow> b64_val (b64_char n) = Some n"
  by (auto simp: b64_val_def code_b64_char Let_def)

lemma b64_char_not_pad: "n < 64 \<Longrightarrow> b64_char n \<noteq> CHR ''=''"
  using code_b64_char [of n] by (auto split: if_splits)

lemma b64_char_ascii: "n < 64 \<Longrightarrow> ord_of (b64_char n) < 128"
  by (auto simp: code_b64_char)

lemma div_4_less: "ord_of c div 4 < 64"
  using of_char_less_256 [of c] by (simp add: less_mult_imp_div_less)

lemma two_bytes_less: "ord_of c mod 4 * 16 + ord_of d div 16 < 64"
  using of_char_less_256 [of d] by arith

lemma three_bytes_less: "ord_of c mod 16 * 4 + ord_of d div 64 < 64"
  using of_char_less_256 [of d] by arith

lemmas b64_bounds = div_4_less two_bytes_less three_bytes_less

lemma b64_small: "ord_of c mod 4 * 16 < 64" "ord_of c mod 16 * 4 < 64" "ord_of c mod 64 < 64"
  by arith+

lemmas b64_step = b64_val_char b64_char_not_pad b64_bounds b64_small

text \<open>The arithmetic of regrouping three bytes into four digits and back.\<close>

lemma b64_regroup:
  "ord_of a div 4 * 4 + (ord_of a mod 4 * 16 + ord_of b div 16) div 16 = ord_of a"
  "ord_of a mod 4 * 16 div 16 + ord_of a div 4 * 4 = ord_of a"
  "(ord_of a mod 4 * 16 + ord_of b div 16) mod 16 * 16 + (ord_of b mod 16 * 4 + ord_of c div 64) div 4 = ord_of b"
  "(ord_of a mod 4 * 16 + ord_of b div 16) mod 16 * 16 + ord_of b mod 16 * 4 div 4 = ord_of b"
  "(ord_of b mod 16 * 4 + ord_of c div 64) mod 4 * 64 + ord_of c mod 64 = ord_of c"
proof -
  have b: "ord_of b div 16 < 16" using of_char_less_256 [of b] by arith
  have c: "ord_of c div 64 < 4" using of_char_less_256 [of c] by arith
  from b show "ord_of a div 4 * 4 + (ord_of a mod 4 * 16 + ord_of b div 16) div 16 = ord_of a" by simp
  show "ord_of a mod 4 * 16 div 16 + ord_of a div 4 * 4 = ord_of a" by simp
  from b c show "(ord_of a mod 4 * 16 + ord_of b div 16) mod 16 * 16 + (ord_of b mod 16 * 4 + ord_of c div 64) div 4 = ord_of b"
    by (simp add: mod_mult_self3)
  from b show "(ord_of a mod 4 * 16 + ord_of b div 16) mod 16 * 16 + ord_of b mod 16 * 4 div 4 = ord_of b"
    by (simp add: mod_mult_self3)
  from c show "(ord_of b mod 16 * 4 + ord_of c div 64) mod 4 * 64 + ord_of c mod 64 = ord_of c"
    by (simp add: mod_mult_self3)
qed

lemma a2b_b64encode: "a2b_base64 strict 0 0 0 False (b64encode b) = Inr b"
proof (induction b rule: b64encode.induct)
  case 1
  then show ?case by simp
next
  case (2 a)
  then show ?case using b64_regroup(2) [of a] by (simp add: b64_step add.commute)
next
  case (3 a b)
  then show ?case using b64_regroup(1,4) [of a b] by (simp add: b64_step)
next
  case (4 a b c r)
  then show ?case using b64_regroup(1,3,5) by (simp add: b64_step)
qed

lemma b64encode_ascii: "c \<in> set (b64encode b) \<Longrightarrow> ord_of c < 128"
  by (induction b rule: b64encode.induct) (auto simp: b64_char_ascii b64_bounds b64_small)

lemma b64encode_hd: "b64encode b \<noteq> [] \<Longrightarrow> hd (b64encode b) \<noteq> CHR ''=''"
  by (induction b rule: b64encode.induct) (simp_all add: b64_step)

lemma b64decode_b64encode: "b64decode validate (b64encode b) = Inr b"
  using b64encode_ascii b64encode_hd by (fastforce simp: b64decode_def a2b_b64encode)

interpretation b64: text_codec b64encode "b64decode validate" for validate
  by unfold_locales (rule b64decode_b64encode)

lemma b64encode_eq_Nil [simp]: "b64encode b = [] \<longleftrightarrow> b = []"
  by (cases b rule: b64encode.cases) simp_all

end
