(* ===== verification/Wire_Requests.thy ===== *)
theory Wire_Requests
  imports Lsig_Resources Py_Codec
begin

text \<open>
  Requests to \<^verbatim>\<open>/sign\<close> and \<^verbatim>\<open>/plan\<close>: request identifiers, the three modes of a slot (sign,
  foreign, passthrough), the checks on a whole request and the checks on the reply.
\<close>

section \<open>Request identifiers\<close>

definition MAX_SIGN_REQUEST_ID_LENGTH :: nat where
  "MAX_SIGN_REQUEST_ID_LENGTH = 128"

definition request_id_char :: "char \<Rightarrow> bool" where
  "request_id_char c \<longleftrightarrow> isalnum c \<or> c \<in> set ''-_.:''"

fun check_request_id_chars :: "string \<Rightarrow> unit result" where
  "check_request_id_chars [] = Inr ()"
| "check_request_id_chars (c # cs) =
     (if request_id_char c then check_request_id_chars cs
      else Inl (value_error (''request_id contains invalid character '' @ repr_str [c])))"

definition validate_sign_request_id :: "string \<Rightarrow> bool \<Rightarrow> unit result" where
  "validate_sign_request_id rid required =
     (if rid = [] then raise_if required (value_error ''request_id is required'') (Inr ())
      else raise_if (MAX_SIGN_REQUEST_ID_LENGTH < length rid) (value_error ''request_id is too long'')
        (check_request_id_chars rid))"

text \<open>\<open>rnd\<close> is what \<^verbatim>\<open>secrets.token_hex(16)\<close> draws: sixteen bytes.\<close>

definition new_sign_request_id :: "bytes \<Rightarrow> string" where
  "new_sign_request_id rnd = ''sdk-'' @ bytes_hex rnd"

definition request_id_ok :: "string \<Rightarrow> bool" where
  "request_id_ok rid \<longleftrightarrow> length rid \<le> MAX_SIGN_REQUEST_ID_LENGTH \<and> (\<forall>c \<in> set rid. request_id_char c)"

lemma check_request_id_chars_Inr: "check_request_id_chars s = Inr u \<longleftrightarrow> (\<forall>c \<in> set s. request_id_char c)"
  by (induction s) auto

lemma validate_sign_request_id_Inr [result_simps]:
  "validate_sign_request_id rid required = Inr u \<longleftrightarrow> (rid = [] \<longrightarrow> \<not> required) \<and> request_id_ok rid"
  by (auto simp: validate_sign_request_id_def request_id_ok_def check_request_id_chars_Inr result_simps)

text \<open>The first offending character is the one reported.\<close>

lemma check_request_id_chars_find:
  "check_request_id_chars s =
     (case List.find (\<lambda>c. \<not> request_id_char c) s of None \<Rightarrow> Inr ()
      | Some c \<Rightarrow> Inl (value_error (''request_id contains invalid character '' @ repr_str [c])))"
  by (induction s) simp_all

lemma isalnum_hex_digit: "n < 16 \<Longrightarrow> isalnum (hex_digit n)"
  by (auto simp: isalnum_def is_ascii_alnum_def code_hex_digit Let_def)

lemma request_id_char_bytes_hex: "c \<in> set (bytes_hex b) \<Longrightarrow> request_id_char c"
proof (induction b)
  case (Cons x b)
  have "ord_of x div 16 < 16"
    using of_char_less_256 [of x] by (simp add: less_mult_imp_div_less)
  then show ?case using Cons by (auto simp: request_id_char_def isalnum_hex_digit)
qed simp

lemma new_sign_request_id_ok: "length rnd = 16 \<Longrightarrow> request_id_ok (new_sign_request_id rnd)"
  by (auto simp: request_id_ok_def new_sign_request_id_def bytes_hex_length MAX_SIGN_REQUEST_ID_LENGTH_def
      request_id_char_bytes_hex) (auto simp: request_id_char_def isalnum_def is_ascii_alnum_def Let_def)

lemma new_sign_request_id_inject: "new_sign_request_id a = new_sign_request_id b \<longleftrightarrow> a = b"
  by (simp add: new_sign_request_id_def hex.enc_inject)

section \<open>Slots of a signing request\<close>

definition PQ_SCHEME_FALCON1024 :: string where
  "PQ_SCHEME_FALCON1024 = ''f1''"

datatype sign_mode = SignMode | ForeignMode | PassthroughMode

definition sign_request_mode :: "pyval \<Rightarrow> sign_mode result" where
  "sign_request_mode entry =
     rbind (py_get entry ''signed_txn_hex'') (\<lambda>p.
     rbind (py_get entry ''txn_bytes_hex'') (\<lambda>t.
     rbind (py_get entry ''auth_address'') (\<lambda>a.
       let has_passthrough = truthy p; has_txn = truthy t; has_auth = truthy a in
       raise_if (has_passthrough \<and> (has_txn \<or> has_auth))
         (value_error ''cannot specify both sign fields (auth_address/txn_bytes_hex) and passthrough field (signed_txn_hex)'')
       (if has_passthrough then Inr PassthroughMode
        else if has_txn \<and> has_auth then Inr SignMode
        else if has_txn then Inr ForeignMode
        else raise_if has_auth (value_error ''txn_bytes_hex is required for sign mode'')
          (Inl (value_error ''must specify either sign fields (auth_address + txn_bytes_hex), foreign fields (txn_bytes_hex), or passthrough field (signed_txn_hex)''))))))"

text \<open>The body of the loop over the entries, up to the counting.\<close>

definition check_sign_entry :: "pyval \<Rightarrow> sign_mode result" where
  "check_sign_entry entry =
     raise_if (\<not> is_dict entry) (value_error ''sign entry must be a mapping'') (
     rbind (sign_request_mode entry) (\<lambda>mode.
     rbind (py_get entry ''pq_scheme'') (\<lambda>pq_scheme.
     rbind (py_get entry ''lsig_resources'') (\<lambda>resources.
       raise_if (truthy pq_scheme \<and> mode \<noteq> ForeignMode)
         (value_error ''pq_scheme is allowed only for foreign transactions'') (
       raise_if (truthy pq_scheme \<and> \<not> py_eq pq_scheme (PStr PQ_SCHEME_FALCON1024))
         (value_error (''unsupported pq_scheme '' @ py_repr pq_scheme)) (
       raise_if (resources \<noteq> PNone \<and> mode \<notin> {ForeignMode, PassthroughMode})
         (value_error ''lsig_resources is allowed only for foreign or passthrough transactions'') (
       raise_if (truthy pq_scheme \<and> resources \<noteq> PNone)
         (value_error ''foreign transaction cannot specify both pq_scheme and lsig_resources'') (
       rbind (if resources \<noteq> PNone then rbind (require_lsig_resources resources ''lsig_resources'') (\<lambda>_. Inr ())
              else Inr ()) (\<lambda>_. Inr mode)))))))))"

fun count_mode :: "sign_mode \<Rightarrow> nat \<times> nat \<times> nat \<Rightarrow> nat \<times> nat \<times> nat" where
  "count_mode SignMode (s, p, f) = (Suc s, p, f)"
| "count_mode PassthroughMode (s, p, f) = (s, Suc p, f)"
| "count_mode ForeignMode (s, p, f) = (s, p, Suc f)"

definition sign_entry_step :: "nat \<times> pyval \<Rightarrow> nat \<times> nat \<times> nat \<Rightarrow> (nat \<times> nat \<times> nat) result" where
  "sign_entry_step ie counts =
     rewrap is_value_error
       (\<lambda>e. value_error (''transaction '' @ show_nat (fst ie + 1) @ '': '' @ exc_msg e))
       (rbind (check_sign_entry (snd ie)) (\<lambda>mode. Inr (count_mode mode counts)))"

definition validate_sign_entries :: "pyval list \<Rightarrow> unit result" where
  "validate_sign_entries sign_entries =
     raise_if (sign_entries = []) (value_error ''sign_entries must not be empty'') (
     rbind (rfold sign_entry_step (List.enumerate 0 sign_entries) (0, 0, 0)) (\<lambda>(sign_count, passthrough_count, foreign_count).
       raise_if (passthrough_count \<noteq> 0 \<and> foreign_count \<noteq> 0)
         (value_error ''cannot mix passthrough and foreign transactions in one request'') (
       raise_if (sign_count = 0 \<and> foreign_count \<noteq> 0)
         (value_error ''no signable transactions: all entries are foreign. Build and submit this group locally instead of using apsigner'')
       (Inr ()))))"

subsection \<open>What an accepted request satisfies\<close>

text \<open>The mode of an entry and the side conditions on it, stated without the order of the checks.\<close>

definition entry_mode :: "pyval \<Rightarrow> sign_mode \<Rightarrow> bool" where
  "entry_mode e m \<longleftrightarrow> is_dict e \<and>
     (case m of
        PassthroughMode \<Rightarrow> phas e ''signed_txn_hex'' \<and> \<not> phas e ''txn_bytes_hex'' \<and> \<not> phas e ''auth_address''
      | SignMode \<Rightarrow> \<not> phas e ''signed_txn_hex'' \<and> phas e ''txn_bytes_hex'' \<and> phas e ''auth_address''
      | ForeignMode \<Rightarrow> \<not> phas e ''signed_txn_hex'' \<and> phas e ''txn_bytes_hex'' \<and> \<not> phas e ''auth_address'')"

definition entry_declares_ok :: "pyval \<Rightarrow> sign_mode \<Rightarrow> bool" where
  "entry_declares_ok e m \<longleftrightarrow>
     (phas e ''pq_scheme'' \<longrightarrow> m = ForeignMode \<and> pget e ''pq_scheme'' = PStr PQ_SCHEME_FALCON1024 \<and>
        pget e ''lsig_resources'' = PNone) \<and>
     (pget e ''lsig_resources'' \<noteq> PNone \<longrightarrow> m \<noteq> SignMode \<and>
        (\<exists>u. require_lsig_resources (pget e ''lsig_resources'') ''lsig_resources'' = Inr u))"

definition sign_entries_ok :: "pyval list \<Rightarrow> bool" where
  "sign_entries_ok es \<longleftrightarrow> es \<noteq> [] \<and>
     (\<exists>ms. list_all2 (\<lambda>e m. entry_mode e m \<and> entry_declares_ok e m) es ms \<and>
        \<not> (PassthroughMode \<in> set ms \<and> ForeignMode \<in> set ms) \<and>
        (ForeignMode \<in> set ms \<longrightarrow> SignMode \<in> set ms))"

lemma sign_request_mode_Inr: "sign_request_mode e = Inr m \<longleftrightarrow> entry_mode e m"
  by (cases m) (auto simp: sign_request_mode_def entry_mode_def phas_def result_simps Let_def)

lemma check_sign_entry_Inr: "check_sign_entry e = Inr m \<longleftrightarrow> entry_mode e m \<and> entry_declares_ok e m"
  by (auto simp: check_sign_entry_def sign_request_mode_Inr entry_declares_ok_def phas_def entry_mode_def
      result_simps py_eq_str split: sign_mode.splits)

lemma entry_mode_unique: "entry_mode e m \<Longrightarrow> entry_mode e m' \<Longrightarrow> m = m'"
  by (cases m; cases m') (auto simp: entry_mode_def)

lemma sign_entry_step_Inr:
  "sign_entry_step (n, e) k = Inr k' \<longleftrightarrow> (\<exists>m. entry_mode e m \<and> entry_declares_ok e m \<and> k' = count_mode m k)"
  by (auto simp: sign_entry_step_def result_simps check_sign_entry_Inr)

lemma rfold_sign_steps:
  "rfold sign_entry_step (List.enumerate n es) k = Inr k' \<longleftrightarrow>
     (\<exists>ms. list_all2 (\<lambda>e m. entry_mode e m \<and> entry_declares_ok e m) es ms \<and> k' = fold count_mode ms k)"
proof (induction es arbitrary: n k)
  case (Cons e es)
  have "rfold sign_entry_step (List.enumerate n (e # es)) k = Inr k' \<longleftrightarrow> (\<exists>m. entry_mode e m \<and> entry_declares_ok e m \<and>
      rfold sign_entry_step (List.enumerate (Suc n) es) (count_mode m k) = Inr k')"
    by (simp add: rbind_Inr sign_entry_step_Inr del: split_paired_Ex) blast
  also have "\<dots> \<longleftrightarrow> (\<exists>m ms. (entry_mode e m \<and> entry_declares_ok e m) \<and>
      list_all2 (\<lambda>e m. entry_mode e m \<and> entry_declares_ok e m) es ms \<and> k' = fold count_mode (m # ms) k)"
    by (simp only: Cons.IH fold_Cons o_apply) blast
  also have "\<dots> \<longleftrightarrow> (\<exists>ms. list_all2 (\<lambda>e m. entry_mode e m \<and> entry_declares_ok e m) (e # es) ms \<and> k' = fold count_mode ms k)"
    unfolding list_all2_Cons1 by blast
  finally show ?case .
qed auto

lemma fold_count_mode:
  "fold count_mode ms (s, p, f) = (s + count_list ms SignMode, p + count_list ms PassthroughMode, f + count_list ms ForeignMode)"
proof (induction ms arbitrary: s p f)
  case (Cons m ms)
  then show ?case by (cases m) simp_all
qed simp

lemma rfold_sign_entries:
  "rfold sign_entry_step (List.enumerate n es) (s, p, f) = Inr c \<longleftrightarrow>
     (\<exists>ms. list_all2 (\<lambda>e m. entry_mode e m \<and> entry_declares_ok e m) es ms \<and>
        c = (s + count_list ms SignMode, p + count_list ms PassthroughMode, f + count_list ms ForeignMode))"
  by (simp add: rfold_sign_steps fold_count_mode)

lemma validate_sign_entries_iff: "validate_sign_entries es = Inr () \<longleftrightarrow> sign_entries_ok es"
proof -
  have "validate_sign_entries es = Inr () \<longleftrightarrow> es \<noteq> [] \<and>
      (\<exists>s p f. rfold sign_entry_step (List.enumerate 0 es) (0, 0, 0) = Inr (s, p, f) \<and>
         \<not> (p \<noteq> 0 \<and> f \<noteq> 0) \<and> \<not> (s = 0 \<and> f \<noteq> 0))"
    by (auto simp: validate_sign_entries_def result_simps)
  also have "\<dots> \<longleftrightarrow> es \<noteq> [] \<and>
      (\<exists>ms. list_all2 (\<lambda>e m. entry_mode e m \<and> entry_declares_ok e m) es ms \<and>
         \<not> (count_list ms PassthroughMode \<noteq> 0 \<and> count_list ms ForeignMode \<noteq> 0) \<and>
         \<not> (count_list ms SignMode = 0 \<and> count_list ms ForeignMode \<noteq> 0))"
    unfolding rfold_sign_entries prod.inject add_0 by blast
  also have "\<dots> \<longleftrightarrow> sign_entries_ok es"
    unfolding sign_entries_ok_def count_list_0_iff by blast
  finally show ?thesis .
qed

section \<open>The reply to a signing request\<close>

definition is_foreign_entry :: "pyval \<Rightarrow> bool result" where
  "is_foreign_entry entry =
     rbind (py_get entry ''txn_bytes_hex'') (\<lambda>t.
       if \<not> truthy t then Inr False else
       rbind (py_get entry ''auth_address'') (\<lambda>a.
         if truthy a then Inr False else
         rbind (py_get entry ''signed_txn_hex'') (\<lambda>s. Inr (\<not> truthy s))))"

fun check_slots :: "pyval \<Rightarrow> (nat \<times> pyval) list \<Rightarrow> unit result" where
  "check_slots signed [] = Inr ()"
| "check_slots signed ((index, entry) # rest) =
     rbind (is_foreign_entry entry) (\<lambda>foreign.
       if foreign then check_slots signed rest
       else rbind (py_index signed index) (\<lambda>s.
         raise_if (\<not> truthy s) (signer_error (''Server returned no signature for position '' @ show_nat (index + 1)))
           (check_slots signed rest)))"

fun check_dummies :: "pyval \<Rightarrow> nat list \<Rightarrow> unit result" where
  "check_dummies signed [] = Inr ()"
| "check_dummies signed (index # rest) =
     rbind (py_index signed index) (\<lambda>s.
       raise_if (\<not> truthy s)
         (signer_error (''Server returned empty dummy transaction at position '' @ show_nat (index + 1)))
         (check_dummies signed rest))"

definition validate_group_sign_response :: "pyval list \<Rightarrow> pyval \<Rightarrow> unit result" where
  "validate_group_sign_response sign_entries signed =
     rbind (py_len signed) (\<lambda>n.
       raise_if (n < int (length sign_entries))
         (signer_error (''Server returned '' @ show_int n @ '' signed transaction(s), want at least ''
            @ show_nat (length sign_entries))) (
       rbind (check_slots signed (List.enumerate 0 sign_entries)) (\<lambda>_.
         check_dummies signed [length sign_entries ..< nat n])))"

lemma is_foreign_entry_dict: "is_dict e \<Longrightarrow> is_foreign_entry e = Inr (entry_mode e ForeignMode)"
  by (simp add: is_foreign_entry_def entry_mode_def phas_def)

lemma check_slots_Inr:
  assumes "\<forall>e \<in> set es. is_dict e" and "k + length es \<le> length xs"
  shows "check_slots (PList xs) (List.enumerate k es) = Inr () \<longleftrightarrow>
     (\<forall>i < length es. entry_mode (es ! i) ForeignMode \<or> truthy (xs ! (k + i)))"
  using assms
proof (induction es arbitrary: k)
  case Nil
  then show ?case by simp
next
  case (Cons e es)
  have "check_slots (PList xs) (List.enumerate (Suc k) es) = Inr () \<longleftrightarrow>
     (\<forall>i < length es. entry_mode (es ! i) ForeignMode \<or> truthy (xs ! (Suc k + i)))"
    using Cons.prems by (intro Cons.IH) auto
  then show ?case
    using Cons.prems by (auto simp: is_foreign_entry_dict result_simps less_Suc_eq_0_disj)
qed

lemma check_dummies_Inr:
  "(\<forall>i \<in> set is. i < length xs) \<Longrightarrow> check_dummies (PList xs) is = Inr () \<longleftrightarrow> (\<forall>i \<in> set is. truthy (xs ! i))"
  by (induction "is") (auto simp: result_simps)

text \<open>
  A reply is accepted exactly when it is long enough and every slot that is not foreign, and
  every slot the signer appended, carries something.
\<close>

lemma validate_group_sign_response_Inr:
  assumes "\<forall>e \<in> set es. is_dict e"
  shows "validate_group_sign_response es (PList xs) = Inr () \<longleftrightarrow>
     length es \<le> length xs \<and>
     (\<forall>i < length xs. truthy (xs ! i) \<or> i < length es \<and> entry_mode (es ! i) ForeignMode)"
proof (cases "length es \<le> length xs")
  case True
  have "validate_group_sign_response es (PList xs) = Inr () \<longleftrightarrow>
      (\<forall>i < length es. entry_mode (es ! i) ForeignMode \<or> truthy (xs ! i)) \<and>
      (\<forall>i \<in> {length es ..< length xs}. truthy (xs ! i))"
    using True assms check_slots_Inr [of es 0 xs] check_dummies_Inr [of "[length es ..< length xs]" xs]
    by (auto simp: validate_group_sign_response_def result_simps)
  also have "\<dots> \<longleftrightarrow> (\<forall>i < length xs. truthy (xs ! i) \<or> i < length es \<and> entry_mode (es ! i) ForeignMode)"
    using True by (meson atLeastLessThan_iff linorder_not_le order_less_le_trans)
  finally show ?thesis using True by simp
next
  case False
  then show ?thesis by (simp add: validate_group_sign_response_def)
qed

end
