(* ===== verification/Key_Info.thy ===== *)
theory Key_Info
  imports Lsig_Resources
begin

text \<open>
  The signer's key inventory as the SDK's dataclasses hold it: \<^verbatim>\<open>KeyInfo\<close> with its argument
  descriptions, LogicSig resource profile and bounded-authorization contract, and the parsers
  that build them from the JSON of \<^verbatim>\<open>/keys\<close>. Fields copied from JSON without a check keep the
  dynamic value they arrived with.
\<close>

section \<open>Records\<close>

record runtime_arg =
  ra_name :: pyval
  ra_arg_type :: pyval
  ra_description :: pyval
  ra_label :: pyval
  ra_required :: pyval
  ra_byte_length :: pyval
  ra_max_size :: pyval

record bounded_signature_arg_layout =
  sl_count :: pyval
  sl_max_sizes :: "pyval list"

record bounded_admin_operation =
  ao_kind :: pyval
  ao_authorization :: pyval
  ao_policy_gate :: pyval

record bounded_derived_arg =
  da_name :: pyval
  da_kind :: pyval
  da_parameter :: pyval
  da_max_size :: pyval

record bounded_path_mask =
  pm_spend :: pyval
  pm_spending_rekey :: pyval
  pm_admin_rekey :: pyval

record bounded_argument_slot =
  as_index :: pyval
  as_name :: pyval
  as_source :: pyval
  as_max_size :: pyval
  as_paths :: bounded_path_mask

record bounded_cosigner =
  bc_contract :: pyval
  bc_component_key_type :: pyval
  bc_public_key_hex :: pyval
  bc_component_key_id :: pyval
  bc_signature_max_size :: pyval
  bc_required_on :: "pyval list"

record bounded_authorization =
  ba_contract :: pyval
  ba_base_signature_arg_layout :: bounded_signature_arg_layout
  ba_spend_effects :: "pyval list"
  ba_max_fee :: int
  ba_admin_operations :: "bounded_admin_operation list"
  ba_runtime_args :: "runtime_arg list"
  ba_derived_args :: "bounded_derived_arg list"
  ba_argument_layout :: "bounded_argument_slot list"
  ba_layer3_policy :: pyval
  ba_cosigner :: "bounded_cosigner option"
  ba_admin_key_id :: pyval
  ba_program_binding :: pyval

record key_info =
  ki_address :: pyval
  ki_key_type :: pyval
  ki_public_key_hex :: pyval
  ki_authorization_kind :: pyval
  ki_signing_flow :: pyval
  ki_cosigner_component_key_type :: pyval
  ki_logic_sig_resources :: "lsig_profile option"
  ki_is_generic_lsig :: pyval
  ki_is_witness_key :: pyval
  ki_bounded_authorization :: "bounded_authorization option"
  ki_is_spending_account :: pyval
  ki_signing_args :: "runtime_arg list option"
  ki_parameters :: pyval
  ki_template_provenance_status :: pyval
  ki_template_provenance_note :: pyval

section \<open>Parsers\<close>

text \<open>\<^verbatim>\<open>list(data.get(k) or [])\<close>\<close>

definition list_field :: "pyval \<Rightarrow> string \<Rightarrow> pyval list result" where
  "list_field data k = rbind (py_get data k) (\<lambda>v. py_iter (py_or v (PList [])))"

text \<open>
  The two argument parsers differ in the name: the inventory requires it (\<^verbatim>\<open>arg["name"]\<close>), the
  bounded contract defaults it.
\<close>

definition parse_runtime_arg :: "pyval \<Rightarrow> pyval \<Rightarrow> runtime_arg" where
  "parse_runtime_arg name arg =
     \<lparr>ra_name = name, ra_arg_type = pget_or arg ''type'' (PStr ''bytes''),
      ra_description = pget_or arg ''description'' (PStr []), ra_label = pget_or arg ''label'' (PStr []),
      ra_required = pget_or arg ''required'' (PBool False), ra_byte_length = pget_or arg ''byte_length'' (PInt 0),
      ra_max_size = pget_or arg ''max_size'' (PInt 0)\<rparr>"

definition parse_signing_arg :: "pyval \<Rightarrow> runtime_arg result" where
  "parse_signing_arg arg = rbind (py_item arg ''name'') (\<lambda>name. Inr (parse_runtime_arg name arg))"

definition parse_bounded_runtime_arg :: "pyval \<Rightarrow> runtime_arg result" where
  "parse_bounded_runtime_arg item =
     rbind (py_get_or item ''name'' (PStr [])) (\<lambda>name. Inr (parse_runtime_arg name item))"

definition parse_admin_operation :: "pyval \<Rightarrow> bounded_admin_operation result" where
  "parse_admin_operation item =
     rbind (py_get_or item ''kind'' (PStr [])) (\<lambda>kind.
       Inr \<lparr>ao_kind = kind, ao_authorization = pget_or item ''authorization'' (PStr []),
            ao_policy_gate = pget_or item ''policy_gate'' (PStr [])\<rparr>)"

definition parse_derived_arg :: "pyval \<Rightarrow> bounded_derived_arg result" where
  "parse_derived_arg item =
     rbind (py_get_or item ''name'' (PStr [])) (\<lambda>name.
       Inr \<lparr>da_name = name, da_kind = pget_or item ''kind'' (PStr []),
            da_parameter = pget_or item ''parameter'' (PStr []), da_max_size = pget_or item ''max_size'' (PInt 0)\<rparr>)"

definition parse_argument_slot :: "pyval \<Rightarrow> bounded_argument_slot result" where
  "parse_argument_slot item =
     rbind (py_get_or item ''index'' (PInt 0)) (\<lambda>index.
     let paths = py_or (pget item ''paths'') (PDict []) in
     rbind (py_get_or paths ''spend'' (PStr [])) (\<lambda>spend.
       Inr \<lparr>as_index = index, as_name = pget_or item ''name'' (PStr []), as_source = pget_or item ''source'' (PStr []),
            as_max_size = pget_or item ''max_size'' (PInt 0),
            as_paths = \<lparr>pm_spend = spend, pm_spending_rekey = pget_or paths ''spending_rekey'' (PStr []),
                        pm_admin_rekey = pget_or paths ''admin_rekey'' (PStr [])\<rparr>\<rparr>))"

definition parse_bounded_cosigner :: "pyval \<Rightarrow> bounded_cosigner option result" where
  "parse_bounded_cosigner c =
     (if \<not> is_dict c then Inr None else
      rbind (list_field c ''required_on'') (\<lambda>req.
        Inr (Some \<lparr>bc_contract = pget_or c ''contract'' (PStr []),
           bc_component_key_type = pget_or c ''component_key_type'' (PStr []),
           bc_public_key_hex = pget_or c ''public_key_hex'' (PStr []),
           bc_component_key_id = pget_or c ''component_key_id'' (PStr []),
           bc_signature_max_size = pget_or c ''signature_max_size'' (PInt 0), bc_required_on = req\<rparr>)))"

definition parse_bounded_authorization :: "pyval \<Rightarrow> bounded_authorization option result" where
  "parse_bounded_authorization data =
     (case data of
        PDict kvs \<Rightarrow>
          (case dict_lookup kvs ''max_fee'' of
             None \<Rightarrow> Inl (signer_error ''invalid bounded_authorization: max_fee is required'')
           | Some max_fee \<Rightarrow>
             (case exact_int max_fee of
                None \<Rightarrow> Inl (signer_error ''invalid bounded_authorization: max_fee must be a non-negative integer'')
              | Some fee \<Rightarrow>
                raise_if (fee < 0)
                  (signer_error ''invalid bounded_authorization: max_fee must be a non-negative integer'') (
                let layout = py_or (pget data ''base_signature_arg_layout'') (PDict []);
                    cosigner = pget data ''cosigner'' in
                rbind (py_get_or layout ''count'' (PInt 0)) (\<lambda>count.
                rbind (list_field layout ''max_sizes'') (\<lambda>sizes.
                rbind (list_field data ''spend_effects'') (\<lambda>effects.
                rbind (rbind (list_field data ''admin_operations'') (rmap parse_admin_operation)) (\<lambda>ops.
                rbind (rbind (list_field data ''runtime_args'') (rmap parse_bounded_runtime_arg)) (\<lambda>rargs.
                rbind (rbind (list_field data ''derived_args'') (rmap parse_derived_arg)) (\<lambda>dargs.
                rbind (rbind (list_field data ''argument_layout'') (rmap parse_argument_slot)) (\<lambda>slots.
                rbind (parse_bounded_cosigner cosigner) (\<lambda>cos.
                  Inr (Some
                    \<lparr>ba_contract = pget_or data ''contract'' (PStr []),
                     ba_base_signature_arg_layout = \<lparr>sl_count = count, sl_max_sizes = sizes\<rparr>,
                     ba_spend_effects = effects, ba_max_fee = fee, ba_admin_operations = ops,
                     ba_runtime_args = rargs, ba_derived_args = dargs, ba_argument_layout = slots,
                     ba_layer3_policy = pget_or data ''layer3_policy'' (PStr []), ba_cosigner = cos,
                     ba_admin_key_id = pget_or data ''admin_key_id'' (PStr []),
                     ba_program_binding = pget_or data ''program_binding'' (PStr [])\<rparr>))))))))))))
      | _ \<Rightarrow> Inr None)"

text \<open>One entry of \<^verbatim>\<open>/keys\<close>; the order of the reads is the order of the code.\<close>

definition parse_key_info :: "pyval \<Rightarrow> key_info result" where
  "parse_key_info k =
     rbind (py_get k ''signing_args'') (\<lambda>sa.
     rbind (if truthy sa then rbind (rbind (py_iter sa) (rmap parse_signing_arg)) (\<lambda>xs. Inr (Some xs)) else Inr None) (\<lambda>signing_args.
     rbind (py_item k ''address'') (\<lambda>address.
     rbind (py_item k ''key_type'') (\<lambda>key_type.
     rbind (parse_lsig_resource_profile (pget k ''logic_sig_resources'')) (\<lambda>profile.
     rbind (parse_bounded_authorization (pget k ''bounded_authorization'')) (\<lambda>bounded.
       Inr \<lparr>ki_address = address, ki_key_type = key_type,
            ki_public_key_hex = pget_or k ''public_key_hex'' (PStr []),
            ki_authorization_kind = pget_or k ''authorization_kind'' (PStr []),
            ki_signing_flow = pget_or k ''signing_flow'' (PStr []),
            ki_cosigner_component_key_type = pget_or k ''cosigner_component_key_type'' (PStr []),
            ki_logic_sig_resources = profile,
            ki_is_generic_lsig = pget_or k ''is_generic_lsig'' (PBool False),
            ki_is_witness_key = pget_or k ''is_witness_key'' (PBool False),
            ki_bounded_authorization = bounded,
            ki_is_spending_account = pget k ''is_spending_account'',
            ki_signing_args = signing_args,
            ki_parameters = pget k ''parameters'',
            ki_template_provenance_status = pget_or k ''template_provenance_status'' (PStr []),
            ki_template_provenance_note = pget_or k ''template_provenance_note'' (PStr [])\<rparr>))))))"

section \<open>Signing flows\<close>

definition SIGNING_FLOW_COSIGNER1 :: string where "SIGNING_FLOW_COSIGNER1 = ''cosigner1''"
definition SIGNING_FLOW_BOUNDED1 :: string where "SIGNING_FLOW_BOUNDED1 = ''bounded1''"
definition SIGNING_FLOW_BOUNDED_COSIGNER1 :: string where "SIGNING_FLOW_BOUNDED_COSIGNER1 = ''bounded-cosigner1''"

definition SIGNING_FLOW_ROTATING1 :: string where "SIGNING_FLOW_ROTATING1 = ''rotating1''"

lemmas signing_flows = SIGNING_FLOW_COSIGNER1_def SIGNING_FLOW_BOUNDED1_def SIGNING_FLOW_BOUNDED_COSIGNER1_def
  SIGNING_FLOW_ROTATING1_def

section \<open>Selecting keys and resources\<close>

text \<open>\<^verbatim>\<open>is_spending_account is False\<close>: only the boolean itself excludes a key.\<close>

fun find_spendable_key :: "key_info list \<Rightarrow> string \<Rightarrow> key_info option" where
  "find_spendable_key [] address = None"
| "find_spendable_key (key # keys) address =
     (if \<not> py_eq (ki_address key) (PStr address) then find_spendable_key keys address
      else if ki_is_spending_account key = PBool False then find_spendable_key keys address
      else Some key)"

text \<open>
  Which resource path of its profile a key uses for a transaction; \<open>rekeys\<close> says whether there is
  a transaction with \<^verbatim>\<open>rekey_to\<close> set.
\<close>

definition rekey_authorization :: "bounded_authorization \<Rightarrow> pyval" where
  "rekey_authorization b =
     (case List.find (\<lambda>oper. py_eq (ao_kind oper) (PStr ''rekey'')) (ba_admin_operations b) of
        Some oper \<Rightarrow> ao_authorization oper | None \<Rightarrow> PStr [])"

definition selected_prepared_resources :: "key_info option \<Rightarrow> bool \<Rightarrow> lsig_usage option result" where
  "selected_prepared_resources key rekeys =
     (case key of None \<Rightarrow> Inr None
      | Some k \<Rightarrow>
        (case ki_logic_sig_resources k of None \<Rightarrow> Inr None
         | Some profile \<Rightarrow>
           (case ki_bounded_authorization k of
              Some b \<Rightarrow>
                (if rekeys then
                   (if py_eq (rekey_authorization b) (PStr ''spending_key'') then Inr (lp_spending_rekey profile)
                    else if py_eq (rekey_authorization b) (PStr ''admin_key'') then Inr (lp_admin_rekey profile)
                    else Inl (value_error ''bounded rekey authorization metadata is unavailable''))
                 else Inr (case lp_spend profile of Some u \<Rightarrow> Some u | None \<Rightarrow> lp_default profile))
            | None \<Rightarrow> Inr (case lp_spend profile of Some u \<Rightarrow> Some u | None \<Rightarrow> lp_default profile))))"

definition required_prepared_resources :: "key_info option \<Rightarrow> bool \<Rightarrow> string \<Rightarrow> lsig_usage result" where
  "required_prepared_resources key rekeys label =
     rbind (selected_prepared_resources key rekeys) (\<lambda>r.
       require_lsig_resources (case r of None \<Rightarrow> PNone | Some u \<Rightarrow> usage_data u) label)"

definition AUTHORIZATION_KIND_NATIVE_PQ :: string where
  "AUTHORIZATION_KIND_NATIVE_PQ = ''native_pq''"

definition prepared_foreign_pq_scheme :: "key_info option \<Rightarrow> lsig_usage option \<Rightarrow> string \<Rightarrow> string result" where
  "prepared_foreign_pq_scheme key resources label =
     (case key of None \<Rightarrow> Inr []
      | Some k \<Rightarrow>
        (if \<not> py_eq (ki_authorization_kind k) (PStr AUTHORIZATION_KIND_NATIVE_PQ) then Inr []
         else raise_if (resources \<noteq> None)
           (value_error (label @ '': native-PQ signer key must not declare LogicSig resources'')) (Inr ''f1'')))"

definition bounded_cosigner_public_key :: "key_info \<Rightarrow> pyval result" where
  "bounded_cosigner_public_key key =
     (case Option.bind (ki_bounded_authorization key) ba_cosigner of
        Some c \<Rightarrow> if truthy (bc_public_key_hex c) then Inr (bc_public_key_hex c)
                 else py_get_or (py_or (ki_parameters key) (PDict [])) ''cosigner_public_key'' (PStr [])
      | None \<Rightarrow> py_get_or (py_or (ki_parameters key) (PDict [])) ''cosigner_public_key'' (PStr []))"

definition bounded_cosigner_component_key_type :: "key_info \<Rightarrow> pyval" where
  "bounded_cosigner_component_key_type key =
     (if truthy (ki_cosigner_component_key_type key) then ki_cosigner_component_key_type key
      else case Option.bind (ki_bounded_authorization key) ba_cosigner of
             Some c \<Rightarrow> bc_component_key_type c | None \<Rightarrow> PStr [])"

section \<open>Lemmas\<close>

lemma find_spendable_key_Some:
  "find_spendable_key keys a = Some k \<Longrightarrow> k \<in> set keys \<and> ki_address k = PStr a \<and> ki_is_spending_account k \<noteq> PBool False"
  by (induction keys) (auto simp: py_eq_str split: if_splits)

lemma find_spendable_key_None:
  "find_spendable_key keys a = None \<longleftrightarrow> (\<forall>k \<in> set keys. ki_address k = PStr a \<longrightarrow> ki_is_spending_account k = PBool False)"
  by (induction keys) (auto simp: py_eq_str)

lemma parse_bounded_authorization_fee:
  "parse_bounded_authorization data = Inr (Some b) \<Longrightarrow> 0 \<le> ba_max_fee b \<and> pget data ''max_fee'' = PInt (ba_max_fee b)"
  by (auto simp: parse_bounded_authorization_def result_simps Let_def
      split: pyval.splits option.splits)

lemma parse_key_info_address: "parse_key_info k = Inr i \<Longrightarrow> py_item k ''address'' = Inr (ki_address i)"
  by (auto simp: parse_key_info_def result_simps)

lemma parse_key_info_bounded_fee:
  "parse_key_info k = Inr i \<Longrightarrow> ki_bounded_authorization i = Some b \<Longrightarrow> 0 \<le> ba_max_fee b"
  by (auto simp: parse_key_info_def result_simps dest!: parse_bounded_authorization_fee)

end
