(* ===== verification/Transactions.thy ===== *)
theory Transactions
  imports Wire_Requests Key_Info
begin

text \<open>
  Transactions as the SDK sees them, and the slots of a prepared group. A transaction is an object
  of the Algorand Python SDK; the fields below are the attributes the sources read or assign, and
  everything else in it is kept in \<open>tx_rest\<close>. What that library computes (canonical msgpack, its
  decoding, group identifiers, contract addresses) is a parameter of type \<open>algosdk\<close>.
\<close>

section \<open>Transactions\<close>

datatype tx_body =
    PaymentTxn (pay_receiver: string) (pay_amt: int) (pay_close_remainder_to: "string option")
  | AssetTransferTxn (axfer_index: int) (axfer_receiver: string) (axfer_amount: int) (axfer_close_to: "string option")
      (axfer_revocation: "string option")
  | OtherTxn string

record txn =
  tx_sender :: string
  tx_fee :: int
  tx_group :: "bytes option"
  tx_note :: "bytes option"
  tx_rekey_to :: "string option"
  tx_body :: tx_body
  tx_rest :: pyval

text \<open>What \<^verbatim>\<open>encoding.msgpack_decode\<close> may yield: a transaction, a signed one, or something else.\<close>

datatype decoded = DecodedTxn txn | DecodedSigned txn | DecodedOther

record algosdk =
  msgpack_encode :: "txn \<Rightarrow> string result"
  msgpack_decode :: "string \<Rightarrow> decoded result"
  msgpack_encode_lsig :: "txn \<Rightarrow> bytes \<Rightarrow> string result"
  lsig_address :: "bytes \<Rightarrow> string"
  calculate_group_id :: "txn list \<Rightarrow> bytes result"
  txn_id :: "txn \<Rightarrow> string"

definition TX_PREFIX :: bytes where "TX_PREFIX = ''TX''"

definition encode_transaction :: "algosdk \<Rightarrow> txn \<Rightarrow> (string \<times> string) result" where
  "encode_transaction K txn =
     rbind (msgpack_encode K txn) (\<lambda>msgpack_b64.
     rbind (b64decode False msgpack_b64) (\<lambda>raw.
       Inr (bytes_hex (TX_PREFIX @ raw), tx_sender txn)))"

section \<open>Prepared slots\<close>

record prepared_check =
  ck_name :: string
  ck_status :: string
  ck_message :: string
  ck_data :: pyval

text \<open>
  The code only tests \<^verbatim>\<open>auth_address\<close>, \<^verbatim>\<open>lsig_args\<close> and the texts for truth, so \<^verbatim>\<open>None\<close> and
  an empty value are the same here.
\<close>

record prepared_transaction =
  pt_transaction :: "txn option"
  pt_auth_address :: string
  pt_txn_sender :: string
  pt_signer_key :: "key_info option"
  pt_lsig_args :: "(string \<times> bytes) list"
  pt_lsig_resources :: "lsig_usage option"
  pt_pq_scheme :: string
  pt_app_call_info :: pyval
  pt_signed_transaction_base64 :: string
  pt_checks :: "prepared_check list"

record prepared_group =
  pg_transactions :: "prepared_transaction list"
  pg_checks :: "prepared_check list"

text \<open>\<^verbatim>\<open>{name: value.hex() for name, value in args.items()}\<close>\<close>

definition hex_args :: "(string \<times> bytes) list \<Rightarrow> pyval" where
  "hex_args args = pobj (map (\<lambda>(n, v). (n, PStr (bytes_hex v))) args)"

text \<open>\<^verbatim>\<open>if x is not None: request["lsig_resources"] = ...\<close>\<close>

definition with_resources :: "lsig_usage option \<Rightarrow> (string \<times> pyval) list \<Rightarrow> (string \<times> pyval) list result" where
  "with_resources u kvs =
     (case u of None \<Rightarrow> Inr kvs
      | Some r \<Rightarrow> rbind (wire_lsig_resources r) (\<lambda>w. Inr (kvs @ [(''lsig_resources'', w)])))"

definition to_sign_request :: "algosdk \<Rightarrow> prepared_transaction \<Rightarrow> pyval result" where
  "to_sign_request K p =
     (if pt_signed_transaction_base64 p \<noteq> [] then
        raise_if (pt_pq_scheme p \<noteq> []) (value_error ''pq_scheme is allowed only for foreign transactions'') (
        rbind (rewrap (\<lambda>_. True) (\<lambda>e. value_error (''invalid passthrough transaction: '' @ exc_msg e))
                 (b64decode True (pt_signed_transaction_base64 p))) (\<lambda>raw.
        rbind (with_resources (pt_lsig_resources p) [(''signed_txn_hex'', PStr (bytes_hex raw))]) (\<lambda>kvs. Inr (pobj kvs))))
      else
      case pt_transaction p of None \<Rightarrow> Inl (value_error ''transaction is required'')
      | Some txn \<Rightarrow>
        rbind (encode_transaction K txn) (\<lambda>(txn_bytes_hex, txn_sender).
        if pt_auth_address p = [] then
          rbind (with_resources (pt_lsig_resources p) [(''txn_bytes_hex'', PStr txn_bytes_hex)]) (\<lambda>kvs.
          if pt_pq_scheme p \<noteq> [] then
            raise_if (pt_lsig_resources p \<noteq> None)
              (value_error ''foreign transaction cannot specify both pq_scheme and lsig_resources'') (
            raise_if (pt_pq_scheme p \<noteq> PQ_SCHEME_FALCON1024)
              (value_error (''unsupported pq_scheme '' @ repr_str (pt_pq_scheme p)))
              (Inr (pobj (kvs @ [(''pq_scheme'', PStr (pt_pq_scheme p))]))))
          else Inr (pobj kvs))
        else
          raise_if (pt_pq_scheme p \<noteq> []) (value_error ''pq_scheme is allowed only for foreign transactions'') (
          raise_if (pt_lsig_resources p \<noteq> None)
            (value_error ''lsig_resources is allowed only for foreign or passthrough transactions'') (
          Inr (pobj ([(''txn_bytes_hex'', PStr txn_bytes_hex), (''auth_address'', PStr (pt_auth_address p)),
                      (''txn_sender'', PStr (if pt_txn_sender p \<noteq> [] then pt_txn_sender p else txn_sender))]
                @ (if pt_lsig_args p \<noteq> [] then [(''lsig_args'', hex_args (pt_lsig_args p))] else [])
                @ (if truthy (pt_app_call_info p) then [(''app_call_info'', pt_app_call_info p)] else [])))))))"

definition to_sign_requests :: "algosdk \<Rightarrow> prepared_group \<Rightarrow> pyval list result" where
  "to_sign_requests K g =
     raise_if (pg_transactions g = []) (value_error ''prepared group is empty'') (
     rmap (\<lambda>(index, item). rewrap (\<lambda>_. True)
             (\<lambda>e. value_error (''prepared transaction '' @ show_nat index @ '': '' @ exc_msg e)) (to_sign_request K item))
       (List.enumerate 0 (pg_transactions g)))"

section \<open>Lemmas\<close>

lemma encode_transaction_Inr:
  "encode_transaction K txn = Inr (h, a) \<longleftrightarrow>
     (\<exists>m raw. msgpack_encode K txn = Inr m \<and> b64decode False m = Inr raw \<and> h = bytes_hex (TX_PREFIX @ raw) \<and> a = tx_sender txn)"
  by (auto simp: encode_transaction_def result_simps)

lemma encode_transaction_nonempty: "encode_transaction K txn = Inr (h, a) \<Longrightarrow> h \<noteq> []"
  by (auto simp: encode_transaction_Inr TX_PREFIX_def)

lemma with_resources_Inr:
  "with_resources u kvs = Inr kvs' \<longleftrightarrow>
     (u = None \<and> kvs' = kvs \<or> (\<exists>r w. u = Some r \<and> wire_lsig_resources r = Inr w \<and> kvs' = kvs @ [(''lsig_resources'', w)]))"
  by (auto simp: with_resources_def result_simps split: option.splits)

text \<open>The mode a prepared slot has on the wire.\<close>

definition prepared_mode :: "prepared_transaction \<Rightarrow> sign_mode" where
  "prepared_mode p = (if pt_signed_transaction_base64 p \<noteq> [] then PassthroughMode
     else if pt_auth_address p = [] then ForeignMode else SignMode)"

lemma to_sign_request_entry:
  assumes "to_sign_request K p = Inr e"
    and "pt_signed_transaction_base64 p \<noteq> [] \<Longrightarrow> b64decode True (pt_signed_transaction_base64 p) \<noteq> Inr []"
  shows "entry_mode e (prepared_mode p) \<and> entry_declares_ok e (prepared_mode p)"
proof (cases "pt_signed_transaction_base64 p = []")
  case False
  with assms show ?thesis
    by (auto simp: to_sign_request_def result_simps with_resources_Inr prepared_mode_def entry_mode_def
        entry_declares_ok_def require_wire_roundtrip)
next
  case True
  with assms(1) obtain txn h a where "pt_transaction p = Some txn" "encode_transaction K txn = Inr (h, a)"
    by (auto simp: to_sign_request_def result_simps split: option.splits)
  moreover from this(2) have "h \<noteq> []" by (rule encode_transaction_nonempty)
  ultimately show ?thesis
    using assms(1) True
    by (auto simp: to_sign_request_def result_simps with_resources_Inr prepared_mode_def entry_mode_def
        entry_declares_ok_def require_wire_roundtrip split: if_splits)
qed

end
