(* ===== verification/Client_Effects.thy ===== *)
theory Client_Effects
  imports Py_Prelude Complex_Main
begin

text \<open>
  Effects of the client: what it reads from and does to the world outside the SDK. An action
  takes a state and returns a result (a value or an exception) and the next state, so an
  exception keeps every effect made before it. The state holds the world, the \<^verbatim>\<open>SignerClient\<close>
  objects by identity, and a trace of the HTTP requests sent so far. What the world does is a
  parameter: the signer behind each client, the clock and the random source (\<open>env\<close>).
\<close>

section \<open>Requests and replies\<close>

record http_request =
  rq_method :: string
  rq_path :: string
  rq_body :: pyval
  rq_timeout :: int

text \<open>
  A reply as the \<^verbatim>\<open>requests\<close> library presents it: the status, the body text, and what
  \<^verbatim>\<open>resp.json()\<close> yields (\<open>None\<close>: the body is not JSON, so it raises).
\<close>

record http_response =
  rs_status :: int
  rs_text :: string
  rs_json :: "pyval option"

datatype http_outcome = TransportFailure string | HttpReply http_response

record 'w env =
  env_send :: "nat \<Rightarrow> http_request \<Rightarrow> 'w \<Rightarrow> http_outcome \<times> 'w"
  env_now :: "'w \<Rightarrow> real"
  env_token :: "'w \<Rightarrow> char list \<times> 'w"

type_synonym event = "nat \<times> http_request"

text \<open>The state of an action: \<open>'c\<close> is the type of the client objects, indexed by identity.\<close>

record ('w, 'c) state =
  st_world :: 'w
  st_clients :: "nat \<Rightarrow> 'c"
  st_trace :: "event list"

type_synonym ('w, 'c, 'a) action = "('w, 'c) state \<Rightarrow> 'a result \<times> ('w, 'c) state"

section \<open>Combinators\<close>

named_theorems action_simps \<open>running composed actions\<close>

definition aret :: "'a \<Rightarrow> ('w, 'c, 'a) action" where
  "aret x s = (Inr x, s)"

definition araise :: "exc \<Rightarrow> ('w, 'c, 'a) action" where
  "araise e s = (Inl e, s)"

definition alift :: "'a result \<Rightarrow> ('w, 'c, 'a) action" where
  "alift r s = (r, s)"

definition abind :: "('w, 'c, 'a) action \<Rightarrow> ('a \<Rightarrow> ('w, 'c, 'b) action) \<Rightarrow> ('w, 'c, 'b) action" where
  "abind m f s = (case m s of (Inl e, t) \<Rightarrow> (Inl e, t) | (Inr x, t) \<Rightarrow> f x t)"

text \<open>\<^verbatim>\<open>if c: raise e\<close>\<close>

definition araise_if :: "bool \<Rightarrow> exc \<Rightarrow> ('w, 'c, 'a) action \<Rightarrow> ('w, 'c, 'a) action" where
  "araise_if c e k = (if c then araise e else k)"

text \<open>\<^verbatim>\<open>try: m; except <p> as e: h(e)\<close>\<close>

definition acatch :: "(exc \<Rightarrow> bool) \<Rightarrow> (exc \<Rightarrow> ('w, 'c, 'a) action) \<Rightarrow> ('w, 'c, 'a) action \<Rightarrow> ('w, 'c, 'a) action" where
  "acatch p h m s = (case m s of (Inl e, t) \<Rightarrow> (if p e then h e t else (Inl e, t)) | (Inr x, t) \<Rightarrow> (Inr x, t))"

text \<open>Loops: over a list with an accumulator, and building a list.\<close>

fun afold :: "('x \<Rightarrow> 'a \<Rightarrow> ('w, 'c, 'a) action) \<Rightarrow> 'x list \<Rightarrow> 'a \<Rightarrow> ('w, 'c, 'a) action" where
  "afold f [] a = aret a"
| "afold f (x # xs) a = abind (f x a) (afold f xs)"

fun amap :: "('x \<Rightarrow> ('w, 'c, 'a) action) \<Rightarrow> 'x list \<Rightarrow> ('w, 'c, 'a list) action" where
  "amap f [] = aret []"
| "amap f (x # xs) = abind (f x) (\<lambda>y. abind (amap f xs) (\<lambda>ys. aret (y # ys)))"

subsection \<open>Access to the state and the world\<close>

definition get_client :: "nat \<Rightarrow> ('w, 'c, 'c) action" where
  "get_client c s = (Inr (st_clients s c), s)"

definition update_client :: "nat \<Rightarrow> ('c \<Rightarrow> 'c) \<Rightarrow> ('w, 'c, unit) action" where
  "update_client c f s = (Inr (), s\<lparr>st_clients := (st_clients s)(c := f (st_clients s c))\<rparr>)"

definition now :: "'w env \<Rightarrow> ('w, 'c, real) action" where
  "now E s = (Inr (env_now E (st_world s)), s)"

definition fresh_token :: "'w env \<Rightarrow> ('w, 'c, char list) action" where
  "fresh_token E s = (case env_token E (st_world s) of (r, w) \<Rightarrow> (Inr r, s\<lparr>st_world := w\<rparr>))"

text \<open>Sending a request records it and hands it to the signer behind the client.\<close>

definition send :: "'w env \<Rightarrow> nat \<Rightarrow> http_request \<Rightarrow> ('w, 'c, http_outcome) action" where
  "send E c r s = (case env_send E c r (st_world s) of
     (out, w) \<Rightarrow> (Inr out, s\<lparr>st_world := w, st_trace := st_trace s @ [(c, r)]\<rparr>))"

text \<open>A call to something else outside the SDK (a node, the operating system), which may fail.\<close>

definition ask :: "('w \<Rightarrow> 'a result \<times> 'w) \<Rightarrow> ('w, 'c, 'a) action" where
  "ask q s = (case q (st_world s) of (r, w) \<Rightarrow> (r, s\<lparr>st_world := w\<rparr>))"

section \<open>Running\<close>

lemma run_simps [action_simps]:
  "aret x s = (Inr x, s)"
  "araise e s = (Inl e, s)"
  "alift r s = (r, s)"
  "get_client c s = (Inr (st_clients s c), s)"
  "update_client c f s = (Inr (), s\<lparr>st_clients := (st_clients s)(c := f (st_clients s c))\<rparr>)"
  "now E s = (Inr (env_now E (st_world s)), s)"
  by (simp_all add: aret_def araise_def alift_def get_client_def update_client_def now_def)

lemma abind_run [action_simps]:
  "m s = (Inr x, t) \<Longrightarrow> abind m f s = f x t"
  "m s = (Inl e, t) \<Longrightarrow> abind m f s = (Inl e, t)"
  by (simp_all add: abind_def)

lemma abind_prim [simp]:
  "abind (aret x) f = f x"
  "abind (araise e) f = araise e"
  "abind (alift (Inr x)) f = f x"
  "abind (alift (Inl e)) f = araise e"
  by (simp_all add: abind_def aret_def araise_def alift_def fun_eq_iff)

lemma araise_if_simps [simp]:
  "araise_if True e k = araise e"
  "araise_if False e k = k"
  by (simp_all add: araise_if_def)

lemma araise_if_cong [cong]: "c = c' \<Longrightarrow> (\<not> c' \<Longrightarrow> k = k') \<Longrightarrow> araise_if c e k = araise_if c' e k'"
  by (simp add: araise_if_def)

lemma abind_Inr: "abind m f s = (Inr y, t) \<longleftrightarrow> (\<exists>x u. m s = (Inr x, u) \<and> f x u = (Inr y, t))"
  by (auto simp: abind_def split: prod.splits sum.splits)

lemma abind_Inl: "abind m f s = (Inl e, t) \<longleftrightarrow> m s = (Inl e, t) \<or> (\<exists>x u. m s = (Inr x, u) \<and> f x u = (Inl e, t))"
  by (auto simp: abind_def split: prod.splits sum.splits)

lemma aret_Inr [result_simps]: "aret x s = (Inr y, t) \<longleftrightarrow> y = x \<and> t = s"
  by (auto simp: aret_def)

lemma araise_Inr [result_simps]: "araise e s = (Inr y, t) \<longleftrightarrow> False"
  by (simp add: araise_def)

lemma alift_Inr [result_simps]: "alift r s = (Inr y, t) \<longleftrightarrow> r = Inr y \<and> t = s"
  by (auto simp: alift_def)

lemma araise_if_Inr [result_simps]: "araise_if c e k s = (Inr y, t) \<longleftrightarrow> \<not> c \<and> k s = (Inr y, t)"
  by (auto simp: araise_if_def araise_def)

lemma acatch_Inr: "acatch p h m s = (Inr y, t) \<longleftrightarrow>
   m s = (Inr y, t) \<or> (\<exists>e u. m s = (Inl e, u) \<and> p e \<and> h e u = (Inr y, t))"
  by (auto simp: acatch_def split: prod.splits sum.splits if_splits)

lemma get_client_Inr [result_simps]: "get_client c s = (Inr y, t) \<longleftrightarrow> y = st_clients s c \<and> t = s"
  by (auto simp: get_client_def)

lemma update_client_Inr [result_simps]:
  "update_client c f s = (Inr y, t) \<longleftrightarrow> t = s\<lparr>st_clients := (st_clients s)(c := f (st_clients s c))\<rparr>"
  by (auto simp: update_client_def)

lemma now_Inr [result_simps]: "now E s = (Inr y, t) \<longleftrightarrow> y = env_now E (st_world s) \<and> t = s"
  by (auto simp: now_def)

lemmas abind_result = abind_Inr [result_simps]

section \<open>Contracts on effects\<close>

text \<open>
  A contract relates the state before an action to the state after it, whether the action returns or
  raises. Any contract that doing nothing meets and that sequencing keeps follows the structure of the
  code; the rules are stated once here, for the requests an action sends, for the invariant of the
  client objects and, with the SSH tunnel, for the part of the state an action leaves alone.
\<close>

definition obeys :: "(('w, 'c) state \<Rightarrow> ('w, 'c) state \<Rightarrow> bool) \<Rightarrow> ('w, 'c, 'a) action \<Rightarrow> bool" where
  "obeys R m \<longleftrightarrow> (\<forall>s. R s (snd (m s)))"

locale effect_contract =
  fixes R :: "('w, 'c) state \<Rightarrow> ('w, 'c) state \<Rightarrow> bool"
  assumes contract_refl: "R s s"
    and contract_trans: "R s t \<Longrightarrow> R t u \<Longrightarrow> R s u"
begin

lemma result_rule: "obeys R m \<Longrightarrow> m s = (r, t) \<Longrightarrow> R s t"
  by (metis obeys_def snd_conv)

lemma pure_rules:
  "obeys R (aret x)" "obeys R (araise e)" "obeys R (alift r)" "obeys R (get_client c)" "obeys R (now E)"
  by (simp_all add: obeys_def action_simps contract_refl)

lemma bind_dep_rule:
  assumes "obeys R m" and "\<And>s x t. m s = (Inr x, t) \<Longrightarrow> obeys R (f x)"
  shows "obeys R (abind m f)"
  unfolding obeys_def
proof
  fix s
  obtain r t where m: "m s = (r, t)" by fastforce
  with assms(1) have st: "R s t" by (rule result_rule)
  show "R s (snd (abind m f s))"
  proof (cases r)
    case (Inl e)
    with m st show ?thesis by (simp add: abind_def)
  next
    case (Inr x)
    with m assms(2) have "R t (snd (f x t))" by (auto simp: obeys_def)
    with st have "R s (snd (f x t))" by (rule contract_trans)
    with m Inr show ?thesis by (simp add: abind_def)
  qed
qed

lemma bind_rule: "obeys R m \<Longrightarrow> (\<And>x. obeys R (f x)) \<Longrightarrow> obeys R (abind m f)"
  by (rule bind_dep_rule)

lemma catch_rule:
  assumes "obeys R m" and "\<And>e. obeys R (h e)"
  shows "obeys R (acatch p h m)"
  unfolding obeys_def
proof
  fix s
  obtain r t where m: "m s = (r, t)" by fastforce
  with assms(1) have "R s t" by (rule result_rule)
  moreover have "R t (snd (h e t))" for e using assms(2) by (simp add: obeys_def)
  ultimately have "R s t" "R s (snd (h e t))" for e by (blast intro: contract_trans)+
  with m show "R s (snd (acatch p h m s))" by (cases r) (simp_all add: acatch_def)
qed

lemma if_rule: "(c \<Longrightarrow> obeys R a) \<Longrightarrow> (\<not> c \<Longrightarrow> obeys R b) \<Longrightarrow> obeys R (if c then a else b)"
  by simp

lemma raise_if_rule: "(\<not> c \<Longrightarrow> obeys R k) \<Longrightarrow> obeys R (araise_if c e k)"
  by (cases c) (simp_all add: pure_rules)

lemma option_rule:
  "(x = None \<Longrightarrow> obeys R a) \<Longrightarrow> (\<And>y. x = Some y \<Longrightarrow> obeys R (b y)) \<Longrightarrow>
     obeys R (case x of None \<Rightarrow> a | Some y \<Rightarrow> b y)"
  by (cases x) simp_all

lemma outcome_rule:
  "(\<And>m. x = TransportFailure m \<Longrightarrow> obeys R (a m)) \<Longrightarrow> (\<And>y. x = HttpReply y \<Longrightarrow> obeys R (b y)) \<Longrightarrow>
     obeys R (case x of TransportFailure m \<Rightarrow> a m | HttpReply y \<Rightarrow> b y)"
  by (cases x) simp_all

lemma pair_rule: "(\<And>a b. x = (a, b) \<Longrightarrow> obeys R (f a b)) \<Longrightarrow> obeys R (case x of (a, b) \<Rightarrow> f a b)"
  by (cases x) simp

lemma afold_rule: "(\<And>x a. x \<in> set xs \<Longrightarrow> obeys R (f x a)) \<Longrightarrow> obeys R (afold f xs a)"
  by (induction xs arbitrary: a) (auto intro!: pure_rules bind_rule)

lemma amap_rule: "(\<And>x. x \<in> set xs \<Longrightarrow> obeys R (f x)) \<Longrightarrow> obeys R (amap f xs)"
  by (induction xs) (auto intro!: pure_rules bind_rule)

lemmas structure_rules = pure_rules bind_rule catch_rule if_rule raise_if_rule option_rule outcome_rule pair_rule
  afold_rule amap_rule

end

section \<open>What an action may send\<close>

text \<open>
  \<open>issues P m\<close>: whatever happens, \<open>m\<close> only appends requests satisfying \<open>P\<close> to the trace.
\<close>

definition appends :: "(event \<Rightarrow> bool) \<Rightarrow> ('w, 'c) state \<Rightarrow> ('w, 'c) state \<Rightarrow> bool" where
  "appends P s t \<longleftrightarrow> (\<exists>es. st_trace t = st_trace s @ es \<and> (\<forall>e \<in> set es. P e))"

lemma appends_refl: "appends P s s"
  by (simp add: appends_def)

lemma appends_trans: "appends P s t \<Longrightarrow> appends P t u \<Longrightarrow> appends P s u"
  unfolding appends_def by (metis UnE append_assoc set_append)

interpretation sent: effect_contract "appends P" for P
  by unfold_locales (fact appends_refl, fact appends_trans)

definition issues :: "(event \<Rightarrow> bool) \<Rightarrow> ('w, 'c, 'a) action \<Rightarrow> bool" where
  "issues P m \<longleftrightarrow> obeys (appends P) m"

named_theorems issues_intros \<open>composition of trace contracts\<close>

lemma issues_iff: "issues P m \<longleftrightarrow> (\<forall>s. \<exists>es. st_trace (snd (m s)) = st_trace s @ es \<and> (\<forall>e \<in> set es. P e))"
  by (simp add: issues_def obeys_def appends_def)

lemmas issuesI = issues_iff [THEN iffD2, rule_format]

lemma issuesD: "issues P m \<Longrightarrow> m s = (r, t) \<Longrightarrow> \<exists>es. st_trace t = st_trace s @ es \<and> (\<forall>e \<in> set es. P e)"
  by (metis issues_iff snd_conv)

lemma issues_mono: "issues P m \<Longrightarrow> (\<And>e. P e \<Longrightarrow> Q e) \<Longrightarrow> issues Q m"
  unfolding issues_iff by blast

lemmas issues_bind_dep = sent.bind_dep_rule [folded issues_def]
lemmas issues_bind = sent.bind_rule [folded issues_def]
lemmas issues_raise_if = sent.raise_if_rule [folded issues_def]
lemmas issues_structure [issues_intros] = sent.structure_rules [folded issues_def]

lemma issues_quiet [issues_intros]: "issues P (update_client c f)" "issues P (fresh_token E)"
  by (auto simp: issues_iff action_simps fresh_token_def split: prod.splits)

lemma issues_send [issues_intros]: "P (c, r) \<Longrightarrow> issues P (send E c r)"
  by (auto simp: issues_iff send_def split: prod.splits)

text \<open>An action that issues nothing leaves the trace alone.\<close>

abbreviation silent :: "('w, 'c, 'a) action \<Rightarrow> bool" where
  "silent \<equiv> issues (\<lambda>_. False)"

lemma silent_trace: "silent m \<Longrightarrow> st_trace (snd (m s)) = st_trace s"
  unfolding issues_iff by (metis append_Nil2 list.set_intros(1) neq_Nil_conv)

lemma trace_bind_silent: "(\<And>x. silent (f x)) \<Longrightarrow> st_trace (snd (abind m f s)) = st_trace (snd (m s))"
  by (auto simp: abind_def silent_trace split: prod.splits sum.splits)

lemma trace_catch_silent: "(\<And>e. silent (h e)) \<Longrightarrow> st_trace (snd (acatch p h m s)) = st_trace (snd (m s))"
  by (auto simp: acatch_def silent_trace split: prod.splits sum.splits)

section \<open>What an action keeps of the client objects\<close>

text \<open>\<open>preserves I m\<close>: if every client object satisfies \<open>I\<close> before, so it does after, error or not.\<close>

definition maintains :: "('c \<Rightarrow> bool) \<Rightarrow> ('w, 'c) state \<Rightarrow> ('w, 'c) state \<Rightarrow> bool" where
  "maintains I s t \<longleftrightarrow> ((\<forall>c. I (st_clients s c)) \<longrightarrow> (\<forall>c. I (st_clients t c)))"

interpretation kept: effect_contract "maintains I" for I
  by unfold_locales (simp_all add: maintains_def)

definition preserves :: "('c \<Rightarrow> bool) \<Rightarrow> ('w, 'c, 'a) action \<Rightarrow> bool" where
  "preserves I m \<longleftrightarrow> obeys (maintains I) m"

named_theorems preserves_intros \<open>composition of client invariants\<close>

lemma preserves_iff: "preserves I m \<longleftrightarrow> (\<forall>s. (\<forall>c. I (st_clients s c)) \<longrightarrow> (\<forall>c. I (st_clients (snd (m s)) c)))"
  by (simp add: preserves_def obeys_def maintains_def)

lemma preservesD: "preserves I m \<Longrightarrow> m s = (r, t) \<Longrightarrow> \<forall>c. I (st_clients s c) \<Longrightarrow> I (st_clients t c)"
  by (metis preserves_iff snd_conv)

lemmas preserves_structure [preserves_intros] = kept.structure_rules [folded preserves_def]

lemma preserves_world [preserves_intros]: "preserves I (fresh_token E)" "preserves I (send E c rq)"
  by (auto simp: preserves_iff fresh_token_def send_def split: prod.splits)

lemma preserves_update [preserves_intros]: "(\<And>x. I x \<Longrightarrow> I (f x)) \<Longrightarrow> preserves I (update_client c f)"
  by (auto simp: preserves_iff action_simps)

subsection \<open>Calls outside\<close>

lemma issues_ask [issues_intros]: "issues P (ask q)"
  by (auto simp: issues_iff ask_def split: prod.splits)

lemma preserves_ask [preserves_intros]: "preserves I (ask q)"
  by (auto simp: preserves_iff ask_def split: prod.splits)

lemma ask_Inr [result_simps]: "ask q s = (Inr x, t) \<longleftrightarrow> (\<exists>w. q (st_world s) = (Inr x, w) \<and> t = s\<lparr>st_world := w\<rparr>)"
  by (auto simp: ask_def split: prod.splits)

section \<open>A scripted world\<close>

text \<open>
  An environment for evaluation: each client is answered by path from a table (a request to a
  path that is not listed fails in transport), the clock stands still and the random source
  repeats itself.
\<close>

definition scripted_clients :: "(nat \<Rightarrow> (string \<times> http_response) list) \<Rightarrow> unit env" where
  "scripted_clients tables =
     \<lparr>env_send = (\<lambda>c rq w. (case map_of (tables c) (rq_path rq) of Some r \<Rightarrow> HttpReply r | None \<Rightarrow> TransportFailure ''refused'', w)),
      env_now = (\<lambda>w. 0), env_token = (\<lambda>w. (replicate 16 (CHR ''A''), w))\<rparr>"

definition scripted_env :: "(string \<times> http_response) list \<Rightarrow> unit env" where
  "scripted_env table = scripted_clients (\<lambda>_. table)"

definition ok_reply :: "pyval \<Rightarrow> http_response" where
  "ok_reply v = \<lparr>rs_status = 200, rs_text = ''json'', rs_json = Some v\<rparr>"

definition initial_state :: "'c \<Rightarrow> (unit, 'c) state" where
  "initial_state cl = \<lparr>st_world = (), st_clients = (\<lambda>_. cl), st_trace = []\<rparr>"

lemmas scripted_defs = scripted_env_def scripted_clients_def ok_reply_def initial_state_def
lemmas effect_defs = aret_def araise_def alift_def abind_def araise_if_def acatch_def get_client_def update_client_def
  now_def fresh_token_def send_def

end
