(* ===== verification/Http_Errors.thy ===== *)
theory Http_Errors
  imports Client_Effects
begin

text \<open>
  How a reply of the signer that is not a plain success becomes an exception
  (\<^verbatim>\<open>_safe_json\<close>, \<^verbatim>\<open>_error_parts\<close> and the classification methods of \<^verbatim>\<open>SignerClient\<close>).
  The stable wire code decides the class; message text never does.
\<close>

section \<open>Wire codes\<close>

definition ERR_CODE_NOT_FOUND :: string where "ERR_CODE_NOT_FOUND = ''not_found''"
definition ERR_CODE_LOCKED :: string where "ERR_CODE_LOCKED = ''locked''"
definition ERR_CODE_FORBIDDEN :: string where "ERR_CODE_FORBIDDEN = ''forbidden''"

section \<open>Reading an error reply\<close>

text \<open>\<^verbatim>\<open>resp.json()\<close>\<close>

definition resp_json :: "http_response \<Rightarrow> pyval result" where
  "resp_json r = (case rs_json r of Some v \<Rightarrow> Inr v | None \<Rightarrow> Inl (Exc JSONDecodeError ''Expecting value'' []))"

definition safe_json :: "http_response \<Rightarrow> pyval" where
  "safe_json r = (if rs_text r = [] then PDict [] else case rs_json r of Some v \<Rightarrow> v | None \<Rightarrow> PDict [])"

definition error_parts :: "http_response \<Rightarrow> string \<Rightarrow> (string \<times> string) result" where
  "error_parts r fallback =
     rbind (py_get (safe_json r) ''error'') (\<lambda>error.
       case error of
         PStr m \<Rightarrow>
           (if strip m \<noteq> [] then
              Inr (case pget (safe_json r) ''code'' of PStr c \<Rightarrow> c | _ \<Rightarrow> [], m)
            else if strip (rs_text r) \<noteq> [] then Inr ([], strip (rs_text r)) else Inr ([], fallback))
       | _ \<Rightarrow> if strip (rs_text r) \<noteq> [] then Inr ([], strip (rs_text r)) else Inr ([], fallback))"

definition error_message :: "http_response \<Rightarrow> string \<Rightarrow> string result" where
  "error_message r fallback = rbind (error_parts r fallback) (\<lambda>(_, m). Inr m)"

section \<open>Classification\<close>

text \<open>Each of these builds the exception to raise; reading the body may itself raise.\<close>

definition signer_http_error :: "http_response \<Rightarrow> string \<Rightarrow> exc result" where
  "signer_http_error r fallback = rbind (error_parts r fallback) (\<lambda>(code, m). Inr (Exc SignerError m code))"

definition bad_request_error :: "http_response \<Rightarrow> exc result" where
  "bad_request_error r =
     rbind (error_parts r ''Bad request'') (\<lambda>(code, m).
       if code = ERR_CODE_NOT_FOUND then Inr (Exc KeyNotFoundError m code)
       else Inr (Exc SignerError (''Bad request: '' @ m) code))"

definition forbidden_locked_error :: "http_response \<Rightarrow> exc result" where
  "forbidden_locked_error r =
     rbind (error_parts r ''Forbidden'') (\<lambda>(code, m).
       if code = ERR_CODE_LOCKED then Inr (Exc SignerUnavailableError ''Signer is locked'' code)
       else Inr (Exc SignerError m code))"

definition forbidden_rejected_error :: "http_response \<Rightarrow> string \<Rightarrow> exc result" where
  "forbidden_rejected_error r fallback =
     rbind (error_parts r fallback) (\<lambda>(code, m).
       if code = ERR_CODE_LOCKED then Inr (Exc SignerUnavailableError ''Signer is locked'' code)
       else if code = ERR_CODE_FORBIDDEN then Inr (Exc SigningRejectedError m code)
       else Inr (Exc SignerError m code))"

definition unavailable_error :: "http_response \<Rightarrow> exc result" where
  "unavailable_error r = rbind (error_message r ''Signer unavailable'') (\<lambda>m. Inr (Exc SignerUnavailableError m []))"

definition not_authenticated :: exc where
  "not_authenticated = Exc AuthenticationError ''Not authenticated: connect through an enrolled SSH key'' []"

text \<open>\<^verbatim>\<open>raise f(resp)\<close>\<close>

definition raise_built :: "exc result \<Rightarrow> 'a result" where
  "raise_built r = (case r of Inl e \<Rightarrow> Inl e | Inr e \<Rightarrow> Inl e)"

text \<open>\<^verbatim>\<open>if data.get("error"): raise SignerError(data["error"])\<close>\<close>

definition check_error_field :: "pyval \<Rightarrow> unit result" where
  "check_error_field data =
     rbind (py_get data ''error'') (\<lambda>e. raise_if (truthy e) (signer_error (py_str e)) (Inr ()))"

section \<open>Lemmas\<close>

lemma raise_built_not_Inr [simp]: "raise_built r \<noteq> Inr x"
  by (cases r) (simp_all add: raise_built_def)

lemma raise_built_Inr [result_simps]: "raise_built r = Inr x \<longleftrightarrow> False"
  by simp

lemma error_parts_total: "is_dict (safe_json r) \<Longrightarrow> \<exists>code m. error_parts r fallback = Inr (code, m)"
  by (auto simp: error_parts_def split: pyval.splits)

text \<open>A code is taken only from an error envelope whose message is not blank.\<close>

lemma error_parts_code:
  assumes "error_parts r fallback = Inr (code, m)" and "code \<noteq> []"
  shows "pget (safe_json r) ''code'' = PStr code \<and> pget (safe_json r) ''error'' = PStr m \<and> strip m \<noteq> []"
  using assms by (auto simp: error_parts_def result_simps split: pyval.splits if_splits)

lemma error_parts_no_body: "rs_text r = [] \<Longrightarrow> error_parts r fallback = Inr ([], fallback)"
  by (simp add: error_parts_def safe_json_def strip_def lstrip_def)

lemma wire_codes_distinct:
  "ERR_CODE_LOCKED \<noteq> ERR_CODE_FORBIDDEN" "ERR_CODE_NOT_FOUND \<noteq> []" "ERR_CODE_LOCKED \<noteq> []" "ERR_CODE_FORBIDDEN \<noteq> []"
  by (simp_all add: ERR_CODE_LOCKED_def ERR_CODE_FORBIDDEN_def ERR_CODE_NOT_FOUND_def)

end
