(* ===== verification/Signer_Client.thy ===== *)
theory Signer_Client
  imports Key_Info Http_Errors Wire_Requests
begin

text \<open>
  The \<^verbatim>\<open>SignerClient\<close> object: request timeouts, the approval wait it discovers from \<^verbatim>\<open>/status\<close>,
  and the key inventory it caches from \<^verbatim>\<open>/keys\<close>. Each method is an action on the state of
  \<open>Client_Effects\<close>; \<open>c\<close> is the identity of the client object the method is called on.
\<close>

section \<open>The client object\<close>

definition HEALTH_TIMEOUT :: int where "HEALTH_TIMEOUT = 3"
definition STATUS_TIMEOUT :: int where "STATUS_TIMEOUT = 5"
definition INVENTORY_TIMEOUT :: int where "INVENTORY_TIMEOUT = 30"
definition MUTATION_TIMEOUT :: int where "MUTATION_TIMEOUT = 60"
definition SIGN_CANCEL_TIMEOUT :: int where "SIGN_CANCEL_TIMEOUT = 5"
definition SIGN_APPROVAL_SLACK :: int where "SIGN_APPROVAL_SLACK = 30"
definition DEFAULT_SIGN_REQUEST_TIMEOUT :: int where "DEFAULT_SIGN_REQUEST_TIMEOUT = 360"
definition MAX_DISCOVERED_APPROVAL_WAIT :: int where "MAX_DISCOVERED_APPROVAL_WAIT = 30 * 60"
definition APPROVAL_WAIT_REFRESH :: real where "APPROVAL_WAIT_REFRESH = 5 * 60"

lemmas timeout_defs = HEALTH_TIMEOUT_def STATUS_TIMEOUT_def INVENTORY_TIMEOUT_def MUTATION_TIMEOUT_def
  SIGN_CANCEL_TIMEOUT_def SIGN_APPROVAL_SLACK_def DEFAULT_SIGN_REQUEST_TIMEOUT_def
  MAX_DISCOVERED_APPROVAL_WAIT_def APPROVAL_WAIT_REFRESH_def

text \<open>
  \<open>key_cache\<close> is the dictionary by address, in insertion order; \<open>key_cache_revision\<close> is
  \<open>PNone\<close> when no revision is recorded.
\<close>

record client =
  base_url :: string
  timeout :: "int option"
  tunnel :: bool
  key_cache :: "(pyval \<times> key_info) list"
  key_cache_revision :: pyval
  approval_wait_seconds :: "int option"
  approval_wait_fetched_at :: "real option"
  approval_wait_known :: bool

type_synonym ('w, 'a) client_action = "('w, client, 'a) action"

definition new_client :: "string \<Rightarrow> int option \<Rightarrow> bool \<Rightarrow> client result" where
  "new_client url tmo tun =
     raise_if (url = []) (signer_error ''base_url is required'')
       (Inr \<lparr>base_url = rstrip_char (CHR ''/'') url,
             timeout = (case tmo of Some t \<Rightarrow> if 0 < t then Some t else None | None \<Rightarrow> None),
             tunnel = tun, key_cache = [], key_cache_revision = PNone, approval_wait_seconds = None,
             approval_wait_fetched_at = None, approval_wait_known = False\<rparr>)"

text \<open>\<open>stop\<close> is what tears the client's tunnel down; whatever it raises is dropped.\<close>

definition close :: "('w, unit) client_action \<Rightarrow> nat \<Rightarrow> ('w, unit) client_action" where
  "close stop c =
     abind (get_client c) (\<lambda>cl.
     if tunnel cl then
       abind (acatch (\<lambda>_. True) (\<lambda>_. aret ()) stop) (\<lambda>_. update_client c (\<lambda>cl. cl\<lparr>tunnel := False\<rparr>))
     else aret ())"

definition timeout_for :: "client \<Rightarrow> int \<Rightarrow> int" where
  "timeout_for cl default_timeout =
     (case timeout cl of Some t \<Rightarrow> if t < default_timeout then t else default_timeout | None \<Rightarrow> default_timeout)"

section \<open>Requests\<close>

text \<open>
  One HTTP exchange with the default timeout of the endpoint. A transport failure is raised as
  \<^verbatim>\<open>requests.RequestException\<close> would be; the callers translate it.
\<close>

definition http :: "'w env \<Rightarrow> nat \<Rightarrow> string \<Rightarrow> string \<Rightarrow> pyval \<Rightarrow> int \<Rightarrow> ('w, http_response) client_action" where
  "http E c meth path body tmo =
     abind (send E c \<lparr>rq_method = meth, rq_path = path, rq_body = body, rq_timeout = tmo\<rparr>) (\<lambda>out.
       case out of TransportFailure m \<Rightarrow> araise (Exc RequestException m []) | HttpReply r \<Rightarrow> aret r)"

definition is_request_exception :: "exc \<Rightarrow> bool" where
  "is_request_exception e \<longleftrightarrow> exc_cls e = RequestException"

text \<open>\<^verbatim>\<open>except requests.RequestException as e: raise SignerUnavailableError(...)\<close>\<close>

definition failed_to_connect :: "exc \<Rightarrow> ('w, 'a) client_action" where
  "failed_to_connect e = araise (Exc SignerUnavailableError (''Failed to connect: '' @ exc_msg e) [])"

definition health :: "'w env \<Rightarrow> nat \<Rightarrow> ('w, bool) client_action" where
  "health E c =
     abind (get_client c) (\<lambda>cl.
     acatch is_request_exception (\<lambda>_. aret False)
       (abind (http E c ''GET'' ''/health'' PNone (timeout_for cl HEALTH_TIMEOUT)) (\<lambda>r. aret (rs_status r = 200))))"

section \<open>Status\<close>

record status_response =
  sr_state :: pyval
  sr_signer_locked :: pyval
  sr_ready_for_signing :: pyval
  sr_key_count :: pyval
  sr_keyset_revision :: pyval
  sr_protocol_version :: pyval
  sr_build_version :: pyval
  sr_approval_wait_seconds :: pyval
  sr_node_role :: pyval
  sr_warnings :: "pyval list"
  sr_notes :: "pyval list"
  sr_rotating :: "pyval list"

text \<open>
  \<^verbatim>\<open>cls(**_declared_fields(cls, data))\<close> for a dataclass whose fields, in order, have the given
  defaults: undeclared keys are dropped, missing ones take their default.
\<close>

definition declared_fields :: "string list \<Rightarrow> (pyval \<times> pyval) list \<Rightarrow> (pyval \<times> pyval) list" where
  "declared_fields names kvs = filter (\<lambda>(k, v). k \<in> PStr ` set names) kvs"

definition build_dataclass :: "string \<Rightarrow> (string \<times> pyval) list \<Rightarrow> (pyval \<times> pyval) list \<Rightarrow> pyval" where
  "build_dataclass cls defaults kvs =
     PData cls (map (\<lambda>(n, d). (n, case dict_lookup (declared_fields (map fst defaults) kvs) n of Some v \<Rightarrow> v | None \<Rightarrow> d)) defaults)"

definition protocol_version_fields :: "(string \<times> pyval) list" where
  "protocol_version_fields = [(''major'', PInt 0), (''minor'', PInt 0)]"

definition recovery_status_fields :: "(string \<times> pyval) list" where
  "recovery_status_fields =
     [(''active'', PBool False), (''kind'', PStr []), (''grant_id'', PInt 0), (''stages_charged'', PInt 0),
      (''max_stages'', PInt 0), (''active_seconds'', PInt 0), (''hint'', PNone), (''found_stage'', PNone),
      (''stopped'', PStr []), (''stopped_kind'', PStr []), (''stopped_grant_id'', PInt 0), (''stopped_stage'', PNone),
      (''allowance_spent'', PInt 0), (''allowance_max'', PInt 0), (''suppressed_authorizer'', PStr [])]"

definition rotating_account_fields :: "(string \<times> pyval) list" where
  "rotating_account_fields =
     [(''account'', PNone), (''classification'', PStr []), (''authorizer'', PStr []), (''round'', PInt 0),
      (''stage'', PNone), (''cached_entries'', PInt 0), (''preparation'', PStr []), (''recovery'', PNone)]"

text \<open>\<^verbatim>\<open>__post_init__\<close> of \<^verbatim>\<open>RotatingAccountStatus\<close>: a nested dictionary becomes an instance too.\<close>

fun recovery_post_init :: "pyval \<Rightarrow> pyval" where
  "recovery_post_init (PData cls fs) =
     PData cls (map (\<lambda>(n, v). (n, if n = ''recovery''
        then (case v of PDict kvs \<Rightarrow> build_dataclass ''RotatingRecoveryStatus'' recovery_status_fields kvs | _ \<Rightarrow> v) else v)) fs)"
| "recovery_post_init v = v"

fun build_rotating_account :: "pyval \<Rightarrow> pyval" where
  "build_rotating_account (PDict kvs) =
     recovery_post_init (build_dataclass ''RotatingAccountStatus'' rotating_account_fields kvs)"
| "build_rotating_account v = v"

fun build_protocol_version :: "pyval \<Rightarrow> pyval" where
  "build_protocol_version (PDict kvs) = build_dataclass ''ProtocolVersion'' protocol_version_fields kvs"
| "build_protocol_version v = v"

fun filter_list :: "(pyval \<Rightarrow> bool) \<Rightarrow> pyval \<Rightarrow> pyval list" where
  "filter_list p (PList xs) = filter p xs"
| "filter_list p v = []"

definition parse_status :: "pyval \<Rightarrow> status_response result" where
  "parse_status data =
     rbind (py_get data ''warnings'') (\<lambda>raw_warnings.
       Inr \<lparr>sr_state = pget_or data ''state'' (PStr []),
            sr_signer_locked = pget_or data ''signer_locked'' (PBool False),
            sr_ready_for_signing = pget_or data ''ready_for_signing'' (PBool False),
            sr_key_count = pget_or data ''key_count'' (PInt 0),
            sr_keyset_revision = pget_or data ''keyset_revision'' (PInt 0),
            sr_protocol_version = build_protocol_version (pget data ''protocol_version''),
            sr_build_version = pget_or data ''build_version'' (PStr []),
            sr_approval_wait_seconds = py_or (pget data ''approval_wait_seconds'') (PInt 0),
            sr_node_role = pget_or data ''node_role'' (PStr []),
            sr_warnings = filter_list is_str raw_warnings,
            sr_notes = filter_list is_str (pget data ''notes''),
            sr_rotating = map build_rotating_account
              (filter_list (\<lambda>e. is_dict e \<and> is_str (pget e ''account'')) (pget data ''rotating''))\<rparr>)"

subsection \<open>The approval wait\<close>

definition cache_approval_wait :: "'w env \<Rightarrow> nat \<Rightarrow> pyval \<Rightarrow> ('w, unit) client_action" where
  "cache_approval_wait E c seconds =
     (case as_int seconds of
        None \<Rightarrow> araise (Exc TypeError (CHR 0x27 # ''>'' @ CHR 0x27 # '' not supported between instances'') [])
      | Some n \<Rightarrow>
          abind (now E) (\<lambda>t. update_client c (\<lambda>cl. cl
            \<lparr>approval_wait_seconds := (if 0 < n \<and> n \<le> MAX_DISCOVERED_APPROVAL_WAIT then Some n else None),
             approval_wait_fetched_at := Some t, approval_wait_known := True\<rparr>)))"

definition cached_approval_wait :: "client \<Rightarrow> real \<Rightarrow> int option" where
  "cached_approval_wait cl t =
     (if \<not> approval_wait_known cl then None else
      case (approval_wait_seconds cl, approval_wait_fetched_at cl) of
        (Some n, Some f) \<Rightarrow> if n = 0 then None else if APPROVAL_WAIT_REFRESH < t - f then None else Some n
      | _ \<Rightarrow> None)"

definition needs_approval_wait_discovery :: "client \<Rightarrow> real \<Rightarrow> bool" where
  "needs_approval_wait_discovery cl t =
     (if \<not> approval_wait_known cl then True else
      case approval_wait_fetched_at cl of None \<Rightarrow> True | Some f \<Rightarrow> APPROVAL_WAIT_REFRESH < t - f)"

definition get_status :: "'w env \<Rightarrow> nat \<Rightarrow> ('w, status_response) client_action" where
  "get_status E c =
     abind (get_client c) (\<lambda>cl.
     abind (acatch is_request_exception failed_to_connect
              (http E c ''GET'' ''/status'' PNone (timeout_for cl STATUS_TIMEOUT))) (\<lambda>r.
     araise_if (rs_status r = 401) not_authenticated (
     if rs_status r = 503 then alift (raise_built (unavailable_error r)) else
     if rs_status r \<noteq> 200 then
       alift (raise_built (signer_http_error r (''Failed to get signer status: HTTP '' @ show_int (rs_status r)))) else
     abind (alift (rbind (resp_json r) parse_status)) (\<lambda>status.
     abind (cache_approval_wait E c (sr_approval_wait_seconds status)) (\<lambda>_. aret status)))))"

definition discover_approval_wait :: "'w env \<Rightarrow> nat \<Rightarrow> ('w, unit) client_action" where
  "discover_approval_wait E c =
     abind (get_client c) (\<lambda>cl. abind (now E) (\<lambda>t.
       if \<not> needs_approval_wait_discovery cl t then aret ()
       else acatch is_signer_error (\<lambda>_. aret ()) (abind (get_status E c) (\<lambda>_. aret ()))))"

definition sign_request_timeout :: "client \<Rightarrow> real \<Rightarrow> int" where
  "sign_request_timeout cl t =
     timeout_for cl (case cached_approval_wait cl t of
       Some wait \<Rightarrow> wait + SIGN_APPROVAL_SLACK | None \<Rightarrow> DEFAULT_SIGN_REQUEST_TIMEOUT)"

section \<open>The key inventory\<close>

fun hashable :: "pyval \<Rightarrow> bool" where
  "hashable (PList xs) = False"
| "hashable (PDict kvs) = False"
| "hashable (PData n fs) = False"
| "hashable v = True"

definition clear_key_cache :: "client \<Rightarrow> client" where
  "clear_key_cache cl = cl\<lparr>key_cache := [], key_cache_revision := PNone\<rparr>"

text \<open>One round of the loop over \<^verbatim>\<open>data["keys"]\<close>: parse, append, store under the address.\<close>

definition list_keys_step :: "nat \<Rightarrow> pyval \<Rightarrow> key_info list \<Rightarrow> ('w, key_info list) client_action" where
  "list_keys_step c k keys =
     abind (alift (parse_key_info k)) (\<lambda>info.
     araise_if (\<not> hashable (ki_address info))
       (Exc TypeError (''unhashable type: '' @ CHR 0x27 # type_name (ki_address info) @ [CHR 0x27]) []) (
     abind (update_client c (\<lambda>cl. cl\<lparr>key_cache := AList.update (ki_address info) info (key_cache cl)\<rparr>)) (\<lambda>_.
       aret (keys @ [info]))))"

definition list_keys :: "'w env \<Rightarrow> nat \<Rightarrow> bool \<Rightarrow> ('w, key_info list) client_action" where
  "list_keys E c refresh =
     abind (get_client c) (\<lambda>cl.
     if \<not> refresh \<and> key_cache cl \<noteq> [] then aret (map snd (key_cache cl)) else
     abind (acatch is_request_exception failed_to_connect
              (http E c ''GET'' ''/keys'' PNone (timeout_for cl INVENTORY_TIMEOUT))) (\<lambda>r.
     araise_if (rs_status r = 401) not_authenticated (
     if rs_status r \<noteq> 200 then
       alift (raise_built (signer_http_error r (''Failed to list keys: HTTP '' @ show_int (rs_status r)))) else
     abind (alift (resp_json r)) (\<lambda>data.
     abind (update_client c clear_key_cache) (\<lambda>_.
     abind (alift (rbind (py_get_or data ''keys'' (PList [])) py_iter)) (\<lambda>ks.
       afold (list_keys_step c) ks []))))))"

definition list_keys_if_keyset_changed :: "'w env \<Rightarrow> nat \<Rightarrow> ('w, key_info list) client_action" where
  "list_keys_if_keyset_changed E c =
     abind (get_status E c) (\<lambda>status.
     araise_if (truthy (sr_signer_locked status)) (Exc SignerUnavailableError ''signer is locked'' []) (
     abind (get_client c) (\<lambda>cl.
     if key_cache cl \<noteq> [] \<and> key_cache_revision cl \<noteq> PNone \<and> py_eq (key_cache_revision cl) (sr_keyset_revision status)
     then aret (map snd (key_cache cl)) else
     abind (list_keys E c True) (\<lambda>keys.
     abind (update_client c (\<lambda>cl. cl\<lparr>key_cache_revision := sr_keyset_revision status\<rparr>)) (\<lambda>_. aret keys)))))"

definition get_key_info :: "'w env \<Rightarrow> nat \<Rightarrow> string \<Rightarrow> ('w, key_info option) client_action" where
  "get_key_info E c address =
     abind (get_client c) (\<lambda>cl.
     abind (if map_of (key_cache cl) (PStr address) = None then abind (list_keys E c True) (\<lambda>_. aret ()) else aret ()) (\<lambda>_.
     abind (get_client c) (\<lambda>cl'. aret (map_of (key_cache cl') (PStr address)))))"

section \<open>Key administration\<close>

record generate_result =
  gr_address :: pyval
  gr_key_type :: pyval
  gr_public_key_hex :: pyval
  gr_is_witness_key :: pyval
  gr_is_spending_account :: pyval
  gr_parameters :: pyval

text \<open>\<open>parameters\<close>: \<open>PNone\<close> or a dictionary.\<close>

definition generate_key :: "'w env \<Rightarrow> nat \<Rightarrow> string \<Rightarrow> pyval \<Rightarrow> ('w, generate_result) client_action" where
  "generate_key E c key_type parameters =
     (let body = pobj ([(''key_type'', PStr key_type)] @ (if truthy parameters then [(''parameters'', parameters)] else [])) in
     abind (get_client c) (\<lambda>cl.
     abind (acatch is_request_exception failed_to_connect
              (http E c ''POST'' ''/admin/generate'' body (timeout_for cl MUTATION_TIMEOUT))) (\<lambda>r.
     araise_if (rs_status r = 401) not_authenticated (
     if rs_status r = 403 then alift (raise_built (forbidden_locked_error r)) else
     if rs_status r = 400 then alift (raise_built (signer_http_error r ''Bad request'')) else
     if rs_status r \<noteq> 200 then
       alift (raise_built (signer_http_error r (''Key generation failed: HTTP '' @ show_int (rs_status r)))) else
     abind (alift (resp_json r)) (\<lambda>data.
     abind (alift (check_error_field data)) (\<lambda>_.
     abind (update_client c clear_key_cache) (\<lambda>_.
     araise_if (\<not> phas data ''address'') (signer_error ''Key generation response missing address'') (
     araise_if (\<not> phas data ''key_type'') (signer_error ''Key generation response missing key_type'') (
       aret \<lparr>gr_address = pget data ''address'', gr_key_type = pget data ''key_type'',
             gr_public_key_hex = pget_or data ''public_key_hex'' (PStr []),
             gr_is_witness_key = pget_or data ''is_witness_key'' (PBool False),
             gr_is_spending_account = pget data ''is_spending_account'', gr_parameters = pget data ''parameters''\<rparr>)))))))))"

definition delete_key :: "'w env \<Rightarrow> nat \<Rightarrow> string \<Rightarrow> ('w, unit) client_action" where
  "delete_key E c address =
     abind (get_client c) (\<lambda>cl.
     abind (acatch is_request_exception failed_to_connect
              (http E c ''DELETE'' ''/admin/keys'' (pobj [(''address'', PStr address)]) (timeout_for cl MUTATION_TIMEOUT))) (\<lambda>r.
     araise_if (rs_status r = 401) not_authenticated (
     if rs_status r = 403 then alift (raise_built (forbidden_locked_error r)) else
     if rs_status r = 404 then
       abind (alift (error_message r (''Key not found: '' @ address))) (\<lambda>m. araise (Exc KeyDeletionError m [])) else
     if rs_status r \<noteq> 200 then
       alift (raise_built (signer_http_error r (''Key deletion failed: HTTP '' @ show_int (rs_status r)))) else
     abind (alift (check_error_field (safe_json r))) (\<lambda>_. update_client c clear_key_cache))))"

section \<open>Cancellation\<close>

record cancel_sign_response =
  cr_success :: pyval
  cr_state :: pyval
  cr_error :: pyval

definition cancel_sign_request :: "'w env \<Rightarrow> nat \<Rightarrow> string \<Rightarrow> ('w, cancel_sign_response) client_action" where
  "cancel_sign_request E c request_id =
     abind (alift (validate_sign_request_id request_id True)) (\<lambda>_.
     abind (get_client c) (\<lambda>cl.
     abind (acatch is_request_exception failed_to_connect
              (http E c ''POST'' ''/sign/cancel'' (pobj [(''request_id'', PStr request_id)]) (timeout_for cl SIGN_CANCEL_TIMEOUT))) (\<lambda>r.
     araise_if (rs_status r = 401) not_authenticated (
     if rs_status r \<noteq> 200 then
       alift (raise_built (signer_http_error r (''Sign cancel failed: HTTP '' @ show_int (rs_status r)))) else
     abind (alift (py_get_or (safe_json r) ''success'' (PBool False))) (\<lambda>success.
     let data = safe_json r; err = pget_or data ''error'' (PStr []) in
     araise_if (truthy err) (signer_error (py_str err))
       (aret \<lparr>cr_success = success, cr_state = pget_or data ''state'' (PStr []), cr_error = err\<rparr>))))))"

definition best_effort_cancel_sign_request :: "'w env \<Rightarrow> nat \<Rightarrow> string \<Rightarrow> ('w, unit) client_action" where
  "best_effort_cancel_sign_request E c request_id =
     acatch (\<lambda>_. True) (\<lambda>_. aret ()) (abind (cancel_sign_request E c request_id) (\<lambda>_. aret ()))"

end
