(* ===== verification/Client_Invariants.thy ===== *)
theory Client_Invariants
  imports Signer_Client
begin

text \<open>
  Properties of the client object: the invariant every method keeps, the timeouts it computes,
  the coherence of the key cache with the inventory it came from, and the requests each method
  may send.
\<close>

section \<open>The invariant\<close>

definition cache_ok :: "(pyval \<times> key_info) list \<Rightarrow> bool" where
  "cache_ok kc \<longleftrightarrow> distinct (map fst kc) \<and> (\<forall>(a, k) \<in> set kc. ki_address k = a \<and>
     (\<forall>b. ki_bounded_authorization k = Some b \<longrightarrow> 0 \<le> ba_max_fee b))"

definition client_ok :: "client \<Rightarrow> bool" where
  "client_ok cl \<longleftrightarrow>
     (\<forall>t. timeout cl = Some t \<longrightarrow> 0 < t) \<and>
     (\<forall>n. approval_wait_seconds cl = Some n \<longrightarrow> 0 < n \<and> n \<le> MAX_DISCOVERED_APPROVAL_WAIT) \<and>
     (approval_wait_known cl \<longleftrightarrow> approval_wait_fetched_at cl \<noteq> None) \<and>
     cache_ok (key_cache cl)"

lemma cache_ok_Nil [simp]: "cache_ok []"
  by (simp add: cache_ok_def)

lemma set_update_subset: "set (AList.update k v kc) \<subseteq> insert (k, v) (set kc)"
  by (induction kc) auto

lemma cache_ok_update:
  assumes "cache_ok kc" and "\<forall>b. ki_bounded_authorization i = Some b \<longrightarrow> 0 \<le> ba_max_fee b"
  shows "cache_ok (AList.update (ki_address i) i kc)"
proof -
  have "distinct (map fst (AList.update (ki_address i) i kc))"
    using assms(1) by (simp add: cache_ok_def distinct_update)
  moreover have "ki_address k = a \<and> (\<forall>b. ki_bounded_authorization k = Some b \<longrightarrow> 0 \<le> ba_max_fee b)"
    if "(a, k) \<in> set (AList.update (ki_address i) i kc)" for a k
    using that assms set_update_subset [of "ki_address i" i kc] unfolding cache_ok_def by blast
  ultimately show ?thesis by (auto simp: cache_ok_def)
qed

lemma client_ok_simps [simp]:
  "client_ok cl \<Longrightarrow> client_ok (clear_key_cache cl)"
  "client_ok (cl\<lparr>key_cache_revision := v\<rparr>) = client_ok cl"
  "client_ok (cl\<lparr>tunnel := b\<rparr>) = client_ok cl"
  by (auto simp: client_ok_def clear_key_cache_def)

lemma new_client_ok: "new_client url tmo tun = Inr cl \<Longrightarrow> client_ok cl"
  by (auto simp: new_client_def client_ok_def result_simps split: option.splits if_splits)

lemma client_ok_cache_wait:
  "client_ok cl \<Longrightarrow> client_ok (cl\<lparr>approval_wait_seconds := (if 0 < n \<and> n \<le> MAX_DISCOVERED_APPROVAL_WAIT then Some n else None),
     approval_wait_fetched_at := Some t, approval_wait_known := True\<rparr>)"
  by (simp add: client_ok_def)

lemma preserves_cache_approval_wait [preserves_intros]: "preserves client_ok (cache_approval_wait E c v)"
  unfolding cache_approval_wait_def by (intro preserves_intros client_ok_cache_wait)

text \<open>Storing a parsed entry: the address is its key and the contract's fee limit is not negative.\<close>

lemma preserves_list_keys_step [preserves_intros]: "preserves client_ok (list_keys_step c k keys)"
proof (cases "parse_key_info k")
  case (Inl e)
  then show ?thesis by (simp add: list_keys_step_def preserves_structure)
next
  case (Inr i)
  then have "\<forall>b. ki_bounded_authorization i = Some b \<longrightarrow> 0 \<le> ba_max_fee b"
    by (blast dest: parse_key_info_bounded_fee)
  then show ?thesis
    unfolding list_keys_step_def Inr abind_prim
    by (intro preserves_intros) (simp add: client_ok_def cache_ok_update)
qed

section \<open>Requests sent\<close>

definition to_path :: "nat \<Rightarrow> string set \<Rightarrow> event \<Rightarrow> bool" where
  "to_path c paths e \<longleftrightarrow> fst e = c \<and> rq_path (snd e) \<in> paths"

lemma issues_http [issues_intros]:
  "P (c, \<lparr>rq_method = meth, rq_path = path, rq_body = body, rq_timeout = tmo\<rparr>) \<Longrightarrow> issues P (http E c meth path body tmo)"
  unfolding http_def by (intro issues_intros)

lemma issues_failed [issues_intros]: "issues P (failed_to_connect e)"
  unfolding failed_to_connect_def by (intro issues_intros)

lemma issues_cache_approval_wait [issues_intros]: "issues P (cache_approval_wait E c v)"
  unfolding cache_approval_wait_def by (intro issues_intros)

lemma issues_get_status: "issues (to_path c {''/status''}) (get_status E c)"
  unfolding get_status_def by (intro issues_intros) (simp add: to_path_def)

lemma issues_discover: "issues (to_path c {''/status''}) (discover_approval_wait E c)"
  unfolding discover_approval_wait_def by (intro issues_intros issues_get_status)

lemma issues_list_keys_step [issues_intros]: "issues P (list_keys_step c k keys)"
  unfolding list_keys_step_def by (intro issues_intros)

lemma issues_list_keys: "issues (to_path c {''/keys''}) (list_keys E c refresh)"
  unfolding list_keys_def by (intro issues_intros) (simp add: to_path_def)

lemma issues_cancel: "issues (to_path c {''/sign/cancel''}) (cancel_sign_request E c rid)"
  unfolding cancel_sign_request_def Let_def by (intro issues_intros) (simp add: to_path_def)

lemma issues_best_effort_cancel: "issues (to_path c {''/sign/cancel''}) (best_effort_cancel_sign_request E c rid)"
  unfolding best_effort_cancel_sign_request_def by (intro issues_intros issues_cancel)

lemma issues_get_key_info: "issues (to_path c {''/keys''}) (get_key_info E c a)"
  unfolding get_key_info_def by (intro issues_intros issues_list_keys)

subsection \<open>Exact traces\<close>

abbreviation mk_request :: "string \<Rightarrow> string \<Rightarrow> pyval \<Rightarrow> int \<Rightarrow> http_request" where
  "mk_request meth path body tmo \<equiv> \<lparr>rq_method = meth, rq_path = path, rq_body = body, rq_timeout = tmo\<rparr>"

lemma http_run:
  "http E c meth path body tmo s =
     (case env_send E c (mk_request meth path body tmo) (st_world s) of (out, w) \<Rightarrow>
        (case out of TransportFailure m \<Rightarrow> Inl (Exc RequestException m []) | HttpReply r \<Rightarrow> Inr r,
         s\<lparr>st_world := w, st_trace := st_trace s @ [(c, mk_request meth path body tmo)]\<rparr>))"
  by (simp add: http_def abind_def send_def aret_def araise_def split: prod.splits http_outcome.splits)

lemma exchange_trace:
  "st_trace (snd (acatch is_request_exception failed_to_connect (http E c meth path body tmo) s)) =
     st_trace s @ [(c, mk_request meth path body tmo)]"
  by (subst trace_catch_silent) (auto intro: issues_intros simp: http_run split: prod.splits)

lemma get_status_trace:
  "st_trace (snd (get_status E c s)) =
     st_trace s @ [(c, mk_request ''GET'' ''/status'' PNone (timeout_for (st_clients s c) STATUS_TIMEOUT))]"
  unfolding get_status_def
  by (simp add: action_simps) (subst trace_bind_silent, (intro issues_intros), rule exchange_trace)

lemma discover_trace:
  "\<exists>es. st_trace (snd (discover_approval_wait E c s)) = st_trace s @ map (Pair c) es \<and> map rq_path es \<in> {[], [''/status'']}"
proof (cases "needs_approval_wait_discovery (st_clients s c) (env_now E (st_world s))")
  case True
  have "st_trace (snd (discover_approval_wait E c s)) = st_trace (snd (get_status E c s))"
    using True by (simp add: discover_approval_wait_def action_simps)
      (subst trace_catch_silent, (intro issues_intros), subst trace_bind_silent, (intro issues_intros), simp)
  then show ?thesis
    by (intro exI [of _ "[mk_request ''GET'' ''/status'' PNone (timeout_for (st_clients s c) STATUS_TIMEOUT)]"])
      (simp add: get_status_trace)
next
  case False
  then show ?thesis by (intro exI [of _ "[]"]) (simp add: discover_approval_wait_def action_simps)
qed

lemma cancel_trace:
  assumes "request_id_ok rid" and "rid \<noteq> []"
  shows "st_trace (snd (best_effort_cancel_sign_request E c rid s)) = st_trace s @
     [(c, mk_request ''POST'' ''/sign/cancel'' (pobj [(''request_id'', PStr rid)]) (timeout_for (st_clients s c) SIGN_CANCEL_TIMEOUT))]"
proof -
  have "validate_sign_request_id rid True = Inr ()" using assms by (simp add: result_simps)
  then have "st_trace (snd (cancel_sign_request E c rid s)) = st_trace s @
     [(c, mk_request ''POST'' ''/sign/cancel'' (pobj [(''request_id'', PStr rid)]) (timeout_for (st_clients s c) SIGN_CANCEL_TIMEOUT))]"
    unfolding cancel_sign_request_def Let_def
    by (simp add: action_simps) (subst trace_bind_silent, (intro issues_intros), rule exchange_trace)
  then show ?thesis
    unfolding best_effort_cancel_sign_request_def
    by (subst trace_catch_silent, intro issues_intros) (subst trace_bind_silent, intro issues_intros)
qed

section \<open>The inventory loop\<close>

definition keys_map :: "key_info list \<Rightarrow> pyval \<Rightarrow> key_info option" where
  "keys_map keys = map_of (rev (map (\<lambda>k. (ki_address k, k)) keys))"

lemma list_keys_step_run:
  "list_keys_step c k keys s = (Inr keys', t) \<longleftrightarrow>
     (\<exists>i. parse_key_info k = Inr i \<and> hashable (ki_address i) \<and> keys' = keys @ [i] \<and>
        t = s\<lparr>st_clients := (st_clients s)(c := (st_clients s c)
               \<lparr>key_cache := AList.update (ki_address i) i (key_cache (st_clients s c))\<rparr>)\<rparr>)"
  by (auto simp: list_keys_step_def result_simps)

lemma keys_map_snoc: "keys_map (keys @ [i]) = (keys_map keys)(ki_address i \<mapsto> i)"
  by (auto simp: keys_map_def)

lemma afold_list_keys:
  assumes "afold (list_keys_step c) ks acc s = (Inr keys, t)"
    and "map_of (key_cache (st_clients s c)) = keys_map acc"
  shows "map_of (key_cache (st_clients t c)) = keys_map keys \<and> rmap parse_key_info ks = Inr (drop (length acc) keys) \<and>
     length acc \<le> length keys \<and> take (length acc) keys = acc \<and>
     key_cache_revision (st_clients t c) = key_cache_revision (st_clients s c) \<and> st_trace t = st_trace s"
  using assms
proof (induction ks arbitrary: acc s)
  case Nil
  then show ?case by (auto simp: result_simps)
next
  case (Cons k ks)
  then obtain i s' where i: "parse_key_info k = Inr i" and rest: "afold (list_keys_step c) ks (acc @ [i]) s' = (Inr keys, t)"
    and s': "s' = s\<lparr>st_clients := (st_clients s)(c := (st_clients s c)
               \<lparr>key_cache := AList.update (ki_address i) i (key_cache (st_clients s c))\<rparr>)\<rparr>"
    by (auto simp: result_simps list_keys_step_run)
  have "map_of (key_cache (st_clients s' c)) = keys_map (acc @ [i])"
    using Cons.prems(2) by (simp add: s' update_conv' keys_map_snoc)
  from Cons.IH [OF rest this] have IH: "map_of (key_cache (st_clients t c)) = keys_map keys"
    "rmap parse_key_info ks = Inr (drop (length (acc @ [i])) keys)" "length (acc @ [i]) \<le> length keys"
    "take (length (acc @ [i])) keys = acc @ [i]"
    "key_cache_revision (st_clients t c) = key_cache_revision (st_clients s' c)" "st_trace t = st_trace s'"
    by auto
  have len: "length acc < length keys" using IH(3) by simp
  have nth: "keys ! length acc = i" "take (length acc) keys = acc"
    using IH(4) len by (simp_all add: take_Suc_conv_app_nth)
  have "drop (length acc) keys = i # drop (length (acc @ [i])) keys"
    using len nth(1) by (metis Cons_nth_drop_Suc length_append_singleton)
  then show ?case using IH i len nth by (simp add: s')
qed

lemma exchange_Inr [result_simps]:
  "acatch is_request_exception failed_to_connect (http E c meth path body tmo) s = (Inr r, t) \<longleftrightarrow>
     (\<exists>w. env_send E c \<lparr>rq_method = meth, rq_path = path, rq_body = body, rq_timeout = tmo\<rparr> (st_world s) = (HttpReply r, w) \<and>
        t = s\<lparr>st_world := w, st_trace := st_trace s @ [(c, \<lparr>rq_method = meth, rq_path = path, rq_body = body, rq_timeout = tmo\<rparr>)]\<rparr>)"
  by (auto simp: acatch_Inr http_def abind_def send_def aret_def araise_def failed_to_connect_def is_request_exception_def
      split: prod.splits http_outcome.splits sum.splits)

lemma list_keys_refresh_run:
  assumes "list_keys E c True s = (Inr keys, t)"
  shows "map_of (key_cache (st_clients t c)) = keys_map keys \<and> key_cache_revision (st_clients t c) = PNone \<and>
     (\<exists>e. st_trace t = st_trace s @ [(c, e)] \<and> rq_path e = ''/keys'' \<and> rq_method e = ''GET'')"
proof -
  from assms obtain ks s1 e where "afold (list_keys_step c) ks [] s1 = (Inr keys, t)"
    and "key_cache (st_clients s1 c) = []" "key_cache_revision (st_clients s1 c) = PNone"
    and "st_trace s1 = st_trace s @ [(c, e)]" "rq_path e = ''/keys''" "rq_method e = ''GET''"
    by (fastforce simp: list_keys_def result_simps clear_key_cache_def araise_if_def araise_def split: if_splits)
  then show ?thesis using afold_list_keys [of c ks "[]" s1 keys t] by (auto simp: keys_map_def)
qed

lemma cache_approval_wait_run:
  assumes "cache_approval_wait E c v s = (Inr u, t)"
  shows "key_cache (st_clients t c) = key_cache (st_clients s c) \<and>
     key_cache_revision (st_clients t c) = key_cache_revision (st_clients s c) \<and> st_trace t = st_trace s"
  using assms by (auto simp: cache_approval_wait_def result_simps split: option.splits)

lemma get_status_run:
  assumes "get_status E c s = (Inr st, t)"
  shows "key_cache (st_clients t c) = key_cache (st_clients s c) \<and>
     key_cache_revision (st_clients t c) = key_cache_revision (st_clients s c) \<and>
     (\<exists>e. st_trace t = st_trace s @ [(c, e)] \<and> rq_path e = ''/status'')"
proof -
  from assms obtain v s1 e where "cache_approval_wait E c v s1 = (Inr (), t)"
    and "st_clients s1 = st_clients s" "st_trace s1 = st_trace s @ [(c, e)]" "rq_path e = ''/status''"
    by (fastforce simp: get_status_def result_simps araise_if_def araise_def split: if_splits)
  then show ?thesis using cache_approval_wait_run [of E c v s1 "()" t] by auto
qed

section \<open>Properties\<close>


definition sample_client :: client where
  "sample_client = \<lparr>base_url = ''http://127.0.0.1:11270'', timeout = None, tunnel = False, key_cache = [],
     key_cache_revision = PNone, approval_wait_seconds = Some 60, approval_wait_fetched_at = Some 0, approval_wait_known = True\<rparr>"

definition sample_inventory_env :: "unit env" where
  "sample_inventory_env = scripted_env
     [(''/status'', ok_reply (pobj [(''keyset_revision'', PInt 7)])),
      (''/keys'', ok_reply (pobj [(''keys'', PList [pobj [(''address'', PStr ''A''), (''key_type'', PStr ''ed25519'')]])]))]"

lemma sample_inventory_run:
  "\<exists>keys t. list_keys_if_keyset_changed sample_inventory_env 0 (initial_state sample_client) = (Inr keys, t) \<and>
     map ki_address keys = [PStr ''A'']"
proof -
  have "(case list_keys_if_keyset_changed sample_inventory_env 0 (initial_state sample_client) of
     (Inr keys, t) \<Rightarrow> map ki_address keys = [PStr ''A''] | _ \<Rightarrow> False)"
    by code_simp
  then show ?thesis by (auto split: prod.splits sum.splits)
qed


text \<open>
  The timeout of a signing request is positive, never above the largest approval wait the
  client honours plus its slack, and never above a timeout the caller configured.
\<close>

theorem sign_request_timeout_bounds:
  assumes "client_ok cl"
  shows "0 < sign_request_timeout cl t \<and>
     sign_request_timeout cl t \<le> MAX_DISCOVERED_APPROVAL_WAIT + SIGN_APPROVAL_SLACK \<and>
     (case timeout cl of Some u \<Rightarrow> sign_request_timeout cl t \<le> u | None \<Rightarrow> True)"
  using assms
  by (auto simp: client_ok_def sign_request_timeout_def timeout_for_def cached_approval_wait_def timeout_defs
      split: option.splits)

theorem sign_request_timeout_bounds_witness:
  "sign_request_timeout sample_client 10 = 90 \<and> sign_request_timeout sample_client 10 \<le> 1830"
proof -
  have "client_ok sample_client" by (simp add: client_ok_def sample_client_def timeout_defs)
  from sign_request_timeout_bounds [OF this, of 10] show ?thesis
    by (simp add: sign_request_timeout_def timeout_for_def cached_approval_wait_def sample_client_def timeout_defs)
qed

definition broken_inventory_env :: "unit env" where
  "broken_inventory_env = scripted_env
     [(''/keys'', ok_reply (pobj [(''keys'', PList [pobj [(''address'', PStr ''A''), (''key_type'', PStr ''ed25519'')], pobj [(''address'', PStr ''B'')]])]))]"


end
