(* ===== verification/Index_Claims.thy ===== *)
theory Index_Claims
  imports Py_Prelude
begin

text \<open>
  Several validators walk over lists of payload items and record the group position each item
  claims in a set, refusing positions that are out of range or already claimed. The contract of
  one round of such a loop is a locale; its lemmas say what a whole loop, and two loops in a row
  over the same set, guarantee.
\<close>

locale index_claims =
  fixes claim :: "'x \<Rightarrow> int set \<Rightarrow> int set result"
    and idx :: "'x \<Rightarrow> int option"
    and admissible :: "int \<Rightarrow> bool"
  assumes claim_fresh:
    "claim x S = Inr T \<Longrightarrow> \<exists>i. idx x = Some i \<and> admissible i \<and> i \<notin> S \<and> T = insert i S"
begin

lemma claims_distinct:
  "rfold claim xs S = Inr T \<Longrightarrow>
     \<exists>is. map idx xs = map Some is \<and> distinct is \<and> (\<forall>i \<in> set is. admissible i) \<and>
          set is \<inter> S = {} \<and> T = S \<union> set is"
proof (induction xs arbitrary: S)
  case Nil
  then show ?case by simp
next
  case (Cons x xs)
  then obtain S' where step: "claim x S = Inr S'" and rest: "rfold claim xs S' = Inr T"
    by (auto simp: result_simps)
  from claim_fresh [OF step] obtain i where
    i: "idx x = Some i" "admissible i" "i \<notin> S" "S' = insert i S" by blast
  from Cons.IH [OF rest] obtain "is" where
    "map idx xs = map Some is" "distinct is" "\<forall>i \<in> set is. admissible i" "set is \<inter> S' = {}" "T = S' \<union> set is"
    by blast
  with i show ?case by (intro exI [of _ "i # is"]) auto
qed

lemma claims_card:
  assumes "rfold claim xs S = Inr T" and "finite S"
  shows "finite T \<and> card T = card S + length xs"
proof -
  from claims_distinct [OF assms(1)] obtain "is" where
    "map idx xs = map Some is" "distinct is" "set is \<inter> S = {}" "T = S \<union> set is" by blast
  moreover from \<open>map idx xs = map Some is\<close> have "length xs = length is"
    by (metis length_map)
  ultimately show ?thesis using assms(2) by (simp add: card_Un_disjoint Int_commute distinct_card)
qed

end

text \<open>
  Two claiming loops over one set, the second starting from what the first recorded: together
  they claim pairwise different positions.
\<close>

locale index_claims_pair =
  first: index_claims claim1 idx1 admissible + second: index_claims claim2 idx2 admissible
  for claim1 :: "'x \<Rightarrow> int set \<Rightarrow> int set result" and idx1
    and claim2 :: "'y \<Rightarrow> int set \<Rightarrow> int set result" and idx2 and admissible
begin

lemma pair_distinct:
  assumes "rfold claim1 xs {} = Inr S" and "rfold claim2 ys S = Inr T"
  shows "\<exists>is js. map idx1 xs = map Some is \<and> map idx2 ys = map Some js \<and> distinct (is @ js) \<and>
     (\<forall>i \<in> set (is @ js). admissible i) \<and> T = set (is @ js)"
proof -
  from first.claims_distinct [OF assms(1)] obtain "is" where
    1: "map idx1 xs = map Some is" "distinct is" "\<forall>i \<in> set is. admissible i" "S = set is" by auto
  from second.claims_distinct [OF assms(2)] obtain js where
    2: "map idx2 ys = map Some js" "distinct js" "\<forall>i \<in> set js. admissible i" "set js \<inter> S = {}" "T = S \<union> set js"
    by blast
  show ?thesis
    by (rule exI [of _ "is"], rule exI [of _ js]) (use 1 2 in auto)
qed

text \<open>If afterwards every position below \<open>n\<close> is claimed, the claims are a partition of the positions.\<close>

lemma pair_partition:
  assumes "rfold claim1 xs {} = Inr S" and "rfold claim2 ys S = Inr T"
    and "\<And>i. admissible i \<longleftrightarrow> 0 \<le> i \<and> i < int n"
    and "\<forall>i \<in> set [0 ..< n]. int i \<in> T"
  shows "\<exists>is js. map idx1 xs = map Some is \<and> map idx2 ys = map Some js \<and> distinct (is @ js) \<and>
     set (is @ js) = {0 ..< int n}"
proof -
  from pair_distinct [OF assms(1,2)] obtain "is" js where
    *: "map idx1 xs = map Some is" "map idx2 ys = map Some js" "distinct (is @ js)"
       "\<forall>i \<in> set (is @ js). admissible i" "T = set (is @ js)" by blast
  have "{0 ..< int n} \<subseteq> T"
  proof
    fix i :: int
    assume "i \<in> {0 ..< int n}"
    then have "nat i \<in> set [0 ..< n]" "int (nat i) = i" by auto
    with assms(4) show "i \<in> T" by metis
  qed
  with * assms(3) have "set (is @ js) = {0 ..< int n}" by auto
  with * show ?thesis by blast
qed

end

text \<open>\<^verbatim>\<open>for index in range(n): if index not in covered: raise\<close>\<close>

fun check_covered :: "(nat \<Rightarrow> exc) \<Rightarrow> int set \<Rightarrow> nat list \<Rightarrow> unit result" where
  "check_covered ex covered [] = Inr ()"
| "check_covered ex covered (i # is) = raise_if (int i \<notin> covered) (ex i) (check_covered ex covered is)"

lemma check_covered_Inr [result_simps]: "check_covered ex covered is = Inr u \<longleftrightarrow> (\<forall>i \<in> set is. int i \<in> covered)"
  by (induction "is") (auto simp: result_simps)

end
