(* ===== verification/Component_Protocol.thy ===== *)
theory Component_Protocol
  imports Wire_Requests Index_Claims
begin

text \<open>
  The frozen-group protocol: what the client checks of a request to \<^verbatim>\<open>/sign/component\<close> and
  \<^verbatim>\<open>/sign/assemble\<close> before it is sent, and of their replies before they are used.

  Where a first \<^verbatim>\<open>get\<close> on an item has succeeded the item is a dictionary, so later reads of
  the same item use the total accessors \<open>pget\<close> and \<open>phas\<close>.
\<close>

section \<open>Shared checks\<close>

definition MAX_COMPONENT_GROUP_SIZE :: int where
  "MAX_COMPONENT_GROUP_SIZE = 16"

definition COMPONENT_TARGET_KIND_USER :: string where
  "COMPONENT_TARGET_KIND_USER = ''user''"

definition COMPONENT_TARGET_KIND_COSIGNER :: string where
  "COMPONENT_TARGET_KIND_COSIGNER = ''cosigner''"

definition COMPONENT_TARGET_KIND_BOUNDED_BASE :: string where
  "COMPONENT_TARGET_KIND_BOUNDED_BASE = ''bounded-base''"

definition ASSEMBLY_TARGET_KIND_GUARDED :: string where
  "ASSEMBLY_TARGET_KIND_GUARDED = ''guarded''"

definition ASSEMBLY_TARGET_KIND_BOUNDED_COSIGNER :: string where
  "ASSEMBLY_TARGET_KIND_BOUNDED_COSIGNER = ''bounded-cosigner''"

lemmas target_kinds = COMPONENT_TARGET_KIND_USER_def COMPONENT_TARGET_KIND_COSIGNER_def
  COMPONENT_TARGET_KIND_BOUNDED_BASE_def ASSEMBLY_TARGET_KIND_GUARDED_def
  ASSEMBLY_TARGET_KIND_BOUNDED_COSIGNER_def

fun check_nonempty_items :: "(nat \<Rightarrow> exc) \<Rightarrow> (nat \<times> pyval) list \<Rightarrow> unit result" where
  "check_nonempty_items ex [] = Inr ()"
| "check_nonempty_items ex ((index, item) # rest) = raise_if (\<not> truthy item) (ex index) (check_nonempty_items ex rest)"

definition validate_component_group_bytes :: "pyval \<Rightarrow> unit result" where
  "validate_component_group_bytes items =
     raise_if (\<not> truthy items) (value_error ''group_bytes_hex is empty'') (
     rbind (py_len items) (\<lambda>n.
     raise_if (MAX_COMPONENT_GROUP_SIZE < n)
       (value_error (''group_bytes_hex length '' @ show_int n @ '' exceeds max '' @ show_int MAX_COMPONENT_GROUP_SIZE)) (
     rbind (py_iter items) (\<lambda>xs.
       check_nonempty_items (\<lambda>index. value_error (''group_bytes_hex '' @ show_nat index @ '' is empty''))
         (List.enumerate 0 xs)))))"

definition validate_assembly_index :: "pyval \<Rightarrow> int \<Rightarrow> int set \<Rightarrow> int set result" where
  "validate_assembly_index index group_len covered =
     (case as_int index of
        None \<Rightarrow> Inl (value_error (''target_index '' @ py_str index @ '' out of range''))
      | Some i \<Rightarrow>
          raise_if (i < 0 \<or> group_len \<le> i) (value_error (''target_index '' @ py_str index @ '' out of range'')) (
          raise_if (i \<in> covered) (value_error (''duplicate target_index '' @ py_str index))
            (Inr (insert i covered))))"

text \<open>\<^verbatim>\<open>_validate_sign_request_id(str(v.get(k, "")))\<close>\<close>

definition validate_id_field :: "pyval \<Rightarrow> string \<Rightarrow> unit result" where
  "validate_id_field v k = rbind (py_get_or v k (PStr [])) (\<lambda>x. validate_sign_request_id (py_str x) False)"

lemma check_nonempty_items_Inr:
  "check_nonempty_items ex (List.enumerate k xs) = Inr u \<longleftrightarrow> (\<forall>x \<in> set xs. truthy x)"
  by (induction xs arbitrary: k) (auto simp: result_simps)

lemma validate_component_group_bytes_Inr [result_simps]:
  "validate_component_group_bytes v = Inr u \<longleftrightarrow>
     (\<exists>xs. py_iter v = Inr xs \<and> 0 < length xs \<and> length xs \<le> 16 \<and> (\<forall>x \<in> set xs. truthy x))"
  by (auto simp: validate_component_group_bytes_def result_simps check_nonempty_items_Inr
      MAX_COMPONENT_GROUP_SIZE_def not_less dest: py_iter_truthy)

lemma validate_assembly_index_Inr [result_simps]:
  "validate_assembly_index v n S = Inr T \<longleftrightarrow>
     (\<exists>i. as_int v = Some i \<and> 0 \<le> i \<and> i < n \<and> i \<notin> S \<and> T = insert i S)"
  by (auto simp: validate_assembly_index_def result_simps split: option.splits)

text \<open>The position an item of a payload claims.\<close>

definition item_index :: "pyval \<Rightarrow> int option" where
  "item_index v = as_int (pget v ''target_index'')"

section \<open>Assembly requests\<close>

definition target_error :: "string \<Rightarrow> nat \<Rightarrow> string \<Rightarrow> exc" where
  "target_error what i m = value_error (what @ '' '' @ show_nat i @ m)"

definition check_guarded_material :: "nat \<Rightarrow> pyval \<Rightarrow> unit result" where
  "check_guarded_material i target =
     raise_if (\<not> phas target ''user_signature'')
       (target_error ''target'' i '': user_signature is required for guarded target'') (
     raise_if (phas target ''base_signatures'' \<or> phas target ''bounded_runtime_args'' \<or>
               phas target ''assembly_receipt'' \<or> phas target ''base_source_request_id'')
       (target_error ''target'' i '': bounded authorization material is forbidden for guarded target'')
     (validate_id_field target ''user_source_request_id''))"

definition check_bounded_cosigner_material :: "nat \<Rightarrow> pyval \<Rightarrow> unit result" where
  "check_bounded_cosigner_material i target =
     raise_if (\<not> phas target ''base_signatures'' \<or> \<not> phas target ''assembly_receipt'')
       (target_error ''target'' i '': base_signatures and assembly_receipt are required for bounded-cosigner target'') (
     raise_if (phas target ''user_signature'' \<or> phas target ''user_source_request_id'' \<or> phas target ''guarded_runtime_args'')
       (target_error ''target'' i '': guarded authorization material is forbidden for bounded-cosigner target'')
     (validate_id_field target ''base_source_request_id''))"

definition assembly_target_step :: "int \<Rightarrow> nat \<times> pyval \<Rightarrow> int set \<Rightarrow> int set result" where
  "assembly_target_step n it covered =
     (let i = fst it; target = snd it in
      rbind (py_get target ''target_index'') (\<lambda>ti.
      rbind (validate_assembly_index ti n covered) (\<lambda>covered'.
      raise_if (\<not> phas target ''auth_address'' \<or> \<not> phas target ''cosigner_signature'')
        (target_error ''target'' i '': auth_address and cosigner_signature are required'') (
      rbind
        (if py_eq (pget target ''kind'') (PStr ASSEMBLY_TARGET_KIND_GUARDED) then check_guarded_material i target
         else if py_eq (pget target ''kind'') (PStr ASSEMBLY_TARGET_KIND_BOUNDED_COSIGNER) then
           check_bounded_cosigner_material i target
         else Inl (target_error ''target'' i '': invalid kind'')) (\<lambda>_.
      rbind (validate_id_field target ''cosigner_source_request_id'') (\<lambda>_. Inr covered'))))))"

definition assembly_passthrough_step :: "int \<Rightarrow> nat \<times> pyval \<Rightarrow> int set \<Rightarrow> int set result" where
  "assembly_passthrough_step n it covered =
     (let i = fst it; item = snd it in
      rbind (py_get item ''target_index'') (\<lambda>ti.
      rbind (validate_assembly_index ti n covered) (\<lambda>covered'.
      raise_if (\<not> phas item ''signed_txn_hex'') (target_error ''passthrough'' i '': signed_txn_hex is required'')
        (Inr covered'))))"

definition validate_assembly_request :: "pyval \<Rightarrow> unit result" where
  "validate_assembly_request data =
     rbind (validate_id_field data ''request_id'') (\<lambda>_.
     let group_bytes_hex = py_or (pget data ''group_bytes_hex'') (PList []);
         targets = py_or (pget data ''targets'') (PList []);
         passthrough = py_or (pget data ''passthrough'') (PList []) in
     rbind (validate_component_group_bytes group_bytes_hex) (\<lambda>_.
     raise_if (\<not> truthy targets \<and> \<not> truthy passthrough) (value_error ''targets or passthrough is required'') (
     rbind (py_len group_bytes_hex) (\<lambda>n.
     rbind (py_iter targets) (\<lambda>ts.
     rbind (rfold (assembly_target_step n) (List.enumerate 1 ts) {}) (\<lambda>covered.
     rbind (py_iter passthrough) (\<lambda>ps.
     rbind (rfold (assembly_passthrough_step n) (List.enumerate 1 ps) covered) (\<lambda>covered'.
       check_covered (\<lambda>index. value_error (''group position '' @ show_nat index @ '' is not covered by targets or passthrough''))
         covered' [0 ..< nat n]))))))))"

definition validate_assembly_response :: "pyval \<Rightarrow> unit result" where
  "validate_assembly_response data =
     rbind (py_get_or data ''request_id'' (PStr [])) (\<lambda>request_id.
     raise_if (\<not> truthy request_id) (value_error ''request_id is required'') (
     rbind (validate_sign_request_id (py_str request_id) False) (\<lambda>_.
     let signed_group = py_or (pget data ''signed_group'') (PList []) in
     raise_if (\<not> truthy signed_group) (value_error ''signed_group is empty'') (
     rbind (py_iter signed_group) (\<lambda>xs.
       check_nonempty_items (\<lambda>index. value_error (''signed_group '' @ show_nat index @ '' is empty''))
         (List.enumerate 0 xs))))))"

definition bounded_assembly_to_unified :: "pyval \<Rightarrow> pyval result" where
  "bounded_assembly_to_unified data =
     rbind (py_get data ''targets'') (\<lambda>tv.
     rbind (py_iter (py_or tv (PList []))) (\<lambda>ts.
     rbind (rmap (\<lambda>target. rbind (py_get target ''target_index'') (\<lambda>ti. Inr (pobj
         [(''target_index'', ti),
          (''kind'', PStr ASSEMBLY_TARGET_KIND_BOUNDED_COSIGNER),
          (''auth_address'', pget_or target ''bounded_account'' (PStr [])),
          (''base_signatures'', pget target ''base_signatures''),
          (''bounded_runtime_args'', pget target ''runtime_args''),
          (''assembly_receipt'', pget_or target ''assembly_receipt'' (PStr [])),
          (''base_source_request_id'', pget_or target ''base_source_request_id'' (PStr [])),
          (''cosigner_signature'', pget_or target ''cosigner_signature'' (PStr [])),
          (''cosigner_source_request_id'', pget_or target ''cosigner_source_request_id'' (PStr []))]))) ts) (\<lambda>us.
       Inr (py_set_item ''targets'' (PList us) data))))"

definition validate_bounded_assembly_request :: "pyval \<Rightarrow> unit result" where
  "validate_bounded_assembly_request data = rbind (bounded_assembly_to_unified data) validate_assembly_request"

subsection \<open>Claims of an assembly request\<close>

lemma assembly_target_step_fresh:
  "assembly_target_step n it S = Inr T \<Longrightarrow>
     \<exists>i. item_index (snd it) = Some i \<and> (0 \<le> i \<and> i < n) \<and> i \<notin> S \<and> T = insert i S"
  by (auto simp: assembly_target_step_def Let_def result_simps item_index_def)

lemma assembly_passthrough_step_fresh:
  "assembly_passthrough_step n it S = Inr T \<Longrightarrow>
     \<exists>i. item_index (snd it) = Some i \<and> (0 \<le> i \<and> i < n) \<and> i \<notin> S \<and> T = insert i S"
  by (auto simp: assembly_passthrough_step_def Let_def result_simps item_index_def)

interpretation assembly: index_claims_pair "assembly_target_step n" "item_index \<circ> snd"
  "assembly_passthrough_step n" "item_index \<circ> snd" "\<lambda>i. 0 \<le> i \<and> i < n" for n
  by unfold_locales (auto dest!: assembly_target_step_fresh assembly_passthrough_step_fresh)

text \<open>The list a payload holds under a key, empty when absent or falsy.\<close>

definition payload_list :: "pyval \<Rightarrow> string \<Rightarrow> pyval list result" where
  "payload_list data k = py_iter (py_or (pget data k) (PList []))"

lemma map_snd_enumerate_comp: "map (f \<circ> snd) (List.enumerate k xs) = map f xs"
  by (metis list.map_comp map_snd_enumerate)

lemma payload_list_len: "payload_list data k = Inr xs \<Longrightarrow> py_len (py_or (pget data k) (PList [])) = Inr (int (length xs))"
  by (simp add: payload_list_def py_iter_len)

lemma validate_assembly_request_claims:
  assumes "validate_assembly_request data = Inr ()"
  shows "\<exists>gs ts ps S T. payload_list data ''group_bytes_hex'' = Inr gs \<and> payload_list data ''targets'' = Inr ts \<and>
     payload_list data ''passthrough'' = Inr ps \<and> 0 < length gs \<and> length gs \<le> 16 \<and> (\<forall>g \<in> set gs. truthy g) \<and>
     rfold (assembly_target_step (int (length gs))) (List.enumerate 1 ts) {} = Inr S \<and>
     rfold (assembly_passthrough_step (int (length gs))) (List.enumerate 1 ps) S = Inr T \<and>
     (\<forall>i \<in> set [0 ..< length gs]. int i \<in> T)"
  using assms unfolding validate_assembly_request_def Let_def
  by (auto simp: result_simps payload_list_def)


section \<open>Component requests\<close>

definition claim_index :: "int \<Rightarrow> exc \<Rightarrow> pyval \<Rightarrow> int set \<Rightarrow> int set result" where
  "claim_index n ex v covered =
     (case as_int v of None \<Rightarrow> Inl ex
      | Some i \<Rightarrow> raise_if (i < 0 \<or> n \<le> i \<or> i \<in> covered) ex (Inr (insert i covered)))"

definition bounded_target_step :: "int \<Rightarrow> nat \<times> pyval \<Rightarrow> int set \<Rightarrow> int set result" where
  "bounded_target_step n it covered =
     (let index = fst it; target = snd it in
      rbind (py_get target ''target_index'') (\<lambda>ti.
      rbind (claim_index n (target_error ''target'' index '' has invalid, duplicate, or overlapping target_index'') ti covered) (\<lambda>covered'.
      raise_if (\<not> phas target ''auth_address'') (target_error ''target'' index '': auth_address is required'') (Inr covered'))))"

definition context_step :: "int \<Rightarrow> nat \<times> pyval \<Rightarrow> int set \<Rightarrow> int set result" where
  "context_step n it covered =
     (let index = fst it; position = snd it in
      rbind (py_get position ''target_index'') (\<lambda>ti.
      rbind (claim_index n (target_error ''contextual position'' index '' has invalid, duplicate, or overlapping target_index'') ti covered) (\<lambda>covered'.
      let resources = pget position ''lsig_resources''; pq_scheme = pget_or position ''pq_scheme'' (PStr []) in
      raise_if (resources \<noteq> PNone \<and> truthy pq_scheme)
        (target_error ''contextual position'' index '' cannot specify both lsig_resources and pq_scheme'') (
      rbind (if resources \<noteq> PNone
             then rbind (require_lsig_resources resources (''contextual position '' @ show_nat index)) (\<lambda>_. Inr ())
             else Inr ()) (\<lambda>_.
      raise_if (truthy pq_scheme \<and> \<not> py_eq pq_scheme (PStr PQ_SCHEME_FALCON1024))
        (target_error ''contextual position'' index ('' has unsupported pq_scheme '' @ py_repr pq_scheme))
        (Inr covered'))))))"

fun check_dummy_suffix :: "int \<Rightarrow> (nat \<times> pyval) list \<Rightarrow> unit result" where
  "check_dummy_suffix original_count [] = Inr ()"
| "check_dummy_suffix original_count ((offset, dummy) # rest) =
     rbind (py_get dummy ''target_index'') (\<lambda>ti.
       raise_if (\<not> py_eq ti (PInt (original_count + int offset)))
         (target_error ''dummy position'' (offset + 1) '' is not in the contiguous suffix'')
         (check_dummy_suffix original_count rest))"

definition validate_bounded_component_request :: "pyval \<Rightarrow> unit result" where
  "validate_bounded_component_request data =
     rbind (validate_id_field data ''request_id'') (\<lambda>_.
     let grp = py_or (pget data ''group_bytes_hex'') (PList []);
         targets = py_or (pget data ''targets'') (PList []);
         context = py_or (pget data ''contextual_positions'') (PList []);
         dummies = py_or (pget data ''dummy_positions'') (PList []) in
     rbind (validate_component_group_bytes grp) (\<lambda>_.
     raise_if (\<not> truthy targets) (value_error ''targets are required and dummy_positions cannot exceed group length'') (
     rbind (py_len dummies) (\<lambda>d.
     rbind (py_len grp) (\<lambda>g.
     raise_if (g < d) (value_error ''targets are required and dummy_positions cannot exceed group length'') (
     let original_count = g - d in
     rbind (py_iter targets) (\<lambda>ts.
     rbind (rfold (bounded_target_step original_count) (List.enumerate 1 ts) {}) (\<lambda>covered.
     rbind (py_iter context) (\<lambda>cs.
     rbind (rfold (context_step original_count) (List.enumerate 1 cs) covered) (\<lambda>covered'.
     rbind (check_covered (\<lambda>index. value_error (''original group position '' @ show_nat index @ '' is not covered''))
              covered' [0 ..< nat original_count]) (\<lambda>_.
     rbind (py_iter dummies) (\<lambda>ds.
       check_dummy_suffix original_count (List.enumerate 0 ds)))))))))))))"

text \<open>
  The per-kind rules of one target; \<open>first\<close> is \<^verbatim>\<open>targets[0]\<close>, whose kind the whole request takes.
\<close>

definition check_component_target :: "pyval \<Rightarrow> nat \<Rightarrow> pyval \<Rightarrow> unit result" where
  "check_component_target first index target =
     (let kind = pget first ''kind'' in
      raise_if (\<not> py_eq (pget target ''kind'') kind) (value_error ''mixed component target kinds are not supported'') (
      if py_eq kind (PStr COMPONENT_TARGET_KIND_USER) then
        raise_if (\<not> phas target ''auth_address'' \<or> phas target ''component_key'' \<or> phas target ''lsig_args'')
          (target_error ''target'' index '': user target requires only auth_address'') (
        raise_if (1 < index \<and> \<not> py_eq (pget target ''auth_address'') (pget first ''auth_address''))
          (value_error ''user targets must share one auth_address'') (Inr ()))
      else if py_eq kind (PStr COMPONENT_TARGET_KIND_COSIGNER) then
        raise_if (phas target ''auth_address'' \<or> phas target ''lsig_args'')
          (target_error ''target'' index '': cosigner target forbids auth_address and lsig_args'') (
        raise_if (1 < index \<and> \<not> py_eq (pget target ''component_key'') (pget first ''component_key''))
          (value_error ''cosigner targets must share one component_key'') (Inr ()))
      else if py_eq kind (PStr COMPONENT_TARGET_KIND_BOUNDED_BASE) then
        raise_if (\<not> phas target ''auth_address'' \<or> phas target ''component_key'')
          (target_error ''target'' index '': bounded-base target requires auth_address and forbids component_key'') (Inr ())
      else Inl (target_error ''target'' index ('': unsupported component kind '' @ py_repr kind))))"

definition component_target_step :: "int \<Rightarrow> pyval \<Rightarrow> nat \<times> pyval \<Rightarrow> int set \<Rightarrow> int set result" where
  "component_target_step n first it covered =
     (let index = fst it; target = snd it in
      rbind (py_get target ''target_index'') (\<lambda>ti.
      rbind (claim_index n (target_error ''target'' index '' has invalid, duplicate, or overlapping target_index'') ti covered) (\<lambda>covered'.
      rbind (check_component_target first index target) (\<lambda>_. Inr covered'))))"

definition component_probe :: "pyval \<Rightarrow> pyval \<Rightarrow> pyval list \<Rightarrow> pyval \<Rightarrow> pyval \<Rightarrow> pyval" where
  "component_probe data grp ts context dummies = pobj
     [(''request_id'', pget_or data ''request_id'' (PStr [])),
      (''group_bytes_hex'', grp),
      (''targets'', PList (map (\<lambda>target. pobj
         [(''target_index'', pget target ''target_index''),
          (''auth_address'', py_or (pget target ''auth_address'') (PStr ''target''))]) ts)),
      (''contextual_positions'', context),
      (''dummy_positions'', dummies)]"

definition validate_component_request :: "pyval \<Rightarrow> unit result" where
  "validate_component_request data =
     rbind (validate_id_field data ''request_id'') (\<lambda>_.
     let grp = py_or (pget data ''group_bytes_hex'') (PList []);
         targets = py_or (pget data ''targets'') (PList []);
         context = py_or (pget data ''contextual_positions'') (PList []);
         dummies = py_or (pget data ''dummy_positions'') (PList []) in
     rbind (validate_component_group_bytes grp) (\<lambda>_.
     raise_if (\<not> truthy targets) (value_error ''targets are required and dummy_positions cannot exceed group length'') (
     rbind (py_len dummies) (\<lambda>d.
     rbind (py_len grp) (\<lambda>g.
     raise_if (g < d) (value_error ''targets are required and dummy_positions cannot exceed group length'') (
     let original_count = g - d in
     rbind (py_index targets 0) (\<lambda>first.
     rbind (py_get first ''kind'') (\<lambda>_.
     rbind (py_iter targets) (\<lambda>ts.
     rbind (rfold (component_target_step original_count first) (List.enumerate 1 ts) {}) (\<lambda>_.
       validate_bounded_component_request (component_probe data grp ts context dummies)))))))))))"

definition bounded_component_to_unified :: "pyval \<Rightarrow> pyval result" where
  "bounded_component_to_unified data =
     rbind (py_get_or data ''request_id'' (PStr [])) (\<lambda>rid.
     rbind (py_iter (py_or (pget data ''group_bytes_hex'') (PList []))) (\<lambda>gs.
     rbind (py_iter (py_or (pget data ''targets'') (PList []))) (\<lambda>ts.
     rbind (rmap (\<lambda>target. rbind (py_get target ''target_index'') (\<lambda>ti. Inr (pobj
         [(''target_index'', ti),
          (''kind'', PStr COMPONENT_TARGET_KIND_BOUNDED_BASE),
          (''auth_address'', pget_or target ''auth_address'' (PStr [])),
          (''lsig_args'', pget target ''lsig_args'')]))) ts) (\<lambda>us.
     rbind (py_iter (py_or (pget data ''contextual_positions'') (PList []))) (\<lambda>cs.
     rbind (py_iter (py_or (pget data ''dummy_positions'') (PList []))) (\<lambda>ds.
       Inr (pobj [(''request_id'', rid), (''group_bytes_hex'', PList gs), (''targets'', PList us),
                  (''contextual_positions'', PList cs), (''dummy_positions'', PList ds)])))))))"

section \<open>Component replies\<close>

definition check_component_material :: "nat \<Rightarrow> pyval \<Rightarrow> unit result" where
  "check_component_material index component =
     (let kind = pget component ''kind'' in
      if py_eq kind (PStr COMPONENT_TARGET_KIND_USER) \<or> py_eq kind (PStr COMPONENT_TARGET_KIND_COSIGNER) then
        raise_if (\<not> phas component ''signature'' \<or> \<not> phas component ''signature_scheme'' \<or>
                  phas component ''base_signatures'' \<or> phas component ''assembly_receipt'')
          (target_error ''component'' index '' has invalid signature material'') (Inr ())
      else if py_eq kind (PStr COMPONENT_TARGET_KIND_BOUNDED_BASE) then
        raise_if (\<not> phas component ''auth_address'' \<or> \<not> phas component ''base_signatures'' \<or>
                  \<not> phas component ''assembly_receipt'' \<or> \<not> phas component ''signature_scheme'' \<or>
                  phas component ''signature'')
          (target_error ''component'' index '' has invalid bounded-base material'') (Inr ())
      else Inl (target_error ''component'' index '' has unsupported kind''))"

text \<open>\<open>glen\<close>: the length of the request's group, when the request is given.\<close>

definition component_reply_step :: "int option \<Rightarrow> nat \<times> pyval \<Rightarrow> int set \<Rightarrow> int set result" where
  "component_reply_step glen it seen =
     (let index = fst it; component = snd it in
      rbind (py_get component ''target_index'') (\<lambda>ti.
      case as_int ti of
        None \<Rightarrow> Inl (target_error ''component'' index '' has invalid or duplicate target_index'')
      | Some i \<Rightarrow>
          raise_if (i < 0 \<or> i \<in> seen) (target_error ''component'' index '' has invalid or duplicate target_index'') (
          raise_if (case glen of None \<Rightarrow> False | Some n \<Rightarrow> n \<le> i)
            (target_error ''component'' index '' target_index is outside the frozen group'') (
          rbind (check_component_material index component) (\<lambda>_. Inr (insert i seen))))))"

definition validate_component_response :: "pyval \<Rightarrow> pyval option \<Rightarrow> unit result" where
  "validate_component_response data request =
     rbind (validate_id_field data ''request_id'') (\<lambda>_.
     raise_if (\<not> phas data ''request_id'' \<or> \<not> phas data ''components'')
       (value_error ''request_id and components are required'') (
     rbind (py_iter (pget data ''components'')) (\<lambda>cs.
     rbind (case request of None \<Rightarrow> Inr None
            | Some r \<Rightarrow> rbind (py_len (py_or (pget r ''group_bytes_hex'') (PList []))) (\<lambda>n. Inr (Some n))) (\<lambda>glen.
     rbind (rfold (component_reply_step glen) (List.enumerate 1 cs) {}) (\<lambda>_. Inr ())))))"

definition bounded_reply_step :: "int \<Rightarrow> nat \<times> pyval \<Rightarrow> int set \<Rightarrow> int set result" where
  "bounded_reply_step n it seen =
     (let index = fst it; component = snd it in
      raise_if (\<not> is_dict component) (target_error ''component'' index '' must be a mapping'') (
      rbind (claim_index n (target_error ''component'' index '' has invalid or duplicate target_index'')
               (pget component ''target_index'') seen) (\<lambda>seen'.
      raise_if (\<not> phas component ''bounded_account'' \<or> \<not> phas component ''base_signatures'' \<or>
                \<not> phas component ''assembly_receipt'' \<or> \<not> phas component ''signature_scheme'')
        (target_error ''component'' index '' is incomplete'') (Inr seen'))))"

fun check_hex_strings :: "(nat \<times> pyval) list \<Rightarrow> unit result" where
  "check_hex_strings [] = Inr ()"
| "check_hex_strings ((index, encoded) # rest) =
     raise_if (\<not> is_str encoded \<or> \<not> truthy encoded)
       (target_error ''transaction'' index '' must be a non-empty hex string'') (check_hex_strings rest)"

definition validate_bounded_component_response :: "pyval \<Rightarrow> unit result" where
  "validate_bounded_component_response data =
     raise_if (\<not> is_dict data) (value_error ''response must be a mapping'') (
     rbind (validate_sign_request_id (py_str (pget_or data ''request_id'' (PStr []))) True) (\<lambda>_.
     (case (py_or (pget data ''transactions'') (PList []), py_or (pget data ''components'') (PList [])) of
        (PList txs, PList cs) \<Rightarrow>
          raise_if (txs = [] \<or> cs = []) (value_error ''transactions and components are required'') (
          rbind (check_hex_strings (List.enumerate 0 txs)) (\<lambda>_.
          rbind (rfold (bounded_reply_step (int (length txs))) (List.enumerate 1 cs) {}) (\<lambda>_. Inr ())))
      | _ \<Rightarrow> Inl (value_error ''transactions and components are required''))))"

subsection \<open>Claims of component requests and replies\<close>

lemma claim_index_Inr [result_simps]:
  "claim_index n ex v S = Inr T \<longleftrightarrow> (\<exists>i. as_int v = Some i \<and> 0 \<le> i \<and> i < n \<and> i \<notin> S \<and> T = insert i S)"
  by (auto simp: claim_index_def result_simps split: option.splits)

lemma bounded_target_step_fresh:
  "bounded_target_step n it S = Inr T \<Longrightarrow>
     \<exists>i. item_index (snd it) = Some i \<and> (0 \<le> i \<and> i < n) \<and> i \<notin> S \<and> T = insert i S"
  by (auto simp: bounded_target_step_def Let_def result_simps item_index_def)

lemma context_step_fresh:
  "context_step n it S = Inr T \<Longrightarrow>
     \<exists>i. item_index (snd it) = Some i \<and> (0 \<le> i \<and> i < n) \<and> i \<notin> S \<and> T = insert i S"
  by (auto simp: context_step_def Let_def result_simps item_index_def)

lemma component_target_step_fresh:
  "component_target_step n first it S = Inr T \<Longrightarrow>
     \<exists>i. item_index (snd it) = Some i \<and> (0 \<le> i \<and> i < n) \<and> i \<notin> S \<and> T = insert i S"
  by (auto simp: component_target_step_def Let_def result_simps item_index_def)

lemma component_reply_step_fresh:
  "component_reply_step glen it S = Inr T \<Longrightarrow>
     \<exists>i. item_index (snd it) = Some i \<and> (0 \<le> i \<and> (\<forall>n. glen = Some n \<longrightarrow> i < n)) \<and> i \<notin> S \<and> T = insert i S"
  by (auto simp: component_reply_step_def Let_def result_simps item_index_def split: option.splits)

lemma bounded_reply_step_fresh:
  "bounded_reply_step n it S = Inr T \<Longrightarrow>
     \<exists>i. item_index (snd it) = Some i \<and> (0 \<le> i \<and> i < n) \<and> i \<notin> S \<and> T = insert i S"
  by (auto simp: bounded_reply_step_def Let_def result_simps item_index_def)

interpretation component: index_claims_pair "bounded_target_step n" "item_index \<circ> snd"
  "context_step n" "item_index \<circ> snd" "\<lambda>i. 0 \<le> i \<and> i < n" for n
  by unfold_locales (auto dest!: bounded_target_step_fresh context_step_fresh)

interpretation component_targets: index_claims "component_target_step n first" "item_index \<circ> snd"
  "\<lambda>i. 0 \<le> i \<and> i < n" for n first
  by unfold_locales (auto dest!: component_target_step_fresh)

interpretation component_reply: index_claims "component_reply_step glen" "item_index \<circ> snd"
  "\<lambda>i. 0 \<le> i \<and> (\<forall>n. glen = Some n \<longrightarrow> i < n)" for glen
  by unfold_locales (auto dest!: component_reply_step_fresh)

interpretation bounded_reply: index_claims "bounded_reply_step n" "item_index \<circ> snd"
  "\<lambda>i. 0 \<le> i \<and> i < n" for n
  by unfold_locales (auto dest!: bounded_reply_step_fresh)


lemma check_dummy_suffix_Inr:
  "check_dummy_suffix n (List.enumerate k ds) = Inr u \<longleftrightarrow>
     (\<forall>i < length ds. is_dict (ds ! i) \<and> item_index (ds ! i) = Some (n + int (k + i)))"
proof (induction ds arbitrary: k)
  case Nil
  then show ?case by simp
next
  case (Cons d ds)
  then show ?case
    by (auto simp: result_simps py_eq_int item_index_def less_Suc_eq_0_disj)
qed

lemma validate_bounded_component_request_claims:
  assumes "validate_bounded_component_request data = Inr ()"
  shows "\<exists>gs ts cs ds S T. payload_list data ''group_bytes_hex'' = Inr gs \<and> payload_list data ''targets'' = Inr ts \<and>
     payload_list data ''contextual_positions'' = Inr cs \<and> payload_list data ''dummy_positions'' = Inr ds \<and>
     0 < length gs \<and> length gs \<le> 16 \<and> ts \<noteq> [] \<and> length ds \<le> length gs \<and>
     rfold (bounded_target_step (int (length gs - length ds))) (List.enumerate 1 ts) {} = Inr S \<and>
     rfold (context_step (int (length gs - length ds))) (List.enumerate 1 cs) S = Inr T \<and>
     (\<forall>i \<in> set [0 ..< length gs - length ds]. int i \<in> T) \<and>
     (\<forall>i < length ds. item_index (ds ! i) = Some (int (length gs - length ds + i)))"
  using assms unfolding validate_bounded_component_request_def Let_def
  by (force simp: result_simps payload_list_def check_dummy_suffix_Inr of_nat_diff nat_diff_distrib'
      not_less dest: py_iter_truthy)

lemma validate_component_request_claims:
  assumes "validate_component_request data = Inr ()"
  shows "\<exists>grp ts context dummies first n S. grp = py_or (pget data ''group_bytes_hex'') (PList []) \<and>
     payload_list data ''targets'' = Inr ts \<and>
     context = py_or (pget data ''contextual_positions'') (PList []) \<and>
     dummies = py_or (pget data ''dummy_positions'') (PList []) \<and>
     py_index (py_or (pget data ''targets'') (PList [])) 0 = Inr first \<and> ts \<noteq> [] \<and> is_dict first \<and>
     rfold (component_target_step n first) (List.enumerate 1 ts) {} = Inr S \<and>
     validate_bounded_component_request (component_probe data grp ts context dummies) = Inr ()"
  using assms unfolding validate_component_request_def Let_def
  by (force simp: result_simps payload_list_def not_less dest: py_iter_truthy)

lemma item_index_probe [simp]:
  "item_index (pobj [(''target_index'', v), (''auth_address'', w)]) = as_int v"
  by (simp add: item_index_def)

lemma py_or_idem [simp]: "py_or (py_or a b) b = py_or a b"
  by (simp add: py_or_def)

lemma payload_list_probe:
  "payload_list (component_probe data grp ts context dummies) ''group_bytes_hex'' = py_iter (py_or grp (PList []))"
  "payload_list (component_probe data grp ts context dummies) ''targets'' =
     Inr (map (\<lambda>target. pobj [(''target_index'', pget target ''target_index''),
          (''auth_address'', py_or (pget target ''auth_address'') (PStr ''target''))]) ts)"
  "payload_list (component_probe data grp ts context dummies) ''contextual_positions'' = py_iter (py_or context (PList []))"
  "payload_list (component_probe data grp ts context dummies) ''dummy_positions'' = py_iter (py_or dummies (PList []))"
  by (simp_all add: payload_list_def component_probe_def py_or_def)

text \<open>The rules one target of an accepted component request obeys, by the kind of the request.\<close>

definition component_target_ok :: "pyval \<Rightarrow> pyval \<Rightarrow> bool" where
  "component_target_ok first t \<longleftrightarrow> is_dict t \<and> pget t ''kind'' = pget first ''kind'' \<and>
     (pget first ''kind'' = PStr ''user'' \<and> phas t ''auth_address'' \<and> \<not> phas t ''component_key'' \<and> \<not> phas t ''lsig_args'' \<or>
      pget first ''kind'' = PStr ''cosigner'' \<and> \<not> phas t ''auth_address'' \<and> \<not> phas t ''lsig_args'' \<or>
      pget first ''kind'' = PStr ''bounded-base'' \<and> phas t ''auth_address'' \<and> \<not> phas t ''component_key'')"

lemma check_component_target_ok:
  assumes "check_component_target first index t = Inr u" and "is_dict t"
  shows "component_target_ok first t"
  using assms
  by (auto simp: check_component_target_def component_target_ok_def Let_def result_simps target_kinds py_eq_str
      split: if_splits)

lemma check_component_target_shared:
  assumes "check_component_target first index t = Inr u" and "1 < index"
  shows "pget first ''kind'' = PStr ''user'' \<Longrightarrow> py_eq (pget t ''auth_address'') (pget first ''auth_address'')"
    and "pget first ''kind'' = PStr ''cosigner'' \<Longrightarrow> py_eq (pget t ''component_key'') (pget first ''component_key'')"
  using assms by (simp_all add: check_component_target_def Let_def result_simps target_kinds py_eq_str)

lemma component_target_step_ok:
  "component_target_step n first it S = Inr T \<Longrightarrow>
     is_dict (snd it) \<and> check_component_target first (fst it) (snd it) = Inr ()"
  by (auto simp: component_target_step_def Let_def result_simps)

section \<open>Sample payloads\<close>

text \<open>
  A two-transaction group: position 0 is a guarded target, position 1 a passthrough item; the
  component request for position 0 with position 1 as context; and a reply to it.
\<close>

definition sample_guarded_target :: pyval where
  "sample_guarded_target = pobj [(''target_index'', PInt 0), (''kind'', PStr ''guarded''), (''auth_address'', PStr ''G''),
         (''user_signature'', PStr ''aa''), (''user_source_request_id'', PStr ''u-1''),
         (''cosigner_signature'', PStr ''bb''), (''cosigner_source_request_id'', PStr ''c-1'')]"

definition sample_assembly_request :: pyval where
  "sample_assembly_request = pobj
     [(''request_id'', PStr ''sdk-1''),
      (''group_bytes_hex'', PList [PStr ''5458a0'', PStr ''5458a1'']),
      (''targets'', PList [sample_guarded_target]),
      (''passthrough'', PList [pobj [(''target_index'', PInt 1), (''signed_txn_hex'', PStr ''cc'')]])]"

definition sample_component_request :: pyval where
  "sample_component_request = pobj
     [(''request_id'', PStr ''sdk-1''),
      (''group_bytes_hex'', PList [PStr ''5458a0'', PStr ''5458a1'', PStr ''5458a2'']),
      (''targets'', PList [pobj [(''target_index'', PInt 0), (''kind'', PStr ''user''), (''auth_address'', PStr ''G'')]]),
      (''contextual_positions'', PList [pobj [(''target_index'', PInt 1), (''pq_scheme'', PStr ''f1'')]]),
      (''dummy_positions'', PList [pobj [(''target_index'', PInt 2)]])]"

definition sample_component_reply :: pyval where
  "sample_component_reply = pobj
     [(''request_id'', PStr ''sdk-1''),
      (''components'', PList [pobj [(''target_index'', PInt 0), (''kind'', PStr ''user''), (''signature'', PStr ''aa''),
         (''signature_scheme'', PStr ''falcon1024'')]])]"

lemma sample_assembly_request_accepted: "validate_assembly_request sample_assembly_request = Inr ()"
  by code_simp

lemma sample_component_request_accepted: "validate_component_request sample_component_request = Inr ()"
  by code_simp

lemma sample_component_reply_accepted:
  "validate_component_response sample_component_reply (Some sample_component_request) = Inr ()"
  by code_simp

section \<open>Properties\<close>

text \<open>
  C5. An assembly request that passes validation assigns every position of the frozen group to
  exactly one target or passthrough item: the positions the items name are pairwise different and
  are exactly \<open>0 .. length - 1\<close>, and the group holds between one and sixteen transactions.
\<close>

theorem assembly_request_partition:
  assumes "validate_assembly_request data = Inr ()"
  shows "\<exists>gs ts ps is js. payload_list data ''group_bytes_hex'' = Inr gs \<and> payload_list data ''targets'' = Inr ts \<and>
     payload_list data ''passthrough'' = Inr ps \<and> 1 \<le> length gs \<and> length gs \<le> 16 \<and> (\<forall>g \<in> set gs. truthy g) \<and>
     map item_index ts = map Some is \<and> map item_index ps = map Some js \<and> distinct (is @ js) \<and>
     set (is @ js) = {0 ..< int (length gs)}"
proof -
  from validate_assembly_request_claims [OF assms] obtain gs ts ps S T where
    *: "payload_list data ''group_bytes_hex'' = Inr gs" "payload_list data ''targets'' = Inr ts"
       "payload_list data ''passthrough'' = Inr ps" "0 < length gs" "length gs \<le> 16" "\<forall>g \<in> set gs. truthy g"
    and S: "rfold (assembly_target_step (int (length gs))) (List.enumerate 1 ts) {} = Inr S"
    and T: "rfold (assembly_passthrough_step (int (length gs))) (List.enumerate 1 ps) S = Inr T"
    and all: "\<forall>i \<in> set [0 ..< length gs]. int i \<in> T" by blast
  from assembly.pair_partition [OF S T _ all] obtain "is" js where
    "map item_index ts = map Some is" "map item_index ps = map Some js" "distinct (is @ js)"
    "set (is @ js) = {0 ..< int (length gs)}"
    unfolding map_snd_enumerate_comp by blast
  with * show ?thesis by (metis One_nat_def Suc_leI)
qed

theorem assembly_request_partition_witness:
  "\<exists>is js. map item_index [sample_guarded_target] = map Some is \<and>
     map item_index [pobj [(''target_index'', PInt 1), (''signed_txn_hex'', PStr ''cc'')]] = map Some js \<and>
     distinct (is @ js) \<and> set (is @ js) = {0 ..< 2}"
  using assembly_request_partition [OF sample_assembly_request_accepted]
  by (simp add: payload_list_def sample_assembly_request_def)

text \<open>
  In an accepted assembly request every target carries an account, a cosigner signature and
  exactly the authorization material of its kind: a guarded target a user signature and nothing of
  the bounded flow, a bounded-cosigner target base signatures and a receipt and nothing of the
  guarded flow; and every request identifier it names is well formed.
\<close>

theorem assembly_target_material:
  assumes "validate_assembly_request data = Inr ()" and "payload_list data ''targets'' = Inr ts" and "t \<in> set ts"
  shows "phas t ''auth_address'' \<and> phas t ''cosigner_signature'' \<and>
     request_id_ok (py_str (pget_or t ''cosigner_source_request_id'' (PStr []))) \<and>
     (pget t ''kind'' = PStr ''guarded'' \<and> phas t ''user_signature'' \<and>
        request_id_ok (py_str (pget_or t ''user_source_request_id'' (PStr []))) \<and>
        \<not> phas t ''base_signatures'' \<and> \<not> phas t ''assembly_receipt'' \<and> \<not> phas t ''bounded_runtime_args'' \<or>
      pget t ''kind'' = PStr ''bounded-cosigner'' \<and> phas t ''base_signatures'' \<and> phas t ''assembly_receipt'' \<and>
        request_id_ok (py_str (pget_or t ''base_source_request_id'' (PStr []))) \<and>
        \<not> phas t ''user_signature'' \<and> \<not> phas t ''guarded_runtime_args'')"
proof -
  from validate_assembly_request_claims [OF assms(1)] assms(2) obtain n S where
    "rfold (assembly_target_step n) (List.enumerate 1 ts) {} = Inr S" by auto
  moreover from assms(3) obtain i where "i < length ts" "t = ts ! i" by (metis in_set_conv_nth)
  ultimately obtain U V where "assembly_target_step n (1 + i, t) U = Inr V"
    using rfold_enumerate_rounds by metis
  then show ?thesis
    by (auto simp: assembly_target_step_def check_guarded_material_def check_bounded_cosigner_material_def
        validate_id_field_def Let_def result_simps target_kinds py_eq_str split: if_splits)
qed


theorem assembly_target_material_witness:
  "phas sample_guarded_target ''cosigner_signature'' \<and> pget sample_guarded_target ''kind'' = PStr ''guarded'' \<and>
     phas sample_guarded_target ''user_signature'' \<and> \<not> phas sample_guarded_target ''base_signatures''"
proof -
  have "payload_list sample_assembly_request ''targets'' = Inr [sample_guarded_target]"
    by (simp add: payload_list_def sample_assembly_request_def)
  from assembly_target_material [OF sample_assembly_request_accepted this, of sample_guarded_target]
  show ?thesis by (simp add: sample_guarded_target_def)
qed

text \<open>
  A component request that passes validation names one kind of target throughout, obeys the
  material rules of that kind, and accounts for the whole frozen group: targets and contextual
  positions partition the original positions and the dummy positions are the contiguous suffix
  that follows them.
\<close>

theorem component_request_partition:
  assumes "validate_component_request data = Inr ()"
  shows "\<exists>gs ts cs ds first is js. payload_list data ''group_bytes_hex'' = Inr gs \<and> payload_list data ''targets'' = Inr ts \<and>
     payload_list data ''contextual_positions'' = Inr cs \<and> payload_list data ''dummy_positions'' = Inr ds \<and>
     1 \<le> length gs \<and> length gs \<le> 16 \<and> ts \<noteq> [] \<and> length ds \<le> length gs \<and>
     map item_index ts = map Some is \<and> map item_index cs = map Some js \<and> distinct (is @ js) \<and>
     set (is @ js) = {0 ..< int (length gs - length ds)} \<and>
     (\<forall>i < length ds. item_index (ds ! i) = Some (int (length gs - length ds + i))) \<and>
     (\<forall>t \<in> set ts. component_target_ok first t)"
proof -
  from validate_component_request_claims [OF assms] obtain ts first n S where
    ts: "payload_list data ''targets'' = Inr ts" and loop: "rfold (component_target_step n first) (List.enumerate 1 ts) {} = Inr S"
    and probe: "validate_bounded_component_request
      (component_probe data (py_or (pget data ''group_bytes_hex'') (PList [])) ts
        (py_or (pget data ''contextual_positions'') (PList [])) (py_or (pget data ''dummy_positions'') (PList []))) = Inr ()"
    by blast
  let ?us = "map (\<lambda>target. pobj [(''target_index'', pget target ''target_index''),
          (''auth_address'', py_or (pget target ''auth_address'') (PStr ''target''))]) ts"
  from validate_bounded_component_request_claims [OF probe] obtain gs cs ds S' T where
    *: "payload_list data ''group_bytes_hex'' = Inr gs" "payload_list data ''contextual_positions'' = Inr cs"
       "payload_list data ''dummy_positions'' = Inr ds" "0 < length gs" "length gs \<le> 16" "ts \<noteq> []" "length ds \<le> length gs"
       "\<forall>i < length ds. item_index (ds ! i) = Some (int (length gs - length ds + i))"
    and S: "rfold (bounded_target_step (int (length gs - length ds))) (List.enumerate 1 ?us) {} = Inr S'"
    and T: "rfold (context_step (int (length gs - length ds))) (List.enumerate 1 cs) S' = Inr T"
    and all: "\<forall>i \<in> set [0 ..< length gs - length ds]. int i \<in> T"
    unfolding payload_list_probe py_or_idem payload_list_def [symmetric] by auto
  have idx: "map item_index ?us = map item_index ts"
    by (simp add: item_index_def)
  from component.pair_partition [OF S T _ all] obtain "is" js where
    "map item_index ts = map Some is" "map item_index cs = map Some js" "distinct (is @ js)"
    "set (is @ js) = {0 ..< int (length gs - length ds)}"
    unfolding map_snd_enumerate_comp idx by blast
  moreover have "\<forall>t \<in> set ts. component_target_ok first t"
    using rfold_enumerate_rounds [OF loop]
    by (metis in_set_conv_nth check_component_target_ok component_target_step_ok fst_conv snd_conv)
  ultimately show ?thesis using * ts by (metis One_nat_def Suc_leI)
qed

theorem component_request_partition_witness:
  "\<exists>ts cs is js. payload_list sample_component_request ''targets'' = Inr ts \<and>
     payload_list sample_component_request ''contextual_positions'' = Inr cs \<and>
     map item_index ts = map Some is \<and> map item_index cs = map Some js \<and> distinct (is @ js) \<and> set (is @ js) = {0 ..< 2}"
proof -
  have len: "payload_list sample_component_request ''group_bytes_hex'' = Inr gs \<Longrightarrow> length gs = 3"
    "payload_list sample_component_request ''dummy_positions'' = Inr ds \<Longrightarrow> length ds = 1" for gs ds
    by (auto simp: payload_list_def sample_component_request_def)
  show ?thesis
    using component_request_partition [OF sample_component_request_accepted] len by fastforce
qed

text \<open>
  A component reply that passes validation against its request never names a position twice
  and never names one outside the frozen group.
\<close>

theorem component_reply_positions:
  assumes "validate_component_response data (Some request) = Inr ()"
  shows "\<exists>gs cs is. payload_list request ''group_bytes_hex'' = Inr gs \<and> py_iter (pget data ''components'') = Inr cs \<and>
     cs \<noteq> [] \<and> map item_index cs = map Some is \<and> distinct is \<and> set is \<subseteq> {0 ..< int (length gs)}"
proof -
  from assms obtain gs cs S where
    *: "payload_list request ''group_bytes_hex'' = Inr gs" "py_iter (pget data ''components'') = Inr cs" "cs \<noteq> []"
    and "rfold (component_reply_step (Some (int (length gs)))) (List.enumerate 1 cs) {} = Inr S"
    unfolding validate_component_response_def
    by (auto simp: result_simps payload_list_def phas_def dest: py_iter_truthy)
  from component_reply.claims_distinct [OF this(4)] obtain "is" where
    "map item_index cs = map Some is" "distinct is" "\<forall>i \<in> set is. 0 \<le> i \<and> i < int (length gs)"
    unfolding map_snd_enumerate_comp by auto
  with * show ?thesis by (intro exI [of _ gs] exI [of _ cs] exI [of _ "is"]) auto
qed

theorem component_reply_positions_witness:
  "\<exists>cs is. py_iter (pget sample_component_reply ''components'') = Inr cs \<and> cs \<noteq> [] \<and>
     map item_index cs = map Some is \<and> distinct is \<and> set is \<subseteq> {0 ..< 3}"
proof -
  have "payload_list sample_component_request ''group_bytes_hex'' = Inr gs \<Longrightarrow> length gs = 3" for gs
    by (auto simp: payload_list_def sample_component_request_def)
  then show ?thesis
    using component_reply_positions [OF sample_component_reply_accepted] by fastforce
qed

end
