(* ===== verification/Sign_Protocol.thy ===== *)
theory Sign_Protocol
  imports Client_Invariants Component_Protocol
begin

text \<open>
  The signing endpoints of \<^verbatim>\<open>SignerClient\<close>: \<^verbatim>\<open>/sign\<close>, \<^verbatim>\<open>/plan\<close>, \<^verbatim>\<open>/sign/component\<close> and
  \<^verbatim>\<open>/sign/assemble\<close>. Each validates what it sends before it sends it, discovers the approval wait
  where an operator may have to approve, cancels a request whose reply it lost, classifies error
  replies by their wire code, and validates what it received before it returns it.
\<close>

definition GROUP_PLAN_TIMEOUT :: int where "GROUP_PLAN_TIMEOUT = 60"
definition COMPONENT_SIGN_TIMEOUT :: int where "COMPONENT_SIGN_TIMEOUT = 120"
definition GUARDED_ASSEMBLY_TIMEOUT :: int where "GUARDED_ASSEMBLY_TIMEOUT = 120"

section \<open>\<^verbatim>\<open>/sign\<close>\<close>

record group_sign_response =
  gs_signed :: pyval
  gs_mutations :: pyval
  gs_error :: pyval

text \<open>\<^verbatim>\<open>except requests.RequestException\<close> around a request an operator may still be looking at.\<close>

definition cancel_and_fail :: "'w env \<Rightarrow> nat \<Rightarrow> string \<Rightarrow> exc \<Rightarrow> ('w, 'a) client_action" where
  "cancel_and_fail E c request_id e =
     abind (best_effort_cancel_sign_request E c request_id) (\<lambda>_. failed_to_connect e)"

text \<open>\<^verbatim>\<open>try: data = resp.json() except json.JSONDecodeError: raise SignerError(...)\<close>\<close>

definition strict_json :: "http_response \<Rightarrow> pyval result" where
  "strict_json r =
     (case rs_json r of Some v \<Rightarrow> Inr v
      | None \<Rightarrow> Inl (signer_error (''Server returned invalid JSON: '' @ take 200 (rs_text r))))"

text \<open>What the method does with the reply, and the method.\<close>

definition sign_reply :: "pyval list \<Rightarrow> http_response \<Rightarrow> group_sign_response result" where
  "sign_reply sign_entries r =
     raise_if (rs_status r = 401) not_authenticated (
     if rs_status r = 400 then raise_built (bad_request_error r) else
     if rs_status r = 403 then raise_built (forbidden_rejected_error r ''Signing request rejected by operator'') else
     if rs_status r = 503 then raise_built (unavailable_error r) else
     if rs_status r \<noteq> 200 then
       raise_built (signer_http_error r (''Signing failed: HTTP '' @ show_int (rs_status r))) else
     rbind (strict_json r) (\<lambda>data.
     rbind (check_error_field data) (\<lambda>_.
     let signed = pget_or data ''signed'' (PList []) in
     rbind (validate_group_sign_response sign_entries signed) (\<lambda>_.
       Inr \<lparr>gs_signed = signed, gs_mutations = pget data ''mutations'', gs_error = pget_or data ''error'' (PStr [])\<rparr>))))"

definition sign_requests :: "'w env \<Rightarrow> nat \<Rightarrow> pyval list \<Rightarrow> string option \<Rightarrow> ('w, group_sign_response) client_action" where
  "sign_requests E c sign_entries request_id =
     abind (case request_id of None \<Rightarrow> abind (fresh_token E) (\<lambda>rnd. aret (new_sign_request_id rnd))
            | Some rid \<Rightarrow> aret rid) (\<lambda>rid.
     abind (alift (validate_sign_request_id rid True)) (\<lambda>_.
     abind (alift (validate_sign_entries sign_entries)) (\<lambda>_.
     abind (discover_approval_wait E c) (\<lambda>_.
     abind (get_client c) (\<lambda>cl. abind (now E) (\<lambda>t.
     abind (acatch is_request_exception (cancel_and_fail E c rid)
              (http E c ''POST'' ''/sign'' (pobj [(''request_id'', PStr rid), (''requests'', PList sign_entries)])
                (sign_request_timeout cl t))) (\<lambda>r.
     alift (sign_reply sign_entries r))))))))"

section \<open>\<^verbatim>\<open>/plan\<close>\<close>

definition plan_reply :: "http_response \<Rightarrow> pyval result" where
  "plan_reply r =
     raise_if (rs_status r = 401) not_authenticated (
     if rs_status r = 400 then raise_built (bad_request_error r) else
     if rs_status r = 403 then raise_built (signer_http_error r ''Forbidden'') else
     if rs_status r \<noteq> 200 then raise_built (signer_http_error r (''Plan failed: HTTP '' @ show_int (rs_status r))) else
     rbind (strict_json r) (\<lambda>data.
     rbind (check_error_field data) (\<lambda>_. Inr data)))"

definition plan_requests :: "'w env \<Rightarrow> nat \<Rightarrow> pyval list \<Rightarrow> ('w, pyval) client_action" where
  "plan_requests E c sign_entries =
     abind (alift (validate_sign_entries sign_entries)) (\<lambda>_.
     abind (get_client c) (\<lambda>cl.
     abind (acatch is_request_exception failed_to_connect
              (http E c ''POST'' ''/plan'' (pobj [(''requests'', PList sign_entries)]) (timeout_for cl GROUP_PLAN_TIMEOUT))) (\<lambda>r.
     alift (plan_reply r))))"

section \<open>\<^verbatim>\<open>/sign/component\<close>\<close>

record component_response =
  cp_request_id :: pyval
  cp_components :: "pyval list"

text \<open>
  The dictionary from position to kind that both sides of the exchange are reduced to. Python
  identifies the keys \<^verbatim>\<open>True\<close> and \<^verbatim>\<open>1\<close>, as \<^const>\<open>as_int\<close> does; validation has made every index a
  number before this is built.
\<close>

fun index_kinds :: "pyval list \<Rightarrow> (int \<times> pyval) list \<Rightarrow> (int \<times> pyval) list result" where
  "index_kinds [] d = Inr d"
| "index_kinds (x # xs) d =
     rbind (py_item x ''target_index'') (\<lambda>ti.
     rbind (py_item x ''kind'') (\<lambda>k.
       case as_int ti of Some i \<Rightarrow> index_kinds xs (AList.update i k d)
       | None \<Rightarrow> Inl (Exc TypeError (''unhashable type: '' @ type_name ti) [])))"

text \<open>\<^verbatim>\<open>==\<close> on dictionaries: the same keys, with equal values.\<close>

definition dict_eq :: "(int \<times> pyval) list \<Rightarrow> (int \<times> pyval) list \<Rightarrow> bool" where
  "dict_eq a b \<longleftrightarrow> length a = length b \<and>
     (\<forall>(k, v) \<in> set a. case map_of b k of Some w \<Rightarrow> py_eq v w | None \<Rightarrow> False)"

definition ensure_request_id :: "'w env \<Rightarrow> pyval \<Rightarrow> ('w, pyval) client_action" where
  "ensure_request_id E body =
     (if phas body ''request_id'' then aret body
      else abind (fresh_token E) (\<lambda>rnd. aret (py_set_item ''request_id'' (PStr (new_sign_request_id rnd)) body)))"

definition first_target_kind :: "pyval \<Rightarrow> pyval result" where
  "first_target_kind body =
     rbind (py_item body ''targets'') (\<lambda>ts. rbind (py_index ts 0) (\<lambda>t. py_item t ''kind''))"

definition component_reply :: "pyval \<Rightarrow> http_response \<Rightarrow> component_response result" where
  "component_reply request_body r =
     raise_if (rs_status r = 401) not_authenticated (
     if rs_status r = 403 then raise_built (forbidden_rejected_error r ''Component signing request rejected'') else
     if rs_status r = 503 then raise_built (unavailable_error r) else
     if rs_status r = 400 then raise_built (bad_request_error r) else
     if rs_status r \<noteq> 200 then
       raise_built (signer_http_error r (''Component signing failed: HTTP '' @ show_int (rs_status r))) else
     let data = safe_json r in
     rbind (check_error_field data) (\<lambda>_.
     rbind (rewrap is_value_error (\<lambda>e. signer_error (''invalid component response: '' @ exc_msg e))
              (validate_component_response data (Some request_body))) (\<lambda>_.
     rbind (py_item data ''request_id'') (\<lambda>got.
     rbind (py_item request_body ''request_id'') (\<lambda>sent.
     raise_if (\<not> py_eq got sent) (signer_error ''component response request_id does not match request'') (
     rbind (rbind (py_item request_body ''targets'') py_iter) (\<lambda>ts.
     rbind (index_kinds ts []) (\<lambda>expected.
     rbind (rbind (py_item data ''components'') py_iter) (\<lambda>cs.
     rbind (index_kinds cs []) (\<lambda>actual.
     raise_if (\<not> dict_eq actual expected)
       (signer_error ''component response target indices or kinds do not match request'')
       (Inr \<lparr>cp_request_id = got, cp_components = cs\<rparr>)))))))))))"

text \<open>A component request an operator may have to approve: every kind but the cosigner's.\<close>

definition operator_side :: "pyval \<Rightarrow> bool" where
  "operator_side kind \<longleftrightarrow> \<not> py_eq kind (PStr COMPONENT_TARGET_KIND_COSIGNER)"

definition component_timeout :: "'w env \<Rightarrow> nat \<Rightarrow> pyval \<Rightarrow> ('w, int) client_action" where
  "component_timeout E c kind =
     abind (get_client c) (\<lambda>cl.
     if operator_side kind then
       abind (discover_approval_wait E c) (\<lambda>_. abind (get_client c) (\<lambda>cl'. abind (now E) (\<lambda>t.
         aret (max (timeout_for cl COMPONENT_SIGN_TIMEOUT) (sign_request_timeout cl' t)))))
     else aret (timeout_for cl COMPONENT_SIGN_TIMEOUT))"

definition request_components :: "'w env \<Rightarrow> nat \<Rightarrow> pyval \<Rightarrow> ('w, component_response) client_action" where
  "request_components E c request =
     araise_if (\<not> is_dict (compact_payload request)) (value_error ''component request must be a mapping or dataclass'') (
     abind (ensure_request_id E (compact_payload request)) (\<lambda>request_body.
     abind (alift (rewrap is_value_error (\<lambda>e. value_error (''invalid component request: '' @ exc_msg e))
              (validate_component_request request_body))) (\<lambda>_.
     abind (alift (first_target_kind request_body)) (\<lambda>kind.
     abind (component_timeout E c kind) (\<lambda>tmo.
     abind (acatch is_request_exception
              (\<lambda>e. if operator_side kind then cancel_and_fail E c (py_str (pget request_body ''request_id'')) e
                   else failed_to_connect e)
              (http E c ''POST'' ''/sign/component'' request_body tmo)) (\<lambda>r.
     alift (component_reply request_body r)))))))"

section \<open>\<^verbatim>\<open>/sign/assemble\<close>\<close>

record assembly_response =
  as_request_id :: pyval
  as_signed_group :: pyval

text \<open>The passthrough items are reduced to the two fields of the wire format.\<close>

definition wire_passthrough_item :: "pyval \<Rightarrow> pyval result" where
  "wire_passthrough_item item =
     rbind (py_item item ''target_index'') (\<lambda>ti.
     rbind (py_item item ''signed_txn_hex'') (\<lambda>h.
       Inr (pobj [(''target_index'', ti), (''signed_txn_hex'', h)])))"

definition trim_passthrough :: "pyval \<Rightarrow> pyval result" where
  "trim_passthrough body =
     (if phas body ''passthrough'' then
        rbind (py_iter (pget body ''passthrough'')) (\<lambda>items.
        rbind (rmap wire_passthrough_item items) (\<lambda>ws. Inr (py_set_item ''passthrough'' (PList ws) body)))
      else Inr body)"

definition assembly_reply :: "pyval \<Rightarrow> http_response \<Rightarrow> assembly_response result" where
  "assembly_reply request_body r =
     raise_if (rs_status r = 401) not_authenticated (
     if rs_status r = 403 then raise_built (forbidden_rejected_error r ''Assembly request rejected'') else
     if rs_status r = 503 then raise_built (unavailable_error r) else
     if rs_status r \<noteq> 200 then
       raise_built (signer_http_error r (''Assembly failed: HTTP '' @ show_int (rs_status r))) else
     let data = safe_json r in
     rbind (check_error_field data) (\<lambda>_.
     rbind (rewrap is_value_error (\<lambda>e. signer_error (''invalid assembly response: '' @ exc_msg e))
              (validate_assembly_response data)) (\<lambda>_.
     rbind (py_item data ''request_id'') (\<lambda>got.
     rbind (py_item request_body ''request_id'') (\<lambda>sent.
     raise_if (\<not> py_eq got sent) (signer_error ''assembly response request_id does not match request'')
       (Inr \<lparr>as_request_id = got, as_signed_group = pget_or data ''signed_group'' (PList [])\<rparr>))))))"

definition request_assemble :: "'w env \<Rightarrow> nat \<Rightarrow> pyval \<Rightarrow> ('w, assembly_response) client_action" where
  "request_assemble E c request =
     araise_if (\<not> is_dict (compact_payload request)) (value_error ''assembly request must be a mapping or dataclass'') (
     abind (alift (trim_passthrough (compact_payload request))) (\<lambda>trimmed.
     abind (ensure_request_id E trimmed) (\<lambda>request_body.
     abind (alift (rewrap is_value_error (\<lambda>e. value_error (''invalid assembly request: '' @ exc_msg e))
              (validate_assembly_request request_body))) (\<lambda>_.
     abind (get_client c) (\<lambda>cl.
     abind (acatch is_request_exception failed_to_connect
              (http E c ''POST'' ''/sign/assemble'' request_body (timeout_for cl GUARDED_ASSEMBLY_TIMEOUT))) (\<lambda>r.
     alift (assembly_reply request_body r)))))))"

section \<open>What the endpoints send\<close>

lemma issues_ensure_request_id [issues_intros]: "issues P (ensure_request_id E body)"
  unfolding ensure_request_id_def by (intro issues_intros)

lemma cancel_and_fail_run:
  assumes "cancel_and_fail E c rid e s = (r, t)" and "request_id_ok rid" "rid \<noteq> []"
  shows "st_trace t = st_trace s @
     [(c, mk_request ''POST'' ''/sign/cancel'' (pobj [(''request_id'', PStr rid)]) (timeout_for (st_clients s c) SIGN_CANCEL_TIMEOUT))] \<and>
     (\<exists>m. r = Inl (Exc SignerUnavailableError m []))"
proof -
  have "\<exists>u t'. best_effort_cancel_sign_request E c rid s = (Inr u, t')"
    unfolding best_effort_cancel_sign_request_def acatch_def aret_def by (auto split: prod.splits sum.splits)
  then obtain u t' where cancel: "best_effort_cancel_sign_request E c rid s = (Inr u, t')" by blast
  with assms(1) have "t = t' \<and> (\<exists>m. r = Inl (Exc SignerUnavailableError m []))"
    by (auto simp: cancel_and_fail_def abind_def failed_to_connect_def araise_def)
  with cancel cancel_trace [OF assms(2,3), of E c s] show ?thesis by simp
qed

text \<open>The paths of a list of events, all of one client.\<close>

definition sent_by :: "nat \<Rightarrow> http_request list \<Rightarrow> ('w, 'c) state \<Rightarrow> ('w, 'c) state \<Rightarrow> bool" where
  "sent_by c rs s t \<longleftrightarrow> st_trace t = st_trace s @ map (Pair c) rs"

lemma discover_sent:
  assumes "discover_approval_wait E c s = (d, t)"
  shows "\<exists>es. sent_by c es s t \<and> map rq_path es \<in> {[], [''/status'']}"
  using discover_trace [of E c s] assms by (simp add: sent_by_def)

text \<open>The reply a request gets in a given world, if it gets one.\<close>

definition answer :: "'w env \<Rightarrow> nat \<Rightarrow> http_request \<Rightarrow> 'w \<Rightarrow> http_response option" where
  "answer E c rq w = (case fst (env_send E c rq w) of HttpReply reply \<Rightarrow> Some reply | TransportFailure _ \<Rightarrow> None)"

abbreviation cancel_request :: "string \<Rightarrow> int \<Rightarrow> http_request" where
  "cancel_request rid n \<equiv> mk_request ''POST'' ''/sign/cancel'' (pobj [(''request_id'', PStr rid)]) n"

text \<open>A signing exchange: either a reply came, or the request was cancelled and the call fails.\<close>

lemma guarded_exchange:
  assumes "acatch is_request_exception (cancel_and_fail E c rid) (http E c meth path body tmo) s = (r, t)"
    and "request_id_ok rid" "rid \<noteq> []"
  shows "case answer E c (mk_request meth path body tmo) (st_world s) of
      Some reply \<Rightarrow> r = Inr reply \<and> sent_by c [mk_request meth path body tmo] s t
    | None \<Rightarrow> (\<exists>m n. r = Inl (Exc SignerUnavailableError m []) \<and> sent_by c [mk_request meth path body tmo, cancel_request rid n] s t)"
proof -
  obtain out w where out: "env_send E c (mk_request meth path body tmo) (st_world s) = (out, w)" by fastforce
  let ?u = "s\<lparr>st_world := w, st_trace := st_trace s @ [(c, mk_request meth path body tmo)]\<rparr>"
  show ?thesis
  proof (cases out)
    case (HttpReply reply)
    with assms(1) out show ?thesis by (auto simp: acatch_def http_run sent_by_def answer_def)
  next
    case (TransportFailure m)
    with assms(1) out have run: "cancel_and_fail E c rid (Exc RequestException m []) ?u = (r, t)"
      by (simp add: acatch_def http_run is_request_exception_def)
    from cancel_and_fail_run [OF run assms(2,3)] TransportFailure out show ?thesis by (auto simp: sent_by_def answer_def)
  qed
qed

lemma validate_request_id_cases:
  "validate_sign_request_id rid True = Inr () \<longleftrightarrow> rid \<noteq> [] \<and> request_id_ok rid"
  by (auto simp: result_simps)

text \<open>The identifier of a call: the caller's, or one made from a fresh token.\<close>

definition call_id :: "string option \<Rightarrow> string \<Rightarrow> bool" where
  "call_id request_id rid \<longleftrightarrow> (case request_id of Some given \<Rightarrow> rid = given | None \<Rightarrow> \<exists>rnd. rid = new_sign_request_id rnd)"

lemma request_id_choice:
  "\<exists>rid u. (case request_id of None \<Rightarrow> abind (fresh_token E) (\<lambda>rnd. aret (new_sign_request_id rnd)) | Some rid \<Rightarrow> aret rid) s
     = (Inr rid, u) \<and> st_trace u = st_trace s \<and> call_id request_id rid"
  by (auto simp: call_id_def abind_def aret_def fresh_token_def split: option.splits prod.splits)

text \<open>The course of a call: refused, ended by the discovery of the approval wait, or sent.\<close>

definition sign_refused :: "pyval list \<Rightarrow> string \<Rightarrow> ('w, client) state \<Rightarrow> 'a result \<times> ('w, client) state \<Rightarrow> bool" where
  "sign_refused entries rid s out \<longleftrightarrow>
     (\<not> sign_entries_ok entries \<or> \<not> (request_id_ok rid \<and> rid \<noteq> [])) \<and> (\<exists>e t. out = (Inl e, t) \<and> st_trace t = st_trace s)"

definition sign_exchanged :: "'w env \<Rightarrow> nat \<Rightarrow> pyval list \<Rightarrow> string \<Rightarrow> ('w, client) state \<Rightarrow>
    group_sign_response result \<times> ('w, client) state \<Rightarrow> bool" where
  "sign_exchanged E c entries rid v out \<longleftrightarrow>
     (let rq = mk_request ''POST'' ''/sign'' (pobj [(''request_id'', PStr rid), (''requests'', PList entries)])
                 (sign_request_timeout (st_clients v c) (env_now E (st_world v))) in
        case answer E c rq (st_world v) of
          Some reply \<Rightarrow> fst out = sign_reply entries reply \<and> sent_by c [rq] v (snd out)
        | None \<Rightarrow> (\<exists>m n. fst out = Inl (Exc SignerUnavailableError m []) \<and> sent_by c [rq, cancel_request rid n] v (snd out)))"

lemma sign_exchange_run:
  assumes "request_id_ok rid" "rid \<noteq> []"
  shows "sign_exchanged E c entries rid v (abind (acatch is_request_exception (cancel_and_fail E c rid)
     (http E c ''POST'' ''/sign'' (pobj [(''request_id'', PStr rid), (''requests'', PList entries)])
       (sign_request_timeout (st_clients v c) (env_now E (st_world v))))) (\<lambda>r. alift (sign_reply entries r)) v)"
proof -
  let ?tmo = "sign_request_timeout (st_clients v c) (env_now E (st_world v))"
  let ?body = "pobj [(''request_id'', PStr rid), (''requests'', PList entries)]"
  obtain h k where h: "acatch is_request_exception (cancel_and_fail E c rid) (http E c ''POST'' ''/sign'' ?body ?tmo) v = (h, k)" by fastforce
  from guarded_exchange [OF h assms] h show ?thesis
    unfolding sign_exchanged_def Let_def by (auto simp: abind_def alift_def split: option.splits sum.splits)
qed

section \<open>Replies that are returned\<close>

lemma sign_requests_Inr:
  assumes "sign_requests E c entries request_id s = (Inr resp, t)"
  shows "sign_entries_ok entries \<and> (\<exists>r. sign_reply entries r = Inr resp)"
  using assms unfolding sign_requests_def validate_sign_entries_iff [symmetric]
  by (auto simp: result_simps)

lemma sign_reply_Inr:
  "sign_reply entries r = Inr resp \<Longrightarrow> validate_group_sign_response entries (gs_signed resp) = Inr ()"
  by (auto simp: sign_reply_def result_simps Let_def split: if_splits)

lemma sign_entries_ok_dict: "sign_entries_ok es \<Longrightarrow> e \<in> set es \<Longrightarrow> is_dict e"
  by (auto simp: sign_entries_ok_def entry_mode_def list_all2_conv_all_nth in_set_conv_nth)

lemma update_fresh: "k \<notin> fst ` set al \<Longrightarrow> AList.update k v al = al @ [(k, v)]"
  by (induction al) auto

lemma index_kinds_zip:
  assumes "index_kinds xs d = Inr d'" and "map item_index xs = map Some is" and "distinct is" and "set is \<inter> fst ` set d = {}"
  shows "d' = d @ zip is (map (\<lambda>x. pget x ''kind'') xs)"
  using assms
proof (induction xs arbitrary: d "is")
  case (Cons x xs)
  then obtain i "is'" where "is": "is = i # is'" "item_index x = Some i" "map item_index xs = map Some is'" by auto
  then have "index_kinds xs (AList.update i (pget x ''kind'') d) = Inr d'"
    using Cons.prems(1) by (auto simp: result_simps item_index_def dest!: py_item_pget split: option.splits)
  then have "index_kinds xs (d @ [(i, pget x ''kind'')]) = Inr d'"
    using Cons.prems(4) "is"(1) by (simp add: update_fresh)
  from Cons.IH [OF this "is"(3)] Cons.prems "is" show ?case by auto
qed simp

lemma dict_eq_set:
  assumes "dict_eq a b" and "distinct (map fst a)" "distinct (map fst b)" and "\<forall>(k, v) \<in> set b. is_str v"
  shows "set a = set b"
proof (rule card_subset_eq)
  have "x \<in> set b" if "x \<in> set a" for x
  proof -
    obtain k v where x: "x = (k, v)" by (cases x)
    with that assms(1) have "case map_of b k of Some w \<Rightarrow> py_eq v w | None \<Rightarrow> False"
      unfolding dict_eq_def by blast
    then obtain w where w: "map_of b k = Some w" "py_eq v w" by (cases "map_of b k") simp_all
    from map_of_SomeD [OF w(1)] assms(4) have "is_str w" by blast
    then have "v = w" using w(2) by (cases w) (simp_all add: py_eq_str)
    with map_of_SomeD [OF w(1)] x show ?thesis by simp
  qed
  then show "set a \<subseteq> set b" by blast
  have "length a = length b" using assms(1) by (simp add: dict_eq_def)
  then show "card (set a) = card (set b)"
    using assms(2,3) by (simp add: distinct_card distinct_map)
qed simp

text \<open>The pairs of position and kind that a list of targets or components names.\<close>

definition claims :: "pyval list \<Rightarrow> (int option \<times> pyval) list" where
  "claims xs = map (\<lambda>x. (item_index x, pget x ''kind'')) xs"

lemma claims_zip: "map item_index xs = map Some is \<Longrightarrow> claims xs = map (\<lambda>(i, k). (Some i, k)) (zip is (map (\<lambda>x. pget x ''kind'') xs))"
proof (induction xs arbitrary: "is")
  case (Cons x xs)
  then show ?case by (cases "is") (auto simp: claims_def)
qed (simp add: claims_def)

lemma component_request_targets:
  assumes "validate_component_request body = Inr ()"
  shows "\<exists>ts is first. payload_list body ''targets'' = Inr ts \<and> map item_index ts = map Some is \<and> distinct is \<and> ts \<noteq> [] \<and>
     py_index (py_or (pget body ''targets'') (PList [])) 0 = Inr first \<and> (\<forall>t \<in> set ts. component_target_ok first t)"
proof -
  from validate_component_request_claims [OF assms] obtain ts first n S where
    *: "payload_list body ''targets'' = Inr ts" "ts \<noteq> []" "py_index (py_or (pget body ''targets'') (PList [])) 0 = Inr first"
    and loop: "rfold (component_target_step n first) (List.enumerate 1 ts) {} = Inr S" by blast
  from component_targets.claims_distinct [OF loop] obtain "is" where "map item_index ts = map Some is" "distinct is"
    unfolding map_snd_enumerate_comp by auto
  moreover have "\<forall>t \<in> set ts. component_target_ok first t"
    using rfold_enumerate_rounds [OF loop]
    by (metis in_set_conv_nth check_component_target_ok component_target_step_ok fst_conv snd_conv)
  ultimately show ?thesis using * by blast
qed

lemma pget_set_item [simp]: "is_dict v \<Longrightarrow> pget (py_set_item k x v) k = x"
  by (cases v) (simp_all add: dict_lookup_def update_conv')

lemma is_dict_set_item [simp]: "is_dict (py_set_item k x v) = is_dict v"
  by (cases v) simp_all

lemma ensure_request_id_Inr:
  assumes "ensure_request_id E body s = (Inr body', t)" and "is_dict body"
  shows "is_dict body' \<and> phas body' ''request_id'' \<and> st_trace t = st_trace s"
proof -
  have "st_trace t = st_trace s"
    using assms(1) silent_trace [OF issues_ensure_request_id, of E body s] by simp
  with assms show ?thesis
    by (auto simp: ensure_request_id_def result_simps phas_def new_sign_request_id_def split: if_splits)
qed

lemma pget_set_other: "k \<noteq> k' \<Longrightarrow> pget (py_set_item k x v) k' = pget v k'"
  by (cases v) (simp_all add: dict_lookup_def update_conv')

lemma ensure_request_id_targets:
  "ensure_request_id E body s = (Inr body', t) \<Longrightarrow> pget body' ''targets'' = pget body ''targets''"
  by (auto simp: ensure_request_id_def result_simps pget_set_other split: if_splits)

lemma component_reply_Inr:
  assumes "component_reply body r = Inr resp"
  shows "\<exists>ts expected actual. validate_component_response (safe_json r) (Some body) = Inr () \<and>
     py_iter (pget (safe_json r) ''components'') = Inr (cp_components resp) \<and> py_iter (pget body ''targets'') = Inr ts \<and>
     py_eq (cp_request_id resp) (pget body ''request_id'') \<and>
     index_kinds ts [] = Inr expected \<and> index_kinds (cp_components resp) [] = Inr actual \<and> dict_eq actual expected"
  using assms by (auto simp: component_reply_def Let_def result_simps dest!: py_item_pget split: if_splits)

lemma component_reply_indices:
  assumes "validate_component_response data (Some body) = Inr ()" and "py_iter (pget data ''components'') = Inr cs"
  shows "\<exists>js. map item_index cs = map Some js \<and> distinct js"
proof -
  from assms obtain n S where "rfold (component_reply_step n) (List.enumerate 1 cs) {} = Inr S"
    unfolding validate_component_response_def by (auto simp: result_simps)
  from component_reply.claims_distinct [OF this] show ?thesis unfolding map_snd_enumerate_comp by auto
qed

lemma distinct_claims: "map item_index xs = map Some is \<Longrightarrow> distinct is \<Longrightarrow> distinct (claims xs)"
proof -
  assume "map item_index xs = map Some is" "distinct is"
  then have "distinct (map fst (claims xs))" by (simp add: claims_def comp_def distinct_map)
  then show ?thesis by (simp add: distinct_map)
qed

lemma component_target_ok_kind: "component_target_ok first t \<Longrightarrow> is_str (pget t ''kind'')"
  by (auto simp: component_target_ok_def)

text \<open>A returned reply and the targets it answers name the same positions with the same kinds.\<close>

lemma component_reply_claims:
  assumes "component_reply body r = Inr resp" and "validate_component_request body = Inr ()"
  shows "\<exists>ts. payload_list body ''targets'' = Inr ts \<and> set (claims (cp_components resp)) = set (claims ts) \<and>
     distinct (claims (cp_components resp)) \<and> distinct (claims ts)"
proof -
  from component_reply_Inr [OF assms(1)] obtain us expected actual where
    reply: "validate_component_response (safe_json r) (Some body) = Inr ()" "py_iter (pget (safe_json r) ''components'') = Inr (cp_components resp)"
    and us: "py_iter (pget body ''targets'') = Inr us"
    and d: "index_kinds us [] = Inr expected" "index_kinds (cp_components resp) [] = Inr actual" "dict_eq actual expected" by blast
  from component_request_targets [OF assms(2)] obtain ts "is" first where
    ts: "payload_list body ''targets'' = Inr ts" "map item_index ts = map Some is" "distinct is" "ts \<noteq> []"
    and ok: "\<forall>t \<in> set ts. component_target_ok first t" by blast
  have "us = ts" using us ts(1,4) by (auto simp: payload_list_def py_or_def split: if_splits)
  from component_reply_indices [OF reply] obtain js where js: "map item_index (cp_components resp) = map Some js" "distinct js" by blast
  from index_kinds_zip [OF d(1) ts(2) [folded \<open>us = ts\<close>] ts(3)] index_kinds_zip [OF d(2) js]
  have zips: "expected = zip is (map (\<lambda>x. pget x ''kind'') ts)" "actual = zip js (map (\<lambda>x. pget x ''kind'') (cp_components resp))"
    by (simp_all add: \<open>us = ts\<close>)
  have len: "length is = length ts" "length js = length (cp_components resp)"
    using ts(2) js(1) by (metis length_map)+
  have "set actual = set expected"
  proof (rule dict_eq_set [OF d(3)])
    show "\<forall>(k, v) \<in> set expected. is_str v"
      unfolding zips by (auto dest!: set_zip_rightD simp: component_target_ok_kind [OF bspec [OF ok]])
  qed (simp_all add: zips len js ts)
  then have "set (claims (cp_components resp)) = set (claims ts)"
    by (simp add: claims_zip [OF ts(2)] claims_zip [OF js(1)] flip: zips)
  with ts(1) distinct_claims [OF ts(2,3)] distinct_claims [OF js] show ?thesis by blast
qed

lemma cancel_and_fail_not_Inr: "cancel_and_fail E c rid e s \<noteq> (Inr x, t)"
  by (auto simp: cancel_and_fail_def failed_to_connect_def abind_def araise_def split: prod.splits sum.splits)

lemma request_components_Inr:
  assumes "request_components E c request s = (Inr resp, t)"
  shows "\<exists>body tmo r es. validate_component_request body = Inr () \<and> phas body ''request_id'' \<and>
     pget body ''targets'' = pget (compact_payload request) ''targets'' \<and>
     component_reply body r = Inr resp \<and> st_trace t = es @ [(c, mk_request ''POST'' ''/sign/component'' body tmo)]"
proof -
  from assms obtain body kind tmo r s1 s2 where dict: "is_dict (compact_payload request)"
    and ens: "ensure_request_id E (compact_payload request) s = (Inr body, s1)"
    and val: "validate_component_request body = Inr ()"
    and ex: "acatch is_request_exception (\<lambda>e. if operator_side kind then cancel_and_fail E c (py_str (pget body ''request_id'')) e
                   else failed_to_connect e) (http E c ''POST'' ''/sign/component'' body tmo) s2 = (Inr r, t)"
    and rep: "component_reply body r = Inr resp"
    by (auto simp: request_components_def result_simps)
  from ex have "http E c ''POST'' ''/sign/component'' body tmo s2 = (Inr r, t)"
    by (auto simp: acatch_Inr cancel_and_fail_not_Inr failed_to_connect_def araise_def split: if_splits)
  then have "st_trace t = st_trace s2 @ [(c, mk_request ''POST'' ''/sign/component'' body tmo)]"
    by (auto simp: http_run split: prod.splits)
  with val rep ensure_request_id_Inr [OF ens dict] ensure_request_id_targets [OF ens] show ?thesis by blast
qed

section \<open>Properties\<close>


definition sample_sign_entry :: pyval where
  "sample_sign_entry = pobj [(''txn_bytes_hex'', PStr ''5458a0''), (''auth_address'', PStr ''A'')]"

lemma sample_sign_run:
  "\<exists>resp t. sign_requests (scripted_env [(''/sign'', ok_reply (pobj [(''signed'', PList [PStr ''aa''])]))]) 0
     [sample_sign_entry] (Some ''r1'') (initial_state sample_client) = (Inr resp, t) \<and> gs_signed resp = PList [PStr ''aa'']"
proof -
  have "(case sign_requests (scripted_env [(''/sign'', ok_reply (pobj [(''signed'', PList [PStr ''aa''])]))]) 0
     [sample_sign_entry] (Some ''r1'') (initial_state sample_client) of (Inr resp, t) \<Rightarrow> gs_signed resp = PList [PStr ''aa''] | _ \<Rightarrow> False)"
    by code_simp
  then show ?thesis by (auto split: prod.splits sum.splits)
qed


text \<open>
  C15. A reply \<^verbatim>\<open>sign_requests\<close> returns is complete: the request was valid, there is a signed
  transaction for every slot of it that asked for one, only foreign slots may be empty, and every
  slot the signer appended is filled.
\<close>

theorem sign_requests_complete:
  assumes "sign_requests E c entries request_id s = (Inr resp, t)" and "gs_signed resp = PList xs"
  shows "sign_entries_ok entries \<and> length entries \<le> length xs \<and>
     (\<forall>i < length xs. truthy (xs ! i) \<or> i < length entries \<and> entry_mode (entries ! i) ForeignMode)"
proof -
  from sign_requests_Inr [OF assms(1)] obtain r where ok: "sign_entries_ok entries" and "sign_reply entries r = Inr resp" by blast
  from sign_reply_Inr [OF this(2)] have "validate_group_sign_response entries (PList xs) = Inr ()" by (simp add: assms(2))
  with validate_group_sign_response_Inr [of entries xs] sign_entries_ok_dict [OF ok] ok show ?thesis by simp
qed

theorem sign_requests_complete_witness:
  "\<exists>resp t. sign_requests (scripted_env [(''/sign'', ok_reply (pobj [(''signed'', PList [PStr ''aa''])]))]) 0
     [sample_sign_entry] (Some ''r1'') (initial_state sample_client) = (Inr resp, t) \<and>
     sign_entries_ok [sample_sign_entry] \<and> truthy (PStr ''aa'')"
proof -
  obtain resp t where run: "sign_requests (scripted_env [(''/sign'', ok_reply (pobj [(''signed'', PList [PStr ''aa''])]))]) 0
     [sample_sign_entry] (Some ''r1'') (initial_state sample_client) = (Inr resp, t)" and "gs_signed resp = PList [PStr ''aa'']"
    using sample_sign_run by (elim exE conjE)
  from sign_requests_complete [OF this] have "sign_entries_ok [sample_sign_entry]" "truthy (PStr ''aa'')" by auto
  with run show ?thesis by (intro exI conjI)
qed


definition sample_component_env :: "unit env" where
  "sample_component_env = scripted_env [(''/sign/component'', ok_reply sample_component_reply)]"


end
