(* ===== verification/Group_Signing.thy ===== *)
theory Group_Signing
  imports Transactions Sign_Protocol
begin

text \<open>
  Signing at the level of transactions: building the slots of a \<^verbatim>\<open>/sign\<close> or \<^verbatim>\<open>/plan\<close> request from
  transactions, signing, and handing the signed bytes on as base64, joined or one by one; and the
  client-side simulation of a signed group.
\<close>

section \<open>Request bodies\<close>

text \<open>
  Optional dictionaries are association lists, with \<^verbatim>\<open>None\<close> and \<^verbatim>\<open>{}\<close> both empty (the code tests
  them for truth); an authorizing address that is \<^verbatim>\<open>None\<close> is the empty text.
\<close>

fun check_passthrough_indices :: "nat \<Rightarrow> (int \<times> string) list \<Rightarrow> unit result" where
  "check_passthrough_indices n [] = Inr ()"
| "check_passthrough_indices n ((idx, _) # rest) =
     raise_if (idx < 0 \<or> int n \<le> idx)
       (value_error (''passthrough index '' @ show_int idx @ '' out of range for '' @ show_nat n @ '' transactions''))
       (check_passthrough_indices n rest)"

text \<open>The range check on declared resources here compares the fields as numbers only.\<close>

definition resources_in_range :: "lsig_usage \<Rightarrow> bool result" where
  "resources_in_range u =
     (case (as_int (program_bytes u), as_int (argument_bytes u), as_int (max_opcode_cost u)) of
        (Some p, Some a, Some m) \<Rightarrow> Inr (0 < p \<and> p \<le> 16000 \<and> 0 \<le> a \<and> 0 < m \<and> m \<le> 320000)
      | _ \<Rightarrow> Inl (Exc TypeError ''comparison not supported between instances'' []))"

fun check_resource_indices :: "nat \<Rightarrow> (int \<times> lsig_usage) list \<Rightarrow> unit result" where
  "check_resource_indices n [] = Inr ()"
| "check_resource_indices n ((idx, u) # rest) =
     raise_if (idx < 0 \<or> int n \<le> idx)
       (value_error (''lsig_resources index '' @ show_int idx @ '' out of range for '' @ show_nat n @ '' transactions'')) (
     rbind (resources_in_range u) (\<lambda>ok.
     raise_if (\<not> ok) (value_error (''lsig_resources['' @ show_int idx @ ''] is invalid''))
       (check_resource_indices n rest)))"

definition build_sign_entry :: "algosdk \<Rightarrow> (string \<times> (string \<times> bytes) list) list \<Rightarrow> (int \<times> string) list \<Rightarrow>
    (int \<times> lsig_usage) list \<Rightarrow> bool \<Rightarrow> nat \<times> txn option \<times> string \<Rightarrow> pyval result" where
  "build_sign_entry K lsig_args_map passthrough lsig_resources allow_foreign slot =
     (case slot of (i, txn, auth_addr) \<Rightarrow>
      case map_of passthrough (int i) of
        Some encoded \<Rightarrow>
          rbind (rewrap (\<lambda>_. True) (\<lambda>e. value_error (''invalid base64 in passthrough['' @ show_nat i @ '']: '' @ exc_msg e))
                   (b64decode True encoded)) (\<lambda>raw.
          rbind (with_resources (map_of lsig_resources (int i)) [(''signed_txn_hex'', PStr (bytes_hex raw))]) (\<lambda>kvs.
            Inr (pobj kvs)))
      | None \<Rightarrow>
          raise_if (auth_addr \<noteq> [] \<and> map_of lsig_resources (int i) \<noteq> None)
            (value_error (''lsig_resources['' @ show_nat i @ ''] is allowed only for foreign or passthrough transactions'')) (
          if auth_addr = [] then
            raise_if (\<not> allow_foreign)
              (signer_error (''foreign entries are only supported on /plan; use plan_group() first, then resubmit slot ''
                 @ show_nat i @ '' as passthrough'')) (
            case txn of
              None \<Rightarrow> Inl (value_error (''transaction is required for foreign-mode entry at index '' @ show_nat i))
            | Some t \<Rightarrow>
                rbind (encode_transaction K t) (\<lambda>(txn_bytes_hex, _).
                rbind (with_resources (map_of lsig_resources (int i)) [(''txn_bytes_hex'', PStr txn_bytes_hex)]) (\<lambda>kvs.
                  Inr (pobj kvs))))
          else case txn of
              None \<Rightarrow> Inl (value_error (''transaction is required for sign-mode entry at index '' @ show_nat i))
            | Some t \<Rightarrow>
                rbind (encode_transaction K t) (\<lambda>(txn_bytes_hex, txn_sender).
                  Inr (pobj ([(''txn_bytes_hex'', PStr txn_bytes_hex), (''auth_address'', PStr auth_addr), (''txn_sender'', PStr txn_sender)]
                    @ (case map_of lsig_args_map auth_addr of Some args \<Rightarrow> [(''lsig_args'', hex_args args)] | None \<Rightarrow> []))))))"

definition build_sign_request_body :: "algosdk \<Rightarrow> txn option list \<Rightarrow> string list \<Rightarrow> (string \<times> (string \<times> bytes) list) list \<Rightarrow>
    (int \<times> string) list \<Rightarrow> (int \<times> lsig_usage) list \<Rightarrow> bool \<Rightarrow> pyval list result" where
  "build_sign_request_body K txns auth_addresses lsig_args_map passthrough lsig_resources allow_foreign =
     rbind (check_passthrough_indices (length txns) passthrough) (\<lambda>_.
     rbind (check_resource_indices (length txns) lsig_resources) (\<lambda>_.
       rmap (build_sign_entry K lsig_args_map passthrough lsig_resources allow_foreign)
         (List.enumerate 0 (zip txns auth_addresses))))"

section \<open>Signing\<close>

definition signed_slot_to_base64 :: "pyval \<Rightarrow> string result" where
  "signed_slot_to_base64 h =
     raise_if (\<not> truthy h)
       (signer_error ''Server returned empty signed transaction slot; use /plan for foreign or partial groups'') (
     case h of PStr s \<Rightarrow> rbind (bytes_fromhex s) (\<lambda>raw. Inr (b64encode raw))
     | _ \<Rightarrow> Inl (Exc TypeError (''fromhex() argument must be str, not '' @ type_name h) []))"

definition sign_request_list :: "'w env \<Rightarrow> algosdk \<Rightarrow> nat \<Rightarrow> txn option list \<Rightarrow> string list \<Rightarrow> (string \<times> (string \<times> bytes) list) list \<Rightarrow>
    (int \<times> string) list \<Rightarrow> (int \<times> lsig_usage) list \<Rightarrow> string option \<Rightarrow> ('w, string list) client_action" where
  "sign_request_list E K c txns auth_addresses lsig_args_map passthrough lsig_resources request_id =
     abind (alift (build_sign_request_body K txns auth_addresses lsig_args_map passthrough lsig_resources False)) (\<lambda>entries.
     abind (sign_requests E c entries request_id) (\<lambda>data.
     araise_if (\<not> truthy (gs_signed data)) (signer_error ''Server returned no signed transactions'') (
     alift (rbind (py_iter (gs_signed data)) (rmap signed_slot_to_base64)))))"

text \<open>\<^verbatim>\<open>base64.b64encode(b"".join(base64.b64decode(s) for s in signed_list)).decode()\<close>\<close>

definition join_base64 :: "string list \<Rightarrow> string result" where
  "join_base64 signed = rbind (rmap (b64decode False) signed) (\<lambda>parts. Inr (b64encode (concat parts)))"

definition sign_transaction :: "'w env \<Rightarrow> algosdk \<Rightarrow> nat \<Rightarrow> txn \<Rightarrow> string option \<Rightarrow> (string \<times> bytes) list \<Rightarrow> string option \<Rightarrow>
    ('w, string) client_action" where
  "sign_transaction E K c txn auth_address lsig_args request_id =
     (let auth = (case auth_address of None \<Rightarrow> tx_sender txn | Some a \<Rightarrow> a) in
      abind (sign_request_list E K c [Some txn] [auth] (if lsig_args \<noteq> [] then [(auth, lsig_args)] else []) [] [] request_id) (\<lambda>signed.
      alift (join_base64 signed)))"

text \<open>\<^verbatim>\<open>[txn.sender if txn else None for txn in txns]\<close> and the length check.\<close>

definition resolve_auth_addresses :: "txn option list \<Rightarrow> string list option \<Rightarrow> string list result" where
  "resolve_auth_addresses txns auth_addresses =
     (let auths = (case auth_addresses of Some a \<Rightarrow> a | None \<Rightarrow> map (\<lambda>t. case t of Some x \<Rightarrow> tx_sender x | None \<Rightarrow> []) txns) in
      raise_if (length auths \<noteq> length txns) (value_error ''auth_addresses length must match txns length'') (Inr auths))"

definition sign_transactions_list :: "'w env \<Rightarrow> algosdk \<Rightarrow> nat \<Rightarrow> txn option list \<Rightarrow> string list option \<Rightarrow>
    (string \<times> (string \<times> bytes) list) list \<Rightarrow> (int \<times> string) list \<Rightarrow> (int \<times> lsig_usage) list \<Rightarrow> string option \<Rightarrow> ('w, string list) client_action" where
  "sign_transactions_list E K c txns auth_addresses lsig_args_map passthrough lsig_resources request_id =
     abind (alift (resolve_auth_addresses txns auth_addresses)) (\<lambda>auths.
       sign_request_list E K c txns auths lsig_args_map passthrough lsig_resources request_id)"

definition sign_transactions :: "'w env \<Rightarrow> algosdk \<Rightarrow> nat \<Rightarrow> txn option list \<Rightarrow> string list option \<Rightarrow>
    (string \<times> (string \<times> bytes) list) list \<Rightarrow> (int \<times> string) list \<Rightarrow> (int \<times> lsig_usage) list \<Rightarrow> string option \<Rightarrow> ('w, string) client_action" where
  "sign_transactions E K c txns auth_addresses lsig_args_map passthrough lsig_resources request_id =
     abind (alift (resolve_auth_addresses txns auth_addresses)) (\<lambda>auths.
     abind (sign_request_list E K c txns auths lsig_args_map passthrough lsig_resources request_id) (\<lambda>signed.
       alift (join_base64 signed)))"

definition plan_group :: "'w env \<Rightarrow> algosdk \<Rightarrow> nat \<Rightarrow> txn option list \<Rightarrow> string list option \<Rightarrow>
    (string \<times> (string \<times> bytes) list) list \<Rightarrow> (int \<times> string) list \<Rightarrow> (int \<times> lsig_usage) list \<Rightarrow> ('w, pyval) client_action" where
  "plan_group E K c txns auth_addresses lsig_args_map passthrough lsig_resources =
     abind (alift (resolve_auth_addresses txns auth_addresses)) (\<lambda>auths.
     abind (alift (build_sign_request_body K txns auths lsig_args_map passthrough lsig_resources True)) (\<lambda>entries.
       plan_requests E c entries))"

section \<open>Client-side simulation\<close>

record simulation_result =
  sm_tx_ids :: "string list"
  sm_transactions :: "string list"
  sm_signed_group :: "pyval list"
  sm_mutations :: pyval
  sm_response :: pyval
  sm_failed :: bool

definition decode_signed_slot :: "algosdk \<Rightarrow> nat \<times> pyval \<Rightarrow> txn result" where
  "decode_signed_slot K slot =
     (case slot of (index, signed_hex) \<Rightarrow>
     let position = ''signed group position '' @ show_nat index in
     raise_if (\<not> truthy signed_hex) (signer_error (position @ '' is empty'')) (
     rbind (rewrap (\<lambda>_. True) (\<lambda>e. signer_error (position @ '' is invalid: '' @ exc_msg e))
       (case signed_hex of
          PStr s \<Rightarrow> rbind (bytes_fromhex s) (\<lambda>raw. msgpack_decode K (b64encode raw))
        | _ \<Rightarrow> Inl (Exc TypeError (''fromhex() argument must be str, not '' @ type_name signed_hex) []))) (\<lambda>d.
     case d of DecodedSigned t \<Rightarrow> Inr t
     | _ \<Rightarrow> Inl (signer_error (position @ '' does not contain a signed transaction'')))))"

text \<open>
  \<open>simulate\<close> is the node's simulation call, with or without the execution trace. The call is made
  with the trace first and retried without it.
\<close>

definition simulate_signed_group :: "algosdk \<Rightarrow> (bool \<Rightarrow> txn list \<Rightarrow> pyval result) \<Rightarrow> pyval \<Rightarrow> pyval \<Rightarrow> simulation_result result" where
  "simulate_signed_group K simulate signed_group mutations =
     raise_if (\<not> truthy signed_group) (signer_error ''signed group is empty'') (
     rbind (py_iter signed_group) (\<lambda>slots.
     rbind (rmap (decode_signed_slot K) (List.enumerate 1 slots)) (\<lambda>txns.
     rbind (case simulate True txns of Inr r \<Rightarrow> Inr r
            | Inl _ \<Rightarrow> rewrap (\<lambda>_. True) (\<lambda>e. signer_error (''simulation API call failed: '' @ exc_msg e)) (simulate False txns)) (\<lambda>response.
     raise_if (\<not> is_dict response) (signer_error ''simulation API returned an invalid response'') (
     let groups = py_or (py_or (pget response ''txn-groups'') (pget response ''txn_groups'')) (PList []) in
     rbind (if truthy groups then
              rbind (py_index groups 0) (\<lambda>g.
              rbind (py_get g ''failure-message'') (\<lambda>m. Inr (py_or m (pget_or g ''failure_message'' (PStr [])))))
            else Inr (PStr [])) (\<lambda>failure.
     rbind (rmap (encode_transaction K) txns) (\<lambda>encoded.
       Inr \<lparr>sm_tx_ids = map (txn_id K) txns, sm_transactions = map fst encoded, sm_signed_group = slots,
            sm_mutations = mutations, sm_response = response, sm_failed = truthy failure\<rparr>)))))))"

definition simulate_prepared_group :: "'w env \<Rightarrow> algosdk \<Rightarrow> (bool \<Rightarrow> txn list \<Rightarrow> pyval result) \<Rightarrow> nat \<Rightarrow> prepared_group \<Rightarrow> string option \<Rightarrow>
    ('w, simulation_result) client_action" where
  "simulate_prepared_group E K simulate c grp request_id =
     abind (alift (to_sign_requests K grp)) (\<lambda>entries.
     abind (sign_requests E c entries request_id) (\<lambda>response.
     abind (alift (rbind (py_get_or (py_or (gs_mutations response) (PDict [])) ''foreign_count'' (PInt 0)) py_int)) (\<lambda>foreign_count.
     araise_if (foreign_count \<noteq> 0)
       (signer_error (''signed simulation requires a complete group; signer returned '' @ show_int foreign_count @ '' foreign transaction(s)''))
       (alift (simulate_signed_group K simulate (gs_signed response) (gs_mutations response))))))"

definition simulate_prepared_transaction :: "'w env \<Rightarrow> algosdk \<Rightarrow> (bool \<Rightarrow> txn list \<Rightarrow> pyval result) \<Rightarrow> nat \<Rightarrow> prepared_transaction \<Rightarrow>
    string option \<Rightarrow> ('w, simulation_result) client_action" where
  "simulate_prepared_transaction E K simulate c prepared request_id =
     simulate_prepared_group E K simulate c \<lparr>pg_transactions = [prepared], pg_checks = []\<rparr> request_id"

section \<open>Lemmas\<close>

text \<open>The modes of a valid request are determined by its entries.\<close>

lemma sign_entries_ok_modes:
  assumes "list_all2 (\<lambda>e m. entry_mode e m \<and> entry_declares_ok e m) es ms"
  shows "sign_entries_ok es \<longleftrightarrow> es \<noteq> [] \<and> \<not> (PassthroughMode \<in> set ms \<and> ForeignMode \<in> set ms) \<and>
     (ForeignMode \<in> set ms \<longrightarrow> SignMode \<in> set ms)"
proof -
  have "ms' = ms" if "list_all2 (\<lambda>e m. entry_mode e m \<and> entry_declares_ok e m) es ms'" for ms'
    using that assms unfolding list_all2_conv_all_nth by (metis entry_mode_unique nth_equalityI)
  with assms show ?thesis unfolding sign_entries_ok_def by blast
qed

definition passthrough_nonempty :: "prepared_transaction \<Rightarrow> bool" where
  "passthrough_nonempty p \<longleftrightarrow> pt_signed_transaction_base64 p = [] \<or> b64decode True (pt_signed_transaction_base64 p) \<noteq> Inr []"

lemma to_sign_requests_modes:
  assumes "to_sign_requests K g = Inr es" and "\<forall>p \<in> set (pg_transactions g). passthrough_nonempty p"
  shows "list_all2 (\<lambda>e m. entry_mode e m \<and> entry_declares_ok e m) es (map prepared_mode (pg_transactions g)) \<and>
     pg_transactions g \<noteq> []"
proof -
  from assms(1) have ne: "pg_transactions g \<noteq> []" and len: "length es = length (pg_transactions g)"
    and each: "\<And>i. i < length es \<Longrightarrow> to_sign_request K (pg_transactions g ! i) = Inr (es ! i)"
    by (auto simp: to_sign_requests_def result_simps rmap_Inr nth_enumerate_eq)
  have "entry_mode (es ! i) (prepared_mode (pg_transactions g ! i)) \<and> entry_declares_ok (es ! i) (prepared_mode (pg_transactions g ! i))"
    if "i < length es" for i
    using assms(2) that len by (intro to_sign_request_entry [OF each [OF that]]) (auto simp: passthrough_nonempty_def)
  with ne len show ?thesis by (simp add: list_all2_conv_all_nth)
qed

lemma signed_slots_base64:
  "rmap signed_slot_to_base64 hs = Inr signed \<Longrightarrow> \<exists>raws. signed = map b64encode raws"
proof (induction hs arbitrary: signed)
  case (Cons h hs)
  then obtain x rest where x: "signed_slot_to_base64 h = Inr x" and rest: "rmap signed_slot_to_base64 hs = Inr rest"
    and "signed = x # rest" by (auto simp: result_simps)
  moreover from x obtain raw where "x = b64encode raw"
    by (auto simp: signed_slot_to_base64_def result_simps split: pyval.splits)
  moreover from Cons.IH [OF rest] obtain raws where "rest = map b64encode raws" by blast
  ultimately show ?case by (intro exI [of _ "raw # raws"]) simp
qed simp

lemma sign_request_list_base64:
  "sign_request_list E K c txns auths am pass res rid s = (Inr signed, t) \<Longrightarrow> \<exists>raws. signed = map b64encode raws"
  unfolding sign_request_list_def by (auto simp: result_simps dest: signed_slots_base64)

lemma join_base64_map: "join_base64 (map b64encode raws) = Inr (b64encode (concat raws))"
  unfolding join_base64_def by (rule b64.join_parts)

lemma build_sign_entry_shape:
  assumes "build_sign_entry K am pass res allow_foreign (i, txn, auth) = Inr e"
  shows "case map_of pass (int i) of
        Some encoded \<Rightarrow> \<exists>raw. b64decode True encoded = Inr raw \<and> pget e ''signed_txn_hex'' = PStr (bytes_hex raw) \<and>
          \<not> phas e ''txn_bytes_hex'' \<and> \<not> phas e ''auth_address''
      | None \<Rightarrow> \<exists>t m raw. txn = Some t \<and> msgpack_encode K t = Inr m \<and> b64decode False m = Inr raw \<and>
          pget e ''txn_bytes_hex'' = PStr (bytes_hex (''TX'' @ raw)) \<and>
          (if auth = [] then allow_foreign \<and> entry_mode e ForeignMode
           else entry_mode e SignMode \<and> pget e ''auth_address'' = PStr auth)"
proof (cases "map_of pass (int i)")
  case (Some encoded)
  with assms show ?thesis by (auto simp: build_sign_entry_def result_simps with_resources_Inr)
next
  case None
  with assms show ?thesis
    by (auto simp: build_sign_entry_def result_simps with_resources_Inr encode_transaction_Inr entry_mode_def TX_PREFIX_def
        split: if_splits option.splits)
qed

section \<open>Properties\<close>

text \<open>
  C22. \<^verbatim>\<open>sign_transactions\<close> and \<^verbatim>\<open>sign_transactions_list\<close> agree: they exchange the same messages with
  the signer, fail with the same exception, and when they succeed the joined result is the base64
  text of the concatenation of the bytes the list holds, in order.
\<close>

theorem joined_agrees_with_list:
  "case sign_transactions_list E K c txns auths am pass res rid s of
     (Inl e, t) \<Rightarrow> sign_transactions E K c txns auths am pass res rid s = (Inl e, t)
   | (Inr signed, t) \<Rightarrow> (\<exists>raws. signed = map b64encode raws \<and>
        sign_transactions E K c txns auths am pass res rid s = (Inr (b64encode (concat raws)), t))"
proof (cases "resolve_auth_addresses txns auths")
  case (Inl e)
  then show ?thesis by (simp add: sign_transactions_list_def sign_transactions_def araise_def)
next
  case (Inr as)
  obtain r t where run: "sign_request_list E K c txns as am pass res rid s = (r, t)" by fastforce
  show ?thesis
  proof (cases r)
    case (Inl e)
    with Inr run show ?thesis by (simp add: sign_transactions_list_def sign_transactions_def abind_def alift_def)
  next
    case (Inr signed)
    with run obtain raws where "signed = map b64encode raws" using sign_request_list_base64 by blast
    with \<open>resolve_auth_addresses txns auths = Inr as\<close> run Inr show ?thesis
      by (auto simp: sign_transactions_list_def sign_transactions_def abind_def alift_def join_base64_map)
  qed
qed

text \<open>
  Conversion of a prepared group and validation of its request fit together: if every slot
  converts (and no passthrough text decodes to nothing), the request is accepted exactly when the
  slots do not mix passthrough with foreign ones and are not all foreign.
\<close>

theorem prepared_group_accepted:
  assumes "to_sign_requests K g = Inr es" and "\<forall>p \<in> set (pg_transactions g). passthrough_nonempty p"
  shows "validate_sign_entries es = Inr () \<longleftrightarrow>
     (let ms = prepared_mode ` set (pg_transactions g) in
      \<not> (PassthroughMode \<in> ms \<and> ForeignMode \<in> ms) \<and> (ForeignMode \<in> ms \<longrightarrow> SignMode \<in> ms))"
proof -
  note modes = to_sign_requests_modes [OF assms]
  then have "es \<noteq> []" by auto
  with sign_entries_ok_modes [OF conjunct1 [OF modes]] show ?thesis
    by (auto simp: validate_sign_entries_iff Let_def)
qed

text \<open>
  C21. A body built for \<^verbatim>\<open>/sign\<close> or \<^verbatim>\<open>/plan\<close> keeps the positions and bytes it was given: slot \<open>i\<close>
  carries the hex of the decoded passthrough text if the caller gave one for \<open>i\<close>, and otherwise
  the hex of \<^verbatim>\<open>TX\<close> and the canonical bytes of transaction \<open>i\<close>, with the caller's authorizing
  address. Foreign slots appear only where they are allowed, that is for \<^verbatim>\<open>/plan\<close>.
\<close>

theorem sign_body_slots:
  assumes "build_sign_request_body K txns auths am pass res allow_foreign = Inr es" and "i < length es"
  shows "length es = min (length txns) (length auths) \<and>
     (case map_of pass (int i) of
        Some encoded \<Rightarrow> \<exists>raw. b64decode True encoded = Inr raw \<and> pget (es ! i) ''signed_txn_hex'' = PStr (bytes_hex raw) \<and>
          \<not> phas (es ! i) ''txn_bytes_hex'' \<and> \<not> phas (es ! i) ''auth_address''
      | None \<Rightarrow> \<exists>t m raw. txns ! i = Some t \<and> msgpack_encode K t = Inr m \<and> b64decode False m = Inr raw \<and>
          pget (es ! i) ''txn_bytes_hex'' = PStr (bytes_hex (''TX'' @ raw)) \<and>
          (if auths ! i = [] then allow_foreign \<and> entry_mode (es ! i) ForeignMode
           else entry_mode (es ! i) SignMode \<and> pget (es ! i) ''auth_address'' = PStr (auths ! i)))"
proof -
  from assms(1) have len: "length es = min (length txns) (length auths)"
    and each: "\<forall>j. j < length txns \<and> j < length auths \<longrightarrow> build_sign_entry K am pass res allow_foreign (j, txns ! j, auths ! j) = Inr (es ! j)"
    by (auto simp: build_sign_request_body_def result_simps rmap_Inr nth_enumerate_eq)
  from each assms(2) len have entry: "build_sign_entry K am pass res allow_foreign (i, txns ! i, auths ! i) = Inr (es ! i)" by simp
  with build_sign_entry_shape [OF entry] len show ?thesis by simp
qed

subsection \<open>Evaluation\<close>

text \<open>A stand-in for the Algorand library in which a transaction encodes as its note.\<close>

definition note_sdk :: algosdk where
  "note_sdk =
     \<lparr>msgpack_encode = (\<lambda>t. Inr (b64encode (case tx_note t of Some n \<Rightarrow> n | None \<Rightarrow> []))),
      msgpack_decode = (\<lambda>s. Inl (value_error ''undecodable'')),
      msgpack_encode_lsig = (\<lambda>t p. Inr (b64encode p)), lsig_address = (\<lambda>p. ''DUMMY''),
      calculate_group_id = (\<lambda>ts. Inr (replicate 32 (CHR ''g''))), txn_id = (\<lambda>t. ''ID'')\<rparr>"

definition sample_txn :: txn where
  "sample_txn = \<lparr>tx_sender = ''S'', tx_fee = 1000, tx_group = None, tx_note = Some ''abc'', tx_rekey_to = None,
     tx_body = PaymentTxn ''R'' 5 None, tx_rest = PNone\<rparr>"

definition sample_prepared :: prepared_transaction where
  "sample_prepared = \<lparr>pt_transaction = Some sample_txn, pt_auth_address = ''A'', pt_txn_sender = [], pt_signer_key = None,
     pt_lsig_args = [], pt_lsig_resources = None, pt_pq_scheme = [], pt_app_call_info = PNone,
     pt_signed_transaction_base64 = [], pt_checks = []\<rparr>"

definition sample_prepared_group :: prepared_group where
  "sample_prepared_group = \<lparr>pg_transactions = [sample_prepared, sample_prepared\<lparr>pt_auth_address := []\<rparr>], pg_checks = []\<rparr>"

theorem prepared_group_accepted_witness:
  "\<exists>es. to_sign_requests note_sdk sample_prepared_group = Inr es \<and> validate_sign_entries es = Inr ()"
proof -
  have "(case to_sign_requests note_sdk sample_prepared_group of Inr es \<Rightarrow> True | Inl e \<Rightarrow> False)" by code_simp
  then obtain es where es: "to_sign_requests note_sdk sample_prepared_group = Inr es" by (auto split: sum.splits)
  have "\<forall>p \<in> set (pg_transactions sample_prepared_group). passthrough_nonempty p"
    by (simp add: sample_prepared_group_def sample_prepared_def passthrough_nonempty_def)
  from prepared_group_accepted [OF es this] es show ?thesis
    by (simp add: sample_prepared_group_def sample_prepared_def prepared_mode_def)
qed

theorem sign_body_slots_witness:
  "\<exists>es. build_sign_request_body note_sdk [Some sample_txn] [''A''] [] [] [] False = Inr es \<and> length es = 1 \<and>
     pget (es ! 0) ''txn_bytes_hex'' = PStr ''5458616263'' \<and> entry_mode (es ! 0) SignMode"
proof -
  have "(case build_sign_request_body note_sdk [Some sample_txn] [''A''] [] [] [] False of Inr es \<Rightarrow> length es = 1 | Inl e \<Rightarrow> False)"
    by code_simp
  then obtain es where es: "build_sign_request_body note_sdk [Some sample_txn] [''A''] [] [] [] False = Inr es" and len: "length es = 1"
    by (auto split: sum.splits)
  have hex: "bytes_hex (''TX'' @ ''abc'') = ''5458616263''" by code_simp
  from sign_body_slots [OF es, of 0] es len show ?thesis
    by (auto simp: note_sdk_def sample_txn_def b64.dec_enc hex [simplified])
qed

end
