(* ===== verification/Canonical_Group.thy ===== *)
theory Canonical_Group
  imports Transactions Index_Claims
begin

text \<open>
  The group the signer froze: decoding it, checking that it is canonical and consistent, checking
  that it differs from what the caller prepared only where the signer reported a change, checking
  fees against advertised limits, and checking that signed transactions carry exactly the frozen
  bytes.
\<close>

section \<open>Decoding the frozen group\<close>

definition TX_GROUP_LIMIT :: nat where "TX_GROUP_LIMIT = 16"

text \<open>\<^verbatim>\<open>bytes.fromhex(v)\<close> on any value\<close>

definition fromhex_value :: "pyval \<Rightarrow> bytes result" where
  "fromhex_value v =
     (case v of PStr s \<Rightarrow> bytes_fromhex s
      | _ \<Rightarrow> Inl (Exc TypeError (''fromhex() argument must be str, not '' @ type_name v) []))"

definition decode_canonical_txn :: "algosdk \<Rightarrow> nat \<times> pyval \<Rightarrow> txn result" where
  "decode_canonical_txn K slot =
     (case slot of (index, encoded) \<Rightarrow>
     let this = ''transaction '' @ show_nat index in
     rbind (rewrap is_value_error (\<lambda>e. signer_error (this @ '' is invalid hex: '' @ exc_msg e)) (fromhex_value encoded)) (\<lambda>raw.
     raise_if (length raw < 3 \<or> take 2 raw \<noteq> TX_PREFIX) (signer_error (this @ '' is missing TX prefix'')) (
     rbind (rewrap (\<lambda>_. True) (\<lambda>e. signer_error (this @ '' is invalid: '' @ exc_msg e))
              (msgpack_decode K (b64encode (drop 2 raw)))) (\<lambda>d.
     case d of
       DecodedTxn txn \<Rightarrow>
         rbind (msgpack_encode K txn) (\<lambda>m.
         rbind (b64decode False m) (\<lambda>canonical.
         raise_if (raw \<noteq> TX_PREFIX @ canonical) (signer_error (this @ '' bytes are not canonical'')) (Inr txn)))
     | _ \<Rightarrow> Inl (signer_error (this @ '' did not decode as a transaction''))))))"

definition group_id_bytes :: "txn \<Rightarrow> bytes option result" where
  "group_id_bytes txn =
     (case tx_group txn of None \<Rightarrow> Inr None
      | Some v \<Rightarrow>
          (if v = [] \<or> v = replicate 32 (char_of (0::nat)) then Inr None
           else raise_if (length v \<noteq> 32) (signer_error ''transaction has invalid group ID'') (Inr (Some v))))"

fun check_group_ids :: "bytes \<Rightarrow> (nat \<times> txn) list \<Rightarrow> unit result" where
  "check_group_ids group_id [] = Inr ()"
| "check_group_ids group_id ((index, txn) # rest) =
     rbind (group_id_bytes txn) (\<lambda>current.
     case current of
       None \<Rightarrow> Inl (signer_error (''group transaction '' @ show_nat index @ '' has empty group ID''))
     | Some g \<Rightarrow> raise_if (g \<noteq> group_id) (signer_error (''group transaction '' @ show_nat index @ '' has divergent group ID''))
         (check_group_ids group_id rest))"

text \<open>\<open>grp\<close> is the list the signer returned, as it arrived.\<close>

definition decode_canonical_group :: "algosdk \<Rightarrow> pyval \<Rightarrow> txn list result" where
  "decode_canonical_group K grp =
     raise_if (\<not> truthy grp) (signer_error ''canonical group is empty'') (
     rbind (py_len grp) (\<lambda>n.
     raise_if (int TX_GROUP_LIMIT < n)
       (signer_error (''canonical group size '' @ show_int n @ '' exceeds max '' @ show_nat TX_GROUP_LIMIT)) (
     rbind (py_iter grp) (\<lambda>items.
     rbind (rmap (decode_canonical_txn K) (List.enumerate 0 items)) (\<lambda>result.
     case result of
       [] \<Rightarrow> Inl (Exc IndexError ''list index out of range'' [])
     | [txn] \<Rightarrow>
         rbind (group_id_bytes txn) (\<lambda>g.
         raise_if (g \<noteq> None) (signer_error ''singleton transaction must not have a group ID'') (Inr [txn]))
     | txn # rest \<Rightarrow>
         rbind (group_id_bytes txn) (\<lambda>g.
         case g of None \<Rightarrow> Inl (signer_error ''group transaction 0 has empty group ID'')
         | Some group_id \<Rightarrow>
             rbind (check_group_ids group_id (List.enumerate 1 rest)) (\<lambda>_.
             rbind (rewrap (\<lambda>_. True) (\<lambda>e. signer_error (''compute group ID: '' @ exc_msg e))
                      (calculate_group_id K (map (\<lambda>t. t\<lparr>tx_group := None\<rparr>) result))) (\<lambda>computed.
             raise_if (computed \<noteq> group_id) (signer_error ''group ID does not match decoded transactions'') (Inr result)))))))))"

section \<open>Budget dummies\<close>

definition canonical_dummy :: "algosdk \<Rightarrow> nat \<Rightarrow> txn \<Rightarrow> bool" where
  "canonical_dummy K index txn \<longleftrightarrow>
     (let dummy_address = lsig_address K GUARDED_DUMMY_PROGRAM in
      (case tx_body txn of
         PaymentTxn receiver amt close \<Rightarrow> receiver = dummy_address \<and> amt = 0 \<and> close = None
       | _ \<Rightarrow> False) \<and>
      tx_sender txn = dummy_address \<and> tx_fee txn = 0 \<and> tx_note txn = Some [char_of index] \<and> tx_rekey_to txn = None)"

fun check_dummy_txns :: "algosdk \<Rightarrow> (nat \<times> txn) list \<Rightarrow> unit result" where
  "check_dummy_txns K [] = Inr ()"
| "check_dummy_txns K ((index, txn) # rest) =
     raise_if (\<not> canonical_dummy K index txn)
       (signer_error (''signer-appended transaction '' @ show_nat index @ '' is not a canonical guarded budget dummy''))
       (check_dummy_txns K rest)"

definition validate_guarded_dummies :: "algosdk \<Rightarrow> txn list \<Rightarrow> unit result" where
  "validate_guarded_dummies K dummies = check_dummy_txns K (List.enumerate 0 dummies)"

section \<open>The signer's mutation report\<close>

definition bounded_mutation_int :: "pyval \<Rightarrow> string \<Rightarrow> int result" where
  "bounded_mutation_int mutations name =
     rbind (py_get_or mutations name (PInt 0)) (\<lambda>value.
     case exact_int value of
       Some i \<Rightarrow> raise_if (i < 0) (signer_error (''bounded mutation '' @ name @ '' must be a non-negative integer'')) (Inr i)
     | None \<Rightarrow> Inl (signer_error (''bounded mutation '' @ name @ '' must be a non-negative integer'')))"

definition check_mutation_counts :: "nat \<Rightarrow> nat \<Rightarrow> pyval \<Rightarrow> unit result" where
  "check_mutation_counts n_original n_planned mutations =
     (let appended = int n_planned - int n_original in
      raise_if (mutations \<noteq> PNone \<and> \<not> is_dict mutations) (signer_error ''bounded mutation report must be a mapping'') (
      if mutations = PNone then
        raise_if (appended \<noteq> 0)
          (signer_error (''signer appended '' @ show_int appended @ '' bounded group positions without a mutation report'')) (Inr ())
      else
        rbind (bounded_mutation_int mutations ''original_count'') (\<lambda>original_count.
        rbind (bounded_mutation_int mutations ''final_count'') (\<lambda>final_count.
        rbind (bounded_mutation_int mutations ''dummies_added'') (\<lambda>dummies_added.
        raise_if (original_count \<noteq> int n_original)
          (signer_error (''bounded mutation original_count '' @ show_int original_count @ '' does not match request count '' @ show_nat n_original)) (
        raise_if (final_count \<noteq> int n_planned)
          (signer_error (''bounded mutation final_count '' @ show_int final_count @ '' does not match returned count '' @ show_nat n_planned)) (
        raise_if (dummies_added \<noteq> appended)
          (signer_error (''bounded mutation dummies_added '' @ show_int dummies_added @ '' does not match appended count '' @ show_int appended))
          (Inr ()))))))))"

definition fee_index_step :: "nat \<Rightarrow> pyval \<Rightarrow> int set \<Rightarrow> int set result" where
  "fee_index_step n index fee_modified =
     (case exact_int index of
        None \<Rightarrow> Inl (signer_error (''bounded mutation fee index '' @ py_repr index @ '' is outside original positions''))
      | Some i \<Rightarrow>
          raise_if (i < 0 \<or> int n \<le> i)
            (signer_error (''bounded mutation fee index '' @ py_repr index @ '' is outside original positions'')) (
          raise_if (i \<in> fee_modified) (signer_error (''bounded mutation fee index '' @ show_int i @ '' is duplicated''))
            (Inr (insert i fee_modified))))"

definition reported_fee_indices :: "nat \<Rightarrow> pyval \<Rightarrow> int set result" where
  "reported_fee_indices n mutations =
     (if mutations = PNone then Inr {} else
      raise_if (\<not> is_bool (pget_or mutations ''group_id_changed'' (PBool False)))
        (signer_error ''bounded mutation group_id_changed must be a boolean'') (
      case py_or (pget mutations ''fees_modified'') (PList []) of
        PList indices \<Rightarrow> rfold (fee_index_step n) indices {}
      | _ \<Rightarrow> Inl (signer_error ''bounded mutation fees_modified must be a list'')))"

text \<open>\<^verbatim>\<open>mutations is not None and mutations.get("group_id_changed") is True\<close>\<close>

definition group_id_changed :: "pyval \<Rightarrow> bool" where
  "group_id_changed mutations \<longleftrightarrow> mutations \<noteq> PNone \<and> pget mutations ''group_id_changed'' = PBool True"

text \<open>What the signer may have made of a prepared transaction, given its report.\<close>

definition expected_txn :: "bool \<Rightarrow> int set \<Rightarrow> nat \<Rightarrow> txn \<Rightarrow> txn \<Rightarrow> txn" where
  "expected_txn changed fee_modified index original planned =
     (let e = (if changed then original\<lparr>tx_group := tx_group planned\<rparr> else original) in
      if int index \<in> fee_modified then e\<lparr>tx_fee := tx_fee planned\<rparr> else e)"

definition plan_txn_step :: "algosdk \<Rightarrow> bool \<Rightarrow> int set \<Rightarrow> nat \<times> txn \<times> txn \<Rightarrow> int \<Rightarrow> int result" where
  "plan_txn_step K changed fee_modified slot delta =
     (case slot of (index, original, planned) \<Rightarrow>
      raise_if (int index \<in> fee_modified \<and> tx_fee planned < tx_fee original)
        (signer_error (''bounded mutation decreased fee at original position '' @ show_nat index)) (
      rbind (encode_transaction K (expected_txn changed fee_modified index original planned)) (\<lambda>(expected_hex, _).
      rbind (encode_transaction K planned) (\<lambda>(planned_hex, _).
      raise_if (expected_hex \<noteq> planned_hex)
        (signer_error (''signer changed unreported fields at bounded original position '' @ show_nat index))
        (Inr (if int index \<in> fee_modified then delta + (tx_fee planned - tx_fee original) else delta))))))"

definition validate_bounded_component_plan :: "algosdk \<Rightarrow> txn list \<Rightarrow> txn list \<Rightarrow> pyval \<Rightarrow> unit result" where
  "validate_bounded_component_plan K original planned mutations =
     raise_if (length planned < length original)
       (signer_error (''signer returned '' @ show_nat (length planned) @ '' bounded group positions, want at least '' @ show_nat (length original))) (
     rbind (check_mutation_counts (length original) (length planned) mutations) (\<lambda>_.
     rbind (reported_fee_indices (length original) mutations) (\<lambda>fee_modified.
     raise_if (group_id_changed mutations \<and> length planned = length original \<and> fee_modified = {} \<and>
               (\<forall>t \<in> set original. tx_group t \<notin> {None, Some []}))
       (signer_error ''signer changed an existing bounded group ID without a fee or membership mutation'') (
     rbind (rfold (plan_txn_step K (group_id_changed mutations) fee_modified) (List.enumerate 0 (zip original planned)) 0) (\<lambda>total_fee_delta.
     rbind (if mutations = PNone then Inr () else
              rbind (bounded_mutation_int mutations ''total_fees_delta'') (\<lambda>reported_delta.
              raise_if (reported_delta \<noteq> total_fee_delta)
                (signer_error (''bounded mutation total_fees_delta '' @ show_int reported_delta @ '' does not match observed delta '' @ show_int total_fee_delta))
                (Inr ()))) (\<lambda>_.
       validate_guarded_dummies K (drop (length original) planned)))))))"

section \<open>Fee limits\<close>

fun validate_bounded_target_fees :: "txn list \<Rightarrow> (nat \<times> int) list \<Rightarrow> unit result" where
  "validate_bounded_target_fees planned [] = Inr ()"
| "validate_bounded_target_fees planned ((index, max_fee) # rest) =
     raise_if (length planned \<le> index) (signer_error (''bounded target index '' @ show_nat index @ '' is outside planned group'')) (
     raise_if (max_fee < 0) (signer_error (''bounded target '' @ show_nat index @ '' has invalid advertised max_fee'')) (
     raise_if (max_fee < tx_fee (planned ! index))
       (signer_error (''bounded target '' @ show_nat index @ '' fee '' @ show_int (tx_fee (planned ! index)) @ '' exceeds advertised max_fee '' @ show_int max_fee))
       (validate_bounded_target_fees planned rest)))"

section \<open>Signed transactions against the frozen bytes\<close>

text \<open>\<^verbatim>\<open>v.lower()\<close>\<close>

definition lower_value :: "pyval \<Rightarrow> string result" where
  "lower_value v = (case v of PStr s \<Rightarrow> Inr (lower s) | _ \<Rightarrow> Inl (no_attribute v ''lower''))"

definition verify_signed_transaction_matches_canonical :: "algosdk \<Rightarrow> string \<Rightarrow> nat \<Rightarrow> pyval \<Rightarrow> pyval \<Rightarrow> unit result" where
  "verify_signed_transaction_matches_canonical K label index signed_hex canonical_hex =
     (let this = label @ '' '' @ show_nat index in
      rbind (rewrap is_value_error (\<lambda>e. signer_error (this @ '': invalid hex: '' @ exc_msg e)) (fromhex_value signed_hex)) (\<lambda>raw.
      rbind (rewrap (\<lambda>_. True) (\<lambda>e. signer_error (this @ '': decode failed: '' @ exc_msg e)) (msgpack_decode K (b64encode raw))) (\<lambda>d.
      case d of
        DecodedSigned txn \<Rightarrow>
          rbind (encode_transaction K txn) (\<lambda>(encoded, _).
          rbind (lower_value canonical_hex) (\<lambda>canonical.
          raise_if (encoded \<noteq> canonical)
            (signer_error (this @ '' does not match the submitted canonical bytes'')) (Inr ())))
      | _ \<Rightarrow> Inl (signer_error (this @ '' did not decode as a signed transaction'')))))"

fun verify_slots :: "algosdk \<Rightarrow> (nat \<times> pyval \<times> pyval) list \<Rightarrow> unit result" where
  "verify_slots K [] = Inr ()"
| "verify_slots K ((index, signed_hex, canonical_hex) # rest) =
     rbind (verify_signed_transaction_matches_canonical K ''assembled transaction'' index signed_hex canonical_hex) (\<lambda>_.
       verify_slots K rest)"

definition verify_bounded_assembled_group :: "algosdk \<Rightarrow> pyval list \<Rightarrow> pyval list \<Rightarrow> unit result" where
  "verify_bounded_assembled_group K group_bytes_hex signed_group =
     raise_if (length signed_group \<noteq> length group_bytes_hex)
       (signer_error (''assembled group has '' @ show_nat (length signed_group) @ '' transaction(s), want '' @ show_nat (length group_bytes_hex)))
       (verify_slots K (List.enumerate 0 (zip signed_group group_bytes_hex)))"

section \<open>Lemmas\<close>

lemma decoded_case_Inr:
  "(case d of DecodedTxn t \<Rightarrow> f t | DecodedSigned u \<Rightarrow> Inl e | DecodedOther \<Rightarrow> Inl e') = Inr x \<longleftrightarrow> (\<exists>t. d = DecodedTxn t \<and> f t = Inr x)"
  "(case d of DecodedTxn t \<Rightarrow> Inl e | DecodedSigned u \<Rightarrow> g u | DecodedOther \<Rightarrow> Inl e') = Inr x \<longleftrightarrow> (\<exists>t. d = DecodedSigned t \<and> g t = Inr x)"
  by (cases d; simp)+

lemma decode_canonical_txn_Inr:
  assumes "decode_canonical_txn K (i, v) = Inr txn"
  shows "\<exists>raw. fromhex_value v = Inr raw \<and> encode_transaction K txn = Inr (bytes_hex raw, tx_sender txn)"
  using assms
  by (auto simp: decode_canonical_txn_def encode_transaction_def Let_def result_simps decoded_case_Inr)

lemma group_id_bytes_Some: "group_id_bytes txn = Inr (Some g) \<longleftrightarrow> tx_group txn = Some g \<and> length g = 32 \<and> g \<noteq> replicate 32 (char_of (0::nat))"
  by (auto simp: group_id_bytes_def result_simps split: option.splits if_splits)

lemma check_group_ids_Inr:
  "check_group_ids gid (List.enumerate k txns) = Inr () \<longleftrightarrow> (\<forall>t \<in> set txns. group_id_bytes t = Inr (Some gid))"
  by (induction txns arbitrary: k) (auto simp: result_simps split: option.splits)

lemma check_dummy_txns_Inr:
  "check_dummy_txns K (List.enumerate k txns) = Inr () \<longleftrightarrow> (\<forall>j < length txns. canonical_dummy K (k + j) (txns ! j))"
proof (induction txns arbitrary: k)
  case (Cons t txns)
  then show ?case by (auto simp: result_simps nth_Cons split: nat.splits)
qed simp

lemma validate_guarded_dummies_Inr:
  "validate_guarded_dummies K txns = Inr () \<longleftrightarrow> (\<forall>j < length txns. canonical_dummy K j (txns ! j))"
  by (simp add: validate_guarded_dummies_def check_dummy_txns_Inr)

lemma validate_bounded_target_fees_Inr:
  "validate_bounded_target_fees planned fs = Inr () \<longleftrightarrow>
     (\<forall>(i, m) \<in> set fs. i < length planned \<and> 0 \<le> m \<and> tx_fee (planned ! i) \<le> m)"
  by (induction fs) (auto simp: result_simps not_less)

text \<open>The fee positions a report lists are claimed one by one.\<close>

interpretation fee_claims: index_claims "fee_index_step n" exact_int "\<lambda>i. 0 \<le> i \<and> i < int n" for n
  by unfold_locales (auto simp: fee_index_step_def result_simps split: option.splits)

lemma reported_fee_indices_bound:
  assumes "reported_fee_indices n mutations = Inr S"
  shows "S \<subseteq> {0 ..< int n} \<and> (mutations = PNone \<longrightarrow> S = {})"
proof (cases "mutations = PNone")
  case False
  with assms obtain xs where "rfold (fee_index_step n) xs {} = Inr S"
    by (auto simp: reported_fee_indices_def result_simps split: pyval.splits)
  from fee_claims.claims_distinct [OF this] False show ?thesis by auto
qed (use assms in \<open>simp add: reported_fee_indices_def\<close>)

definition fee_delta :: "int set \<Rightarrow> txn list \<Rightarrow> txn list \<Rightarrow> nat \<Rightarrow> int" where
  "fee_delta S original planned i = (if int i \<in> S then tx_fee (planned ! i) - tx_fee (original ! i) else 0)"

text \<open>A planned transaction has the bytes of what its report allows the original to have become.\<close>

definition planned_as_reported :: "algosdk \<Rightarrow> bool \<Rightarrow> int set \<Rightarrow> txn list \<Rightarrow> txn list \<Rightarrow> nat \<Rightarrow> bool" where
  "planned_as_reported K changed S original planned i \<longleftrightarrow>
     (\<exists>h a b. encode_transaction K (expected_txn changed S i (original ! i) (planned ! i)) = Inr (h, a) \<and>
        encode_transaction K (planned ! i) = Inr (h, b)) \<and>
     (int i \<in> S \<longrightarrow> tx_fee (original ! i) \<le> tx_fee (planned ! i))"

lemma plan_loop_slots:
  assumes "rfold (plan_txn_step K changed S) (List.enumerate 0 (zip original planned)) d = Inr d'"
    and "i < length original" "length original \<le> length planned"
  shows "planned_as_reported K changed S original planned i"
proof -
  from rfold_enumerate_rounds [OF assms(1), of i] assms(2,3) obtain u v where
    "plan_txn_step K changed S (i, original ! i, planned ! i) u = Inr v" by auto
  then show ?thesis
    by (auto simp: plan_txn_step_def planned_as_reported_def result_simps not_less)
qed

lemma plan_step_delta:
  "plan_txn_step K changed S (i, x, y) d = Inr d' \<Longrightarrow> d' = d + (if int i \<in> S then tx_fee y - tx_fee x else 0)"
  by (auto simp: plan_txn_step_def result_simps)

lemma plan_loop_delta:
  "rfold (plan_txn_step K changed S) (List.enumerate k ps) d = Inr d' \<Longrightarrow>
     d' = d + (\<Sum>i < length ps. if int (k + i) \<in> S then tx_fee (snd (ps ! i)) - tx_fee (fst (ps ! i)) else 0)"
proof (induction ps arbitrary: k d)
  case (Cons p ps)
  obtain x y where p: "p = (x, y)" by (cases p)
  from Cons.prems obtain e where step: "plan_txn_step K changed S (k, x, y) d = Inr e"
    and rest: "rfold (plan_txn_step K changed S) (List.enumerate (Suc k) ps) e = Inr d'" by (auto simp: result_simps p)
  from Cons.IH [OF rest] plan_step_delta [OF step] show ?case
    by (simp add: p sum.lessThan_Suc_shift del: sum.lessThan_Suc) (intro sum.cong, simp_all add: algebra_simps)
qed simp

lemma validate_plan_parts:
  assumes "validate_bounded_component_plan K original planned mutations = Inr ()"
  shows "length original \<le> length planned \<and>
     (mutations = PNone \<longrightarrow> length planned = length original) \<and>
     (\<exists>S. S \<subseteq> {0 ..< int (length original)} \<and> (mutations = PNone \<longrightarrow> S = {}) \<and>
        (\<forall>i < length original. planned_as_reported K (group_id_changed mutations) S original planned i) \<and>
        (mutations \<noteq> PNone \<longrightarrow> bounded_mutation_int mutations ''total_fees_delta'' =
           Inr (\<Sum>i < length original. fee_delta S original planned i))) \<and>
     (\<forall>j < length planned - length original. canonical_dummy K j (planned ! (length original + j)))"
proof -
  from assms obtain S d where len: "length original \<le> length planned"
    and counts: "check_mutation_counts (length original) (length planned) mutations = Inr ()"
    and S: "reported_fee_indices (length original) mutations = Inr S"
    and loop: "rfold (plan_txn_step K (group_id_changed mutations) S) (List.enumerate 0 (zip original planned)) 0 = Inr d"
    and delta: "mutations \<noteq> PNone \<longrightarrow> bounded_mutation_int mutations ''total_fees_delta'' = Inr d"
    and dummies: "validate_guarded_dummies K (drop (length original) planned) = Inr ()"
    by (auto simp: validate_bounded_component_plan_def result_simps not_less split: if_splits)
  have "d = (\<Sum>i < length original. fee_delta S original planned i)"
    using plan_loop_delta [OF loop] len by (simp add: fee_delta_def) (intro sum.cong, simp_all)
  moreover have "mutations = PNone \<longrightarrow> length planned = length original"
    using counts by (auto simp: check_mutation_counts_def result_simps)
  ultimately show ?thesis
    using len delta reported_fee_indices_bound [OF S] plan_loop_slots [OF loop] dummies
    by (auto simp: validate_guarded_dummies_Inr)
qed

lemma verify_slots_Inr:
  assumes "verify_slots K (List.enumerate k ps) = Inr ()" and "i < length ps"
  shows "verify_signed_transaction_matches_canonical K ''assembled transaction'' (k + i) (fst (ps ! i)) (snd (ps ! i)) = Inr ()"
  using assms
proof (induction ps arbitrary: k i)
  case (Cons p ps)
  obtain x y where p: "p = (x, y)" by (cases p)
  with Cons.prems Cons.IH [of "Suc k" "i - 1"] show ?case by (cases i) (auto simp: result_simps)
qed simp

text \<open>The signed slot decodes to a signed transaction whose canonical bytes are the frozen ones.\<close>

definition carries_frozen_bytes :: "algosdk \<Rightarrow> pyval \<Rightarrow> pyval \<Rightarrow> bool" where
  "carries_frozen_bytes K signed_hex canonical_hex \<longleftrightarrow>
     (\<exists>raw t c. fromhex_value signed_hex = Inr raw \<and> msgpack_decode K (b64encode raw) = Inr (DecodedSigned t) \<and>
        canonical_hex = PStr c \<and> encode_transaction K t = Inr (lower c, tx_sender t))"

lemma verify_signed_Inr:
  "verify_signed_transaction_matches_canonical K label i signed canonical = Inr () \<Longrightarrow> carries_frozen_bytes K signed canonical"
  by (auto simp: verify_signed_transaction_matches_canonical_def carries_frozen_bytes_def lower_value_def Let_def result_simps
      encode_transaction_def decoded_case_Inr split: pyval.splits)

lemma verify_group_Inr:
  assumes "verify_bounded_assembled_group K grp signed = Inr ()"
  shows "length signed = length grp \<and> (\<forall>i < length grp. carries_frozen_bytes K (signed ! i) (grp ! i))"
proof -
  from assms have len: "length signed = length grp"
    and slots: "verify_slots K (List.enumerate 0 (zip signed grp)) = Inr ()"
    by (auto simp: verify_bounded_assembled_group_def result_simps)
  have "carries_frozen_bytes K (signed ! i) (grp ! i)" if "i < length grp" for i
    using verify_slots_Inr [OF slots, of i] that len by (auto intro: verify_signed_Inr)
  with len show ?thesis by blast
qed

lemma decode_group_ids:
  assumes "decode_canonical_group K grp = Inr txns"
  shows "\<exists>items. py_iter grp = Inr items \<and> rmap (decode_canonical_txn K) (List.enumerate 0 items) = Inr txns \<and>
     1 \<le> length txns \<and> length txns \<le> 16 \<and>
     (length txns = 1 \<longrightarrow> (\<forall>t \<in> set txns. group_id_bytes t = Inr None)) \<and>
     (1 < length txns \<longrightarrow> (\<exists>gid. calculate_group_id K (map (\<lambda>t. t\<lparr>tx_group := None\<rparr>) txns) = Inr gid \<and>
        (\<forall>t \<in> set txns. group_id_bytes t = Inr (Some gid))))"
proof -
  from assms obtain items result where items: "py_iter grp = Inr items" "length items \<le> 16"
    and result: "rmap (decode_canonical_txn K) (List.enumerate 0 items) = Inr result"
    and rest: "(case result of [] \<Rightarrow> Inl (Exc IndexError ''list index out of range'' [])
     | [txn] \<Rightarrow>
         rbind (group_id_bytes txn) (\<lambda>g.
         raise_if (g \<noteq> None) (signer_error ''singleton transaction must not have a group ID'') (Inr [txn]))
     | txn # rest \<Rightarrow>
         rbind (group_id_bytes txn) (\<lambda>g.
         case g of None \<Rightarrow> Inl (signer_error ''group transaction 0 has empty group ID'')
         | Some group_id \<Rightarrow>
             rbind (check_group_ids group_id (List.enumerate 1 rest)) (\<lambda>_.
             rbind (rewrap (\<lambda>_. True) (\<lambda>e. signer_error (''compute group ID: '' @ exc_msg e))
                      (calculate_group_id K (map (\<lambda>t. t\<lparr>tx_group := None\<rparr>) result))) (\<lambda>computed.
             raise_if (computed \<noteq> group_id) (signer_error ''group ID does not match decoded transactions'') (Inr result))))) = Inr txns"
    unfolding decode_canonical_group_def TX_GROUP_LIMIT_def by (auto simp: rbind_Inr raise_if_Inr py_len_Inr)
  from rmap_length [OF result] items(2) have "length result \<le> 16" by simp
  with rest items result show ?thesis
    by (auto simp: result_simps check_group_ids_Inr split: list.splits option.splits)
qed

section \<open>Properties\<close>

text \<open>
  C11. A group that passes \<^verbatim>\<open>_decode_canonical_group\<close> is canonical and consistent: it has one to
  sixteen transactions, re-encoding each gives back exactly the bytes that were received, a single
  transaction has no group identifier, and the transactions of a larger group all carry the one
  32-byte identifier that is computed from them.
\<close>

theorem canonical_group_sound:
  assumes "decode_canonical_group K grp = Inr txns"
  shows "\<exists>items. py_iter grp = Inr items \<and> length items = length txns \<and> 1 \<le> length txns \<and> length txns \<le> 16 \<and>
     (\<forall>i < length txns. \<exists>raw. fromhex_value (items ! i) = Inr raw \<and>
        encode_transaction K (txns ! i) = Inr (bytes_hex raw, tx_sender (txns ! i))) \<and>
     (length txns = 1 \<longrightarrow> group_id_bytes (txns ! 0) = Inr None) \<and>
     (1 < length txns \<longrightarrow> (\<exists>gid. length gid = 32 \<and> (\<forall>t \<in> set txns. tx_group t = Some gid) \<and>
        calculate_group_id K (map (\<lambda>t. t\<lparr>tx_group := None\<rparr>) txns) = Inr gid))"
proof -
  from decode_group_ids [OF assms] obtain items where
    *: "py_iter grp = Inr items" "1 \<le> length txns" "length txns \<le> 16"
       "length txns = 1 \<longrightarrow> (\<forall>t \<in> set txns. group_id_bytes t = Inr None)"
       "1 < length txns \<longrightarrow> (\<exists>gid. calculate_group_id K (map (\<lambda>t. t\<lparr>tx_group := None\<rparr>) txns) = Inr gid \<and>
          (\<forall>t \<in> set txns. group_id_bytes t = Inr (Some gid)))"
    and dec: "rmap (decode_canonical_txn K) (List.enumerate 0 items) = Inr txns" by blast
  from dec have len: "length items = length txns" and each: "\<forall>i < length txns. decode_canonical_txn K (i, items ! i) = Inr (txns ! i)"
    by (auto simp: rmap_Inr nth_enumerate_eq)
  have "\<exists>raw. fromhex_value (items ! i) = Inr raw \<and> encode_transaction K (txns ! i) = Inr (bytes_hex raw, tx_sender (txns ! i))"
    if "i < length txns" for i
    by (rule decode_canonical_txn_Inr [OF each [rule_format, OF that]])
  moreover have "\<exists>gid. length gid = 32 \<and> (\<forall>t \<in> set txns. tx_group t = Some gid) \<and>
        calculate_group_id K (map (\<lambda>t. t\<lparr>tx_group := None\<rparr>) txns) = Inr gid" if "1 < length txns"
  proof -
    from *(5) that obtain gid where gid: "calculate_group_id K (map (\<lambda>t. t\<lparr>tx_group := None\<rparr>) txns) = Inr gid"
      "\<forall>t \<in> set txns. group_id_bytes t = Inr (Some gid)" by blast
    moreover have "txns ! 0 \<in> set txns" using that by (intro nth_mem) linarith
    ultimately show ?thesis by (auto simp: group_id_bytes_Some)
  qed
  moreover have "length txns = 1 \<longrightarrow> group_id_bytes (txns ! 0) = Inr None" using *(4) by simp
  ultimately show ?thesis using * len by (intro exI [of _ items]) simp
qed


text \<open>What the total fee rests on: the library's encoding of a transaction determines its fee.\<close>

definition encoding_determines_fee :: "algosdk \<Rightarrow> bool" where
  "encoding_determines_fee K \<longleftrightarrow>
     (\<forall>t t' h a b. encode_transaction K t = Inr (h, a) \<longrightarrow> encode_transaction K t' = Inr (h, b) \<longrightarrow> tx_fee t = tx_fee t')"

lemma sum_list_map_zero: "(\<And>x. x \<in> set xs \<Longrightarrow> f x = (0::int)) \<Longrightarrow> sum_list (map f xs) = 0"
  by (induction xs) simp_all

lemma planned_fee:
  assumes "planned_as_reported K changed S original planned i" and "encoding_determines_fee K"
  shows "tx_fee (planned ! i) = tx_fee (original ! i) + fee_delta S original planned i"
proof -
  from assms have "tx_fee (expected_txn changed S i (original ! i) (planned ! i)) = tx_fee (planned ! i)"
    unfolding planned_as_reported_def encoding_determines_fee_def by blast
  then show ?thesis by (auto simp: expected_txn_def fee_delta_def Let_def split: if_splits)
qed


subsection \<open>Evaluation\<close>

text \<open>A stand-in for the Algorand library in which a transaction encodes as its fee, in unary.\<close>

definition fee_bytes :: "int \<Rightarrow> bytes" where
  "fee_bytes f = (if f < 0 then CHR ''-'' else CHR ''+'') # replicate (nat \<bar>f\<bar>) (CHR ''x'')"

definition unary_txn :: "int \<Rightarrow> txn" where
  "unary_txn f = \<lparr>tx_sender = ''S'', tx_fee = f, tx_group = None, tx_note = None, tx_rekey_to = None,
     tx_body = PaymentTxn ''R'' 5 None, tx_rest = PNone\<rparr>"

definition unary_sdk :: algosdk where
  "unary_sdk =
     \<lparr>msgpack_encode = (\<lambda>t. Inr (b64encode (fee_bytes (tx_fee t)))),
      msgpack_decode = (\<lambda>s. rbind (b64decode False s) (\<lambda>raw. Inr (DecodedTxn (unary_txn (int (length raw) - 1))))),
      msgpack_encode_lsig = (\<lambda>t p. Inr (b64encode p)), lsig_address = (\<lambda>p. ''DUMMY''),
      calculate_group_id = (\<lambda>ts. Inr (replicate 32 (CHR ''g''))), txn_id = (\<lambda>t. ''ID'')\<rparr>"

lemma fee_bytes_inject: "fee_bytes f = fee_bytes g \<longleftrightarrow> f = g"
proof
  assume eq: "fee_bytes f = fee_bytes g"
  then have "f < 0 \<longleftrightarrow> g < 0" by (simp add: fee_bytes_def split: if_splits)
  moreover from eq have "length (fee_bytes f) = length (fee_bytes g)" by simp
  then have "nat \<bar>f\<bar> = nat \<bar>g\<bar>" by (simp add: fee_bytes_def)
  ultimately show "f = g" by linarith
qed simp

lemma unary_sdk_fee: "encoding_determines_fee unary_sdk"
  by (auto simp: encoding_determines_fee_def encode_transaction_def unary_sdk_def b64.dec_enc hex.enc_inject fee_bytes_inject)

definition sample_dummy :: txn where
  "sample_dummy = \<lparr>tx_sender = ''DUMMY'', tx_fee = 0, tx_group = None, tx_note = Some [char_of (0::nat)], tx_rekey_to = None,
     tx_body = PaymentTxn ''DUMMY'' 0 None, tx_rest = PNone\<rparr>"

definition sample_mutations :: pyval where
  "sample_mutations = pobj [(''original_count'', PInt 1), (''final_count'', PInt 2), (''dummies_added'', PInt 1),
     (''group_id_changed'', PBool True), (''fees_modified'', PList [PInt 0]), (''total_fees_delta'', PInt 2)]"

lemma sample_plan_accepted:
  "validate_bounded_component_plan unary_sdk [unary_txn 1] [unary_txn 3, sample_dummy] sample_mutations = Inr ()"
  by code_simp

theorem canonical_group_sound_witness:
  "\<exists>txns. decode_canonical_group unary_sdk (PList [PStr ''54582b78'']) = Inr txns \<and> length txns = 1 \<and>
     group_id_bytes (txns ! 0) = Inr None"
proof -
  have "(case decode_canonical_group unary_sdk (PList [PStr ''54582b78'']) of Inr txns \<Rightarrow> length txns = 1 | Inl e \<Rightarrow> False)"
    by code_simp
  then obtain txns where dec: "decode_canonical_group unary_sdk (PList [PStr ''54582b78'']) = Inr txns" and len: "length txns = 1"
    by (auto split: sum.splits)
  from canonical_group_sound [OF dec] len have "group_id_bytes (txns ! 0) = Inr None" by (elim exE conjE) simp
  with dec len show ?thesis by (intro exI conjI)
qed



end
