(* ===== verification/Guarded_Inputs.thy ===== *)
theory Guarded_Inputs
  imports Group_Signing Canonical_Group
begin

text \<open>
  The pieces of the guarded flow: normalising passthrough items, the component request for a set
  of positions, the dummies the SDK signs itself, the choice of a cosigner, and the request that
  has the primary signer sign the ordinary positions of a frozen group.
\<close>

section \<open>Passthrough items\<close>

record passthrough_authorization =
  ga_logic_sig_resources :: "lsig_usage option"
  ga_pq_scheme :: pyval

record passthrough_item =
  gp_target_index :: pyval
  gp_signed_txn_hex :: pyval
  gp_authorization :: "passthrough_authorization option"

definition normalize_guarded_passthrough_authorization :: "pyval \<Rightarrow> passthrough_authorization option result" where
  "normalize_guarded_passthrough_authorization authorization =
     (if authorization = PNone then Inr None else
      rbind
        (case authorization of
           PData c fs \<Rightarrow>
             raise_if (c \<noteq> ''GuardedPassthroughAuthorization'') (value_error ''guarded passthrough authorization must be an object'')
               (Inr (field_of fs ''logic_sig_resources'', field_of fs ''pq_scheme''))
         | PDict kvs \<Rightarrow>
             raise_if (\<not> set (map fst kvs) \<subseteq> {PStr ''logic_sig_resources'', PStr ''pq_scheme''})
               (value_error ''guarded passthrough authorization has unknown fields'')
               (Inr (pget authorization ''logic_sig_resources'', pget_or authorization ''pq_scheme'' (PStr [])))
         | _ \<Rightarrow> Inl (value_error ''guarded passthrough authorization must be an object'')) (\<lambda>(resources, pq_scheme).
      rbind (if resources = PNone then Inr None
             else rbind (require_lsig_resources resources ''guarded passthrough authorization'') (\<lambda>u. Inr (Some u))) (\<lambda>u.
        Inr (Some \<lparr>ga_logic_sig_resources = u, ga_pq_scheme = pq_scheme\<rparr>))))"

text \<open>\<^verbatim>\<open>sorted(...)\<close> of field names, joined into the message\<close>

definition names_of :: "pyval list \<Rightarrow> string" where
  "names_of ks = join '', '' (sort (map py_str ks))"

definition normalize_item_data :: "pyval \<Rightarrow> passthrough_item result" where
  "normalize_item_data d =
     raise_if (\<not> is_dict d) (value_error ''guarded passthrough item must be an object'') (
     rbind (normalize_guarded_passthrough_authorization (pget d ''authorization'')) (\<lambda>a.
     let keys = (case d of PDict kvs \<Rightarrow> filter (\<lambda>k. k \<noteq> PStr ''authorization'') (map fst kvs) | _ \<Rightarrow> []);
         expected = [PStr ''target_index'', PStr ''signed_txn_hex''];
         unknown = filter (\<lambda>k. k \<notin> set expected) keys;
         missing = filter (\<lambda>k. k \<notin> set keys) expected in
     raise_if (unknown \<noteq> []) (value_error (''guarded passthrough item has unknown fields: '' @ names_of unknown)) (
     raise_if (missing \<noteq> []) (value_error (''guarded passthrough item is missing fields: '' @ names_of missing))
       (Inr \<lparr>gp_target_index = pget d ''target_index'', gp_signed_txn_hex = pget d ''signed_txn_hex'', gp_authorization = a\<rparr>))))"

definition normalize_guarded_passthrough_item :: "pyval \<Rightarrow> passthrough_item result" where
  "normalize_guarded_passthrough_item item =
     (case item of
        PData c fs \<Rightarrow>
          if c = ''GuardedPassthroughItem'' then
            rbind (normalize_guarded_passthrough_authorization (field_of fs ''authorization'')) (\<lambda>a.
              Inr \<lparr>gp_target_index = field_of fs ''target_index'', gp_signed_txn_hex = field_of fs ''signed_txn_hex'', gp_authorization = a\<rparr>)
          else normalize_item_data (compact_payload item)
      | _ \<Rightarrow> normalize_item_data (compact_payload item))"

text \<open>The item as an instance of its dataclass, the form in which it enters an assembly request.\<close>

definition item_data :: "passthrough_item \<Rightarrow> pyval" where
  "item_data p = PData ''GuardedPassthroughItem''
     [(''target_index'', gp_target_index p), (''signed_txn_hex'', gp_signed_txn_hex p),
      (''authorization'', case gp_authorization p of None \<Rightarrow> PNone
         | Some a \<Rightarrow> PData ''GuardedPassthroughAuthorization''
             [(''logic_sig_resources'', case ga_logic_sig_resources a of None \<Rightarrow> PNone | Some u \<Rightarrow> usage_data u),
              (''pq_scheme'', ga_pq_scheme a)])]"

section \<open>Component requests\<close>

text \<open>\<^verbatim>\<open>xs or None\<close>\<close>

definition list_or_none :: "pyval list \<Rightarrow> pyval" where
  "list_or_none xs = (if xs = [] then PNone else PList xs)"

definition info_of :: "(int \<times> pyval) list \<Rightarrow> int \<Rightarrow> pyval" where
  "info_of app_call_info i = (case map_of app_call_info i of Some v \<Rightarrow> v | None \<Rightarrow> PNone)"

definition component_target :: "string \<Rightarrow> string \<Rightarrow> (int \<times> pyval) list \<Rightarrow> int \<Rightarrow> pyval" where
  "component_target kind key app_call_info index = pobj (
     [(''target_index'', PInt index), (''kind'', PStr kind)]
     @ (if kind = COMPONENT_TARGET_KIND_USER then [(''auth_address'', PStr key)] else [(''component_key'', PStr key)])
     @ (if truthy (info_of app_call_info index) then [(''app_call_info'', info_of app_call_info index)] else []))"

definition component_request_for_indices :: "pyval list \<Rightarrow> int list \<Rightarrow> string \<Rightarrow> string \<Rightarrow> int list \<Rightarrow> (int \<times> pyval) list \<Rightarrow> pyval" where
  "component_request_for_indices group_bytes_hex indices kind key dummy_positions app_call_info =
     PData ''ComponentRequest''
       [(''group_bytes_hex'', PList group_bytes_hex),
        (''targets'', PList (map (component_target kind key app_call_info) indices)),
        (''request_id'', PStr []),
        (''contextual_positions'', list_or_none
           (map (\<lambda>i. pobj [(''target_index'', PInt i), (''app_call_info'', info_of app_call_info i)])
             (filter (\<lambda>i. i \<notin> set indices) (map int [0 ..< length group_bytes_hex - length dummy_positions])))),
        (''dummy_positions'', list_or_none (map (\<lambda>i. pobj [(''target_index'', PInt i)]) dummy_positions))]"

record component_signature =
  cs_signature :: pyval
  cs_request_id :: pyval

text \<open>\<^verbatim>\<open>_component_signatures_by_index\<close>, merged into what is there (\<^verbatim>\<open>dict.update\<close>).\<close>

fun add_signatures :: "pyval \<Rightarrow> pyval list \<Rightarrow> (int \<times> component_signature) list \<Rightarrow> (int \<times> component_signature) list result" where
  "add_signatures request_id [] d = Inr d"
| "add_signatures request_id (item # items) d =
     rbind (py_item item ''target_index'') (\<lambda>ti.
     rbind (py_item item ''signature'') (\<lambda>sig.
       case as_int ti of
         Some i \<Rightarrow> add_signatures request_id items (AList.update i \<lparr>cs_signature = sig, cs_request_id = request_id\<rparr> d)
       | None \<Rightarrow> Inl (Exc TypeError (''unhashable type: '' @ type_name ti) [])))"

section \<open>Dummies\<close>

definition sign_guarded_dummies :: "algosdk \<Rightarrow> txn list \<Rightarrow> nat \<Rightarrow> passthrough_item list result" where
  "sign_guarded_dummies K dummies start_index =
     rbind (validate_guarded_dummies K dummies) (\<lambda>_.
     rmap (\<lambda>(offset, txn).
       rbind (msgpack_encode_lsig K txn GUARDED_DUMMY_PROGRAM) (\<lambda>m.
       rbind (b64decode False m) (\<lambda>raw.
         Inr \<lparr>gp_target_index = PInt (int (start_index + offset)), gp_signed_txn_hex = PStr (bytes_hex raw),
              gp_authorization = Some \<lparr>ga_logic_sig_resources = Some guarded_dummy_lsig_resources, ga_pq_scheme = PStr []\<rparr>\<rparr>)))
       (List.enumerate 0 dummies))"

section \<open>Choosing a cosigner\<close>

text \<open>
  The resolver is a function of the caller; a dictionary and a pair as its answer are the same
  here: a client, if any, and a component key (\<^verbatim>\<open>None\<close> is the empty text).
\<close>

type_synonym cosigner_resolver = "pyval \<Rightarrow> (nat option \<times> string) result"

definition resolve_cosigner_for_target :: "pyval \<Rightarrow> nat option \<Rightarrow> string \<Rightarrow> cosigner_resolver option \<Rightarrow> (nat \<times> string) result" where
  "resolve_cosigner_for_target target cosigner_client cosigner_component_key cosigner_resolver =
     (case cosigner_resolver of
        Some resolve \<Rightarrow>
          rbind (resolve target) (\<lambda>(client, component_key).
          case client of None \<Rightarrow> Inl (signer_error ''cosigner resolver returned no client'')
          | Some c \<Rightarrow> Inr (c, component_key))
      | None \<Rightarrow>
          (case cosigner_client of None \<Rightarrow> Inl (signer_error ''cosigner_client or cosigner_resolver is required'')
           | Some c \<Rightarrow> Inr (c, let k = pget target ''cosigner_component_key'' in
               if truthy k then py_str k else cosigner_component_key)))"

text \<open>The positions per cosigner and component key, in order of first appearance.\<close>

fun add_to_group :: "'k \<Rightarrow> int \<Rightarrow> ('k \<times> int list) list \<Rightarrow> ('k \<times> int list) list" where
  "add_to_group k i [] = [(k, [i])]"
| "add_to_group k i ((k', is) # rest) = (if k = k' then (k', is @ [i]) # rest else (k', is) # add_to_group k i rest)"

fun cosigner_groups :: "nat option \<Rightarrow> string \<Rightarrow> cosigner_resolver option \<Rightarrow> (int \<times> pyval) list \<Rightarrow>
    ((nat \<times> string) \<times> int list) list \<Rightarrow> ((nat \<times> string) \<times> int list) list result" where
  "cosigner_groups cc key resolver [] groups = Inr groups"
| "cosigner_groups cc key resolver ((i, target) # targets) groups =
     rbind (resolve_cosigner_for_target target cc key resolver) (\<lambda>ck.
       cosigner_groups cc key resolver targets (add_to_group ck i groups))"

end
