(* ===== verification/Guarded_Signing.thy ===== *)
theory Guarded_Signing
  imports Guarded_Inputs
begin

text \<open>
  The guarded flow over a frozen group: collect the user's component signatures and the primary
  signatures, only then ask the cosigners, then assemble. \<open>user_side\<close> and \<open>cosigner_side\<close> are the
  two halves of \<^verbatim>\<open>sign_guarded_group\<close>, split where the code says that the group may be disclosed.
\<close>

section \<open>Primary positions\<close>

text \<open>\<^verbatim>\<open>isinstance(index, int) and 0 <= index < n\<close>\<close>

definition index_in_range :: "pyval \<Rightarrow> nat \<Rightarrow> int option" where
  "index_in_range v n = (case as_int v of Some i \<Rightarrow> if 0 \<le> i \<and> i < int n then Some i else None | None \<Rightarrow> None)"

definition primary_target_step :: "nat \<Rightarrow> (int \<times> pyval) list \<Rightarrow> pyval \<Rightarrow> (int \<times> pyval) list \<Rightarrow> (int \<times> pyval) list result" where
  "primary_target_step n guarded target primary_by_index =
     rbind (py_get target ''target_index'') (\<lambda>index.
     let this = ''primary target '' @ py_str index in
     case index_in_range index n of
       None \<Rightarrow> Inl (value_error (this @ '' out of range''))
     | Some i \<Rightarrow>
         raise_if (map_of guarded i \<noteq> None) (value_error (this @ '' overlaps guarded target'')) (
         raise_if (map_of primary_by_index i \<noteq> None) (value_error (''duplicate primary target index '' @ py_str index)) (
         raise_if (\<not> phas target ''auth_address'') (value_error (this @ '' missing auth_address''))
           (Inr (primary_by_index @ [(i, target)])))))"

definition check_passthrough_authorization :: "string \<Rightarrow> passthrough_authorization option \<Rightarrow> unit result" where
  "check_passthrough_authorization this authorization =
     (case authorization of None \<Rightarrow> Inl (value_error (this @ '' missing planning authorization''))
      | Some a \<Rightarrow>
          raise_if (truthy (ga_pq_scheme a) \<and> ga_logic_sig_resources a \<noteq> None)
            (value_error (this @ '' cannot specify both pq_scheme and logic_sig_resources'')) (
          raise_if (truthy (ga_pq_scheme a) \<and> \<not> py_eq (ga_pq_scheme a) (PStr PQ_SCHEME_FALCON1024))
            (value_error (this @ '' has unsupported pq_scheme '' @ py_repr (ga_pq_scheme a))) (
          case ga_logic_sig_resources a of None \<Rightarrow> Inr () | Some u \<Rightarrow> validate_lsig_resources u this)))"

definition passthrough_step :: "nat \<Rightarrow> (int \<times> pyval) list \<Rightarrow> (int \<times> pyval) list \<Rightarrow> passthrough_item \<Rightarrow>
    (int \<times> passthrough_item) list \<Rightarrow> (int \<times> passthrough_item) list result" where
  "passthrough_step n guarded primary item by_index =
     (let index = gp_target_index item; this = ''passthrough target '' @ py_str index in
      case index_in_range index n of
        None \<Rightarrow> Inl (value_error (this @ '' out of range''))
      | Some i \<Rightarrow>
          raise_if (map_of by_index i \<noteq> None) (value_error (''duplicate passthrough target index '' @ py_str index)) (
          raise_if (map_of primary i \<noteq> None) (value_error (this @ '' overlaps primary target'')) (
          raise_if (map_of guarded i \<noteq> None) (value_error (this @ '' overlaps guarded target'')) (
          rbind (check_passthrough_authorization this (gp_authorization item)) (\<lambda>_.
            Inr (by_index @ [(i, item)]))))))"

text \<open>The slot of the primary request for one position: signed, or foreign with its declared resources.\<close>

definition given_field :: "string \<Rightarrow> pyval \<Rightarrow> (string \<times> pyval) list" where
  "given_field k target = (if phas target k then [(k, pget target k)] else [])"

definition primary_request :: "(int \<times> pyval) list \<Rightarrow> (int \<times> pyval) list \<Rightarrow> (int \<times> passthrough_item) list \<Rightarrow>
    nat \<times> pyval \<Rightarrow> pyval result" where
  "primary_request guarded primary passthrough slot =
     (case slot of (index, txn_hex) \<Rightarrow>
      case map_of primary (int index) of
        Some target \<Rightarrow>
          Inr (pobj ([(''txn_bytes_hex'', txn_hex), (''auth_address'', pget target ''auth_address'')]
            @ given_field ''txn_sender'' target @ given_field ''lsig_args'' target @ given_field ''app_call_info'' target))
      | None \<Rightarrow>
        (case map_of guarded (int index) of
           Some target \<Rightarrow>
             rbind (require_lsig_resources (pget target ''logic_sig_resources'') (''guarded target '' @ show_nat index)) (\<lambda>u.
             rbind (wire_lsig_resources u) (\<lambda>w.
               Inr (pobj [(''txn_bytes_hex'', txn_hex), (''lsig_resources'', w)])))
         | None \<Rightarrow>
           (case map_of passthrough (int index) of
              None \<Rightarrow> Inl (value_error (''group position '' @ show_nat index @ '' has no guarded, primary, or passthrough target''))
            | Some item \<Rightarrow>
                (case gp_authorization item of
                   None \<Rightarrow> Inl (no_attribute PNone ''logic_sig_resources'')
                 | Some a \<Rightarrow>
                     rbind (with_resources (ga_logic_sig_resources a) [(''txn_bytes_hex'', txn_hex)]) (\<lambda>kvs.
                       Inr (pobj (kvs @ (if truthy (ga_pq_scheme a) then [(''pq_scheme'', ga_pq_scheme a)] else []))))))))"

text \<open>The signed slots of the primary positions, each checked against the frozen bytes.\<close>

definition primary_passthrough_item :: "algosdk \<Rightarrow> pyval list \<Rightarrow> pyval \<Rightarrow> int \<Rightarrow> passthrough_item result" where
  "primary_passthrough_item K group_bytes_hex signed index =
     rbind (py_len signed) (\<lambda>n.
     raise_if (n \<le> index) (signer_error (''primary signer returned no signed transaction for target '' @ show_int index)) (
     rbind (py_index signed (nat index)) (\<lambda>h.
     raise_if (\<not> truthy h) (signer_error (''primary signer returned no signed transaction for target '' @ show_int index)) (
     rbind (verify_signed_transaction_matches_canonical K ''primary passthrough'' (nat index) h (group_bytes_hex ! nat index)) (\<lambda>_.
       Inr \<lparr>gp_target_index = PInt index, gp_signed_txn_hex = h, gp_authorization = None\<rparr>)))))"

definition request_primary_guarded_passthrough :: "'w env \<Rightarrow> algosdk \<Rightarrow> nat \<Rightarrow> pyval list \<Rightarrow> (int \<times> pyval) list \<Rightarrow> pyval list \<Rightarrow>
    passthrough_item list \<Rightarrow> ('w, group_sign_response \<times> passthrough_item list) client_action" where
  "request_primary_guarded_passthrough E K user group_bytes_hex guarded_by_index primary_targets passthrough =
     (let n = length group_bytes_hex in
     abind (alift (rfold (primary_target_step n guarded_by_index) primary_targets [])) (\<lambda>primary_by_index.
     abind (alift (rfold (passthrough_step n guarded_by_index primary_by_index) passthrough [])) (\<lambda>passthrough_by_index.
     abind (alift (rmap (primary_request guarded_by_index primary_by_index passthrough_by_index) (List.enumerate 0 group_bytes_hex))) (\<lambda>requests.
     abind (sign_requests E user requests None) (\<lambda>response.
     abind (alift (rmap (primary_passthrough_item K group_bytes_hex (gs_signed response)) (sort (map fst primary_by_index)))) (\<lambda>items.
       aret (response, items)))))))"

section \<open>Guarded targets\<close>

text \<open>
  \<^verbatim>\<open>targets.sort(key=lambda item: item["target_index"])\<close>. Only numbers are accepted as positions;
  anything else is refused here (the code refuses it in the sort or in the loop that follows).
\<close>

definition sort_targets :: "nat \<Rightarrow> pyval list \<Rightarrow> pyval list result" where
  "sort_targets n targets =
     rbind (rmap (\<lambda>t. rbind (py_item t ''target_index'') (\<lambda>ti.
         case as_int ti of Some i \<Rightarrow> Inr (i, t)
         | None \<Rightarrow> Inl (value_error (''guarded target '' @ py_str ti @ '' out of range'')))) targets) (\<lambda>keyed.
       Inr (map snd (sort_key fst keyed)))"

text \<open>
  One round of the loop over the targets. The state is the dictionary by position and the
  positions per guarded account. Account names are texts.
\<close>

definition guarded_target_step :: "nat \<Rightarrow> pyval \<Rightarrow> (int \<times> pyval) list \<times> (string \<times> int list) list \<Rightarrow>
    ((int \<times> pyval) list \<times> (string \<times> int list) list) result" where
  "guarded_target_step n target state =
     (case state of (guarded_by_index, user_groups) \<Rightarrow>
      rbind (py_get target ''target_index'') (\<lambda>index.
      let this = ''guarded target '' @ py_str index in
      case index_in_range index n of
        None \<Rightarrow> Inl (value_error (this @ '' out of range''))
      | Some i \<Rightarrow>
          raise_if (map_of guarded_by_index i \<noteq> None) (value_error (''duplicate guarded target index '' @ py_str index)) (
          raise_if (\<not> phas target ''guarded_account'') (value_error (this @ '' missing guarded_account'')) (
          rbind (require_lsig_resources (pget target ''logic_sig_resources'') this) (\<lambda>u.
          case pget target ''guarded_account'' of
            PStr account \<Rightarrow>
              Inr (guarded_by_index @ [(i, py_set_item ''logic_sig_resources'' (compact_payload (usage_data u)) target)],
                   add_to_group account i user_groups)
          | v \<Rightarrow> Inl (Exc TypeError (''unhashable type: '' @ type_name v) []))))))"

text \<open>The advisory call information by position; a guarded target's wins.\<close>

fun collect_info :: "pyval list \<Rightarrow> (int \<times> pyval) list \<Rightarrow> (int \<times> pyval) list result" where
  "collect_info [] d = Inr d"
| "collect_info (t # ts) d =
     rbind (py_get t ''target_index'') (\<lambda>ti.
       collect_info ts (case as_int ti of Some i \<Rightarrow> AList.update i (pget t ''app_call_info'') d | None \<Rightarrow> d))"

section \<open>The two halves\<close>

record guarded_state =
  gd_targets :: "(int \<times> pyval) list"
  gd_app_call_info :: "(int \<times> pyval) list"
  gd_user_responses :: "component_response list"
  gd_user_signatures :: "(int \<times> component_signature) list"
  gd_primary_response :: "group_sign_response option"
  gd_passthrough :: "passthrough_item list"

text \<open>Component signatures of one kind, key by key.\<close>

definition collect_component :: "'w env \<Rightarrow> pyval list \<Rightarrow> string \<Rightarrow> int list \<Rightarrow> (int \<times> pyval) list \<Rightarrow> (nat \<times> string) \<times> int list \<Rightarrow>
    component_response list \<times> (int \<times> component_signature) list \<Rightarrow>
    ('w, component_response list \<times> (int \<times> component_signature) list) client_action" where
  "collect_component E group_bytes_hex kind dummy_positions app_call_info grp acc =
     (case grp of ((client, key), indices) \<Rightarrow>
      abind (request_components E client
               (component_request_for_indices group_bytes_hex (sort indices) kind key dummy_positions app_call_info)) (\<lambda>response.
      abind (alift (add_signatures (cp_request_id response) (cp_components response) (snd acc))) (\<lambda>sigs.
        aret (fst acc @ [response], sigs))))"

definition user_side :: "'w env \<Rightarrow> algosdk \<Rightarrow> nat \<Rightarrow> pyval list \<Rightarrow> pyval list \<Rightarrow> pyval list \<Rightarrow> pyval list \<Rightarrow> int list \<Rightarrow>
    ('w, guarded_state) client_action" where
  "user_side E K user group_bytes_hex guarded_targets primary_targets passthrough dummy_positions =
     (let n = length group_bytes_hex; targets = map compact_payload guarded_targets; primaries = map compact_payload primary_targets in
     abind (alift (validate_component_group_bytes (PList group_bytes_hex))) (\<lambda>_.
     araise_if (targets = []) (value_error ''at least one guarded target is required'') (
     abind (alift (sort_targets n targets)) (\<lambda>targets.
     abind (alift (rbind (collect_info primaries []) (collect_info targets))) (\<lambda>app_call_info.
     abind (alift (rfold (guarded_target_step n) targets ([], []))) (\<lambda>(guarded_by_index, user_groups).
     abind (afold (collect_component E group_bytes_hex COMPONENT_TARGET_KIND_USER dummy_positions app_call_info)
              (map (\<lambda>(account, is). ((user, account), is)) (sort_key fst user_groups)) ([], [])) (\<lambda>(responses, sigs).
     abind (alift (rmap normalize_guarded_passthrough_item passthrough)) (\<lambda>items.
     abind (if primary_targets = [] then aret (None, [])
            else abind (request_primary_guarded_passthrough E K user group_bytes_hex guarded_by_index primaries items) (\<lambda>(response, signed).
              aret (Some response, signed))) (\<lambda>(primary_response, signed).
       aret \<lparr>gd_targets = guarded_by_index, gd_app_call_info = app_call_info, gd_user_responses = responses, gd_user_signatures = sigs,
             gd_primary_response = primary_response, gd_passthrough = items @ signed\<rparr>)))))))))"

record guarded_sign_result =
  gr_signed_group :: pyval
  gr_user_component_responses :: "component_response list"
  gr_cosigner_component_responses :: "component_response list"
  gr_assembly_response :: "assembly_response option"
  gr_primary_sign_response :: "group_sign_response option"
  gr_bounded_component_response :: "component_response option"
  gr_bounded_assembly_response :: "assembly_response option"

definition guarded_assembly_target :: "(int \<times> component_signature) list \<Rightarrow> (int \<times> component_signature) list \<Rightarrow> int \<times> pyval \<Rightarrow> pyval result" where
  "guarded_assembly_target user_signatures cosigner_signatures it =
     (case it of (index, target) \<Rightarrow>
      case map_of user_signatures index of
        None \<Rightarrow> Inl (signer_error (''missing user component signature for target '' @ show_int index))
      | Some u \<Rightarrow>
        (case map_of cosigner_signatures index of
           None \<Rightarrow> Inl (signer_error (''missing cosigner component signature for target '' @ show_int index))
         | Some co \<Rightarrow> Inr (PData ''AssemblyTarget''
             [(''target_index'', PInt index), (''kind'', PStr ASSEMBLY_TARGET_KIND_GUARDED), (''auth_address'', pget target ''guarded_account''),
              (''cosigner_signature'', cs_signature co), (''user_signature'', cs_signature u), (''user_source_request_id'', cs_request_id u),
              (''guarded_runtime_args'', pget target ''runtime_args''), (''base_signatures'', PNone), (''bounded_runtime_args'', PNone),
              (''assembly_receipt'', PStr []), (''base_source_request_id'', PStr []), (''cosigner_source_request_id'', cs_request_id co)])))"

definition assembly_request :: "string \<Rightarrow> pyval list \<Rightarrow> pyval list \<Rightarrow> passthrough_item list \<Rightarrow> pyval" where
  "assembly_request request_id group_bytes_hex targets passthrough = PData ''AssemblyRequest''
     [(''group_bytes_hex'', PList group_bytes_hex), (''request_id'', PStr request_id), (''targets'', PList targets),
      (''passthrough'', PList (map item_data passthrough))]"

definition cosigner_side :: "'w env \<Rightarrow> nat \<Rightarrow> pyval list \<Rightarrow> nat option \<Rightarrow> cosigner_resolver option \<Rightarrow> string \<Rightarrow> int list \<Rightarrow> string \<Rightarrow>
    guarded_state \<Rightarrow> ('w, guarded_sign_result) client_action" where
  "cosigner_side E user group_bytes_hex cosigner_client cosigner_resolver cosigner_component_key dummy_positions assembly_request_id g =
     abind (alift (cosigner_groups cosigner_client cosigner_component_key cosigner_resolver (gd_targets g) [])) (\<lambda>groups.
     abind (afold (collect_component E group_bytes_hex COMPONENT_TARGET_KIND_COSIGNER dummy_positions (gd_app_call_info g)) groups ([], [])) (\<lambda>(responses, sigs).
     abind (alift (rmap (guarded_assembly_target (gd_user_signatures g) sigs) (gd_targets g))) (\<lambda>targets.
     abind (request_assemble E user (assembly_request assembly_request_id group_bytes_hex targets (gd_passthrough g))) (\<lambda>assembly.
       aret \<lparr>gr_signed_group = as_signed_group assembly, gr_user_component_responses = gd_user_responses g,
             gr_cosigner_component_responses = responses, gr_assembly_response = Some assembly,
             gr_primary_sign_response = gd_primary_response g, gr_bounded_component_response = None,
             gr_bounded_assembly_response = None\<rparr>))))"

definition sign_guarded_group :: "'w env \<Rightarrow> algosdk \<Rightarrow> nat option \<Rightarrow> pyval list \<Rightarrow> pyval list \<Rightarrow> nat option \<Rightarrow> cosigner_resolver option \<Rightarrow>
    string \<Rightarrow> pyval list \<Rightarrow> pyval list \<Rightarrow> int list \<Rightarrow> string \<Rightarrow> ('w, guarded_sign_result) client_action" where
  "sign_guarded_group E K user_client group_bytes_hex guarded_targets cosigner_client cosigner_resolver cosigner_component_key
       primary_targets passthrough dummy_positions assembly_request_id =
     (case user_client of None \<Rightarrow> araise (signer_error ''user_client is required'')
      | Some user \<Rightarrow>
          abind (user_side E K user group_bytes_hex guarded_targets primary_targets passthrough dummy_positions)
            (cosigner_side E user group_bytes_hex cosigner_client cosigner_resolver cosigner_component_key dummy_positions assembly_request_id))"

section \<open>What may be sent, and when\<close>

text \<open>A request that shows the frozen group to a cosigner.\<close>

definition discloses :: "http_request \<Rightarrow> bool" where
  "discloses rq \<longleftrightarrow> rq_path rq = ''/sign/component'' \<and>
     (\<exists>ts. py_iter (pget (rq_body rq) ''targets'') = Inr ts \<and> (\<exists>t \<in> set ts. pget t ''kind'' = PStr COMPONENT_TARGET_KIND_COSIGNER))"

definition user_only :: "nat \<Rightarrow> event \<Rightarrow> bool" where
  "user_only user e \<longleftrightarrow> fst e = user \<and> \<not> discloses (snd e)"

lemma user_only_path: "path \<noteq> ''/sign/component'' \<Longrightarrow> user_only c (c, mk_request meth path body tmo)"
  by (simp add: user_only_def discloses_def)

lemma issues_cancel_and_fail [issues_intros]: "(\<And>b n. P (c, mk_request ''POST'' ''/sign/cancel'' b n)) \<Longrightarrow> issues P (cancel_and_fail E c rid e)"
  unfolding cancel_and_fail_def best_effort_cancel_sign_request_def cancel_sign_request_def Let_def
  by (intro issues_intros)

lemma issues_discover_user [issues_intros]: "issues (user_only c) (discover_approval_wait E c)"
  by (rule issues_mono [OF issues_discover]) (auto simp: to_path_def user_only_def discloses_def)

lemma issues_sign_requests: "issues (user_only c) (sign_requests E c entries rid)"
  unfolding sign_requests_def by (intro issues_intros user_only_path) simp_all

lemma issues_plan_requests: "issues (user_only c) (plan_requests E c entries)"
  unfolding plan_requests_def by (intro issues_intros user_only_path) simp_all

lemma issues_component_timeout [issues_intros]: "issues (user_only c) (component_timeout E c kind)"
  unfolding component_timeout_def by (intro issues_intros)

text \<open>A component request discloses nothing unless it names a cosigner target itself.\<close>

lemma issues_request_components:
  assumes "\<And>ts t. py_iter (pget (compact_payload request) ''targets'') = Inr ts \<Longrightarrow> t \<in> set ts \<Longrightarrow>
     pget t ''kind'' \<noteq> PStr COMPONENT_TARGET_KIND_COSIGNER"
  shows "issues (user_only c) (request_components E c request)"
proof -
  have sent: "user_only c (c, mk_request ''POST'' ''/sign/component'' body tmo)"
    if "pget body ''targets'' = pget (compact_payload request) ''targets''" for body tmo
    using assms that by (auto simp: user_only_def discloses_def)
  have tail: "issues (user_only c)
     (abind (alift (rewrap is_value_error (\<lambda>e. value_error (''invalid component request: '' @ exc_msg e)) (validate_component_request body))) (\<lambda>_.
      abind (alift (first_target_kind body)) (\<lambda>kind.
      abind (component_timeout E c kind) (\<lambda>tmo.
      abind (acatch is_request_exception
              (\<lambda>e. if operator_side kind then cancel_and_fail E c (py_str (pget body ''request_id'')) e else failed_to_connect e)
              (http E c ''POST'' ''/sign/component'' body tmo)) (\<lambda>r. alift (component_reply body r))))))"
    if "pget body ''targets'' = pget (compact_payload request) ''targets''" for body
    by (intro issues_intros sent [OF that] user_only_path) simp
  show ?thesis
    unfolding request_components_def
    by (intro issues_raise_if issues_bind_dep [OF issues_ensure_request_id] tail) (rule ensure_request_id_targets)
qed

lemma compact_component_targets:
  "pget (compact_payload (component_request_for_indices g is kind key ds info)) ''targets'' =
     PList (map (compact_payload \<circ> component_target kind key info) is)"
  by (simp add: component_request_for_indices_def dict_lookup_def)

lemma component_target_index: "item_index (compact_payload (component_target kind key info i)) = Some i"
  by (simp add: component_target_def item_index_def pobj_def dict_lookup_def)

lemma component_target_kind: "pget (compact_payload (component_target kind key info i)) ''kind'' = PStr kind"
  by (simp add: component_target_def pobj_def dict_lookup_def)

lemma issues_collect_user:
  "issues (user_only user) (collect_component E g COMPONENT_TARGET_KIND_USER ds info ((user, account), is) acc)"
  unfolding collect_component_def prod.case
  by (intro issues_intros issues_request_components)
    (auto simp: compact_component_targets component_target_kind target_kinds)

lemma issues_user_side: "issues (user_only user) (user_side E K user g gts pts pass ds)"
  unfolding user_side_def Let_def request_primary_guarded_passthrough_def
  by (intro issues_intros issues_sign_requests) (auto intro: issues_collect_user)

text \<open>The cosigner side only adds to the trace.\<close>

lemma issues_any_discover [issues_intros]: "issues (\<lambda>_. True) (discover_approval_wait E c)"
  by (rule issues_mono [OF issues_discover]) simp

lemma issues_any_components [issues_intros]: "issues (\<lambda>_. True) (request_components E c request)"
  unfolding request_components_def component_timeout_def by (intro issues_intros TrueI)

lemma issues_any_assemble [issues_intros]: "issues (\<lambda>_. True) (request_assemble E c request)"
  unfolding request_assemble_def by (intro issues_intros TrueI)

lemma issues_cosigner_side: "issues (\<lambda>_. True) (cosigner_side E user g cc cr ck ds aid st)"
  unfolding cosigner_side_def collect_component_def by (intro issues_intros)

section \<open>What the user side has gathered\<close>

lemma add_signatures_dom:
  assumes "add_signatures rid items d = Inr d'"
  shows "(\<forall>i. map_of d i \<noteq> None \<longrightarrow> map_of d' i \<noteq> None) \<and> (\<forall>x \<in> set items. \<exists>i. item_index x = Some i \<and> map_of d' i \<noteq> None)"
  using assms
proof (induction items arbitrary: d)
  case (Cons x items)
  then obtain i sig where i: "item_index x = Some i"
    and rest: "add_signatures rid items (AList.update i \<lparr>cs_signature = sig, cs_request_id = rid\<rparr> d) = Inr d'"
    by (auto simp: result_simps item_index_def dest!: py_item_pget split: option.splits)
  note IH = Cons.IH [OF rest]
  have "map_of d' j \<noteq> None" if "map_of d j \<noteq> None \<or> j = i" for j
  proof -
    have "map_of (AList.update i \<lparr>cs_signature = sig, cs_request_id = rid\<rparr> d) j \<noteq> None" using that by (auto simp: update_conv')
    with IH show ?thesis by blast
  qed
  with IH i show ?case by auto
qed simp

lemma collect_component_dom:
  assumes "collect_component E g kind ds info ((c, key), is) acc s = (Inr acc', t)"
  shows "(\<forall>i. map_of (snd acc) i \<noteq> None \<longrightarrow> map_of (snd acc') i \<noteq> None) \<and> (\<forall>i \<in> set is. map_of (snd acc') i \<noteq> None)"
proof -
  let ?req = "component_request_for_indices g (sort is) kind key ds info"
  from assms obtain resp u sigs where req: "request_components E c ?req s = (Inr resp, u)"
    and add: "add_signatures (cp_request_id resp) (cp_components resp) (snd acc) = Inr sigs" and acc': "snd acc' = sigs"
    by (auto simp: collect_component_def result_simps)
  from request_components_Inr [OF req] obtain body r where
    val: "validate_component_request body = Inr ()" and rep: "component_reply body r = Inr resp"
    and tg: "pget body ''targets'' = pget (compact_payload ?req) ''targets''" by (elim exE conjE)
  from component_reply_claims [OF rep val] obtain ts where ts: "payload_list body ''targets'' = Inr ts"
    "set (claims (cp_components resp)) = set (claims ts)" by (elim exE conjE)
  have "ts = map (compact_payload \<circ> component_target kind key info) (sort is)"
    using ts(1) by (auto simp: payload_list_def tg compact_component_targets py_or_def split: if_splits)
  then have idx: "Some i \<in> fst ` set (claims ts)" if "i \<in> set is" for i
    using that component_target_index by (force simp: claims_def)
  have "map_of sigs i \<noteq> None" if i: "i \<in> set is" for i
  proof -
    from idx [OF i] have "Some i \<in> fst ` set (claims (cp_components resp))" by (simp add: ts(2))
    then obtain x where "x \<in> set (cp_components resp)" "item_index x = Some i" by (auto simp: claims_def)
    with add_signatures_dom [OF add] show ?thesis by fastforce
  qed
  with add_signatures_dom [OF add] acc' show ?thesis by auto
qed

lemma afold_collect_dom:
  assumes "afold (collect_component E g kind ds info) groups acc s = (Inr acc', t)"
  shows "(\<forall>i. map_of (snd acc) i \<noteq> None \<longrightarrow> map_of (snd acc') i \<noteq> None) \<and>
     (\<forall>grp \<in> set groups. \<forall>i \<in> set (snd grp). map_of (snd acc') i \<noteq> None)"
  using assms
proof (induction groups arbitrary: acc s)
  case (Cons grp groups)
  then obtain b u where step: "collect_component E g kind ds info grp acc s = (Inr b, u)"
    and rest: "afold (collect_component E g kind ds info) groups b u = (Inr acc', t)"
    by (auto simp: result_simps)
  obtain c key "is" where "grp = ((c, key), is)" by (metis prod.exhaust)
  with Cons.IH [OF rest] collect_component_dom [OF step [unfolded this]] show ?case by auto
qed (simp add: result_simps)

lemma add_to_group_indices: "(\<Union>grp \<in> set (add_to_group k i gs). set (snd grp)) = insert i (\<Union>grp \<in> set gs. set (snd grp))"
  by (induction k i gs rule: add_to_group.induct) auto

lemma guarded_target_step_Inr:
  assumes "guarded_target_step n x (d, gs) = Inr st"
  shows "\<exists>i v account. item_index x = Some i \<and> 0 \<le> i \<and> i < int n \<and> i \<notin> fst ` set d \<and>
     st = (d @ [(i, v)], add_to_group account i gs)"
  using assms
  by (auto simp: result_simps guarded_target_step_def index_in_range_def item_index_def Let_def map_of_eq_None_iff
      split: option.splits pyval.splits if_splits)

lemma guarded_steps_indices:
  assumes "rfold (guarded_target_step n) targets (d, gs) = Inr (d', gs')"
    and "fst ` set d = (\<Union>grp \<in> set gs. set (snd grp))"
  shows "fst ` set d' = (\<Union>grp \<in> set gs'. set (snd grp)) \<and> length d' = length d + length targets"
  using assms
proof (induction targets arbitrary: d gs)
  case (Cons x targets)
  then obtain i v account where rest: "rfold (guarded_target_step n) targets (d @ [(i, v)], add_to_group account i gs) = Inr (d', gs')"
    by (auto simp: rbind_Inr dest!: guarded_target_step_Inr)
  have "fst ` set (d @ [(i, v)]) = (\<Union>grp \<in> set (add_to_group account i gs). set (snd grp))"
    using Cons.prems(2) by (simp add: add_to_group_indices)
  from Cons.IH [OF rest this] show ?case by simp
qed (simp add: result_simps)

lemma primary_target_step_Inr:
  assumes "primary_target_step n gd x d = Inr d'"
  shows "\<exists>i. item_index x = Some i \<and> 0 \<le> i \<and> i < int n \<and> d' = d @ [(i, x)]"
  using assms
  by (auto simp: result_simps primary_target_step_def index_in_range_def item_index_def Let_def split: option.splits if_splits)

lemma primary_steps_indices:
  assumes "rfold (primary_target_step n gd) ps d = Inr d'"
  shows "fst ` set d \<subseteq> fst ` set d' \<and> (\<forall>x \<in> set ps. \<exists>i. item_index x = Some i \<and> 0 \<le> i \<and> i < int n \<and> i \<in> fst ` set d')"
  using assms
proof (induction ps arbitrary: d)
  case (Cons x ps)
  then obtain e where step: "primary_target_step n gd x d = Inr e" and rest: "rfold (primary_target_step n gd) ps e = Inr d'"
    by (auto simp: rbind_Inr)
  from primary_target_step_Inr [OF step] obtain i where i: "item_index x = Some i" "0 \<le> i" "i < int n" "e = d @ [(i, x)]" by blast
  from Cons.IH [OF rest] have IH: "fst ` set e \<subseteq> fst ` set d'"
    "\<forall>x \<in> set ps. \<exists>i. item_index x = Some i \<and> 0 \<le> i \<and> i < int n \<and> i \<in> fst ` set d'" by blast+
  from IH(1) i(4) have "fst ` set d \<subseteq> fst ` set d'" "i \<in> fst ` set d'" by auto
  with i(1,2,3) IH(2) show ?case by (metis set_ConsD)
qed (simp add: result_simps)

lemma primary_passthrough_item_Inr:
  assumes "primary_passthrough_item K g signed i = Inr item"
  shows "gp_target_index item = PInt i \<and> carries_frozen_bytes K (gp_signed_txn_hex item) (g ! nat i)"
  using assms by (auto simp: primary_passthrough_item_def result_simps intro: verify_signed_Inr)

lemma primary_passthrough_signed:
  assumes "request_primary_guarded_passthrough E K user g gd ps pass s = (Inr (resp, items), t)" and "x \<in> set ps"
  shows "\<exists>i item. item_index x = Some i \<and> 0 \<le> i \<and> i < int (length g) \<and> item \<in> set items \<and> gp_target_index item = PInt i \<and>
     carries_frozen_bytes K (gp_signed_txn_hex item) (g ! nat i)"
proof -
  from assms(1) obtain d where d: "rfold (primary_target_step (length g) gd) ps [] = Inr d"
    and items: "rmap (primary_passthrough_item K g (gs_signed resp)) (sort (map fst d)) = Inr items"
    by (auto simp: request_primary_guarded_passthrough_def Let_def result_simps)
  from primary_steps_indices [OF d] assms(2) obtain i where "item_index x = Some i" "0 \<le> i" "i < int (length g)" "i \<in> fst ` set d"
    by blast
  then have i: "item_index x = Some i" "0 \<le> i" "i < int (length g)" "i \<in> set (sort (map fst d))" by auto
  from i(4) obtain k where k: "k < length (sort (map fst d))" "sort (map fst d) ! k = i" by (metis in_set_conv_nth)
  with items have "primary_passthrough_item K g (gs_signed resp) i = Inr (items ! k)" "items ! k \<in> set items"
    by (auto simp: rmap_Inr)
  with i primary_passthrough_item_Inr show ?thesis by blast
qed

text \<open>The user side is complete: every guarded target has a component signature of the user, every primary target a signed transaction.\<close>

definition user_side_complete :: "algosdk \<Rightarrow> pyval list \<Rightarrow> pyval list \<Rightarrow> pyval list \<Rightarrow> guarded_state \<Rightarrow> bool" where
  "user_side_complete K g guarded_targets primary_targets st \<longleftrightarrow>
     length (gd_targets st) = length guarded_targets \<and>
     (\<forall>(i, target) \<in> set (gd_targets st). map_of (gd_user_signatures st) i \<noteq> None) \<and>
     (\<forall>p \<in> set primary_targets. \<exists>i item. item_index (compact_payload p) = Some i \<and> 0 \<le> i \<and> i < int (length g) \<and>
        item \<in> set (gd_passthrough st) \<and> gp_target_index item = PInt i \<and>
        carries_frozen_bytes K (gp_signed_txn_hex item) (g ! nat i))"

lemma sort_targets_length: "sort_targets n targets = Inr ts \<Longrightarrow> length ts = length targets"
  by (auto simp: sort_targets_def result_simps dest: rmap_length)

lemma user_side_Inr:
  assumes "user_side E K user g gts pts pass ds s = (Inr st, t)"
  shows "user_side_complete K g gts pts st"
proof -
  from assms obtain ts info gd groups items acc s1 s2 s3 prim where
    ts: "sort_targets (length g) (map compact_payload gts) = Inr ts"
    and gd: "rfold (guarded_target_step (length g)) ts ([], []) = Inr (gd, groups)"
    and col: "afold (collect_component E g COMPONENT_TARGET_KIND_USER ds info)
              (map (\<lambda>(account, is). ((user, account), is)) (sort_key fst groups)) ([], []) s1 = (Inr acc, s2)"
    and prim: "(if pts = [] then aret (None, [])
            else abind (request_primary_guarded_passthrough E K user g gd (map compact_payload pts) items) (\<lambda>(response, signed).
              aret (Some response, signed))) s2 = (Inr prim, s3)"
    and st: "gd_targets st = gd" "gd_user_signatures st = snd acc" "gd_passthrough st = items @ snd prim"
    unfolding user_side_def Let_def by (auto simp: abind_Inr alift_Inr araise_if_Inr aret_Inr split: prod.splits)
  from guarded_steps_indices [OF gd] have idx: "fst ` set gd = (\<Union>grp \<in> set groups. set (snd grp))" and len: "length gd = length ts"
    by auto
  have sig: "map_of (snd acc) i \<noteq> None" if "i \<in> fst ` set gd" for i
  proof -
    from that idx obtain account "is" where "(account, is) \<in> set groups" "i \<in> set is" by auto
    then have "((user, account), is) \<in> set (map (\<lambda>(account, is). ((user, account), is)) (sort_key fst groups))" by force
    with afold_collect_dom [OF col] \<open>i \<in> set is\<close> show ?thesis by fastforce
  qed
  have "\<exists>i item. item_index (compact_payload p) = Some i \<and> 0 \<le> i \<and> i < int (length g) \<and> item \<in> set (snd prim) \<and>
      gp_target_index item = PInt i \<and> carries_frozen_bytes K (gp_signed_txn_hex item) (g ! nat i)" if p: "p \<in> set pts" for p
  proof -
    from p prim obtain resp where "request_primary_guarded_passthrough E K user g gd (map compact_payload pts) items s2 = (Inr (resp, snd prim), s3)"
      by (auto simp: abind_Inr aret_Inr split: if_splits)
    from primary_passthrough_signed [OF this] p show ?thesis by simp
  qed
  then show ?thesis
    using sig len sort_targets_length [OF ts] unfolding user_side_complete_def st by fastforce
qed

section \<open>Properties\<close>

text \<open>
  C3. User first. Whatever happens in a guarded signing run, the messages it sends split in two:
  the first part goes to the user's signer only and shows the frozen group to no cosigner; the
  second part is empty unless the user side is complete, that is, unless every guarded target has
  its user signature and every ordinary position has been signed, with the frozen bytes.
\<close>

theorem guarded_user_first:
  assumes "sign_guarded_group E K (Some user) g gts cc cr ck pts pass ds aid s = (r, t)"
  shows "\<exists>pre post. st_trace t = st_trace s @ pre @ post \<and> (\<forall>e \<in> set pre. user_only user e) \<and>
     (post = [] \<or> (\<exists>st u. user_side E K user g gts pts pass ds s = (Inr st, u) \<and> st_trace u = st_trace s @ pre \<and>
        user_side_complete K g gts pts st))"
proof -
  obtain x u where us: "user_side E K user g gts pts pass ds s = (x, u)" by fastforce
  from issuesD [OF issues_user_side us] obtain pre where pre: "st_trace u = st_trace s @ pre" "\<forall>e \<in> set pre. user_only user e" by blast
  show ?thesis
  proof (cases x)
    case (Inl e)
    with assms us have "t = u" by (simp add: sign_guarded_group_def abind_def)
    with pre show ?thesis by (intro exI [of _ pre] exI [of _ "[]"]) simp
  next
    case (Inr st)
    with assms us have "cosigner_side E user g cc cr ck ds aid st u = (r, t)" by (simp add: sign_guarded_group_def abind_def)
    from issuesD [OF issues_cosigner_side this] obtain post where "st_trace t = st_trace u @ post" by blast
    moreover from us Inr have "user_side_complete K g gts pts st" by (intro user_side_Inr) simp
    ultimately show ?thesis using pre us Inr by (metis append_assoc)
  qed
qed

subsection \<open>Evaluation\<close>

text \<open>One guarded position; client 0 is the user's signer, client 1 the cosigner.\<close>

definition sample_token_id :: string where
  "sample_token_id = new_sign_request_id (replicate 16 (CHR ''A''))"

definition sample_component_table :: "string \<Rightarrow> (string \<times> http_response) list" where
  "sample_component_table kind =
     [(''/sign/component'', ok_reply (pobj [(''request_id'', PStr sample_token_id),
        (''components'', PList [pobj [(''target_index'', PInt 0), (''kind'', PStr kind), (''signature'', PStr ''aa''),
           (''signature_scheme'', PStr ''falcon1024'')]])])),
      (''/sign/assemble'', ok_reply (pobj [(''request_id'', PStr sample_token_id), (''signed_group'', PList [PStr ''cc''])]))]"

definition sample_guarded_env :: "unit env" where
  "sample_guarded_env = scripted_clients (\<lambda>c. sample_component_table (if c = 0 then ''user'' else ''cosigner''))"

definition sample_guarded_targets :: "pyval list" where
  "sample_guarded_targets = [pobj [(''target_index'', PInt 0), (''guarded_account'', PStr ''G''),
     (''logic_sig_resources'', pobj [(''program_bytes'', PInt 100), (''argument_bytes'', PInt 0), (''max_opcode_cost'', PInt 20)])]]"

abbreviation sample_guarded_run :: "guarded_sign_result result \<times> (unit, client) state" where
  "sample_guarded_run \<equiv> sign_guarded_group sample_guarded_env note_sdk (Some 0) [PStr ''5458a0''] sample_guarded_targets (Some 1) None ''K''
     [] [] [] [] (initial_state sample_client)"

lemma sample_guarded_outcome:
  "\<exists>res t. sample_guarded_run = (Inr res, t) \<and> gr_signed_group res = PList [PStr ''cc''] \<and>
     map (\<lambda>(c, rq). (c, rq_path rq)) (st_trace t) = [(0, ''/sign/component''), (1, ''/sign/component''), (0, ''/sign/assemble'')]"
proof -
  have "case sample_guarded_run of (Inr res, t) \<Rightarrow> gr_signed_group res = PList [PStr ''cc''] \<and>
      map (\<lambda>(c, rq). (c, rq_path rq)) (st_trace t) = [(0, ''/sign/component''), (1, ''/sign/component''), (0, ''/sign/assemble'')]
    | _ \<Rightarrow> False" by code_simp
  then show ?thesis by (auto split: prod.splits sum.splits)
qed

theorem guarded_user_first_witness:
  "\<exists>r t pre post. sample_guarded_run = (r, t) \<and>
     map (\<lambda>(c, rq). (c, rq_path rq)) (st_trace t) = [(0, ''/sign/component''), (1, ''/sign/component''), (0, ''/sign/assemble'')] \<and>
     st_trace t = pre @ post \<and> (\<forall>e \<in> set pre. user_only 0 e)"
proof -
  from sample_guarded_outcome obtain res t where run: "sample_guarded_run = (Inr res, t)"
    and paths: "map (\<lambda>(c, rq). (c, rq_path rq)) (st_trace t) = [(0, ''/sign/component''), (1, ''/sign/component''), (0, ''/sign/assemble'')]"
    by (elim exE conjE)
  from guarded_user_first [OF run] obtain pre post where "st_trace t = st_trace (initial_state sample_client) @ pre @ post"
    "\<forall>e \<in> set pre. user_only 0 e" by (elim exE conjE)
  moreover have "st_trace (initial_state sample_client) = []" by (simp add: initial_state_def)
  ultimately show ?thesis using run paths by (intro exI [of _ "Inr res"] exI [of _ t] exI [of _ pre] exI [of _ post]) simp
qed


end
