(* ===== verification/Bounded_Flow.thy ===== *)
theory Bounded_Flow
  imports Guarded_Signing
begin

text \<open>
  Signing a prepared group with keys of the \<^verbatim>\<open>bounded-cosigner1\<close> flow: plan, check the plan against
  what was prepared, collect the base components and the primary signatures from the user's signer,
  then the cosigner signatures, assemble, and check the result against the frozen bytes.
\<close>

section \<open>Inputs\<close>

record bounded_inputs =
  bi_requests :: "pyval list"
  bi_targets :: "(int \<times> pyval) list"
  bi_primary :: "(int \<times> pyval) list"
  bi_resources :: "(int \<times> lsig_usage) list"
  bi_max_fees :: "(nat \<times> int) list"

definition no_inputs :: bounded_inputs where
  "no_inputs = \<lparr>bi_requests = [], bi_targets = [], bi_primary = [], bi_resources = [], bi_max_fees = []\<rparr>"

text \<open>\<^verbatim>\<open>key = item.signer_key; if key is None and item.auth_address: key = user_client.get_key_info(...)\<close>\<close>

definition item_key :: "'w env \<Rightarrow> nat \<Rightarrow> prepared_transaction \<Rightarrow> ('w, key_info option) client_action" where
  "item_key E user item =
     (case pt_signer_key item of Some k \<Rightarrow> aret (Some k)
      | None \<Rightarrow> if pt_auth_address item \<noteq> [] then get_key_info E user (pt_auth_address item) else aret None)"

definition prepared_error :: "nat \<Rightarrow> string \<Rightarrow> exc" where
  "prepared_error index m = value_error (''prepared transaction '' @ show_nat index @ '': '' @ m)"

definition resources_value :: "lsig_usage option \<Rightarrow> pyval" where
  "resources_value r = (case r of None \<Rightarrow> PNone | Some u \<Rightarrow> usage_data u)"

definition bounded_target :: "nat \<Rightarrow> prepared_transaction \<Rightarrow> pyval \<Rightarrow> key_info \<Rightarrow> lsig_usage \<Rightarrow> pyval" where
  "bounded_target index item public_key k u = pobj
     [(''target_index'', PInt (int index)), (''guarded_account'', PStr (pt_auth_address item)),
      (''cosigner_public_key_hex'', public_key), (''cosigner_component_key_type'', bounded_cosigner_component_key_type k),
      (''logic_sig_resources'', usage_data u), (''app_call_info'', pt_app_call_info item)]"

definition primary_target :: "nat \<Rightarrow> prepared_transaction \<Rightarrow> pyval" where
  "primary_target index item = pobj
     [(''target_index'', PInt (int index)), (''auth_address'', PStr (pt_auth_address item)), (''txn_sender'', PStr (pt_txn_sender item)),
      (''lsig_args'', if pt_lsig_args item = [] then PNone else hex_args (pt_lsig_args item)), (''app_call_info'', pt_app_call_info item)]"

definition bounded_key_step :: "algosdk \<Rightarrow> nat \<Rightarrow> prepared_transaction \<Rightarrow> txn \<Rightarrow> key_info \<Rightarrow> bounded_inputs \<Rightarrow> bounded_inputs result" where
  "bounded_key_step K index item txn k acc =
     rbind (selected_prepared_resources (Some k) (tx_rekey_to txn \<noteq> None)) (\<lambda>resources.
     if py_eq (ki_signing_flow k) (PStr SIGNING_FLOW_BOUNDED_COSIGNER1) then
       raise_if (pt_auth_address item = []) (prepared_error index ''bounded auth address is required'') (
       rbind (require_lsig_resources (resources_value resources) (''prepared transaction '' @ show_nat index @ '': bounded'')) (\<lambda>u.
       rbind (to_sign_request K item) (\<lambda>request.
       case ki_bounded_authorization k of
         None \<Rightarrow> Inl (prepared_error index ''bounded authorization metadata is required'')
       | Some b \<Rightarrow>
           rbind (bounded_cosigner_public_key k) (\<lambda>pk.
             Inr (acc\<lparr>bi_requests := bi_requests acc @ [request], bi_resources := bi_resources acc @ [(int index, u)],
                      bi_max_fees := bi_max_fees acc @ [(index, ba_max_fee b)],
                      bi_targets := bi_targets acc @ [(int index, bounded_target index item pk k u)]\<rparr>)))))
     else
       raise_if (py_eq (ki_signing_flow k) (PStr SIGNING_FLOW_COSIGNER1))
         (value_error ''cannot mix cosigner1 and bounded-cosigner1 targets in one group'') (
       raise_if (\<not> (py_eq (ki_signing_flow k) (PStr []) \<or> py_eq (ki_signing_flow k) (PStr SIGNING_FLOW_BOUNDED1)))
         (prepared_error index (''signer key requires signing flow '' @ py_repr (ki_signing_flow k) @ '', which this SDK does not support; upgrade the SDK'')) (
       raise_if (pt_auth_address item = []) (prepared_error index ''primary auth address is required'') (
       rbind (encode_transaction K txn) (\<lambda>(txn_hex, _).
       rbind (with_resources resources ([(''txn_bytes_hex'', PStr txn_hex)]
                @ (if truthy (pt_app_call_info item) then [(''app_call_info'', pt_app_call_info item)] else []))) (\<lambda>kvs.
       rbind (prepared_foreign_pq_scheme (Some k) resources (''prepared transaction '' @ show_nat index)) (\<lambda>pq.
         Inr (acc\<lparr>bi_requests := bi_requests acc @ [pobj (kvs @ (if pq \<noteq> [] then [(''pq_scheme'', PStr pq)] else []))],
                  bi_primary := bi_primary acc @ [(int index, primary_target index item)]\<rparr>))))))))"

definition bounded_input_step :: "'w env \<Rightarrow> algosdk \<Rightarrow> nat \<Rightarrow> nat \<times> prepared_transaction \<Rightarrow> bounded_inputs \<Rightarrow> ('w, bounded_inputs) client_action" where
  "bounded_input_step E K user slot acc =
     (case slot of (index, item) \<Rightarrow>
      araise_if (pt_signed_transaction_base64 item \<noteq> [])
        (prepared_error index ''passthrough entries are not supported in prepared bounded-cosigner groups'') (
      case pt_transaction item of
        None \<Rightarrow> araise (prepared_error index ''transaction is required'')
      | Some txn \<Rightarrow>
          abind (item_key E user item) (\<lambda>key.
          case key of
            None \<Rightarrow> araise (prepared_error index ''signer key metadata is required'')
          | Some k \<Rightarrow> alift (bounded_key_step K index item txn k acc))))"

section \<open>Primary positions\<close>

definition bounded_primary_request :: "nat \<Rightarrow> (int \<times> lsig_usage) list \<Rightarrow> int list \<Rightarrow> (int \<times> pyval) list \<Rightarrow> nat \<times> pyval \<Rightarrow> pyval result" where
  "bounded_primary_request original_count target_resources bounded_indices primary slot =
     (case slot of (index, txn_hex) \<Rightarrow>
      if original_count \<le> index then
        rbind (wire_lsig_resources guarded_dummy_lsig_resources) (\<lambda>w.
          Inr (pobj [(''txn_bytes_hex'', txn_hex), (''lsig_resources'', w)]))
      else if int index \<in> set bounded_indices then
        rbind (require_lsig_resources (resources_value (map_of target_resources (int index))) (''bounded target '' @ show_nat index)) (\<lambda>u.
        rbind (wire_lsig_resources u) (\<lambda>w.
          Inr (pobj [(''txn_bytes_hex'', txn_hex), (''lsig_resources'', w)])))
      else case map_of primary (int index) of
        None \<Rightarrow> Inl (value_error (''group position '' @ show_nat index @ '' has no bounded or primary target''))
      | Some target \<Rightarrow>
          Inr (pobj ([(''txn_bytes_hex'', txn_hex), (''auth_address'', pget target ''auth_address'')]
            @ given_field ''txn_sender'' target @ given_field ''lsig_args'' target @ given_field ''app_call_info'' target)))"

definition request_bounded_primary_passthrough :: "'w env \<Rightarrow> algosdk \<Rightarrow> nat \<Rightarrow> pyval list \<Rightarrow> nat \<Rightarrow> bounded_inputs \<Rightarrow>
    ('w, group_sign_response option \<times> passthrough_item list) client_action" where
  "request_bounded_primary_passthrough E K user group_bytes_hex original_count inputs =
     (if bi_primary inputs = [] then aret (None, []) else
      abind (alift (rmap (bounded_primary_request original_count (bi_resources inputs) (map fst (bi_targets inputs)) (bi_primary inputs))
               (List.enumerate 0 group_bytes_hex))) (\<lambda>requests.
      abind (sign_requests E user requests None) (\<lambda>response.
      abind (alift (rmap (primary_passthrough_item K group_bytes_hex (gs_signed response)) (sort (map fst (bi_primary inputs))))) (\<lambda>items.
        aret (Some response, items)))))"

section \<open>Base components\<close>

text \<open>The component request over the frozen group: bounded targets, and the rest as context.\<close>

definition bounded_component_target :: "nat \<Rightarrow> pyval \<Rightarrow> pyval" where
  "bounded_component_target index request = pobj
     [(''target_index'', PInt (int index)), (''kind'', PStr COMPONENT_TARGET_KIND_BOUNDED_BASE), (''auth_address'', pget request ''auth_address''),
      (''lsig_args'', pget request ''lsig_args''), (''app_call_info'', pget request ''app_call_info'')]"

definition bounded_context_position :: "nat \<Rightarrow> pyval \<Rightarrow> pyval" where
  "bounded_context_position index request = pobj (
     [(''target_index'', PInt (int index)), (''lsig_resources'', pget request ''lsig_resources''), (''app_call_info'', pget request ''app_call_info'')]
     @ given_field ''pq_scheme'' request)"

definition bounded_component_request :: "pyval list \<Rightarrow> bounded_inputs \<Rightarrow> pyval" where
  "bounded_component_request frozen_group inputs =
     (let n = length (bi_requests inputs); slots = List.enumerate 0 (bi_requests inputs);
          is_target = (\<lambda>(index :: nat, request :: pyval). int index \<in> fst ` set (bi_targets inputs)) in
      PData ''ComponentRequest''
       [(''group_bytes_hex'', PList frozen_group),
        (''targets'', PList (map (\<lambda>(i, r). bounded_component_target i r) (filter is_target slots))),
        (''request_id'', PStr []),
        (''contextual_positions'', list_or_none (map (\<lambda>(i, r). bounded_context_position i r) (filter (\<lambda>s. \<not> is_target s) slots))),
        (''dummy_positions'', list_or_none (map (\<lambda>i. pobj [(''target_index'', PInt (int i))]) [n ..< length frozen_group]))])"

definition bounded_component_step :: "(int \<times> pyval) list \<Rightarrow> pyval \<Rightarrow> (int \<times> pyval) list \<Rightarrow> (int \<times> pyval) list result" where
  "bounded_component_step targets component components =
     rbind (py_item component ''target_index'') (\<lambda>ti.
     case Option.bind (as_int ti) (\<lambda>i. map_option (Pair i) (map_of targets i)) of
       None \<Rightarrow> Inl (signer_error (''signer returned unexpected bounded component target '' @ py_str ti))
     | Some (i, target) \<Rightarrow>
         raise_if (\<not> py_eq (pget component ''kind'') (PStr COMPONENT_TARGET_KIND_BOUNDED_BASE) \<or>
                   \<not> py_eq (pget component ''auth_address'') (pget target ''guarded_account''))
           (signer_error (''signer returned unexpected bounded component target '' @ py_str ti)) (
         raise_if (map_of components i \<noteq> None) (signer_error (''signer returned duplicate bounded component target '' @ py_str ti))
           (Inr (components @ [(i, component)]))))"

definition check_bounded_components :: "(int \<times> pyval) list \<Rightarrow> pyval list \<Rightarrow> (int \<times> pyval) list result" where
  "check_bounded_components targets cs =
     rbind (rfold (bounded_component_step targets) cs []) (\<lambda>components.
     case List.find (\<lambda>(i, _). map_of components i = None) targets of
       Some (i, _) \<Rightarrow> Inl (signer_error (''signer returned no bounded component for target index '' @ show_int i))
     | None \<Rightarrow> Inr components)"

section \<open>The two halves\<close>

record bounded_state =
  bs_inputs :: bounded_inputs
  bs_frozen :: "pyval list"
  bs_planned :: "txn list"
  bs_mutations :: pyval
  bs_response :: component_response
  bs_components :: "(int \<times> pyval) list"
  bs_primary_response :: "group_sign_response option"
  bs_passthrough :: "passthrough_item list"

definition bounded_user_side :: "'w env \<Rightarrow> algosdk \<Rightarrow> nat \<Rightarrow> prepared_transaction list \<Rightarrow> ('w, bounded_state) client_action" where
  "bounded_user_side E K user prepared =
     araise_if (prepared = []) (value_error ''prepared group is empty'') (
     abind (afold (bounded_input_step E K user) (List.enumerate 0 prepared) no_inputs) (\<lambda>inputs.
     araise_if (bi_targets inputs = []) (value_error ''prepared group has no bounded-cosigner targets'') (
     abind (plan_requests E user (bi_requests inputs)) (\<lambda>plan.
     abind (alift (py_iter (py_or (pget plan ''transactions'') (PList [])))) (\<lambda>frozen.
     abind (alift (decode_canonical_group K (PList frozen))) (\<lambda>planned.
     araise_if (length planned < length prepared)
       (signer_error (''signer returned '' @ show_nat (length planned) @ '' bounded group positions, want at least '' @ show_nat (length prepared))) (
     abind (alift (validate_bounded_component_plan K (map (\<lambda>item. the (pt_transaction item)) prepared) planned (pget plan ''mutations''))) (\<lambda>_.
     abind (alift (validate_bounded_target_fees planned (bi_max_fees inputs))) (\<lambda>_.
     abind (request_components E user (bounded_component_request frozen inputs)) (\<lambda>response.
     abind (alift (check_bounded_components (bi_targets inputs) (cp_components response))) (\<lambda>components.
     abind (request_bounded_primary_passthrough E K user frozen (length prepared) inputs) (\<lambda>(primary_response, items).
       aret \<lparr>bs_inputs = inputs, bs_frozen = frozen, bs_planned = planned, bs_mutations = pget plan ''mutations'', bs_response = response,
             bs_components = components, bs_primary_response = primary_response, bs_passthrough = items\<rparr>))))))))))))"

definition bounded_assembly_target :: "bounded_state \<Rightarrow> (int \<times> component_signature) list \<Rightarrow> int \<times> pyval \<Rightarrow> pyval result" where
  "bounded_assembly_target st cosigner_signatures it =
     (case it of (index, target) \<Rightarrow>
      case map_of cosigner_signatures index of
        None \<Rightarrow> Inl (signer_error (''missing cosigner component signature for target '' @ show_int index))
      | Some co \<Rightarrow>
        (case map_of (bs_components st) index of
           None \<Rightarrow> Inl (Exc KeyError (show_int index) [])
         | Some component \<Rightarrow>
             rbind (py_item component ''auth_address'') (\<lambda>auth.
             rbind (py_iter (py_or (pget component ''base_signatures'') (PList []))) (\<lambda>base.
             rbind (py_item component ''assembly_receipt'') (\<lambda>receipt.
               Inr (PData ''AssemblyTarget''
                 [(''target_index'', PInt index), (''kind'', PStr ASSEMBLY_TARGET_KIND_BOUNDED_COSIGNER), (''auth_address'', auth),
                  (''cosigner_signature'', cs_signature co), (''user_signature'', PStr []), (''user_source_request_id'', PStr []),
                  (''guarded_runtime_args'', PNone), (''base_signatures'', PList base),
                  (''bounded_runtime_args'', if phas component ''runtime_args'' then pget component ''runtime_args'' else PNone),
                  (''assembly_receipt'', receipt), (''base_source_request_id'', cp_request_id (bs_response st)),
                  (''cosigner_source_request_id'', cs_request_id co)]))))))"

definition bounded_cosigner_side :: "'w env \<Rightarrow> algosdk \<Rightarrow> nat \<Rightarrow> nat \<Rightarrow> nat option \<Rightarrow> cosigner_resolver option \<Rightarrow> string \<Rightarrow> string \<Rightarrow>
    bounded_state \<Rightarrow> ('w, guarded_sign_result) client_action" where
  "bounded_cosigner_side E K user n cosigner_client cosigner_resolver cosigner_component_key assembly_request_id st =
     (let frozen = bs_frozen st; dummy_positions = map int [n ..< length frozen];
          info = map (\<lambda>(i, r). (int i, pget r ''app_call_info'')) (List.enumerate 0 (bi_requests (bs_inputs st))) in
     abind (alift (cosigner_groups cosigner_client cosigner_component_key cosigner_resolver (bi_targets (bs_inputs st)) [])) (\<lambda>groups.
     abind (afold (collect_component E frozen COMPONENT_TARGET_KIND_COSIGNER dummy_positions info) groups ([], [])) (\<lambda>(responses, sigs).
     abind (alift (sign_guarded_dummies K (drop n (bs_planned st)) n)) (\<lambda>dummies.
     abind (alift (rmap (bounded_assembly_target st sigs) (bi_targets (bs_inputs st)))) (\<lambda>targets.
     abind (request_assemble E user (assembly_request assembly_request_id frozen targets (bs_passthrough st @ dummies))) (\<lambda>assembly.
     abind (alift (py_iter (as_signed_group assembly))) (\<lambda>signed.
     abind (alift (verify_bounded_assembled_group K frozen signed)) (\<lambda>_.
       aret \<lparr>gr_signed_group = PList signed, gr_user_component_responses = [], gr_cosigner_component_responses = responses,
             gr_assembly_response = None, gr_primary_sign_response = bs_primary_response st,
             gr_bounded_component_response = Some (bs_response st), gr_bounded_assembly_response = Some assembly\<rparr>))))))))"

definition sign_prepared_bounded_cosigner_group :: "'w env \<Rightarrow> algosdk \<Rightarrow> nat option \<Rightarrow> prepared_group \<Rightarrow> nat option \<Rightarrow> cosigner_resolver option \<Rightarrow>
    string \<Rightarrow> string \<Rightarrow> ('w, guarded_sign_result) client_action" where
  "sign_prepared_bounded_cosigner_group E K user_client prepared_group cosigner_client cosigner_resolver cosigner_component_key assembly_request_id =
     (case user_client of None \<Rightarrow> araise (signer_error ''user_client is required'')
      | Some user \<Rightarrow>
          abind (bounded_user_side E K user (pg_transactions prepared_group))
            (bounded_cosigner_side E K user (length (pg_transactions prepared_group)) cosigner_client cosigner_resolver
               cosigner_component_key assembly_request_id))"

section \<open>What may be sent, and when\<close>

lemma issues_get_key_info_user [issues_intros]: "issues (user_only c) (get_key_info E c a)"
  by (rule issues_mono [OF issues_get_key_info]) (auto simp: to_path_def user_only_def discloses_def)

lemma issues_item_key [issues_intros]: "issues (user_only user) (item_key E user item)"
  unfolding item_key_def by (intro issues_intros)

lemma bounded_request_targets:
  "pget (compact_payload (bounded_component_request frozen inputs)) ''targets'' =
     PList (map (compact_payload \<circ> (\<lambda>(i, r). bounded_component_target i r))
       (filter (\<lambda>(index, request). int index \<in> fst ` set (bi_targets inputs)) (List.enumerate 0 (bi_requests inputs))))"
  by (simp add: bounded_component_request_def dict_lookup_def Let_def)

lemma bounded_component_target_kind:
  "pget (compact_payload (bounded_component_target i r)) ''kind'' = PStr COMPONENT_TARGET_KIND_BOUNDED_BASE"
  by (simp add: bounded_component_target_def pobj_def dict_lookup_def)

lemma issues_bounded_user_side: "issues (user_only user) (bounded_user_side E K user prepared)"
  unfolding bounded_user_side_def bounded_input_step_def request_bounded_primary_passthrough_def
  by (intro issues_intros issues_plan_requests issues_sign_requests issues_request_components)
    (auto simp: bounded_request_targets bounded_component_target_kind target_kinds)

lemma issues_bounded_cosigner_side: "issues (\<lambda>_. True) (bounded_cosigner_side E K user n cc cr ck aid st)"
  unfolding bounded_cosigner_side_def collect_component_def Let_def by (intro issues_intros)

section \<open>What the user side has gathered\<close>

text \<open>The advertised fee limit of every bounded key that came with its slot is recorded.\<close>

lemma bounded_key_step_fees:
  assumes "bounded_key_step K index item txn k acc = Inr acc'"
  shows "set (bi_max_fees acc) \<subseteq> set (bi_max_fees acc') \<and>
     (py_eq (ki_signing_flow k) (PStr SIGNING_FLOW_BOUNDED_COSIGNER1) \<longrightarrow>
        (\<exists>b. ki_bounded_authorization k = Some b \<and> (index, ba_max_fee b) \<in> set (bi_max_fees acc')))"
proof (cases "py_eq (ki_signing_flow k) (PStr SIGNING_FLOW_BOUNDED_COSIGNER1)")
  case True
  with assms show ?thesis by (auto simp: bounded_key_step_def rbind_Inr raise_if_Inr split: option.splits)
next
  case False
  with assms show ?thesis by (auto simp: bounded_key_step_def rbind_Inr raise_if_Inr)
qed

lemma bounded_input_step_fees:
  assumes "bounded_input_step E K user (index, item) acc s = (Inr acc', t)"
  shows "set (bi_max_fees acc) \<subseteq> set (bi_max_fees acc') \<and>
     (\<forall>k. pt_signer_key item = Some k \<longrightarrow> py_eq (ki_signing_flow k) (PStr SIGNING_FLOW_BOUNDED_COSIGNER1) \<longrightarrow>
        (\<exists>b. ki_bounded_authorization k = Some b \<and> (index, ba_max_fee b) \<in> set (bi_max_fees acc')))"
proof -
  from assms obtain txn k u where key: "item_key E user item s = (Inr (Some k), u)"
    and step: "bounded_key_step K index item txn k acc = Inr acc'"
    by (auto simp: bounded_input_step_def result_simps split: option.splits)
  have "k = k'" if "pt_signer_key item = Some k'" for k'
    using key that by (simp add: item_key_def result_simps)
  with bounded_key_step_fees [OF step] show ?thesis by blast
qed

lemma afold_bounded_fees:
  assumes "afold (bounded_input_step E K user) (List.enumerate n items) acc s = (Inr acc', t)"
  shows "set (bi_max_fees acc) \<subseteq> set (bi_max_fees acc') \<and>
     (\<forall>i k. i < length items \<longrightarrow> pt_signer_key (items ! i) = Some k \<longrightarrow> py_eq (ki_signing_flow k) (PStr SIGNING_FLOW_BOUNDED_COSIGNER1) \<longrightarrow>
        (\<exists>b. ki_bounded_authorization k = Some b \<and> (n + i, ba_max_fee b) \<in> set (bi_max_fees acc')))"
  using assms
proof (induction items arbitrary: n acc s)
  case (Cons item items)
  then obtain b u where step: "bounded_input_step E K user (n, item) acc s = (Inr b, u)"
    and rest: "afold (bounded_input_step E K user) (List.enumerate (Suc n) items) b u = (Inr acc', t)"
    by (auto simp: abind_Inr)
  note st = bounded_input_step_fees [OF step] and IH = Cons.IH [OF rest]
  show ?case
  proof (intro conjI allI impI)
    show "set (bi_max_fees acc) \<subseteq> set (bi_max_fees acc')" using st IH by blast
  next
    fix i k assume *: "i < length (item # items)" "pt_signer_key ((item # items) ! i) = Some k"
      "py_eq (ki_signing_flow k) (PStr SIGNING_FLOW_BOUNDED_COSIGNER1)"
    show "\<exists>b. ki_bounded_authorization k = Some b \<and> (n + i, ba_max_fee b) \<in> set (bi_max_fees acc')"
    proof (cases i)
      case 0
      with * st IH show ?thesis by auto
    next
      case (Suc j)
      with * IH show ?thesis by (metis add_Suc_shift length_Cons not_less_eq nth_Cons_Suc)
    qed
  qed
qed (simp add: result_simps)

text \<open>What a completed user side has established about the plan.\<close>

definition bounded_plan_ok :: "algosdk \<Rightarrow> prepared_transaction list \<Rightarrow> bounded_state \<Rightarrow> bool" where
  "bounded_plan_ok K prepared st \<longleftrightarrow>
     decode_canonical_group K (PList (bs_frozen st)) = Inr (bs_planned st) \<and>
     validate_bounded_component_plan K (map (\<lambda>item. the (pt_transaction item)) prepared) (bs_planned st) (bs_mutations st) = Inr () \<and>
     (\<forall>i k. i < length prepared \<longrightarrow> pt_signer_key (prepared ! i) = Some k \<longrightarrow>
        py_eq (ki_signing_flow k) (PStr SIGNING_FLOW_BOUNDED_COSIGNER1) \<longrightarrow>
        (\<exists>b. ki_bounded_authorization k = Some b \<and> tx_fee (bs_planned st ! i) \<le> ba_max_fee b)) \<and>
     (\<forall>(i, target) \<in> set (bi_targets (bs_inputs st)). map_of (bs_components st) i \<noteq> None) \<and>
     (\<forall>(i, target) \<in> set (bi_primary (bs_inputs st)). \<exists>item \<in> set (bs_passthrough st). gp_target_index item = PInt i \<and>
        carries_frozen_bytes K (gp_signed_txn_hex item) (bs_frozen st ! nat i))"

lemma check_bounded_components_all:
  assumes "check_bounded_components targets cs = Inr components" and "(i, x) \<in> set targets"
  shows "map_of components i \<noteq> None"
proof -
  from assms(1) have "List.find (\<lambda>(i, _). map_of components i = None) targets = None"
    by (auto simp: check_bounded_components_def rbind_Inr split: option.split_asm) (metis not_None_eq prod.exhaust)
  with assms(2) show ?thesis by (auto simp: find_None_iff)
qed

lemma bounded_primary_signed:
  assumes "request_bounded_primary_passthrough E K user frozen n inputs s = (Inr (resp, items), t)" and "(i, x) \<in> set (bi_primary inputs)"
  shows "\<exists>item \<in> set items. gp_target_index item = PInt i \<and> carries_frozen_bytes K (gp_signed_txn_hex item) (frozen ! nat i)"
proof -
  from assms obtain r :: group_sign_response where
    items: "rmap (primary_passthrough_item K frozen (gs_signed r)) (sort (map fst (bi_primary inputs))) = Inr items"
    by (auto simp: request_bounded_primary_passthrough_def result_simps split: if_splits)
  from assms(2) have "i \<in> set (sort (map fst (bi_primary inputs)))" by force
  then obtain k where "k < length (sort (map fst (bi_primary inputs)))" "sort (map fst (bi_primary inputs)) ! k = i"
    by (metis in_set_conv_nth)
  with items have "primary_passthrough_item K frozen (gs_signed r) i = Inr (items ! k)" "items ! k \<in> set items"
    by (auto simp: rmap_Inr)
  with primary_passthrough_item_Inr show ?thesis by blast
qed

lemma bounded_user_side_Inr:
  assumes "bounded_user_side E K user prepared s = (Inr st, t)"
  shows "bounded_plan_ok K prepared st"
proof -
  from assms obtain s1 s2 s3 where
    inputs: "afold (bounded_input_step E K user) (List.enumerate 0 prepared) no_inputs s = (Inr (bs_inputs st), s1)"
    and dec: "decode_canonical_group K (PList (bs_frozen st)) = Inr (bs_planned st)"
    and plan: "validate_bounded_component_plan K (map (\<lambda>item. the (pt_transaction item)) prepared) (bs_planned st) (bs_mutations st) = Inr ()"
    and fees: "validate_bounded_target_fees (bs_planned st) (bi_max_fees (bs_inputs st)) = Inr ()"
    and comps: "check_bounded_components (bi_targets (bs_inputs st)) (cp_components (bs_response st)) = Inr (bs_components st)"
    and prim: "request_bounded_primary_passthrough E K user (bs_frozen st) (length prepared) (bs_inputs st) s2 =
       (Inr (bs_primary_response st, bs_passthrough st), s3)"
    unfolding bounded_user_side_def by (auto simp: abind_Inr alift_Inr araise_if_Inr aret_Inr)
  have "\<exists>b. ki_bounded_authorization k = Some b \<and> tx_fee (bs_planned st ! i) \<le> ba_max_fee b"
    if "i < length prepared" "pt_signer_key (prepared ! i) = Some k" "py_eq (ki_signing_flow k) (PStr SIGNING_FLOW_BOUNDED_COSIGNER1)" for i k
  proof -
    from afold_bounded_fees [OF inputs, THEN conjunct2, rule_format, OF that] obtain b where
      "ki_bounded_authorization k = Some b" "(i, ba_max_fee b) \<in> set (bi_max_fees (bs_inputs st))" unfolding add_0 by (elim exE conjE)
    with fees show ?thesis by (auto simp: validate_bounded_target_fees_Inr)
  qed
  moreover have "\<forall>(i, target) \<in> set (bi_primary (bs_inputs st)). \<exists>item \<in> set (bs_passthrough st). gp_target_index item = PInt i \<and>
        carries_frozen_bytes K (gp_signed_txn_hex item) (bs_frozen st ! nat i)"
    using bounded_primary_signed [OF prim] by blast
  moreover have "\<forall>(i, target) \<in> set (bi_targets (bs_inputs st)). map_of (bs_components st) i \<noteq> None"
    using check_bounded_components_all [OF comps] by blast
  ultimately show ?thesis using dec plan unfolding bounded_plan_ok_def by blast
qed

section \<open>Properties\<close>

text \<open>
  C2. User first, bounded flow: every message before the user side is complete goes to the user's
  signer and shows the group to no cosigner; a cosigner is asked only after the plan was checked
  against the prepared group and every advertised fee limit, every bounded target has its base
  component and every ordinary position is signed with the frozen bytes.
\<close>

theorem bounded_user_first:
  assumes "sign_prepared_bounded_cosigner_group E K (Some user) grp cc cr ck aid s = (r, t)"
  shows "\<exists>pre post. st_trace t = st_trace s @ pre @ post \<and> (\<forall>e \<in> set pre. user_only user e) \<and>
     (post = [] \<or> (\<exists>st u. bounded_user_side E K user (pg_transactions grp) s = (Inr st, u) \<and> st_trace u = st_trace s @ pre \<and>
        bounded_plan_ok K (pg_transactions grp) st))"
proof -
  obtain x u where us: "bounded_user_side E K user (pg_transactions grp) s = (x, u)" by fastforce
  from issuesD [OF issues_bounded_user_side us] obtain pre where
    pre: "st_trace u = st_trace s @ pre" "\<forall>e \<in> set pre. user_only user e" by blast
  show ?thesis
  proof (cases x)
    case (Inl e)
    with assms us have "t = u" by (simp add: sign_prepared_bounded_cosigner_group_def abind_def)
    with pre show ?thesis by (intro exI [of _ pre] exI [of _ "[]"]) simp
  next
    case (Inr st)
    with assms us have "bounded_cosigner_side E K user (length (pg_transactions grp)) cc cr ck aid st u = (r, t)"
      by (simp add: sign_prepared_bounded_cosigner_group_def abind_def)
    from issuesD [OF issues_bounded_cosigner_side this] obtain post where "st_trace t = st_trace u @ post" by blast
    moreover from us Inr have "bounded_plan_ok K (pg_transactions grp) st" by (intro bounded_user_side_Inr) simp
    ultimately show ?thesis using pre us Inr by (metis append_assoc)
  qed
qed


subsection \<open>Evaluation\<close>

text \<open>
  A one-transaction group. The stand-in library of \<open>Canonical_Group\<close> is extended by signed
  transactions: the letter s and the bytes of the transaction.
\<close>

definition signing_sdk :: algosdk where
  "signing_sdk = unary_sdk\<lparr>msgpack_decode := (\<lambda>s. rbind (b64decode False s) (\<lambda>raw.
     Inr (if take 1 raw = ''s'' then DecodedSigned (unary_txn (int (length raw) - 2)) else DecodedTxn (unary_txn (int (length raw) - 1)))))\<rparr>"

definition sample_bounded_key :: key_info where
  "sample_bounded_key = \<lparr>ki_address = PStr ''A'', ki_key_type = PStr ''b'', ki_public_key_hex = PStr [], ki_authorization_kind = PStr ''logic_sig'',
     ki_signing_flow = PStr ''bounded-cosigner1'', ki_cosigner_component_key_type = PStr ''t'',
     ki_logic_sig_resources = Some \<lparr>lp_default = None,
        lp_spend = Some \<lparr>program_bytes = PInt 100, argument_bytes = PInt 0, max_opcode_cost = PInt 20\<rparr>, lp_spending_rekey = None, lp_admin_rekey = None\<rparr>,
     ki_is_generic_lsig = PBool False, ki_is_witness_key = PBool False,
     ki_bounded_authorization = Some \<lparr>ba_contract = PStr ''bounded1'', ba_base_signature_arg_layout = \<lparr>sl_count = PInt 1, sl_max_sizes = []\<rparr>,
        ba_spend_effects = [], ba_max_fee = 10, ba_admin_operations = [], ba_runtime_args = [], ba_derived_args = [], ba_argument_layout = [],
        ba_layer3_policy = PStr [], ba_cosigner = None, ba_admin_key_id = PStr [], ba_program_binding = PStr []\<rparr>,
     ki_is_spending_account = PNone, ki_signing_args = None, ki_parameters = PNone, ki_template_provenance_status = PStr [],
     ki_template_provenance_note = PStr []\<rparr>"

definition sample_bounded_group :: prepared_group where
  "sample_bounded_group = \<lparr>pg_transactions = [sample_prepared\<lparr>pt_transaction := Some (unary_txn 1), pt_signer_key := Some sample_bounded_key\<rparr>],
     pg_checks = []\<rparr>"

definition sample_bounded_env :: "unit env" where
  "sample_bounded_env = scripted_clients (\<lambda>c. if c = 0 then
     [(''/plan'', ok_reply (pobj [(''transactions'', PList [PStr ''54582b78''])])),
      (''/sign/component'', ok_reply (pobj [(''request_id'', PStr sample_token_id),
         (''components'', PList [pobj [(''target_index'', PInt 0), (''kind'', PStr ''bounded-base''), (''auth_address'', PStr ''A''),
            (''base_signatures'', PList [PStr ''aa'']), (''assembly_receipt'', PStr ''rr''), (''signature_scheme'', PStr ''falcon1024'')]])])),
      (''/sign/assemble'', ok_reply (pobj [(''request_id'', PStr sample_token_id), (''signed_group'', PList [PStr ''732b78''])]))]
     else sample_component_table ''cosigner'')"

abbreviation sample_bounded_run :: "guarded_sign_result result \<times> (unit, client) state" where
  "sample_bounded_run \<equiv> sign_prepared_bounded_cosigner_group sample_bounded_env signing_sdk (Some 0) sample_bounded_group (Some 1) None ''K'' []
     (initial_state sample_client)"

lemma sample_bounded_outcome:
  "\<exists>res t. sample_bounded_run = (Inr res, t) \<and> gr_signed_group res = PList [PStr ''732b78''] \<and>
     map (\<lambda>(c, rq). (c, rq_path rq)) (st_trace t) = [(0, ''/plan''), (0, ''/sign/component''), (1, ''/sign/component''), (0, ''/sign/assemble'')]"
proof -
  have "case sample_bounded_run of (Inr res, t) \<Rightarrow> gr_signed_group res = PList [PStr ''732b78''] \<and>
      map (\<lambda>(c, rq). (c, rq_path rq)) (st_trace t) = [(0, ''/plan''), (0, ''/sign/component''), (1, ''/sign/component''), (0, ''/sign/assemble'')]
    | _ \<Rightarrow> False" by code_simp
  then show ?thesis by (auto split: prod.splits sum.splits)
qed

theorem bounded_user_first_witness:
  "\<exists>r t pre post. sample_bounded_run = (r, t) \<and>
     map (\<lambda>(c, rq). (c, rq_path rq)) (st_trace t) =
       [(0, ''/plan''), (0, ''/sign/component''), (1, ''/sign/component''), (0, ''/sign/assemble'')] \<and>
     st_trace t = pre @ post \<and> (\<forall>e \<in> set pre. user_only 0 e)"
proof -
  from sample_bounded_outcome obtain res t where run: "sample_bounded_run = (Inr res, t)"
    and paths: "map (\<lambda>(c, rq). (c, rq_path rq)) (st_trace t) = [(0, ''/plan''), (0, ''/sign/component''), (1, ''/sign/component''), (0, ''/sign/assemble'')]" by (elim exE conjE)
  from bounded_user_first [OF run] obtain pre post where "st_trace t = st_trace (initial_state sample_client) @ pre @ post"
    "\<forall>e \<in> set pre. user_only 0 e" by (elim exE conjE)
  moreover have "st_trace (initial_state sample_client) = []" by (simp add: initial_state_def)
  ultimately show ?thesis using run paths by (intro exI [of _ "Inr res"] exI [of _ t] exI [of _ pre] exI [of _ post]) simp
qed


end
