(* ===== verification/Prepared_Guarded.thy ===== *)
theory Prepared_Guarded
  imports Bounded_Flow
begin

text \<open>
  \<^verbatim>\<open>sign_prepared_guarded_group\<close>: from a prepared group to one of the two guarded flows. The flow is
  chosen by the signing flows of the keys; a \<^verbatim>\<open>cosigner1\<close> group is planned, checked and frozen here
  and then handed to \<^verbatim>\<open>sign_guarded_group\<close>.
\<close>

section \<open>Choosing the flow\<close>

text \<open>\<^verbatim>\<open>item_key\<close> for a client that may be missing: the attribute lookup on \<^verbatim>\<open>None\<close> fails.\<close>

definition client_item_key :: "'w env \<Rightarrow> nat option \<Rightarrow> prepared_transaction \<Rightarrow> ('w, key_info option) client_action" where
  "client_item_key E user_client item =
     (case user_client of Some user \<Rightarrow> item_key E user item
      | None \<Rightarrow> if pt_signer_key item = None \<and> pt_auth_address item \<noteq> [] then araise (no_attribute PNone ''get_key_info'')
                else aret (pt_signer_key item))"

definition flow_kind_step :: "'w env \<Rightarrow> nat option \<Rightarrow> nat \<times> prepared_transaction \<Rightarrow> bool \<times> bool \<Rightarrow> ('w, bool \<times> bool) client_action" where
  "flow_kind_step E user_client slot acc =
     (case slot of (index, item) \<Rightarrow>
      abind (acatch (\<lambda>e. \<not> is_signer_error e)
               (\<lambda>e. araise (signer_error (''prepared transaction '' @ show_nat index @ '': resolve signer key: '' @ exc_msg e)))
               (client_item_key E user_client item)) (\<lambda>key.
      case key of None \<Rightarrow> aret acc
      | Some k \<Rightarrow>
          aret (if py_eq (ki_signing_flow k) (PStr SIGNING_FLOW_BOUNDED_COSIGNER1) then (True, snd acc)
                else if py_eq (ki_signing_flow k) (PStr SIGNING_FLOW_COSIGNER1) then (fst acc, True) else acc)))"

definition prepared_cosigner_flow_kinds :: "'w env \<Rightarrow> nat option \<Rightarrow> prepared_group \<Rightarrow> ('w, bool \<times> bool) client_action" where
  "prepared_cosigner_flow_kinds E user_client grp = afold (flow_kind_step E user_client) (List.enumerate 0 (pg_transactions grp)) (False, False)"

section \<open>Inputs of the guarded flow\<close>

record guarded_inputs =
  gi_txns :: "txn list"
  gi_guarded :: "pyval list"
  gi_primary :: "pyval list"
  gi_requests :: "pyval list"

definition guarded_primary_target :: "nat \<Rightarrow> prepared_transaction \<Rightarrow> pyval" where
  "guarded_primary_target index item = PData ''GuardedPrimarySignTarget''
     [(''target_index'', PInt (int index)), (''auth_address'', PStr (pt_auth_address item)), (''txn_sender'', PStr (pt_txn_sender item)),
      (''lsig_args'', if pt_lsig_args item = [] then PNone else hex_args (pt_lsig_args item)), (''app_call_info'', pt_app_call_info item)]"

definition guarded_sign_target :: "nat \<Rightarrow> prepared_transaction \<Rightarrow> lsig_usage \<Rightarrow> pyval \<Rightarrow> key_info \<Rightarrow> pyval" where
  "guarded_sign_target index item u public_key k = PData ''GuardedSignTarget''
     [(''target_index'', PInt (int index)), (''guarded_account'', PStr (pt_auth_address item)), (''logic_sig_resources'', usage_data u),
      (''cosigner_public_key_hex'', public_key), (''cosigner_component_key_type'', ki_cosigner_component_key_type k),
      (''cosigner_component_key'', PStr []), (''runtime_args'', PNone), (''app_call_info'', pt_app_call_info item)]"

definition guarded_input_step :: "'w env \<Rightarrow> algosdk \<Rightarrow> nat \<Rightarrow> nat \<times> prepared_transaction \<Rightarrow> guarded_inputs \<Rightarrow> ('w, guarded_inputs) client_action" where
  "guarded_input_step E K user slot acc =
     (case slot of (index, item) \<Rightarrow>
      araise_if (pt_signed_transaction_base64 item \<noteq> [])
        (prepared_error index ''passthrough entries are not supported in prepared guarded groups'') (
      case pt_transaction item of
        None \<Rightarrow> araise (prepared_error index ''transaction is required'')
      | Some txn \<Rightarrow>
          abind (item_key E user item) (\<lambda>key.
          case key of
            None \<Rightarrow> araise (prepared_error index ''signer key metadata is required'')
          | Some k \<Rightarrow>
              araise_if (pt_auth_address item = []) (prepared_error index ''auth address is required'') (
              abind (alift (to_sign_request K item)) (\<lambda>request.
              let acc = acc\<lparr>gi_txns := gi_txns acc @ [txn], gi_requests := gi_requests acc @ [request]\<rparr>;
                  flow = ki_signing_flow k;
                  primary = acc\<lparr>gi_primary := gi_primary acc @ [guarded_primary_target index item]\<rparr> in
              if \<not> truthy flow \<or> py_eq flow (PStr SIGNING_FLOW_BOUNDED1) then aret primary
              else
                araise_if (\<not> py_eq flow (PStr SIGNING_FLOW_COSIGNER1))
                  (prepared_error index (''signer key requires signing flow '' @ py_repr flow @ '', which this SDK does not support; upgrade the SDK'')) (
                abind (alift (required_prepared_resources (Some k) (tx_rekey_to txn \<noteq> None)
                         (''prepared transaction '' @ show_nat index @ '': guarded''))) (\<lambda>u.
                abind (alift (py_get_or (py_or (ki_parameters k) (PDict [])) ''cosigner_public_key'' (PStr []))) (\<lambda>pk.
                  aret (acc\<lparr>gi_guarded := gi_guarded acc @ [guarded_sign_target index item u pk k]\<rparr>)))))))))"

record prepared_guarded_inputs =
  pi_group_bytes_hex :: "pyval list"
  pi_guarded_targets :: "pyval list"
  pi_primary_targets :: "pyval list"
  pi_passthrough :: "pyval list"
  pi_dummy_positions :: "int list"
  pi_planned :: "txn list"

text \<open>\<open>gi_guarded\<close> and \<open>gi_primary\<close> keep the order of the slots.\<close>

definition build_prepared_guarded_sign_inputs :: "'w env \<Rightarrow> algosdk \<Rightarrow> nat option \<Rightarrow> prepared_group \<Rightarrow> ('w, prepared_guarded_inputs) client_action" where
  "build_prepared_guarded_sign_inputs E K user_client grp =
     (case user_client of None \<Rightarrow> araise (signer_error ''user_client is required'')
      | Some user \<Rightarrow>
          araise_if (pg_transactions grp = []) (value_error ''prepared group is empty'') (
          abind (afold (guarded_input_step E K user) (List.enumerate 0 (pg_transactions grp))
                   \<lparr>gi_txns = [], gi_guarded = [], gi_primary = [], gi_requests = []\<rparr>) (\<lambda>inputs.
          araise_if (gi_guarded inputs = []) (value_error ''prepared group has no guarded targets'') (
          abind (acatch (\<lambda>e. \<not> is_signer_error e) (\<lambda>e. araise (signer_error (''guarded group planning failed: '' @ exc_msg e)))
                   (plan_requests E user (gi_requests inputs))) (\<lambda>plan.
          abind (alift (rewrap is_signer_error (\<lambda>e. signer_error (''invalid guarded group plan: '' @ exc_msg e))
                   (rbind (decode_canonical_group K (py_or (pget plan ''transactions'') (PList []))) (\<lambda>all_txns.
                    rbind (validate_bounded_component_plan K (gi_txns inputs) all_txns (pget plan ''mutations'')) (\<lambda>_.
                      Inr all_txns))))) (\<lambda>all_txns.
          let n = length (gi_txns inputs) in
          abind (alift (sign_guarded_dummies K (drop n all_txns) n)) (\<lambda>dummies.
          abind (alift (rmap (encode_transaction K) all_txns)) (\<lambda>encoded.
            aret \<lparr>pi_group_bytes_hex = map (\<lambda>(h, _). PStr h) encoded, pi_guarded_targets = gi_guarded inputs,
                  pi_primary_targets = gi_primary inputs, pi_passthrough = map item_data dummies,
                  pi_dummy_positions = map int [n ..< length all_txns], pi_planned = all_txns\<rparr>))))))))"

definition sign_prepared_guarded_group :: "'w env \<Rightarrow> algosdk \<Rightarrow> nat option \<Rightarrow> prepared_group \<Rightarrow> nat option \<Rightarrow> cosigner_resolver option \<Rightarrow>
    string \<Rightarrow> string \<Rightarrow> ('w, guarded_sign_result) client_action" where
  "sign_prepared_guarded_group E K user_client grp cosigner_client cosigner_resolver cosigner_component_key assembly_request_id =
     abind (prepared_cosigner_flow_kinds E user_client grp) (\<lambda>(has_bounded_cosigner, has_cosigner1).
     if has_bounded_cosigner then
       araise_if has_cosigner1 (value_error ''cannot mix cosigner1 and bounded-cosigner1 targets in one group'')
         (sign_prepared_bounded_cosigner_group E K user_client grp cosigner_client cosigner_resolver cosigner_component_key assembly_request_id)
     else
       abind (build_prepared_guarded_sign_inputs E K user_client grp) (\<lambda>inputs.
         sign_guarded_group E K user_client (pi_group_bytes_hex inputs) (pi_guarded_targets inputs) cosigner_client cosigner_resolver
           cosigner_component_key (pi_primary_targets inputs) (pi_passthrough inputs) (pi_dummy_positions inputs) assembly_request_id))"

section \<open>Simulation of a guarded result\<close>

text \<open>\<open>algod_client\<close> is the node client's \<^verbatim>\<open>simulate_transactions\<close>, absent for \<^verbatim>\<open>None\<close>.\<close>

definition simulate_signing :: "algosdk \<Rightarrow> (bool \<Rightarrow> txn list \<Rightarrow> pyval result) option \<Rightarrow> ('w, guarded_sign_result) client_action \<Rightarrow>
    ('w, guarded_sign_result \<times> simulation_result) client_action" where
  "simulate_signing K algod_client sign =
     (case algod_client of None \<Rightarrow> araise (value_error ''algod_client is required'')
      | Some simulate \<Rightarrow>
          abind sign (\<lambda>signing.
          abind (alift (simulate_signed_group K simulate (gr_signed_group signing) PNone)) (\<lambda>simulation.
            aret (signing, simulation))))"

definition simulate_guarded_group :: "'w env \<Rightarrow> algosdk \<Rightarrow> (bool \<Rightarrow> txn list \<Rightarrow> pyval result) option \<Rightarrow> nat option \<Rightarrow> pyval list \<Rightarrow> pyval list \<Rightarrow>
    nat option \<Rightarrow> cosigner_resolver option \<Rightarrow> string \<Rightarrow> pyval list \<Rightarrow> pyval list \<Rightarrow> int list \<Rightarrow> string \<Rightarrow>
    ('w, guarded_sign_result \<times> simulation_result) client_action" where
  "simulate_guarded_group E K algod_client user_client group_bytes_hex targets cosigner_client cosigner_resolver cosigner_component_key
     primary_targets passthrough dummy_positions assembly_request_id =
     simulate_signing K algod_client (sign_guarded_group E K user_client group_bytes_hex targets cosigner_client cosigner_resolver
       cosigner_component_key primary_targets passthrough dummy_positions assembly_request_id)"

definition simulate_prepared_guarded_group :: "'w env \<Rightarrow> algosdk \<Rightarrow> (bool \<Rightarrow> txn list \<Rightarrow> pyval result) option \<Rightarrow> nat option \<Rightarrow> prepared_group \<Rightarrow>
    nat option \<Rightarrow> cosigner_resolver option \<Rightarrow> string \<Rightarrow> string \<Rightarrow> ('w, guarded_sign_result \<times> simulation_result) client_action" where
  "simulate_prepared_guarded_group E K algod_client user_client grp cosigner_client cosigner_resolver cosigner_component_key assembly_request_id =
     simulate_signing K algod_client (sign_prepared_guarded_group E K user_client grp cosigner_client cosigner_resolver
       cosigner_component_key assembly_request_id)"

section \<open>Lemmas\<close>

lemma issues_flow_kinds: "issues (user_only user) (prepared_cosigner_flow_kinds E (Some user) grp)"
  unfolding prepared_cosigner_flow_kinds_def flow_kind_step_def client_item_key_def option.case
  by (intro issues_intros)

lemma issues_build_inputs: "issues (user_only user) (build_prepared_guarded_sign_inputs E K (Some user) grp)"
  unfolding build_prepared_guarded_sign_inputs_def guarded_input_step_def option.case Let_def
  by (intro issues_intros issues_plan_requests)

lemma guarded_input_step_txn:
  assumes "guarded_input_step E K user (i, item) acc s = (Inr acc', t)"
  shows "\<exists>txn. pt_transaction item = Some txn \<and> gi_txns acc' = gi_txns acc @ [txn]"
  using assms by (auto simp: guarded_input_step_def Let_def abind_Inr alift_Inr araise_if_Inr aret_Inr araise_Inr split: option.split_asm if_split_asm)

lemma afold_guarded_txns:
  assumes "afold (guarded_input_step E K user) (List.enumerate k items) acc s = (Inr acc', t)"
  shows "gi_txns acc' = gi_txns acc @ map (\<lambda>item. the (pt_transaction item)) items"
  using assms
proof (induction items arbitrary: k acc s)
  case (Cons item items)
  then obtain b u where step: "guarded_input_step E K user (k, item) acc s = (Inr b, u)"
    and rest: "afold (guarded_input_step E K user) (List.enumerate (Suc k) items) b u = (Inr acc', t)"
    by (auto simp: abind_Inr)
  from guarded_input_step_txn [OF step] Cons.IH [OF rest] show ?case by auto
qed (simp add: aret_Inr)

text \<open>
  The frozen group of a \<^verbatim>\<open>cosigner1\<close> run is a checked plan: its bytes are the encodings of a canonical
  group that differs from the prepared one only as the signer reported.
\<close>

definition guarded_plan_ok :: "algosdk \<Rightarrow> prepared_group \<Rightarrow> prepared_guarded_inputs \<Rightarrow> bool" where
  "guarded_plan_ok K grp inputs \<longleftrightarrow>
     (\<exists>received mutations. decode_canonical_group K received = Inr (pi_planned inputs) \<and>
        validate_bounded_component_plan K (map (\<lambda>item. the (pt_transaction item)) (pg_transactions grp)) (pi_planned inputs) mutations = Inr ()) \<and>
     list_all2 (\<lambda>h txn. \<exists>x a. h = PStr x \<and> encode_transaction K txn = Inr (x, a)) (pi_group_bytes_hex inputs) (pi_planned inputs)"

lemma build_inputs_Inr:
  assumes "build_prepared_guarded_sign_inputs E K (Some user) grp s = (Inr inputs, t)"
  shows "guarded_plan_ok K grp inputs"
proof -
  from assms obtain gi s1 plan all_txns encoded where
    gi: "afold (guarded_input_step E K user) (List.enumerate 0 (pg_transactions grp))
                   \<lparr>gi_txns = [], gi_guarded = [], gi_primary = [], gi_requests = []\<rparr> s = (Inr gi, s1)"
    and dec: "decode_canonical_group K (py_or (pget plan ''transactions'') (PList [])) = Inr all_txns"
    and plan: "validate_bounded_component_plan K (gi_txns gi) all_txns (pget plan ''mutations'') = Inr ()"
    and enc: "rmap (encode_transaction K) all_txns = Inr encoded"
    and inp: "pi_planned inputs = all_txns" "pi_group_bytes_hex inputs = map (\<lambda>(h, _). PStr h) encoded"
    unfolding build_prepared_guarded_sign_inputs_def Let_def
    by (auto simp: abind_Inr alift_Inr araise_if_Inr aret_Inr rewrap_Inr rbind_Inr)
  have txns: "gi_txns gi = map (\<lambda>item. the (pt_transaction item)) (pg_transactions grp)"
    using afold_guarded_txns [OF gi] by simp
  have bytes: "list_all2 (\<lambda>h txn. \<exists>x a. h = PStr x \<and> encode_transaction K txn = Inr (x, a)) (map (\<lambda>(h, _). PStr h) encoded) all_txns"
    using enc by (auto simp: list_all2_conv_all_nth rmap_Inr split: prod.splits)
  show ?thesis
    unfolding guarded_plan_ok_def inp
    by (intro conjI exI, rule dec, rule plan [unfolded txns], rule bytes)
qed

text \<open>A run that goes on beyond the user's signer only from a state that is a checkpoint.\<close>

definition user_first :: "nat \<Rightarrow> ('w, client) state \<Rightarrow> ('w, client) state \<Rightarrow> (('w, client) state \<Rightarrow> bool) \<Rightarrow> bool" where
  "user_first user s t checkpoint \<longleftrightarrow>
     (\<exists>pre post. st_trace t = st_trace s @ pre @ post \<and> (\<forall>e \<in> set pre. user_only user e) \<and>
        (post = [] \<or> (\<exists>v. st_trace v = st_trace s @ pre \<and> checkpoint v)))"

lemma user_first_extend:
  assumes "user_first user u t C" and "st_trace u = st_trace s @ es" and "\<forall>e \<in> set es. user_only user e"
  shows "user_first user s t C"
proof -
  from assms(1) obtain pre post where "st_trace t = st_trace u @ pre @ post" "\<forall>e \<in> set pre. user_only user e"
    "post = [] \<or> (\<exists>v. st_trace v = st_trace u @ pre \<and> C v)"
    unfolding user_first_def by blast
  with assms(2,3) show ?thesis unfolding user_first_def by (intro exI [of _ "es @ pre"] exI [of _ post]) auto
qed

lemma user_first_only: "st_trace t = st_trace s @ es \<Longrightarrow> \<forall>e \<in> set es. user_only user e \<Longrightarrow> user_first user s t C"
  unfolding user_first_def by (intro exI [of _ es] exI [of _ "[]"]) simp

lemma user_first_checked: "st_trace t = st_trace s @ es \<Longrightarrow> C s \<Longrightarrow> user_first user s t C"
  unfolding user_first_def by (rule exI [of _ "[]"], rule exI [of _ es]) auto

lemma user_first_mono: "user_first user s t C \<Longrightarrow> (\<And>v. C v \<Longrightarrow> D v) \<Longrightarrow> user_first user s t D"
  unfolding user_first_def by blast

lemma user_first_flow:
  assumes "issues (user_only user) m" and "m s = (x, u)" and "\<And>e. x = Inl e \<Longrightarrow> t = u" and "\<And>y. x = Inr y \<Longrightarrow> user_first user u t C"
  shows "user_first user s t C"
proof -
  from issuesD [OF assms(1,2)] obtain es where es: "st_trace u = st_trace s @ es" "\<forall>e \<in> set es. user_only user e" by blast
  show ?thesis
  proof (cases x)
    case (Inl e)
    with assms(3) es show ?thesis by (intro user_first_only [of t s es]) auto
  next
    case (Inr y)
    from user_first_extend [OF assms(4) [OF this] es] show ?thesis .
  qed
qed

text \<open>
  The checkpoint of either flow: the user's side of the run has just been completed, on a plan that was
  checked against the prepared group.
\<close>

definition bounded_checkpoint :: "'w env \<Rightarrow> algosdk \<Rightarrow> nat \<Rightarrow> prepared_group \<Rightarrow> ('w, client) state \<Rightarrow> ('w, client) state \<Rightarrow> bool" where
  "bounded_checkpoint E K user grp s v \<longleftrightarrow>
     (\<exists>st. bounded_user_side E K user (pg_transactions grp) s = (Inr st, v) \<and> bounded_plan_ok K (pg_transactions grp) st)"

definition guarded_checkpoint :: "'w env \<Rightarrow> algosdk \<Rightarrow> nat \<Rightarrow> prepared_group \<Rightarrow> ('w, client) state \<Rightarrow> ('w, client) state \<Rightarrow> bool" where
  "guarded_checkpoint E K user grp s v \<longleftrightarrow>
     (\<exists>inputs u st. build_prepared_guarded_sign_inputs E K (Some user) grp s = (Inr inputs, u) \<and> guarded_plan_ok K grp inputs \<and>
        user_side E K user (pi_group_bytes_hex inputs) (pi_guarded_targets inputs) (pi_primary_targets inputs) (pi_passthrough inputs)
          (pi_dummy_positions inputs) u = (Inr st, v) \<and>
        user_side_complete K (pi_group_bytes_hex inputs) (pi_guarded_targets inputs) (pi_primary_targets inputs) st)"

lemma guarded_user_first_flow:
  assumes "sign_guarded_group E K (Some user) g gts cc cr ck pts pass ds aid s = (r, t)"
    and "\<And>st v. user_side E K user g gts pts pass ds s = (Inr st, v) \<Longrightarrow> user_side_complete K g gts pts st \<Longrightarrow> C v"
  shows "user_first user s t C"
proof -
  obtain x u where us: "user_side E K user g gts pts pass ds s = (x, u)" by fastforce
  show ?thesis
  proof (rule user_first_flow [OF issues_user_side us])
    fix e assume "x = Inl e"
    with assms(1) us show "t = u" by (simp add: sign_guarded_group_def abind_def)
  next
    fix st assume x: "x = Inr st"
    with assms(1) us have "cosigner_side E user g cc cr ck ds aid st u = (r, t)" by (simp add: sign_guarded_group_def abind_def)
    from issuesD [OF issues_cosigner_side this] obtain post where post: "st_trace t = st_trace u @ post" by blast
    from us x have run: "user_side E K user g gts pts pass ds s = (Inr st, u)" by simp
    from assms(2) [OF run user_side_Inr [OF run]] show "user_first user u t C" by (rule user_first_checked [OF post])
  qed
qed

lemma bounded_user_first_flow:
  assumes "sign_prepared_bounded_cosigner_group E K (Some user) grp cc cr ck aid s = (r, t)"
  shows "user_first user s t (bounded_checkpoint E K user grp s)"
proof -
  obtain x u where us: "bounded_user_side E K user (pg_transactions grp) s = (x, u)" by fastforce
  show ?thesis
  proof (rule user_first_flow [OF issues_bounded_user_side us])
    fix e assume "x = Inl e"
    with assms us show "t = u" by (simp add: sign_prepared_bounded_cosigner_group_def abind_def)
  next
    fix st assume x: "x = Inr st"
    with assms us have "bounded_cosigner_side E K user (length (pg_transactions grp)) cc cr ck aid st u = (r, t)"
      by (simp add: sign_prepared_bounded_cosigner_group_def abind_def)
    from issuesD [OF issues_bounded_cosigner_side this] obtain post where post: "st_trace t = st_trace u @ post" by blast
    from us x have run: "bounded_user_side E K user (pg_transactions grp) s = (Inr st, u)" by simp
    with bounded_user_side_Inr [OF run] have "bounded_checkpoint E K user grp s u" unfolding bounded_checkpoint_def by blast
    then show "user_first user u t (bounded_checkpoint E K user grp s)" by (rule user_first_checked [OF post])
  qed
qed

lemma cosigner1_user_first_flow:
  assumes "abind (build_prepared_guarded_sign_inputs E K (Some user) grp) (\<lambda>inputs.
         sign_guarded_group E K (Some user) (pi_group_bytes_hex inputs) (pi_guarded_targets inputs) cc cr
           ck (pi_primary_targets inputs) (pi_passthrough inputs) (pi_dummy_positions inputs) aid) s = (r, t)"
  shows "user_first user s t (guarded_checkpoint E K user grp s)"
proof -
  obtain z v where build: "build_prepared_guarded_sign_inputs E K (Some user) grp s = (z, v)" by fastforce
  show ?thesis
  proof (rule user_first_flow [OF issues_build_inputs build])
    fix e assume "z = Inl e"
    with assms build show "t = v" by (simp add: abind_def)
  next
    fix inputs assume z: "z = Inr inputs"
    with assms build have run: "sign_guarded_group E K (Some user) (pi_group_bytes_hex inputs) (pi_guarded_targets inputs) cc cr ck
        (pi_primary_targets inputs) (pi_passthrough inputs) (pi_dummy_positions inputs) aid v = (r, t)" by (simp add: abind_def)
    from build z have built: "build_prepared_guarded_sign_inputs E K (Some user) grp s = (Inr inputs, v)" by simp
    show "user_first user v t (guarded_checkpoint E K user grp s)"
      by (rule guarded_user_first_flow [OF run], unfold guarded_checkpoint_def)
        (intro exI conjI, rule built, rule build_inputs_Inr [OF built])
  qed
qed

section \<open>Properties\<close>

text \<open>
  C4. User first, from a prepared group. What a run sends splits in two: the first part goes to the user's
  signer only and shows the group to no cosigner; the second part is empty unless the first ended at
  the checkpoint of the flow that the keys of the group select, where this run's plan has been checked against
  the prepared group and the user's side has been completed on exactly those bytes.
\<close>

theorem prepared_user_first:
  assumes "sign_prepared_guarded_group E K (Some user) grp cc cr ck aid s = (r, t)"
  shows "\<exists>pre post. st_trace t = st_trace s @ pre @ post \<and> (\<forall>e \<in> set pre. user_only user e) \<and>
     (post = [] \<or> (\<exists>v. st_trace v = st_trace s @ pre \<and>
        (\<exists>bounded cosigner1 u. prepared_cosigner_flow_kinds E (Some user) grp s = (Inr (bounded, cosigner1), u) \<and>
           (if bounded then \<not> cosigner1 \<and> bounded_checkpoint E K user grp u v else guarded_checkpoint E K user grp u v))))"
    (is "\<exists>pre post. _ \<and> _ \<and> (_ \<or> (\<exists>v. _ \<and> ?checkpoint v))")
proof -
  obtain x u where kinds: "prepared_cosigner_flow_kinds E (Some user) grp s = (x, u)" by fastforce
  have "user_first user s t ?checkpoint"
  proof (rule user_first_flow [OF issues_flow_kinds kinds])
    fix e assume "x = Inl e"
    with assms kinds show "t = u" by (simp add: sign_prepared_guarded_group_def abind_def)
  next
    fix y assume "x = Inr y"
    moreover obtain hb hc where "y = (hb, hc)" by (cases y)
    ultimately have found: "prepared_cosigner_flow_kinds E (Some user) grp s = (Inr (hb, hc), u)" using kinds by simp
    with assms have run: "(if hb then araise_if hc (value_error ''cannot mix cosigner1 and bounded-cosigner1 targets in one group'')
         (sign_prepared_bounded_cosigner_group E K (Some user) grp cc cr ck aid)
       else abind (build_prepared_guarded_sign_inputs E K (Some user) grp) (\<lambda>inputs.
         sign_guarded_group E K (Some user) (pi_group_bytes_hex inputs) (pi_guarded_targets inputs) cc cr
           ck (pi_primary_targets inputs) (pi_passthrough inputs) (pi_dummy_positions inputs) aid)) u = (r, t)"
      by (simp add: sign_prepared_guarded_group_def abind_def)
    have "user_first user u t (if hb then (\<lambda>v. \<not> hc \<and> bounded_checkpoint E K user grp u v) else guarded_checkpoint E K user grp u)"
      using run bounded_user_first_flow [of E K user grp cc cr ck aid u r t] cosigner1_user_first_flow [of E K user grp cc cr ck aid u r t]
      by (cases hb; cases hc) (auto simp: araise_def intro: user_first_only [of t t "[]"])
    then show "user_first user u t ?checkpoint"
      by (rule user_first_mono) (use found in \<open>auto split: if_splits\<close>)
  qed
  then show ?thesis unfolding user_first_def .
qed

subsection \<open>Evaluation\<close>

abbreviation sample_prepared_run :: "guarded_sign_result result \<times> (unit, client) state" where
  "sample_prepared_run \<equiv> sign_prepared_guarded_group sample_bounded_env signing_sdk (Some 0) sample_bounded_group (Some 1) None ''K'' []
     (initial_state sample_client)"

text \<open>The key of the sample group selects the bounded flow.\<close>

lemma sample_prepared_bounded: "sample_prepared_run = sample_bounded_run"
  by (simp add: sign_prepared_guarded_group_def prepared_cosigner_flow_kinds_def flow_kind_step_def client_item_key_def item_key_def
      sample_bounded_group_def sample_bounded_key_def SIGNING_FLOW_BOUNDED_COSIGNER1_def abind_def acatch_def aret_def)

theorem prepared_user_first_witness:
  "\<exists>r t pre post. sample_prepared_run = (r, t) \<and> length (st_trace t) = 4 \<and> st_trace t = pre @ post \<and> (\<forall>e \<in> set pre. user_only 0 e)"
proof -
  from sample_bounded_outcome obtain r t where run: "sample_prepared_run = (Inr r, t)"
    and paths: "map (\<lambda>(c, rq). (c, rq_path rq)) (st_trace t) = [(0, ''/plan''), (0, ''/sign/component''), (1, ''/sign/component''), (0, ''/sign/assemble'')]"
    unfolding sample_prepared_bounded by (elim exE conjE)
  from arg_cong [OF paths, of length] have len: "length (st_trace t) = 4" by simp
  from prepared_user_first [OF run] obtain pre post where "st_trace t = st_trace (initial_state sample_client) @ pre @ post"
    "\<forall>e \<in> set pre. user_only 0 e" by (elim exE conjE)
  moreover have "st_trace (initial_state sample_client) = []" by (simp add: initial_state_def)
  ultimately show ?thesis using run len by (intro exI [of _ "Inr r"] exI [of _ t] exI [of _ pre] exI [of _ post]) simp
qed

end
