(* ===== verification/Py_Regex.thy ===== *)
theory Py_Regex
  imports Py_Prelude
begin

text \<open>
  Regular expressions as Python's \<^verbatim>\<open>re\<close> matches them: by backtracking, taking the alternatives in
  their order of preference. \<open>matches\<close> lists every way a pattern can match a prefix of the text, the
  preferred one first, each with its captured groups and the text that is left; \<open>search\<close> takes the
  first way at the leftmost position that has one.
\<close>

datatype regex =
    Empty
  | Sym "char \<Rightarrow> bool"
  | Eol
  | Seq regex regex
  | Alt regex regex
  | Star regex
  | LazyStar regex
  | Capture nat regex

type_synonym captures = "(nat \<times> string) list"

fun matches :: "regex \<Rightarrow> captures \<Rightarrow> string \<Rightarrow> (captures \<times> string) list" where
  "matches Empty c s = [(c, s)]"
| "matches (Sym p) c s = (case s of [] \<Rightarrow> [] | x # xs \<Rightarrow> if p x then [(c, xs)] else [])"
| "matches Eol c s = (if s = [] \<or> s = [CHR 0x0A] then [(c, s)] else [])"
| "matches (Seq a b) c s = concat (map (\<lambda>(c', t). matches b c' t) (matches a c s))"
| "matches (Alt a b) c s = matches a c s @ matches b c s"
| "matches (Star r) c s =
     concat (map (\<lambda>(c', t). if length t < length s then matches (Star r) c' t else []) (matches r c s)) @ [(c, s)]"
| "matches (LazyStar r) c s =
     (c, s) # concat (map (\<lambda>(c', t). if length t < length s then matches (LazyStar r) c' t else []) (matches r c s))"
| "matches (Capture n r) c s = map (\<lambda>(c', t). ((n, take (length s - length t) s) # c', t)) (matches r c s)"

text \<open>\<^verbatim>\<open>re.search\<close>: the captures of the preferred match at the leftmost position.\<close>

fun search :: "regex \<Rightarrow> string \<Rightarrow> captures option" where
  "search r s = (case matches r [] s of (c, _) # _ \<Rightarrow> Some c
     | [] \<Rightarrow> (case s of [] \<Rightarrow> None | _ # xs \<Rightarrow> search r xs))"

declare search.simps [simp del] matches.simps(6,7) [simp del]

section \<open>Pattern notation\<close>

definition lit :: "string \<Rightarrow> regex" where
  "lit w = foldr (\<lambda>x r. Seq (Sym (\<lambda>y. y = x)) r) w Empty"

definition rep :: "nat \<Rightarrow> (char \<Rightarrow> bool) \<Rightarrow> regex" where
  "rep n p = foldr (\<lambda>_ r. Seq (Sym p) r) (replicate n ()) Empty"

definition plus :: "regex \<Rightarrow> regex" where
  "plus r = Seq r (Star r)"

definition lazy_plus :: "regex \<Rightarrow> regex" where
  "lazy_plus r = Seq r (LazyStar r)"

definition is_digit :: "char \<Rightarrow> bool" where
  "is_digit c \<longleftrightarrow> 48 \<le> ord_of c \<and> ord_of c \<le> 57"

definition not_newline :: "char \<Rightarrow> bool" where
  "not_newline c \<longleftrightarrow> c \<noteq> CHR 0x0A"

text \<open>\<^verbatim>\<open>m.group(n)\<close>\<close>

definition group_of :: "captures \<Rightarrow> nat \<Rightarrow> string" where
  "group_of c n = (case map_of c n of Some s \<Rightarrow> s | None \<Rightarrow> [])"

section \<open>Lemmas\<close>

lemma matches_lit: "matches (lit w) c s = (if starts_with w s then [(c, drop (length w) s)] else [])"
proof (induction w arbitrary: s)
  case (Cons x w)
  then show ?case by (cases s) (simp_all add: lit_def)
qed (simp add: lit_def)

lemma matches_rep: "matches (rep n p) c s = (if n \<le> length s \<and> (\<forall>x \<in> set (take n s). p x) then [(c, drop n s)] else [])"
proof (induction n arbitrary: s)
  case (Suc n)
  then show ?case by (cases s) (simp_all add: rep_def)
qed (simp add: rep_def)

text \<open>Every match leaves a suffix of the text.\<close>

lemma matches_suffix: "(c', t) \<in> set (matches r c s) \<Longrightarrow> \<exists>u. s = u @ t"
proof (induction r c s arbitrary: c' t rule: matches.induct)
  case (4 a b c s)
  then obtain c1 t1 where 1: "(c1, t1) \<in> set (matches a c s)" and 2: "(c', t) \<in> set (matches b c1 t1)" by auto
  from "4.IH"(1) [OF 1] "4.IH"(2) [OF 1 _ 2] show ?case by auto
next
  case (6 r c s)
  show ?case
  proof (cases "(c', t) = (c, s)")
    case False
    with "6.prems" [unfolded matches.simps(6) [of r c s]] obtain c1 t1 where 1: "(c1, t1) \<in> set (matches r c s)" "length t1 < length s" and 2: "(c', t) \<in> set (matches (Star r) c1 t1)"
      by (auto split: if_splits)
    from "6.IH"(1) [OF 1(1)] "6.IH"(2) [OF 1(1) _ 1(2) 2] show ?thesis by auto
  qed simp
next
  case (7 r c s)
  show ?case
  proof (cases "(c', t) = (c, s)")
    case False
    with "7.prems" [unfolded matches.simps(7) [of r c s]] obtain c1 t1 where 1: "(c1, t1) \<in> set (matches r c s)" "length t1 < length s" and 2: "(c', t) \<in> set (matches (LazyStar r) c1 t1)"
      by (auto split: if_splits)
    from "7.IH"(1) [OF 1(1)] "7.IH"(2) [OF 1(1) _ 1(2) 2] show ?thesis by auto
  qed simp
qed (auto split: list.splits if_splits)

lemma search_Some:
  "search r s = Some c \<Longrightarrow> \<exists>u t rest. s = u @ t \<and> (c, rest) \<in> set (matches r [] t)"
proof (induction r s rule: search.induct)
  case (1 r s)
  show ?case
  proof (cases "matches r [] s")
    case (Cons m ms)
    obtain c1 rest where "m = (c1, rest)" by (cases m)
    with Cons 1(2) have "s = [] @ s \<and> (c, rest) \<in> set (matches r [] s)" by (subst (asm) search.simps) simp
    then show ?thesis by blast
  next
    case Nil
    with 1(2) obtain x xs where s: "s = x # xs" "search r xs = Some c"
      by (subst (asm) search.simps) (auto split: list.splits)
    from 1(1) [OF Nil s] obtain u t rest where "xs = u @ t" "(c, rest) \<in> set (matches r [] t)" by blast
    with s show ?thesis by (metis append_Cons)
  qed
qed

lemma search_None: "search r s = None \<longleftrightarrow> (\<forall>u t. s = u @ t \<longrightarrow> matches r [] t = [])"
proof (induction s)
  case Nil
  then show ?case by (subst search.simps) (auto split: list.splits)
next
  case (Cons x s)
  have "search r (x # s) = None \<longleftrightarrow> matches r [] (x # s) = [] \<and> search r s = None"
    by (subst search.simps) (auto split: list.splits)
  also have "\<dots> \<longleftrightarrow> (\<forall>u t. x # s = u @ t \<longrightarrow> matches r [] t = [])"
    by (auto simp: Cons Cons_eq_append_conv)
  finally show ?case .
qed

end
