(* ===== verification/Submission.thy ===== *)
theory Submission
  imports Py_Regex Py_Codec
begin

text \<open>
  From signed transactions to the network: merging the lists several signers returned into one
  group, submitting it, and turning the node's verbose error into one of the SDK's exceptions.
\<close>

section \<open>Merging signed lists\<close>

fun check_lengths :: "nat \<Rightarrow> (nat \<times> string list) list \<Rightarrow> unit result" where
  "check_lengths n [] = Inr ()"
| "check_lengths n ((i, sl) # rest) =
     raise_if (length sl \<noteq> n)
       (value_error (''signed_lists['' @ show_nat i @ ''] has '' @ show_nat (length sl) @ '' entries, expected '' @ show_nat n))
       (check_lengths n rest)"

definition merge_slot :: "string list list \<Rightarrow> nat \<Rightarrow> string result" where
  "merge_slot signed_lists idx =
     (let entries = filter (\<lambda>e. e \<noteq> []) (map (\<lambda>sl. sl ! idx) signed_lists) in
      raise_if (length entries = 0) (value_error (''slot '' @ show_nat idx @ '': no signer provided a signed transaction'')) (
      raise_if (1 < length entries) (value_error (''slot '' @ show_nat idx @ '': multiple signers provided a signed transaction''))
        (Inr (hd entries))))"

definition assemble_group :: "string list list \<Rightarrow> string result" where
  "assemble_group signed_lists =
     raise_if (signed_lists = []) (value_error ''signed_lists must not be empty'') (
     let group_len = length (hd signed_lists) in
     rbind (check_lengths group_len (List.enumerate 0 signed_lists)) (\<lambda>_.
     rbind (rmap (merge_slot signed_lists) [0 ..< group_len]) (\<lambda>merged.
     rbind (rmap (b64decode False) merged) (\<lambda>parts.
       Inr (b64encode (concat parts))))))"

section \<open>Errors of the node\<close>

definition is_txid_char :: "char \<Rightarrow> bool" where
  "is_txid_char c \<longleftrightarrow> 65 \<le> ord_of c \<and> ord_of c \<le> 90 \<or> is_digit c"

definition txid_pattern :: regex where
  "txid_pattern = Seq (lit ''transaction '') (Seq (Capture 1 (rep 52 is_txid_char)) (lit '':''))"

definition spend_pattern :: regex where
  "spend_pattern = Seq (lit ''tried to spend {'') (Seq (Capture 1 (plus (Sym is_digit))) (lit ''}''))"

definition pool_pattern :: regex where
  "pool_pattern =
     Seq (lit ''had '') (Seq (Capture 1 (plus (Sym is_digit))) (Seq (lit '' bytes'') (Seq (Star (Sym not_newline))
       (Seq (lit ''pool of '') (Seq (Capture 2 (plus (Sym is_digit))) (lit '' bytes''))))))"

definition reason_pattern :: regex where
  "reason_pattern =
     Seq (lit ''}: '') (Seq (Capture 1 (lazy_plus (Sym not_newline)))
       (Alt (Seq (Star (Sym is_space)) Eol) (Seq (Star (Sym is_space)) (lit ''{''))))"

text \<open>\<^verbatim>\<open>TransactionRejectedError\<close> and its subclasses: the message names the transaction and the reason.\<close>

definition rejected :: "exc_class \<Rightarrow> string \<Rightarrow> string \<Rightarrow> exc" where
  "rejected cls txid reason = Exc cls (''Transaction '' @ txid @ '' rejected: '' @ reason) []"

definition parse_algod_error :: "string \<Rightarrow> exc" where
  "parse_algod_error msg =
     (let low = lower msg; has = (\<lambda>w. contains_str w low);
          txid = (case search txid_pattern msg of Some c \<Rightarrow> group_of c 1 | None \<Rightarrow> ''unknown'') in
      if has ''rejected by logic'' then rejected LogicSigRejectedError txid ''LogicSig program returned false''
      else if has ''overspend'' \<or> has ''insufficient funds'' then
        rejected InsufficientFundsError txid
          (case search spend_pattern msg of
             Some c \<Rightarrow> ''insufficient funds (tried to spend '' @ group_of c 1 @ '' microAlgos)''
           | None \<Rightarrow> ''insufficient funds'')
      else if has ''logicsigs'' \<and> has ''pool'' then
        rejected InvalidTransactionError txid
          (case search pool_pattern msg of
             Some c \<Rightarrow> ''LogicSig too large ('' @ group_of c 1 @ '' bytes exceeds '' @ group_of c 2
               @ '' byte pool). Fee pooling should be automatic - ensure you'' @ CHR 0x27 # ''re using sign_transaction() or sign_transactions().''
           | None \<Rightarrow> ''LogicSig exceeds pool budget - fee pooling should be automatic via sign_transaction()'')
      else if has ''group'' \<and> (has ''invalid'' \<or> has ''mismatch'') then
        rejected InvalidTransactionError txid ''invalid or mismatched group ID''
      else if has ''fee'' \<and> (has ''too small'' \<or> has ''below'') then rejected InvalidTransactionError txid ''transaction fee too low''
      else if has ''round'' \<and> (has ''past'' \<or> has ''future'' \<or> has ''invalid'') then
        rejected InvalidTransactionError txid ''transaction round range invalid (expired or too far in future)''
      else
        let truncated = (if 200 < length msg then take 200 msg @ ''...'' else msg) in
        case search reason_pattern msg of
          Some c \<Rightarrow> (if strip (group_of c 1) \<noteq> [] then rejected TransactionRejectedError txid (strip (group_of c 1))
                     else rejected TransactionRejectedError txid truncated)
        | None \<Rightarrow> rejected TransactionRejectedError txid truncated)"

text \<open>
  \<open>submit\<close> is the node client's \<^verbatim>\<open>send_raw_transaction\<close>; only its HTTP error (class \<open>ForeignException\<close>)
  is translated.
\<close>

definition send_raw_transaction :: "(string \<Rightarrow> string result) \<Rightarrow> string \<Rightarrow> string result" where
  "send_raw_transaction submit signed_txn =
     rewrap (\<lambda>e. exc_cls e = ForeignException) (\<lambda>e. parse_algod_error (exc_msg e)) (submit signed_txn)"

section \<open>Lemmas\<close>

lemma check_lengths_Inr: "check_lengths n (List.enumerate k xs) = Inr u \<longleftrightarrow> (\<forall>x \<in> set xs. length x = n)"
  by (induction xs arbitrary: k) (auto simp: result_simps)

text \<open>A slot merges exactly when one of the lists fills it.\<close>

definition sole_entry :: "string list list \<Rightarrow> nat \<Rightarrow> string \<Rightarrow> bool" where
  "sole_entry sls idx e \<longleftrightarrow> e \<noteq> [] \<and>
     (\<exists>k < length sls. sls ! k ! idx = e \<and> (\<forall>j < length sls. j \<noteq> k \<longrightarrow> sls ! j ! idx = []))"

lemma filter_singleton:
  "filter P xs = [e] \<longleftrightarrow> (\<exists>k < length xs. xs ! k = e \<and> P e \<and> (\<forall>j < length xs. j \<noteq> k \<longrightarrow> \<not> P (xs ! j)))"
proof
  assume "filter P xs = [e]"
  then obtain us vs where xs: "xs = us @ e # vs" "\<forall>u \<in> set us. \<not> P u" "P e" "[] = filter P vs"
    by (auto simp: filter_eq_Cons_iff)
  have none: "\<not> P (xs ! j)" if "j < length xs" "j \<noteq> length us" for j
    using that xs by (cases "j < length us") (auto simp: nth_append filter_empty_conv nth_Cons' eq_commute [of "[]"])
  show "\<exists>k < length xs. xs ! k = e \<and> P e \<and> (\<forall>j < length xs. j \<noteq> k \<longrightarrow> \<not> P (xs ! j))"
    using xs none by (intro exI [of _ "length us"]) simp
next
  assume "\<exists>k < length xs. xs ! k = e \<and> P e \<and> (\<forall>j < length xs. j \<noteq> k \<longrightarrow> \<not> P (xs ! j))"
  then obtain k where k: "k < length xs" "xs ! k = e" "P e" "\<And>j. j < length xs \<Longrightarrow> j \<noteq> k \<Longrightarrow> \<not> P (xs ! j)" by blast
  have split: "xs = take k xs @ e # drop (Suc k) xs" using k(1,2) by (metis id_take_nth_drop)
  have "filter P (take k xs) = []" using k by (auto simp: filter_empty_conv in_set_conv_nth)
  moreover have "filter P (drop (Suc k) xs) = []" using k by (auto simp: filter_empty_conv in_set_conv_nth)
  ultimately show "filter P xs = [e]" using k(3) by (subst split) simp
qed

lemma merge_slot_Inr: "merge_slot sls idx = Inr e \<longleftrightarrow> sole_entry sls idx e"
proof -
  have "merge_slot sls idx = Inr e \<longleftrightarrow> filter (\<lambda>e. e \<noteq> []) (map (\<lambda>sl. sl ! idx) sls) = [e]"
    by (cases "filter (\<lambda>e. e \<noteq> []) (map (\<lambda>sl. sl ! idx) sls)") (auto simp: merge_slot_def Let_def result_simps)
  also have "\<dots> \<longleftrightarrow> sole_entry sls idx e"
    unfolding filter_singleton sole_entry_def by auto
  finally show ?thesis .
qed

lemma assemble_group_Inr:
  "assemble_group sls = Inr out \<longleftrightarrow> sls \<noteq> [] \<and> (\<forall>sl \<in> set sls. length sl = length (hd sls)) \<and>
     (\<exists>merged parts. length merged = length (hd sls) \<and> (\<forall>i < length (hd sls). sole_entry sls i (merged ! i)) \<and>
        rmap (b64decode False) merged = Inr parts \<and> out = b64encode (concat parts))"
  by (simp add: assemble_group_def Let_def rbind_Inr raise_if_Inr check_lengths_Inr rmap_Inr [of "merge_slot sls"] merge_slot_Inr)
    (metis (no_types, lifting))

lemma sole_entry_unique: "sole_entry sls i a \<Longrightarrow> sole_entry sls i b \<Longrightarrow> a = b"
  unfolding sole_entry_def by metis

lemma starts_with_drop: "starts_with w s \<Longrightarrow> s = w @ drop (length w) s"
  by (auto simp: starts_with_iff)

lemma matches_announced:
  "matches (Seq (lit w) (Seq (Capture 1 (rep n p)) (lit z))) [] t =
     (if starts_with w t \<and> n \<le> length (drop (length w) t) \<and> (\<forall>x \<in> set (take n (drop (length w) t)). p x)
         \<and> starts_with z (drop n (drop (length w) t))
      then [([(1, take n (drop (length w) t))], drop (length z) (drop n (drop (length w) t)))] else [])"
proof -
  have "a - (b + (a - (n + b))) = n" if "n \<le> a - b" for a b :: nat using that by arith
  then show ?thesis by (auto simp: matches_lit matches_rep)
qed

lemma announced_iff:
  "(c, rest) \<in> set (matches (Seq (lit w) (Seq (Capture 1 (rep n p)) (lit z))) [] t) \<longleftrightarrow>
     (\<exists>g. c = [(1, g)] \<and> t = w @ g @ z @ rest \<and> length g = n \<and> (\<forall>x \<in> set g. p x))" (is "?L \<longleftrightarrow> ?R")
proof
  assume ?L
  let ?u = "drop (length w) t"
  from \<open>?L\<close> have 1: "starts_with w t" and 2: "n \<le> length ?u" "\<forall>x \<in> set (take n ?u). p x"
    and 3: "starts_with z (drop n ?u)" and c: "c = [(1, take n ?u)]" and rest: "rest = drop (length z) (drop n ?u)"
    unfolding matches_announced by (simp_all split: if_splits)
  have "drop n ?u = z @ rest" using starts_with_drop [OF 3] rest by simp
  then have "t = w @ take n ?u @ z @ rest" using starts_with_drop [OF 1] by (metis append_take_drop_id)
  with 2 c show ?R by (metis length_take min.absorb2)
next
  assume ?R
  then obtain g where "c = [(1, g)]" "t = w @ g @ z @ rest" "length g = n" "\<forall>x \<in> set g. p x" by blast
  then show ?L unfolding matches_announced by (simp add: starts_with_iff)
qed

text \<open>\<open>announces msg txid\<close>: the text has \<^verbatim>\<open>transaction <txid>:\<close> in it, with an identifier's 52 characters.\<close>

definition announces :: "string \<Rightarrow> string \<Rightarrow> bool" where
  "announces msg txid \<longleftrightarrow> length txid = 52 \<and> list_all is_txid_char txid \<and> (\<exists>u v. msg = u @ ''transaction '' @ txid @ '':'' @ v)"

lemma search_txid_Some: "search txid_pattern msg = Some c \<Longrightarrow> announces msg (group_of c 1)"
proof (drule search_Some, elim exE conjE)
  fix u t rest assume msg: "msg = u @ t" and m: "(c, rest) \<in> set (matches txid_pattern [] t)"
  from m [unfolded txid_pattern_def announced_iff] obtain g where "c = [(1, g)]" "t = ''transaction '' @ g @ '':'' @ rest" "length g = 52" "\<forall>x \<in> set g. is_txid_char x"
    by (elim exE conjE)
  moreover from this(1) have "group_of c 1 = g" by (simp add: group_of_def)
  ultimately show ?thesis unfolding announces_def list_all_iff msg by metis
qed

lemma search_txid_None: "search txid_pattern msg = None \<longleftrightarrow> (\<nexists>txid. announces msg txid)"
proof
  assume none: "search txid_pattern msg = None"
  show "\<nexists>txid. announces msg txid"
  proof
    assume "\<exists>txid. announces msg txid"
    then obtain txid u v where t: "length txid = 52" "list_all is_txid_char txid" and msg: "msg = u @ ''transaction '' @ txid @ '':'' @ v"
      unfolding announces_def by (elim exE conjE)
    have "([(1, txid)], v) \<in> set (matches txid_pattern [] (''transaction '' @ txid @ '':'' @ v))"
      unfolding txid_pattern_def announced_iff using t by (intro exI [of _ txid]) (simp add: list_all_iff)
    moreover have "matches txid_pattern [] (''transaction '' @ txid @ '':'' @ v) = []" using none msg unfolding search_None by blast
    ultimately show False by simp
  qed
next
  assume "\<nexists>txid. announces msg txid"
  with search_txid_Some show "search txid_pattern msg = None" by (cases "search txid_pattern msg") auto
qed

definition other_rejection :: "string \<Rightarrow> exc \<Rightarrow> bool" where
  "other_rejection txid e \<longleftrightarrow> (\<exists>cls reason. e = rejected cls txid reason \<and>
     cls \<in> {InsufficientFundsError, InvalidTransactionError, TransactionRejectedError})"

lemma other_rejection_if: "other_rejection t a \<Longrightarrow> other_rejection t b \<Longrightarrow> other_rejection t (if c then a else b)"
  by simp

lemma other_rejection_option:
  "other_rejection t a \<Longrightarrow> (\<And>c. other_rejection t (f c)) \<Longrightarrow> other_rejection t (case x of None \<Rightarrow> a | Some c \<Rightarrow> f c)"
  by (cases x) simp_all

lemma other_rejection_leaf:
  "cls \<in> {InsufficientFundsError, InvalidTransactionError, TransactionRejectedError} \<Longrightarrow> other_rejection t (rejected cls t reason)"
  unfolding other_rejection_def by blast

section \<open>Properties\<close>

text \<open>
  C23. Merging: \<^verbatim>\<open>assemble_group\<close> succeeds on lists of base64 texts exactly when they have one length and
  each slot is filled by exactly one of them, and then the result is the base64 text of the filled
  slots' bytes, concatenated in slot order, whoever filled them.
\<close>

theorem assemble_group_merges:
  assumes "\<And>sl e. sl \<in> set sls \<Longrightarrow> e \<in> set sl \<Longrightarrow> \<exists>raw. e = b64encode raw"
  shows "assemble_group sls = Inr out \<longleftrightarrow> sls \<noteq> [] \<and> (\<forall>sl \<in> set sls. length sl = length (hd sls)) \<and>
     (\<exists>raws. length raws = length (hd sls) \<and> (\<forall>i < length (hd sls). sole_entry sls i (b64encode (raws ! i))) \<and>
        out = b64encode (concat raws))"
proof -
  have enc: "\<exists>raw. merged ! i = b64encode raw"
    if "\<forall>sl \<in> set sls. length sl = length (hd sls)" "i < length (hd sls)" "sole_entry sls i (merged ! i)" for merged i
  proof -
    from that(3) obtain k where "k < length sls" "sls ! k ! i = merged ! i" by (auto simp: sole_entry_def)
    with that assms show ?thesis by (metis nth_mem)
  qed
  have "(\<exists>merged parts. length merged = length (hd sls) \<and> (\<forall>i < length (hd sls). sole_entry sls i (merged ! i)) \<and>
        rmap (b64decode False) merged = Inr parts \<and> out = b64encode (concat parts)) \<longleftrightarrow>
     (\<exists>raws. length raws = length (hd sls) \<and> (\<forall>i < length (hd sls). sole_entry sls i (b64encode (raws ! i))) \<and>
        out = b64encode (concat raws))" if len: "\<forall>sl \<in> set sls. length sl = length (hd sls)"
  proof (intro iffI; elim exE conjE)
    fix merged parts assume m: "length merged = length (hd sls)" "\<forall>i < length (hd sls). sole_entry sls i (merged ! i)"
      and p: "rmap (b64decode False) merged = Inr parts" and out: "out = b64encode (concat parts)"
    have "merged ! i = b64encode (parts ! i)" if "i < length (hd sls)" for i
    proof -
      from enc [OF len that] m that obtain raw where "merged ! i = b64encode raw" by blast
      moreover have "b64decode False (merged ! i) = Inr (parts ! i)" using p m that by (simp add: rmap_Inr)
      ultimately show ?thesis by (simp add: b64.dec_enc)
    qed
    with m p out show "\<exists>raws. length raws = length (hd sls) \<and> (\<forall>i < length (hd sls). sole_entry sls i (b64encode (raws ! i))) \<and>
        out = b64encode (concat raws)" by (intro exI [of _ parts]) (auto simp: rmap_Inr)
  next
    fix raws assume "length raws = length (hd sls)" "\<forall>i < length (hd sls). sole_entry sls i (b64encode (raws ! i))" "out = b64encode (concat raws)"
    then show "\<exists>merged parts. length merged = length (hd sls) \<and> (\<forall>i < length (hd sls). sole_entry sls i (merged ! i)) \<and>
        rmap (b64decode False) merged = Inr parts \<and> out = b64encode (concat parts)"
      by (intro exI [of _ "map b64encode raws"] exI [of _ raws]) (simp add: b64.rmap_dec_enc)
  qed
  then show ?thesis unfolding assemble_group_Inr by blast
qed

theorem assemble_group_merges_witness:
  "assemble_group [[b64encode ''ab'', []], [[], b64encode ''c'']] = Inr (b64encode ''abc'')"
proof -
  let ?sls = "[[b64encode ''ab'', []], [[], b64encode ''c'']]"
  have empty: "b64encode [] = []" by code_simp
  have ne: "b64encode ''ab'' \<noteq> []" "b64encode ''c'' \<noteq> []" by code_simp+
  have enc: "\<exists>raw. e = b64encode raw" if "sl \<in> set ?sls" "e \<in> set sl" for sl e
  proof -
    from that have "e = b64encode ''ab'' \<or> e = b64encode [] \<or> e = b64encode ''c''" unfolding empty by auto
    then show ?thesis by blast
  qed
  have "sole_entry ?sls 0 (b64encode ''ab'')" "sole_entry ?sls 1 (b64encode ''c'')"
    unfolding merge_slot_Inr [symmetric] by (simp_all add: merge_slot_def ne)
  then have sole: "\<forall>i < 2. sole_entry ?sls i (b64encode ([''ab'', ''c''] ! i))" by (simp add: less_2_cases_iff)
  show ?thesis
  proof (rule iffD2 [OF assemble_group_merges])
    show "?sls \<noteq> [] \<and> (\<forall>sl \<in> set ?sls. length sl = length (hd ?sls)) \<and>
      (\<exists>raws. length raws = length (hd ?sls) \<and> (\<forall>i < length (hd ?sls). sole_entry ?sls i (b64encode (raws ! i))) \<and>
        b64encode ''abc'' = b64encode (concat raws))"
      using sole by (intro conjI exI [of _ "[''ab'', ''c'']"]) (simp_all add: numeral_2_eq_2)
  qed (rule enc)
qed

text \<open>
  C25. Whatever text the node's error has, it becomes a transaction rejection of the SDK: one of the four
  classes, derived from \<^verbatim>\<open>SignerError\<close>, whose message names a transaction. The name is
  52 capital letters and digits that the text announces as \<^verbatim>\<open>transaction <id>:\<close>, or, when the text
  announces none anywhere, \<^verbatim>\<open>unknown\<close>. A program rejection is never reported as
  anything else.
\<close>

theorem algod_error_classified:
  "\<exists>cls txid reason. parse_algod_error msg = rejected cls txid reason \<and> is_signer_error (parse_algod_error msg) \<and>
     cls \<in> {LogicSigRejectedError, InsufficientFundsError, InvalidTransactionError, TransactionRejectedError} \<and>
     (contains_str ''rejected by logic'' (lower msg) = (cls = LogicSigRejectedError)) \<and>
     (if \<exists>t. announces msg t then announces msg txid else txid = ''unknown'')"
proof -
  define txid where "txid = (case search txid_pattern msg of Some c \<Rightarrow> group_of c 1 | None \<Rightarrow> ''unknown'')"
  have id: "if \<exists>t. announces msg t then announces msg txid else txid = ''unknown''"
    using search_txid_Some [of msg] search_txid_None [of msg] by (cases "search txid_pattern msg") (auto simp: txid_def)
  have "\<exists>cls reason. parse_algod_error msg = rejected cls txid reason \<and>
      cls \<in> {LogicSigRejectedError, InsufficientFundsError, InvalidTransactionError, TransactionRejectedError} \<and>
      (contains_str ''rejected by logic'' (lower msg) = (cls = LogicSigRejectedError))"
  proof (cases "contains_str ''rejected by logic'' (lower msg)")
    case True
    then show ?thesis by (intro exI [of _ LogicSigRejectedError] exI [of _ "''LogicSig program returned false''"]) (simp add: parse_algod_error_def Let_def txid_def)
  next
    case False
    then have "other_rejection txid (parse_algod_error msg)"
      unfolding parse_algod_error_def Let_def txid_def [symmetric] if_not_P [OF False]
      by (intro other_rejection_if other_rejection_option other_rejection_leaf) simp_all
    then obtain cls reason where p: "parse_algod_error msg = rejected cls txid reason"
        and c: "cls \<in> {InsufficientFundsError, InvalidTransactionError, TransactionRejectedError}"
      unfolding other_rejection_def by (elim exE conjE)
    show ?thesis using p c False by (intro exI [of _ cls] exI [of _ reason] conjI) auto
  qed
  then obtain cls reason where p: "parse_algod_error msg = rejected cls txid reason"
      and c: "cls \<in> {LogicSigRejectedError, InsufficientFundsError, InvalidTransactionError, TransactionRejectedError}"
      and l: "contains_str ''rejected by logic'' (lower msg) = (cls = LogicSigRejectedError)" by (elim exE conjE)
  have "is_signer_error (parse_algod_error msg)" unfolding p using c by (auto simp: rejected_def is_signer_error_def)
  with id p c l show ?thesis by (intro exI conjI)
qed

end
