(* ===== verification/Account_Checks.thy ===== *)
theory Account_Checks
  imports Transactions
begin

text \<open>
  The facts about an account that preparation reads from a node's answer, and the checks it makes
  on them. An answer is a dictionary (the JSON of the node) or an object with attributes; both
  spellings of a field are tried, as the sources do.
\<close>

section \<open>Reading an account\<close>

text \<open>\<^verbatim>\<open>getattr(v, a, d)\<close> for the attributes the sources ask for, which no built-in type has.\<close>

fun py_getattr :: "pyval \<Rightarrow> string \<Rightarrow> pyval \<Rightarrow> pyval" where
  "py_getattr (PData c fs) a d = (case map_of fs a of Some v \<Rightarrow> v | None \<Rightarrow> d)"
| "py_getattr v a d = d"

definition extract_auth_address :: "pyval \<Rightarrow> pyval" where
  "extract_auth_address account_info =
     (case account_info of
        PNone \<Rightarrow> PStr []
      | PStr a \<Rightarrow> PStr a
      | PDict kvs \<Rightarrow> py_or (pget account_info ''auth-addr'') (py_or (pget account_info ''auth_addr'')
          (py_or (pget account_info ''authAddr'') (PStr [])))
      | _ \<Rightarrow> py_or (py_getattr account_info ''auth_addr'' (PStr [])) (py_or (py_getattr account_info ''authAddr'' (PStr []))
          (py_or (py_getattr account_info ''auth_address'' (PStr [])) (PStr []))))"

definition account_amount :: "pyval \<Rightarrow> int result" where
  "account_amount account_info =
     (if is_dict account_info then py_int (pget_or account_info ''amount'' (PInt 0))
      else py_int (py_getattr account_info ''amount'' (PInt 0)))"

definition account_min_balance :: "pyval \<Rightarrow> int result" where
  "account_min_balance account_info =
     (if is_dict account_info then py_int (py_or (pget account_info ''min-balance'') (py_or (pget account_info ''min_balance'') (PInt 0)))
      else py_int (py_or (py_getattr account_info ''min_balance'' PNone) (py_getattr account_info ''minBalance'' (PInt 0))))"

definition holding_id :: "pyval \<Rightarrow> pyval" where
  "holding_id holding =
     (if is_dict holding then py_or (pget holding ''asset-id'') (pget holding ''asset_id'')
      else py_or (py_getattr holding ''asset_id'' PNone) (py_getattr holding ''assetId'' PNone))"

definition holding_deleted :: "pyval \<Rightarrow> bool" where
  "holding_deleted holding =
     truthy (if is_dict holding then pget_or holding ''deleted'' (PBool False) else py_getattr holding ''deleted'' (PBool False))"

fun find_holding :: "int \<Rightarrow> pyval list \<Rightarrow> pyval option result" where
  "find_holding asset_id [] = Inr None"
| "find_holding asset_id (holding # rest) =
     rbind (py_int (py_or (holding_id holding) (PInt 0))) (\<lambda>i.
       if i = asset_id \<and> \<not> holding_deleted holding then Inr (Some holding) else find_holding asset_id rest)"

definition account_asset_holding :: "pyval \<Rightarrow> int \<Rightarrow> pyval option result" where
  "account_asset_holding account_info asset_id =
     (let assets = (if is_dict account_info then pget_or account_info ''assets'' (PList []) else py_getattr account_info ''assets'' (PList [])) in
      rbind (py_iter (py_or assets (PList []))) (find_holding asset_id))"

definition asset_holding_amount :: "pyval \<Rightarrow> int result" where
  "asset_holding_amount holding =
     (if is_dict holding then py_int (pget_or holding ''amount'' (PInt 0)) else py_int (py_getattr holding ''amount'' (PInt 0)))"

text \<open>\<^verbatim>\<open>account_info.get(name)\<close> or \<^verbatim>\<open>getattr(account_info, name, None)\<close>\<close>

definition account_field :: "pyval \<Rightarrow> string \<Rightarrow> pyval" where
  "account_field account_info name = (if is_dict account_info then pget account_info name else py_getattr account_info name PNone)"

fun account_list :: "pyval \<Rightarrow> string list \<Rightarrow> pyval list result" where
  "account_list account_info [] = Inr []"
| "account_list account_info (name # names) =
     (if truthy (account_field account_info name) then py_iter (account_field account_info name) else account_list account_info names)"

fun account_int :: "pyval \<Rightarrow> string list \<Rightarrow> int result" where
  "account_int account_info [] = Inr 0"
| "account_int account_info (name # names) =
     (if account_field account_info name \<noteq> PNone then py_int (account_field account_info name) else account_int account_info names)"

definition account_status :: "pyval \<Rightarrow> string" where
  "account_status account_info =
     py_str (if is_dict account_info then pget_or account_info ''status'' (PStr []) else py_getattr account_info ''status'' (PStr []))"

section \<open>Checks\<close>

abbreviation ok_check :: "string \<Rightarrow> (string \<times> pyval) list \<Rightarrow> prepared_check" where
  "ok_check name data \<equiv> \<lparr>ck_name = name, ck_status = ''ok'', ck_message = [], ck_data = pobj data\<rparr>"

definition asa_opt_in_checks :: "pyval \<Rightarrow> int \<Rightarrow> int \<Rightarrow> prepared_check list result" where
  "asa_opt_in_checks account_info asset_id fee =
     rbind (account_asset_holding account_info asset_id) (\<lambda>holding.
     raise_if (holding \<noteq> None) (signer_error (''sender is already opted into asset '' @ show_int asset_id)) (
     rbind (account_amount account_info) (\<lambda>balance.
     raise_if (balance < fee) (signer_error (''insufficient funds for opt-in fee: balance '' @ show_int balance @ '', fee '' @ show_int fee))
       (Inr [ok_check ''asa_opt_in'' [(''asset_id'', PInt asset_id), (''fee'', PInt fee)]]))))"

definition asa_opt_out_checks :: "pyval \<Rightarrow> pyval \<Rightarrow> int \<Rightarrow> string \<Rightarrow> prepared_check list result" where
  "asa_opt_out_checks sender_info close_info asset_id close_to =
     rbind (account_asset_holding sender_info asset_id) (\<lambda>holding.
     case holding of None \<Rightarrow> Inl (signer_error (''sender is not opted into asset '' @ show_int asset_id))
     | Some h \<Rightarrow>
         rbind (account_asset_holding close_info asset_id) (\<lambda>close_holding.
         raise_if (close_holding = None) (signer_error (''close_to is not opted into asset '' @ show_int asset_id)) (
         rbind (asset_holding_amount h) (\<lambda>balance.
           Inr [ok_check ''asa_opt_out'' [(''asset_id'', PInt asset_id), (''balance'', PInt balance), (''close_to'', PStr close_to)]]))))"

text \<open>\<^verbatim>\<open>_account_list(...) or _account_int(...) > 0\<close>: the count is only read when the list is empty.\<close>

definition account_owns :: "pyval \<Rightarrow> string list \<Rightarrow> string list \<Rightarrow> bool result" where
  "account_owns account_info list_names count_names =
     rbind (account_list account_info list_names) (\<lambda>xs.
       if xs \<noteq> [] then Inr True else rbind (account_int account_info count_names) (\<lambda>n. Inr (0 < n)))"

definition account_close_checks :: "pyval \<Rightarrow> int \<Rightarrow> prepared_check list result" where
  "account_close_checks account_info fee =
     raise_if (lower (account_status account_info) = ''online'') (signer_error ''cannot close an online account'') (
     rbind (account_owns account_info [''assets''] [''total-assets-opted-in'', ''total_assets_opted_in'', ''totalAssetsOptedIn'']) (\<lambda>holds.
     raise_if holds (signer_error ''cannot close account with ASA holdings'') (
     rbind (account_owns account_info [''created-assets'', ''created_assets'', ''createdAssets'']
              [''total-created-assets'', ''total_created_assets'', ''totalCreatedAssets'']) (\<lambda>created.
     raise_if created (signer_error ''cannot close account with created assets'') (
     rbind (account_owns account_info [''apps-local-state'', ''apps_local_state'', ''appsLocalState'']
              [''total-apps-opted-in'', ''total_apps_opted_in'', ''totalAppsOptedIn'']) (\<lambda>opted.
     raise_if opted (signer_error ''cannot close account with app opt-ins'') (
     rbind (account_owns account_info [''created-apps'', ''created_apps'', ''createdApps'']
              [''total-created-apps'', ''total_created_apps'', ''totalCreatedApps'']) (\<lambda>apps.
     raise_if apps (signer_error ''cannot close account with created apps'') (
     rbind (account_amount account_info) (\<lambda>balance.
     raise_if (balance < fee) (signer_error (''insufficient funds for close fee: balance '' @ show_int balance @ '', fee '' @ show_int fee)) (
     rbind (account_min_balance account_info) (\<lambda>min_balance.
       Inr [ok_check ''account_close'' [(''balance'', PInt balance), (''min_balance'', PInt min_balance), (''fee'', PInt fee)]]))))))))))))"

definition rekey_checks :: "pyval \<Rightarrow> string \<Rightarrow> prepared_check list result" where
  "rekey_checks target_info rekey_to =
     (let auth_addr = extract_auth_address target_info in
      raise_if (truthy auth_addr \<and> auth_addr \<noteq> PStr rekey_to) (signer_error (''rekey target is itself rekeyed to '' @ py_str auth_addr))
        (Inr [ok_check ''rekey'' [(''rekey_to'', PStr rekey_to)]]))"

definition rekey_target_flow_check :: "string \<Rightarrow> pyval \<Rightarrow> unit result" where
  "rekey_target_flow_check rekey_to flow =
     (if flow \<in> {PStr [], PStr SIGNING_FLOW_BOUNDED1, PStr SIGNING_FLOW_COSIGNER1, PStr SIGNING_FLOW_BOUNDED_COSIGNER1} then Inr ()
      else raise_if (flow = PStr SIGNING_FLOW_ROTATING1)
        (signer_error (''cannot rekey to '' @ rekey_to @ '': it is a rotating account, whose address authorizes only itself''))
        (Inl (signer_error (''cannot rekey to '' @ rekey_to @ '': it uses signing flow '' @ py_repr flow
           @ '', which this SDK cannot use as another account'' @ CHR 0x27 # ''s authorizer''))))"

text \<open>An absent number and zero are refused alike, and so are an absent text and an empty one.\<close>

definition validate_keyreg_params :: "bool \<Rightarrow> string option \<Rightarrow> string option \<Rightarrow> int option \<Rightarrow> int option \<Rightarrow> int option \<Rightarrow> unit result" where
  "validate_keyreg_params nonpart votekey selkey votefst votelst votekd =
     (let given = (\<lambda>n :: int option. n \<noteq> None \<and> n \<noteq> Some 0) in
      if nonpart then Inr () else
      raise_if (votekey \<in> {None, Some []}) (value_error ''votekey is required'') (
      raise_if (selkey \<in> {None, Some []}) (value_error ''selkey is required'') (
      raise_if (\<not> given votefst) (value_error ''votefst is required'') (
      raise_if (\<not> given votelst) (value_error ''votelst is required'') (
      raise_if (the votelst < the votefst) (value_error ''votelst must be greater than or equal to votefst'') (
      raise_if (\<not> given votekd) (value_error ''votekd is required'') (Inr ())))))))"

end
