(* ===== verification/Preparation.thy ===== *)
theory Preparation
  imports Account_Checks Client_Invariants
begin

text \<open>
  Building transactions that are ready to sign: the \<^verbatim>\<open>prepare_*\<close> methods. Each asks the node for
  parameters and accounts, checks what it is told, lets the Algorand SDK build the transaction, and
  resolves the key that has to sign for the sender.

  The node and the Algorand SDK are parameters. A node (\<open>algod\<close>) may answer differently each time it
  is asked and may fail; \<open>txn_builder\<close> is the constructor the sources call for each kind of
  transaction, applied to the arguments they pass.
\<close>

section \<open>The node and the constructors\<close>

record suggested_params =
  sp_fee :: int
  sp_flat_fee :: bool
  sp_rest :: pyval

record 'w algod =
  algod_params :: "'w \<Rightarrow> suggested_params result \<times> 'w"
  algod_account :: "string \<Rightarrow> 'w \<Rightarrow> pyval result \<times> 'w"

record app_call_args =
  ac_index :: int
  ac_on_complete :: int
  ac_app_args :: "bytes list option"
  ac_accounts :: "string list option"
  ac_foreign_apps :: "int list option"
  ac_foreign_assets :: "int list option"
  ac_boxes :: "pyval list option"
  ac_approval_program :: "bytes option"
  ac_clear_program :: "bytes option"
  ac_local_schema :: pyval
  ac_global_schema :: pyval
  ac_extra_pages :: int

record keyreg_args =
  kr_votekey :: "string option"
  kr_selkey :: "string option"
  kr_votefst :: "int option"
  kr_votelst :: "int option"
  kr_votekd :: "int option"
  kr_sprfkey :: "string option"
  kr_nonpart :: bool

text \<open>What the constructors are called with, besides sender, parameters and note.\<close>

datatype txn_args =
    MkPayment (mk_receiver: string) (mk_amt: int) (mk_close_remainder_to: "string option") (mk_rekey_to: "string option")
  | MkAssetTransfer (mk_receiver: string) (mk_amt: int) (mk_index: int) (mk_close_assets_to: "string option")
  | MkKeyreg keyreg_args
  | MkApplicationCall app_call_args
  | MkApplicationCreate app_call_args

type_synonym txn_builder = "string \<Rightarrow> suggested_params \<Rightarrow> bytes option \<Rightarrow> txn_args \<Rightarrow> txn result"

definition apply_prep_fee :: "suggested_params \<Rightarrow> int option \<Rightarrow> suggested_params" where
  "apply_prep_fee params fee = (case fee of None \<Rightarrow> params | Some f \<Rightarrow> params\<lparr>sp_fee := f, sp_flat_fee := True\<rparr>)"

section \<open>The key that signs for an account\<close>

record resolved_auth_address =
  ra_address :: string
  ra_auth_address :: string
  ra_is_rekeyed :: bool
  ra_key_info :: key_info

text \<open>
  Addresses are text; an authorizing address that the node gives as something else is compared by
  the text Python prints for it.
\<close>

definition resolve_auth_address :: "'w env \<Rightarrow> nat \<Rightarrow> string \<Rightarrow> (string \<Rightarrow> ('w, pyval) client_action) option \<Rightarrow>
    ('w, resolved_auth_address) client_action" where
  "resolve_auth_address E c address account_info_lookup =
     (case account_info_lookup of
        None \<Rightarrow> araise (value_error ''account_info_lookup is required'')
      | Some lookup \<Rightarrow>
          abind (acatch (\<lambda>_. True) (\<lambda>e. araise (signer_error (''failed to query account info: '' @ exc_msg e))) (lookup address)) (\<lambda>account_info.
          let auth_addr = extract_auth_address account_info;
              signing_addr = (if truthy auth_addr \<and> auth_addr \<noteq> PStr address then py_str auth_addr else address) in
          abind (list_keys_if_keyset_changed E c) (\<lambda>keys.
          case find_spendable_key keys signing_addr of
            None \<Rightarrow>
              araise (Exc KeyNotFoundError
                (if signing_addr = address then address @ '' is not available for signing''
                 else ''account is rekeyed to '' @ py_str auth_addr @ '' but that address is not signable'') [])
          | Some key_info \<Rightarrow>
              aret \<lparr>ra_address = address, ra_auth_address = signing_addr, ra_is_rekeyed = (signing_addr \<noteq> address),
                    ra_key_info = key_info\<rparr>)))"

definition prepared_item :: "txn \<Rightarrow> resolved_auth_address \<Rightarrow> pyval \<Rightarrow> prepared_check list \<Rightarrow> prepared_transaction" where
  "prepared_item txn resolved app_call_info checks =
     \<lparr>pt_transaction = Some txn, pt_auth_address = ra_auth_address resolved, pt_txn_sender = [],
      pt_signer_key = Some (ra_key_info resolved), pt_lsig_args = [], pt_lsig_resources = None, pt_pq_scheme = [],
      pt_app_call_info = app_call_info, pt_signed_transaction_base64 = [], pt_checks = checks\<rparr>"

text \<open>\<^verbatim>\<open>params = algod_client.suggested_params(); _apply_prep_fee(params, fee)\<close>\<close>

definition prep_params :: "'w algod \<Rightarrow> int option \<Rightarrow> ('w, suggested_params) client_action" where
  "prep_params N fee = abind (ask (algod_params N)) (\<lambda>params. aret (apply_prep_fee params fee))"

text \<open>\<^verbatim>\<open>if algod_client is None: raise ValueError("algod_client is required")\<close>\<close>

definition with_algod :: "'w algod option \<Rightarrow> ('w algod \<Rightarrow> ('w, 'a) client_action) \<Rightarrow> ('w, 'a) client_action" where
  "with_algod algod_client k =
     (case algod_client of None \<Rightarrow> araise (value_error ''algod_client is required'') | Some N \<Rightarrow> k N)"

section \<open>Payments and asset transfers\<close>

record payment_args =
  pa_sender :: string
  pa_receiver :: string
  pa_amount :: int
  pa_note :: "bytes option"
  pa_fee :: "int option"

definition prepare_payment :: "'w env \<Rightarrow> txn_builder \<Rightarrow> nat \<Rightarrow> 'w algod option \<Rightarrow> payment_args \<Rightarrow> ('w, prepared_transaction) client_action" where
  "prepare_payment E B c algod_client p =
     with_algod algod_client (\<lambda>N.
     araise_if (pa_sender p = []) (value_error ''sender is required'') (
     araise_if (pa_receiver p = []) (value_error ''receiver is required'') (
     abind (prep_params N (pa_fee p)) (\<lambda>params.
     abind (ask (algod_account N (pa_sender p))) (\<lambda>sender_info.
     abind (alift (B (pa_sender p) params (pa_note p) (MkPayment (pa_receiver p) (pa_amount p) None None))) (\<lambda>txn.
     abind (alift (account_amount sender_info)) (\<lambda>amount.
     abind (alift (account_min_balance sender_info)) (\<lambda>min_balance.
     let available = amount - min_balance; required = pa_amount p + tx_fee txn in
     araise_if (available < required)
       (signer_error (''insufficient funds: available '' @ show_int available @ '', required '' @ show_int required)) (
     abind (resolve_auth_address E c (pa_sender p) (Some (\<lambda>_. aret sender_info))) (\<lambda>resolved.
       aret (prepared_item txn resolved PNone
         [ok_check ''payment_balance'' [(''amount'', PInt (pa_amount p)), (''fee'', PInt (tx_fee txn)), (''available'', PInt available)]])))))))))))"

record asa_transfer_args =
  at_sender :: string
  at_receiver :: string
  at_asset_id :: int
  at_amount :: int
  at_note :: "bytes option"
  at_fee :: "int option"

definition prepare_asa_transfer :: "'w env \<Rightarrow> txn_builder \<Rightarrow> nat \<Rightarrow> 'w algod option \<Rightarrow> asa_transfer_args \<Rightarrow> ('w, prepared_transaction) client_action" where
  "prepare_asa_transfer E B c algod_client p =
     with_algod algod_client (\<lambda>N.
     araise_if (at_sender p = []) (value_error ''sender is required'') (
     araise_if (at_receiver p = []) (value_error ''receiver is required'') (
     araise_if (at_asset_id p = 0) (value_error ''asset_id is required'') (
     abind (prep_params N (at_fee p)) (\<lambda>params.
     abind (ask (algod_account N (at_sender p))) (\<lambda>sender_info.
     abind (ask (algod_account N (at_receiver p))) (\<lambda>receiver_info.
     abind (alift (account_asset_holding sender_info (at_asset_id p))) (\<lambda>sender_holding.
     case sender_holding of
       None \<Rightarrow> araise (signer_error (''sender is not opted into asset '' @ show_int (at_asset_id p)))
     | Some holding \<Rightarrow>
         abind (alift (asset_holding_amount holding)) (\<lambda>sender_amount.
         araise_if (sender_amount < at_amount p)
           (signer_error (''insufficient asset balance: available '' @ show_int sender_amount @ '', required '' @ show_int (at_amount p))) (
         abind (alift (account_asset_holding receiver_info (at_asset_id p))) (\<lambda>receiver_holding.
         araise_if (receiver_holding = None) (signer_error (''receiver is not opted into asset '' @ show_int (at_asset_id p))) (
         abind (alift (B (at_sender p) params (at_note p) (MkAssetTransfer (at_receiver p) (at_amount p) (at_asset_id p) None))) (\<lambda>txn.
         abind (resolve_auth_address E c (at_sender p) (Some (\<lambda>_. aret sender_info))) (\<lambda>resolved.
           aret (prepared_item txn resolved PNone
             [ok_check ''asa_transfer'' [(''asset_id'', PInt (at_asset_id p)), (''amount'', PInt (at_amount p)),
                (''balance'', PInt sender_amount)]])))))))))))))))"

section \<open>Opting in and out, closing, rekeying\<close>

definition prepare_asa_opt_in :: "'w env \<Rightarrow> txn_builder \<Rightarrow> nat \<Rightarrow> 'w algod option \<Rightarrow> string \<Rightarrow> int \<Rightarrow> bytes option \<Rightarrow> int option \<Rightarrow>
    ('w, prepared_transaction) client_action" where
  "prepare_asa_opt_in E B c algod_client sender asset_id note fee =
     with_algod algod_client (\<lambda>N.
     araise_if (sender = []) (value_error ''sender is required'') (
     araise_if (asset_id = 0) (value_error ''asset_id is required'') (
     abind (prep_params N fee) (\<lambda>params.
     abind (ask (algod_account N sender)) (\<lambda>sender_info.
     abind (alift (asa_opt_in_checks sender_info asset_id (sp_fee params))) (\<lambda>checks.
     abind (alift (B sender params note (MkAssetTransfer sender 0 asset_id None))) (\<lambda>txn.
     abind (resolve_auth_address E c sender (Some (\<lambda>_. aret sender_info))) (\<lambda>resolved.
       aret (prepared_item txn resolved PNone checks)))))))))"

definition prepare_asa_opt_out :: "'w env \<Rightarrow> txn_builder \<Rightarrow> nat \<Rightarrow> 'w algod option \<Rightarrow> string \<Rightarrow> int \<Rightarrow> string \<Rightarrow> bytes option \<Rightarrow> int option \<Rightarrow>
    ('w, prepared_transaction) client_action" where
  "prepare_asa_opt_out E B c algod_client sender asset_id close_to note fee =
     with_algod algod_client (\<lambda>N.
     araise_if (sender = []) (value_error ''sender is required'') (
     araise_if (close_to = []) (value_error ''close_to is required'') (
     araise_if (sender = close_to) (value_error ''close_to must differ from sender'') (
     araise_if (asset_id = 0) (value_error ''asset_id is required'') (
     abind (prep_params N fee) (\<lambda>params.
     abind (ask (algod_account N sender)) (\<lambda>sender_info.
     abind (ask (algod_account N close_to)) (\<lambda>close_info.
     abind (alift (asa_opt_out_checks sender_info close_info asset_id close_to)) (\<lambda>checks.
     abind (alift (B sender params note (MkAssetTransfer sender 0 asset_id (Some close_to)))) (\<lambda>txn.
     abind (resolve_auth_address E c sender (Some (\<lambda>_. aret sender_info))) (\<lambda>resolved.
       aret (prepared_item txn resolved PNone checks))))))))))))"

definition prepare_account_close :: "'w env \<Rightarrow> txn_builder \<Rightarrow> nat \<Rightarrow> 'w algod option \<Rightarrow> string \<Rightarrow> string \<Rightarrow> bytes option \<Rightarrow> int option \<Rightarrow>
    ('w, prepared_transaction) client_action" where
  "prepare_account_close E B c algod_client sender close_to note fee =
     with_algod algod_client (\<lambda>N.
     araise_if (sender = []) (value_error ''sender is required'') (
     araise_if (close_to = []) (value_error ''close_to is required'') (
     araise_if (sender = close_to) (value_error ''close_to must differ from sender'') (
     abind (prep_params N fee) (\<lambda>params.
     abind (ask (algod_account N sender)) (\<lambda>sender_info.
     abind (alift (account_close_checks sender_info (sp_fee params))) (\<lambda>checks.
     abind (alift (B sender params note (MkPayment close_to 0 (Some close_to) None))) (\<lambda>txn.
     abind (resolve_auth_address E c sender (Some (\<lambda>_. aret sender_info))) (\<lambda>resolved.
       aret (prepared_item txn resolved PNone checks))))))))))"

definition prepare_rekey :: "'w env \<Rightarrow> txn_builder \<Rightarrow> nat \<Rightarrow> 'w algod option \<Rightarrow> string \<Rightarrow> string \<Rightarrow> bytes option \<Rightarrow> int option \<Rightarrow>
    ('w, prepared_transaction) client_action" where
  "prepare_rekey E B c algod_client sender rekey_to note fee =
     with_algod algod_client (\<lambda>N.
     araise_if (sender = []) (value_error ''sender is required'') (
     araise_if (rekey_to = []) (value_error ''rekey_to is required'') (
     abind (prep_params N fee) (\<lambda>params.
     abind (ask (algod_account N sender)) (\<lambda>sender_info.
     abind (if rekey_to \<noteq> sender then ask (algod_account N rekey_to) else aret (pobj [(''address'', PStr rekey_to)])) (\<lambda>target_info.
     abind (alift (rekey_checks target_info rekey_to)) (\<lambda>checks.
     abind (alift (B sender params note (MkPayment sender 0 None (Some rekey_to)))) (\<lambda>txn.
     abind (resolve_auth_address E c sender (Some (\<lambda>_. aret sender_info))) (\<lambda>resolved.
     abind (get_client c) (\<lambda>cl.
     abind (alift (case if rekey_to = sender then None else map_of (key_cache cl) (PStr rekey_to) of
              Some target \<Rightarrow> rekey_target_flow_check rekey_to (ki_signing_flow target) | None \<Rightarrow> Inr ())) (\<lambda>_.
       aret (prepared_item txn resolved PNone checks))))))))))))"

section \<open>Key registration and applications\<close>

definition or_zero :: "int option \<Rightarrow> pyval" where
  "or_zero n = PInt (case n of Some i \<Rightarrow> i | None \<Rightarrow> 0)"

definition prepare_keyreg :: "'w env \<Rightarrow> txn_builder \<Rightarrow> nat \<Rightarrow> 'w algod option \<Rightarrow> string \<Rightarrow> keyreg_args \<Rightarrow> bytes option \<Rightarrow> int option \<Rightarrow>
    ('w, prepared_transaction) client_action" where
  "prepare_keyreg E B c algod_client sender k note fee =
     with_algod algod_client (\<lambda>N.
     araise_if (sender = []) (value_error ''sender is required'') (
     abind (alift (validate_keyreg_params (kr_nonpart k) (kr_votekey k) (kr_selkey k) (kr_votefst k) (kr_votelst k) (kr_votekd k))) (\<lambda>_.
     abind (prep_params N fee) (\<lambda>params.
     abind (ask (algod_account N sender)) (\<lambda>sender_info.
     abind (alift (B sender params note (MkKeyreg k))) (\<lambda>txn.
     abind (resolve_auth_address E c sender (Some (\<lambda>_. aret sender_info))) (\<lambda>resolved.
       aret (prepared_item txn resolved PNone
         [ok_check ''keyreg'' [(''nonparticipation'', PBool (kr_nonpart k)), (''vote_first'', or_zero (kr_votefst k)),
            (''vote_last'', or_zero (kr_votelst k)), (''vote_key_dilution'', or_zero (kr_votekd k))]]))))))))"

definition count_of :: "'a list option \<Rightarrow> pyval" where
  "count_of xs = PInt (case xs of Some ys \<Rightarrow> int (length ys) | None \<Rightarrow> 0)"

definition app_call_checks :: "app_call_args \<Rightarrow> pyval \<Rightarrow> prepared_check list" where
  "app_call_checks a app_call_info =
     [ok_check ''app_call'' ([(''app_id'', PInt (ac_index a)), (''on_completion'', PInt (ac_on_complete a)), (''args'', count_of (ac_app_args a)),
        (''accounts'', count_of (ac_accounts a)), (''foreign_apps'', count_of (ac_foreign_apps a)),
        (''foreign_assets'', count_of (ac_foreign_assets a)), (''boxes'', count_of (ac_boxes a)), (''mode'', pget app_call_info ''mode'')]
        @ (if phas app_call_info ''method'' then [(''method'', pget app_call_info ''method'')] else []))]"

text \<open>\<^verbatim>\<open>int(transaction.OnComplete.DeleteApplicationOC)\<close>\<close>

definition DeleteApplicationOC :: int where "DeleteApplicationOC = 5"
definition OptInOC :: int where "OptInOC = 1"
definition NoOpOC :: int where "NoOpOC = 0"

definition prepare_app_call_with :: "'w env \<Rightarrow> txn_builder \<Rightarrow> nat \<Rightarrow> 'w algod option \<Rightarrow> string \<Rightarrow> app_call_args \<Rightarrow> bytes option \<Rightarrow> int option \<Rightarrow>
    pyval \<Rightarrow> ('w, prepared_transaction) client_action" where
  "prepare_app_call_with E B c algod_client sender a note fee app_call_info =
     with_algod algod_client (\<lambda>N.
     araise_if (sender = []) (value_error ''sender is required'') (
     araise_if (ac_index a = 0) (value_error ''app_id is required'') (
     araise_if (ac_on_complete a < 0 \<or> DeleteApplicationOC < ac_on_complete a)
       (value_error (''invalid on_complete: '' @ show_int (ac_on_complete a))) (
     abind (prep_params N fee) (\<lambda>params.
     abind (ask (algod_account N sender)) (\<lambda>sender_info.
     abind (alift (B sender params note (MkApplicationCall a))) (\<lambda>txn.
     abind (resolve_auth_address E c sender (Some (\<lambda>_. aret sender_info))) (\<lambda>resolved.
       aret (prepared_item txn resolved app_call_info (app_call_checks a app_call_info))))))))))"

definition prepare_app_call :: "'w env \<Rightarrow> txn_builder \<Rightarrow> nat \<Rightarrow> 'w algod option \<Rightarrow> string \<Rightarrow> app_call_args \<Rightarrow> bytes option \<Rightarrow> int option \<Rightarrow>
    ('w, prepared_transaction) client_action" where
  "prepare_app_call E B c algod_client sender a note fee =
     prepare_app_call_with E B c algod_client sender a note fee (pobj [(''mode'', PStr ''raw'')])"

text \<open>\<open>zero_schema\<close> is \<^verbatim>\<open>transaction.StateSchema(0, 0)\<close>; an absent schema is \<open>PNone\<close>.\<close>

definition zero_schema :: pyval where
  "zero_schema = PData ''StateSchema'' [(''num_uints'', PInt 0), (''num_byte_slices'', PInt 0)]"

definition prepare_app_deploy :: "'w env \<Rightarrow> txn_builder \<Rightarrow> nat \<Rightarrow> 'w algod option \<Rightarrow> string \<Rightarrow> bytes \<Rightarrow> bytes \<Rightarrow> bool \<Rightarrow> app_call_args \<Rightarrow>
    bytes option \<Rightarrow> int option \<Rightarrow> ('w, prepared_transaction) client_action" where
  "prepare_app_deploy E B c algod_client sender approval_program clear_program opt_in a note fee =
     with_algod algod_client (\<lambda>N.
     araise_if (sender = []) (value_error ''sender is required'') (
     araise_if (approval_program = []) (value_error ''approval_program is required'') (
     araise_if (clear_program = []) (value_error ''clear_program is required'') (
     abind (prep_params N fee) (\<lambda>params.
     abind (ask (algod_account N sender)) (\<lambda>sender_info.
     abind (alift (B sender params note (MkApplicationCreate (a\<lparr>ac_index := 0, ac_on_complete := (if opt_in then OptInOC else NoOpOC),
              ac_approval_program := Some approval_program, ac_clear_program := Some clear_program,
              ac_global_schema := py_or (ac_global_schema a) zero_schema, ac_local_schema := py_or (ac_local_schema a) zero_schema\<rparr>)))) (\<lambda>txn.
     abind (resolve_auth_address E c sender (Some (\<lambda>_. aret sender_info))) (\<lambda>resolved.
       aret (prepared_item txn resolved (pobj [(''mode'', PStr ''raw'')])
         [ok_check ''app_deploy'' [(''extra_pages'', PInt (ac_extra_pages a)), (''approval_program_len'', PInt (int (length approval_program))),
            (''clear_program_len'', PInt (int (length clear_program))), (''opt_in'', PBool opt_in)]])))))))))"

section \<open>Effects\<close>

lemma with_algod_Inr [result_simps]: "with_algod n k s = (Inr x, t) \<longleftrightarrow> (\<exists>N. n = Some N \<and> k N s = (Inr x, t))"
  by (auto simp: with_algod_def araise_def split: option.splits)

lemma issues_with_algod [issues_intros]: "(\<And>N. issues P (k N)) \<Longrightarrow> issues P (with_algod n k)"
  unfolding with_algod_def by (intro issues_intros)

lemma issues_prep_params [issues_intros]: "issues P (prep_params N fee)"
  unfolding prep_params_def by (intro issues_intros)

lemma prep_params_Inr [result_simps]:
  "prep_params N fee s = (Inr params, t) \<longleftrightarrow>
     (\<exists>sp w. algod_params N (st_world s) = (Inr sp, w) \<and> params = apply_prep_fee sp fee \<and> t = s\<lparr>st_world := w\<rparr>)"
  by (auto simp: prep_params_def result_simps)

text \<open>Preparation asks the signer for its status and its keys, and for nothing else.\<close>

abbreviation inventory_request :: "nat \<Rightarrow> event \<Rightarrow> bool" where
  "inventory_request c \<equiv> to_path c {''/status'', ''/keys''}"

lemma issues_list_keys_if_keyset_changed [issues_intros]: "issues (inventory_request c) (list_keys_if_keyset_changed E c)"
  unfolding list_keys_if_keyset_changed_def
  by (intro issues_intros issues_mono [OF issues_get_status] issues_mono [OF issues_list_keys]) (auto simp: to_path_def)

lemma issues_resolve [issues_intros]:
  "(\<And>l a. lookup = Some l \<Longrightarrow> issues (inventory_request c) (l a)) \<Longrightarrow> issues (inventory_request c) (resolve_auth_address E c address lookup)"
  unfolding resolve_auth_address_def Let_def by (intro issues_intros) auto

lemmas prepare_defs = prepare_payment_def prepare_asa_transfer_def prepare_asa_opt_in_def prepare_asa_opt_out_def
  prepare_account_close_def prepare_rekey_def prepare_keyreg_def prepare_app_call_def prepare_app_call_with_def prepare_app_deploy_def

lemma issues_prepare [issues_intros]:
  "issues (inventory_request c) (prepare_payment E B c n p)"
  "issues (inventory_request c) (prepare_asa_transfer E B c n q)"
  "issues (inventory_request c) (prepare_asa_opt_in E B c n snd' i note fee)"
  "issues (inventory_request c) (prepare_asa_opt_out E B c n snd' i cl note fee)"
  "issues (inventory_request c) (prepare_account_close E B c n snd' cl note fee)"
  "issues (inventory_request c) (prepare_rekey E B c n snd' cl note fee)"
  "issues (inventory_request c) (prepare_keyreg E B c n snd' k note fee)"
  "issues (inventory_request c) (prepare_app_call_with E B c n snd' a note fee info)"
  "issues (inventory_request c) (prepare_app_call E B c n snd' a note fee)"
  "issues (inventory_request c) (prepare_app_deploy E B c n snd' ap cp oi a note fee)"
  unfolding prepare_defs Let_def by ((intro issues_intros; fastforce intro: issues_intros)+)

section \<open>Resolution\<close>

definition effective_signer :: "string \<Rightarrow> pyval \<Rightarrow> string" where
  "effective_signer address account_info =
     (if truthy (extract_auth_address account_info) then py_str (extract_auth_address account_info) else address)"

definition resolves_to :: "key_info list \<Rightarrow> string \<Rightarrow> string \<Rightarrow> resolved_auth_address \<Rightarrow> bool" where
  "resolves_to keys address signer r \<longleftrightarrow> ra_address r = address \<and> ra_auth_address r = signer \<and>
     ra_is_rekeyed r = (signer \<noteq> address) \<and> ra_key_info r \<in> set keys \<and> ki_address (ra_key_info r) = PStr signer \<and>
     ki_is_spending_account (ra_key_info r) \<noteq> PBool False"

lemma resolve_run:
  assumes "lookup address s = (Inr info, u)" and "list_keys_if_keyset_changed E c u = (Inr keys, t)"
  shows "resolve_auth_address E c address (Some lookup) s =
     (case find_spendable_key keys (effective_signer address info) of
        None \<Rightarrow> (Inl (Exc KeyNotFoundError
                (if effective_signer address info = address then address @ '' is not available for signing''
                 else ''account is rekeyed to '' @ py_str (extract_auth_address info) @ '' but that address is not signable'') []), t)
      | Some k \<Rightarrow> (Inr \<lparr>ra_address = address, ra_auth_address = effective_signer address info,
                     ra_is_rekeyed = (effective_signer address info \<noteq> address), ra_key_info = k\<rparr>, t))"
proof -
  have signer: "(if truthy (extract_auth_address info) \<and> extract_auth_address info \<noteq> PStr address
     then py_str (extract_auth_address info) else address) = effective_signer address info"
    by (auto simp: effective_signer_def)
  show ?thesis
    unfolding resolve_auth_address_def Let_def option.case using assms
    by (cases "find_spendable_key keys (effective_signer address info)")
      (simp_all only: abind_def acatch_def prod.case sum.case signer option.case aret_def araise_def)
qed

lemma resolve_Inr:
  assumes "resolve_auth_address E c address (Some lookup) s = (Inr r, t)"
  shows "\<exists>info u keys. lookup address s = (Inr info, u) \<and> list_keys_if_keyset_changed E c u = (Inr keys, t) \<and>
     resolves_to keys address (effective_signer address info) r"
proof -
  from assms obtain info u keys where run: "lookup address s = (Inr info, u)" "list_keys_if_keyset_changed E c u = (Inr keys, t)"
    by (auto simp: resolve_auth_address_def Let_def abind_Inr acatch_Inr result_simps split: option.splits)
  from assms [unfolded resolve_run [where lookup = lookup, OF this]] run show ?thesis
    by (intro exI [of _ info] exI [of _ u] exI [of _ keys])
      (auto simp: resolves_to_def dest: find_spendable_key_Some split: option.splits)
qed

section \<open>What the constructors promise\<close>

text \<open>
  The documented behaviour of the Algorand SDK the properties rest on: a transaction that is built
  has the sender and the fields it was asked for, and a fee declared flat is its fee.
\<close>

fun body_as_asked :: "txn_args \<Rightarrow> txn \<Rightarrow> bool" where
  "body_as_asked (MkPayment receiver amt cl rekey) t \<longleftrightarrow> tx_body t = PaymentTxn receiver amt cl \<and> tx_rekey_to t = rekey"
| "body_as_asked (MkAssetTransfer receiver amt index cl) t \<longleftrightarrow>
     tx_body t = AssetTransferTxn index receiver amt cl None \<and> tx_rekey_to t = None"
| "body_as_asked (MkKeyreg k) t \<longleftrightarrow> tx_rekey_to t = None"
| "body_as_asked (MkApplicationCall a) t \<longleftrightarrow> tx_rekey_to t = None"
| "body_as_asked (MkApplicationCreate a) t \<longleftrightarrow> tx_rekey_to t = None"

definition builder_ok :: "txn_builder \<Rightarrow> bool" where
  "builder_ok B \<longleftrightarrow> (\<forall>sender params note args t. B sender params note args = Inr t \<longrightarrow>
     tx_sender t = sender \<and> body_as_asked args t \<and> (sp_flat_fee params \<longrightarrow> tx_fee t = sp_fee params))"

lemma builderD:
  assumes "builder_ok B" and "B sender (apply_prep_fee sp fee) note args = Inr t"
  shows "tx_sender t = sender \<and> body_as_asked args t \<and> (fee = None \<or> fee = Some (tx_fee t))"
  using assms unfolding builder_ok_def apply_prep_fee_def by (fastforce split: option.splits)

text \<open>The node said so: some answer it gave about the account.\<close>

definition node_says :: "'w algod option \<Rightarrow> string \<Rightarrow> pyval \<Rightarrow> bool" where
  "node_says n address info \<longleftrightarrow> (\<exists>N w w'. n = Some N \<and> algod_account N address w = (Inr info, w'))"

text \<open>The signer of a prepared item, given what the node said about the sender.\<close>

definition signer_resolved :: "'w env \<Rightarrow> nat \<Rightarrow> string \<Rightarrow> pyval \<Rightarrow> prepared_transaction \<Rightarrow> ('w, client) state \<Rightarrow> bool" where
  "signer_resolved E c sender info it t \<longleftrightarrow> (\<exists>r u keys. list_keys_if_keyset_changed E c u = (Inr keys, t) \<and>
     resolves_to keys sender (effective_signer sender info) r \<and>
     pt_auth_address it = ra_auth_address r \<and> pt_signer_key it = Some (ra_key_info r))"

lemma signer_resolvedI:
  "resolve_auth_address E c sender (Some (\<lambda>_. aret info)) u = (Inr r, t) \<Longrightarrow>
     signer_resolved E c sender info (prepared_item txn r acinfo checks) t"
  unfolding signer_resolved_def by (drule resolve_Inr) (auto simp: prepared_item_def result_simps)

definition payment_check :: "payment_args \<Rightarrow> txn \<Rightarrow> int \<Rightarrow> prepared_check" where
  "payment_check p txn available =
     ok_check ''payment_balance'' [(''amount'', PInt (pa_amount p)), (''fee'', PInt (tx_fee txn)), (''available'', PInt available)]"

lemma prepare_payment_Inr:
  assumes "prepare_payment E B c n p s = (Inr it, t)"
  shows "\<exists>sp info txn amount min_balance. node_says n (pa_sender p) info \<and>
     B (pa_sender p) (apply_prep_fee sp (pa_fee p)) (pa_note p) (MkPayment (pa_receiver p) (pa_amount p) None None) = Inr txn \<and>
     account_amount info = Inr amount \<and> account_min_balance info = Inr min_balance \<and>
     pa_amount p + tx_fee txn \<le> amount - min_balance \<and> pt_transaction it = Some txn \<and>
     pt_checks it = [payment_check p txn (amount - min_balance)] \<and> signer_resolved E c (pa_sender p) info it t"
proof -
  from assms obtain N sp w info w' txn amount min_balance r u where
    n: "n = Some N" "algod_account N (pa_sender p) w = (Inr info, w')"
    and txn: "B (pa_sender p) (apply_prep_fee sp (pa_fee p)) (pa_note p) (MkPayment (pa_receiver p) (pa_amount p) None None) = Inr txn"
    and bal: "account_amount info = Inr amount" "account_min_balance info = Inr min_balance" "\<not> amount - min_balance < pa_amount p + tx_fee txn"
    and r: "resolve_auth_address E c (pa_sender p) (Some (\<lambda>_. aret info)) u = (Inr r, t)"
    and it: "it = prepared_item txn r PNone [payment_check p txn (amount - min_balance)]"
    unfolding prepare_payment_def Let_def with_algod_Inr abind_Inr alift_Inr araise_if_Inr aret_Inr ask_Inr prep_params_Inr payment_check_def
    by auto
  have "pt_transaction it = Some txn" "pt_checks it = [payment_check p txn (amount - min_balance)]"
    by (simp_all add: it prepared_item_def)
  with n txn bal signer_resolvedI [OF r] it show ?thesis unfolding node_says_def by (metis linorder_not_less)
qed

definition transfer_check :: "asa_transfer_args \<Rightarrow> int \<Rightarrow> prepared_check" where
  "transfer_check p balance =
     ok_check ''asa_transfer'' [(''asset_id'', PInt (at_asset_id p)), (''amount'', PInt (at_amount p)), (''balance'', PInt balance)]"

lemma prepare_asa_transfer_Inr:
  assumes "prepare_asa_transfer E B c n p s = (Inr it, t)"
  shows "\<exists>sp info recv txn h h' balance. node_says n (at_sender p) info \<and> node_says n (at_receiver p) recv \<and>
     B (at_sender p) (apply_prep_fee sp (at_fee p)) (at_note p) (MkAssetTransfer (at_receiver p) (at_amount p) (at_asset_id p) None) = Inr txn \<and>
     account_asset_holding info (at_asset_id p) = Inr (Some h) \<and> asset_holding_amount h = Inr balance \<and> at_amount p \<le> balance \<and>
     account_asset_holding recv (at_asset_id p) = Inr (Some h') \<and> pt_transaction it = Some txn \<and>
     pt_checks it = [transfer_check p balance] \<and> signer_resolved E c (at_sender p) info it t"
proof -
  from assms obtain N sp w info w' v recv v' txn h h' balance r u where
    n: "n = Some N" "algod_account N (at_sender p) w = (Inr info, w')" "algod_account N (at_receiver p) v = (Inr recv, v')"
    and txn: "B (at_sender p) (apply_prep_fee sp (at_fee p)) (at_note p)
       (MkAssetTransfer (at_receiver p) (at_amount p) (at_asset_id p) None) = Inr txn"
    and bal: "account_asset_holding info (at_asset_id p) = Inr (Some h)" "asset_holding_amount h = Inr balance" "\<not> balance < at_amount p"
       "account_asset_holding recv (at_asset_id p) = Inr (Some h')"
    and r: "resolve_auth_address E c (at_sender p) (Some (\<lambda>_. aret info)) u = (Inr r, t)"
    and it: "it = prepared_item txn r PNone [transfer_check p balance]"
    unfolding prepare_asa_transfer_def Let_def with_algod_Inr abind_Inr alift_Inr araise_if_Inr aret_Inr ask_Inr prep_params_Inr transfer_check_def
    by (auto simp: araise_Inr abind_Inr alift_Inr araise_if_Inr aret_Inr split: option.splits)
  have "pt_transaction it = Some txn" "pt_checks it = [transfer_check p balance]"
    by (simp_all add: it prepared_item_def)
  moreover have "node_says n (at_sender p) info" "node_says n (at_receiver p) recv" using n unfolding node_says_def by blast+
  ultimately show ?thesis using txn bal signer_resolvedI [OF r] it by (metis linorder_not_less)
qed

section \<open>Properties\<close>

text \<open>
  C26. The key that signs for an account. Once the node has described the account and the signer has
  listed its keys, resolution is decided: if some listed key that may spend has the authorizing
  address (the one the account is rekeyed to, or its own), the result names that address, such a key,
  and whether the account is rekeyed; otherwise it is \<^verbatim>\<open>KeyNotFoundError\<close>.
\<close>

theorem resolve_auth_address_decides:
  assumes "lookup address s = (Inr info, u)" and "list_keys_if_keyset_changed E c u = (Inr keys, t)"
  shows "if \<exists>k \<in> set keys. ki_address k = PStr (effective_signer address info) \<and> ki_is_spending_account k \<noteq> PBool False
     then \<exists>r. resolve_auth_address E c address (Some lookup) s = (Inr r, t) \<and> resolves_to keys address (effective_signer address info) r
     else \<exists>m. resolve_auth_address E c address (Some lookup) s = (Inl (Exc KeyNotFoundError m []), t)"
proof (cases "find_spendable_key keys (effective_signer address info)")
  case None
  then have "\<not> (\<exists>k \<in> set keys. ki_address k = PStr (effective_signer address info) \<and> ki_is_spending_account k \<noteq> PBool False)"
    unfolding find_spendable_key_None by blast
  then show ?thesis unfolding resolve_run [where lookup = lookup, OF assms] None by auto
next
  case (Some k)
  note k = find_spendable_key_Some [OF this]
  then have "\<exists>k \<in> set keys. ki_address k = PStr (effective_signer address info) \<and> ki_is_spending_account k \<noteq> PBool False" by blast
  with k show ?thesis unfolding resolve_run [where lookup = lookup, OF assms] Some by (auto simp: resolves_to_def)
qed

text \<open>
  C27. A prepared payment is funded. When \<^verbatim>\<open>prepare_payment\<close> returns, the transaction has the sender,
  receiver and amount that were asked for, does not rekey, has the caller's fee if one was given, and
  costs no more than the sender's balance above the minimum, as the node reported it; the key that is
  to sign is a listed spendable key of the sender's authorizing address.
\<close>

theorem prepared_payment_funded:
  assumes "builder_ok B" and "prepare_payment E B c n p s = (Inr it, t)"
  shows "\<exists>txn info amount min_balance. pt_transaction it = Some txn \<and> tx_sender txn = pa_sender p \<and>
     tx_body txn = PaymentTxn (pa_receiver p) (pa_amount p) None \<and> tx_rekey_to txn = None \<and>
     (pa_fee p = None \<or> pa_fee p = Some (tx_fee txn)) \<and>
     node_says n (pa_sender p) info \<and> account_amount info = Inr amount \<and> account_min_balance info = Inr min_balance \<and>
     pa_amount p + tx_fee txn \<le> amount - min_balance \<and> signer_resolved E c (pa_sender p) info it t"
proof -
  from prepare_payment_Inr [OF assms(2)] obtain sp info txn amount min_balance where
    b: "B (pa_sender p) (apply_prep_fee sp (pa_fee p)) (pa_note p) (MkPayment (pa_receiver p) (pa_amount p) None None) = Inr txn"
    and rest: "node_says n (pa_sender p) info" "account_amount info = Inr amount" "account_min_balance info = Inr min_balance"
      "pa_amount p + tx_fee txn \<le> amount - min_balance" "pt_transaction it = Some txn" "signer_resolved E c (pa_sender p) info it t"
    by (elim exE conjE)
  from builderD [OF assms(1) b] have "tx_sender txn = pa_sender p" "tx_body txn = PaymentTxn (pa_receiver p) (pa_amount p) None"
    "tx_rekey_to txn = None" "pa_fee p = None \<or> pa_fee p = Some (tx_fee txn)" by simp_all
  with rest show ?thesis by (intro exI conjI)
qed

text \<open>
  C28. A prepared rekey has a usable target. When \<^verbatim>\<open>prepare_rekey\<close> returns for another address, the
  transaction rekeys exactly to it, the node does not say that the target is itself rekeyed elsewhere,
  and if the signer's inventory, as the client knows it then, has a key for the target, its signing
  flow is one that can authorize another account.
\<close>

theorem prepared_rekey_usable:
  assumes "builder_ok B" and "prepare_rekey E B c n sender rekey_to note fee s = (Inr it, t)" and "rekey_to \<noteq> sender"
  shows "\<exists>txn info. pt_transaction it = Some txn \<and> tx_sender txn = sender \<and> tx_rekey_to txn = Some rekey_to \<and>
     tx_body txn = PaymentTxn sender 0 None \<and>
     node_says n rekey_to info \<and> effective_signer rekey_to info = rekey_to \<and>
     (case map_of (key_cache (st_clients t c)) (PStr rekey_to) of None \<Rightarrow> True
      | Some k \<Rightarrow> ki_signing_flow k \<in> {PStr [], PStr SIGNING_FLOW_BOUNDED1, PStr SIGNING_FLOW_COSIGNER1, PStr SIGNING_FLOW_BOUNDED_COSIGNER1})"
proof -
  from assms(2,3) obtain N sp w info w' txn checks r where
    n: "n = Some N" "algod_account N rekey_to w = (Inr info, w')" and ck: "rekey_checks info rekey_to = Inr checks"
    and b: "B sender (apply_prep_fee sp fee) note (MkPayment sender 0 None (Some rekey_to)) = Inr txn"
    and flow: "(case map_of (key_cache (st_clients t c)) (PStr rekey_to) of
              Some target \<Rightarrow> rekey_target_flow_check rekey_to (ki_signing_flow target) | None \<Rightarrow> Inr ()) = Inr ()"
    and it: "it = prepared_item txn r PNone checks"
    unfolding prepare_rekey_def with_algod_Inr abind_Inr alift_Inr araise_if_Inr aret_Inr prep_params_Inr get_client_Inr
    by (auto simp: ask_Inr)
  from builderD [OF assms(1) b] have txn: "tx_sender txn = sender" "tx_rekey_to txn = Some rekey_to" "tx_body txn = PaymentTxn sender 0 None"
    by simp_all
  have says: "node_says n rekey_to info" using n unfolding node_says_def by blast
  have eff: "effective_signer rekey_to info = rekey_to"
    using ck by (auto simp: rekey_checks_def Let_def result_simps effective_signer_def)
  have "case map_of (key_cache (st_clients t c)) (PStr rekey_to) of None \<Rightarrow> True
      | Some k \<Rightarrow> ki_signing_flow k \<in> {PStr [], PStr SIGNING_FLOW_BOUNDED1, PStr SIGNING_FLOW_COSIGNER1, PStr SIGNING_FLOW_BOUNDED_COSIGNER1}"
    using flow by (auto simp: rekey_target_flow_check_def raise_if_Inr split: option.splits if_splits)
  moreover have "pt_transaction it = Some txn" by (simp add: it prepared_item_def)
  ultimately show ?thesis using txn says eff by (intro exI conjI)
qed

subsection \<open>Evaluation\<close>

text \<open>
  A stand-in for the constructors: without a flat fee, the suggested fee per byte of a transaction
  taken to be 250 bytes long, and at least 1000.
\<close>

fun sample_body :: "txn_args \<Rightarrow> tx_body" where
  "sample_body (MkPayment receiver amt cl rekey) = PaymentTxn receiver amt cl"
| "sample_body (MkAssetTransfer receiver amt index cl) = AssetTransferTxn index receiver amt cl None"
| "sample_body (MkKeyreg k) = OtherTxn ''keyreg''"
| "sample_body (MkApplicationCall a) = OtherTxn ''appl''"
| "sample_body (MkApplicationCreate a) = OtherTxn ''appl''"

definition sample_builder :: txn_builder where
  "sample_builder sender params note args = Inr
     \<lparr>tx_sender = sender, tx_fee = (if sp_flat_fee params then sp_fee params else max (250 * sp_fee params) 1000), tx_group = None,
      tx_note = note, tx_rekey_to = (case args of MkPayment _ _ _ r \<Rightarrow> r | _ \<Rightarrow> None), tx_body = sample_body args, tx_rest = PNone\<rparr>"

lemma sample_builder_ok: "builder_ok sample_builder"
proof -
  have "body_as_asked args t" if "sample_builder sender params nt args = Inr t" for sender params nt args t
    using that by (cases args) (auto simp: sample_builder_def)
  then show ?thesis unfolding builder_ok_def by (auto simp: sample_builder_def)
qed

definition sample_node :: "(string \<times> pyval) list \<Rightarrow> unit algod" where
  "sample_node accounts = \<lparr>algod_params = (\<lambda>w. (Inr \<lparr>sp_fee = 0, sp_flat_fee = False, sp_rest = PNone\<rparr>, w)),
     algod_account = (\<lambda>a w. (case map_of accounts a of Some v \<Rightarrow> Inr v | None \<Rightarrow> Inl (Exc ForeignException ''no account'' []), w))\<rparr>"

definition sample_account :: "int \<Rightarrow> pyval" where
  "sample_account balance = pobj [(''amount'', PInt balance), (''min-balance'', PInt 100)]"

definition sample_payment :: payment_args where
  "sample_payment = \<lparr>pa_sender = ''A'', pa_receiver = ''B'', pa_amount = 5, pa_note = None, pa_fee = None\<rparr>"

abbreviation sample_payment_run :: "prepared_transaction result \<times> (unit, client) state" where
  "sample_payment_run \<equiv> prepare_payment sample_inventory_env sample_builder 0 (Some (sample_node [(''A'', sample_account 2000)]))
     sample_payment (initial_state sample_client)"

theorem prepared_payment_funded_witness:
  "\<exists>it t txn. sample_payment_run = (Inr it, t) \<and> pt_auth_address it = ''A'' \<and> pt_transaction it = Some txn \<and>
     tx_body txn = PaymentTxn ''B'' 5 None \<and> tx_fee txn = 1000"
proof -
  have "(case sample_payment_run of (Inr it, t) \<Rightarrow> pt_auth_address it = ''A'' \<and> map_option tx_fee (pt_transaction it) = Some 1000 | _ \<Rightarrow> False)"
    by code_simp
  then obtain it t where run: "sample_payment_run = (Inr it, t)" and auth: "pt_auth_address it = ''A''"
    and fee: "map_option tx_fee (pt_transaction it) = Some 1000"
    by (auto split: prod.splits sum.splits)
  from prepared_payment_funded [OF sample_builder_ok run] obtain txn where "pt_transaction it = Some txn"
    "tx_body txn = PaymentTxn (pa_receiver sample_payment) (pa_amount sample_payment) None" by (elim exE conjE)
  moreover from this(1) fee have "tx_fee txn = 1000" by simp
  ultimately show ?thesis using run auth by (intro exI [of _ it] exI [of _ t] exI [of _ txn]) (simp add: sample_payment_def)
qed

theorem resolve_auth_address_decides_witness:
  "\<exists>keys t r m. list_keys_if_keyset_changed sample_inventory_env 0 (initial_state sample_client) = (Inr keys, t) \<and>
     resolve_auth_address sample_inventory_env 0 ''X'' (Some (\<lambda>_. aret (pobj [(''auth-addr'', PStr ''A'')]))) (initial_state sample_client) = (Inr r, t) \<and>
     ra_auth_address r = ''A'' \<and> ra_is_rekeyed r \<and>
     resolve_auth_address sample_inventory_env 0 ''X'' (Some (\<lambda>_. aret (pobj []))) (initial_state sample_client) = (Inl (Exc KeyNotFoundError m []), t)"
proof -
  obtain keys t where run: "list_keys_if_keyset_changed sample_inventory_env 0 (initial_state sample_client) = (Inr keys, t)"
    and keys: "map ki_address keys = [PStr ''A'']" "map ki_is_spending_account keys = [PNone]"
  proof -
    have "(case list_keys_if_keyset_changed sample_inventory_env 0 (initial_state sample_client) of
      (Inr keys, t) \<Rightarrow> map ki_address keys = [PStr ''A''] \<and> map ki_is_spending_account keys = [PNone] | _ \<Rightarrow> False)" by code_simp
    then show thesis using that by (auto split: prod.splits sum.splits)
  qed
  then obtain k where k: "keys = [k]" "ki_address k = PStr ''A''" "ki_is_spending_account k = PNone" by auto
  have eff: "effective_signer ''X'' (pobj [(''auth-addr'', PStr ''A'')]) = ''A''" "effective_signer ''X'' (pobj []) = ''X''"
    by code_simp+
  from resolve_auth_address_decides [OF _ run, where lookup = "\<lambda>_. aret (pobj [(''auth-addr'', PStr ''A'')])" and address = "''X''"] eff k
  obtain r where r: "resolve_auth_address sample_inventory_env 0 ''X'' (Some (\<lambda>_. aret (pobj [(''auth-addr'', PStr ''A'')]))) (initial_state sample_client) = (Inr r, t)"
    "resolves_to keys ''X'' ''A'' r" by (auto simp: aret_def)
  from resolve_auth_address_decides [OF _ run, where lookup = "\<lambda>_. aret (pobj [])" and address = "''X''"] eff k
  obtain m where m: "resolve_auth_address sample_inventory_env 0 ''X'' (Some (\<lambda>_. aret (pobj []))) (initial_state sample_client) = (Inl (Exc KeyNotFoundError m []), t)"
    by (auto simp: aret_def)
  show ?thesis using run r m by (intro exI [of _ keys] exI [of _ t] exI [of _ r] exI [of _ m]) (simp add: resolves_to_def)
qed

theorem prepared_rekey_usable_witness:
  "\<exists>it t txn. prepare_rekey sample_inventory_env sample_builder 0 (Some (sample_node [(''A'', sample_account 2000), (''B'', sample_account 0)]))
       ''A'' ''B'' None None (initial_state sample_client) = (Inr it, t) \<and> pt_transaction it = Some txn \<and> tx_rekey_to txn = Some ''B''"
proof -
  let ?run = "prepare_rekey sample_inventory_env sample_builder 0 (Some (sample_node [(''A'', sample_account 2000), (''B'', sample_account 0)]))
       ''A'' ''B'' None None (initial_state sample_client)"
  have "(case ?run of (Inr it, t) \<Rightarrow> True | _ \<Rightarrow> False)" by code_simp
  then obtain it t where run: "?run = (Inr it, t)" by (auto split: prod.splits sum.splits)
  from prepared_rekey_usable [OF sample_builder_ok run] obtain txn where "pt_transaction it = Some txn" "tx_rekey_to txn = Some ''B''" by auto
  with run show ?thesis by blast
qed


end
