(* ===== verification/Prepared_Groups.thy ===== *)
theory Prepared_Groups
  imports Preparation
begin

text \<open>
  Ordered groups of prepared transactions: payment groups, asset transfer groups, sweeps, and the
  payment that precedes an application call. Every item is prepared on its own; the group checks then
  add up what each sender, or each holding, has to cover.
\<close>

section \<open>Running totals\<close>

text \<open>
  Both group checks keep a dictionary of totals. An item charges one key; a check of the right name
  on the item sets what that key has available. \<open>charge\<close> is what distinguishes them.
\<close>

type_synonym totals = "(string \<times> int \<times> int) list"

definition read_available :: "string \<Rightarrow> string \<Rightarrow> prepared_check \<Rightarrow> int \<Rightarrow> int result" where
  "read_available name field check available =
     (if ck_name check = name \<and> truthy (ck_data check)
      then rbind (py_get_or (ck_data check) field (PInt 0)) py_int else Inr available)"

definition totals_step :: "(txn \<Rightarrow> (string \<times> int) result) \<Rightarrow> string \<Rightarrow> string \<Rightarrow> string \<Rightarrow> prepared_transaction \<Rightarrow> totals \<Rightarrow> totals result" where
  "totals_step charge missing name field item ts =
     (case pt_transaction item of None \<Rightarrow> Inl (value_error missing)
      | Some txn \<Rightarrow>
          rbind (charge txn) (\<lambda>(key, amount).
          let (available, required) = (case map_of ts key of Some v \<Rightarrow> v | None \<Rightarrow> (0, 0)) in
          rbind (rfold (read_available name field) (pt_checks item) available) (\<lambda>available.
            Inr (AList.update key (available, required + amount) ts))))"

fun check_totals :: "string \<Rightarrow> totals \<Rightarrow> unit result" where
  "check_totals what [] = Inr ()"
| "check_totals what ((key, available, required) # ts) =
     raise_if (available < required)
       (signer_error (what @ key @ '': available '' @ show_int available @ '', required '' @ show_int required))
       (check_totals what ts)"

text \<open>\<^verbatim>\<open>getattr(txn, "amt", getattr(txn, "amount", 0))\<close>, and the fee\<close>

definition payment_charge :: "txn \<Rightarrow> (string \<times> int) result" where
  "payment_charge txn = Inr (tx_sender txn,
     (case tx_body txn of PaymentTxn _ amt _ \<Rightarrow> amt | AssetTransferTxn _ _ amount _ _ \<Rightarrow> amount | OtherTxn _ \<Rightarrow> 0) + tx_fee txn)"

definition asa_charge :: "txn \<Rightarrow> (string \<times> int) result" where
  "asa_charge txn =
     (case tx_body txn of
        AssetTransferTxn index _ amount _ _ \<Rightarrow> Inr (tx_sender txn @ '':'' @ show_int index, amount)
      | PaymentTxn _ _ _ \<Rightarrow> Inl (no_attribute (PData ''PaymentTxn'' []) ''index'')
      | OtherTxn kind \<Rightarrow> Inl (no_attribute (PData kind []) ''index''))"

definition validate_payment_group :: "prepared_transaction list \<Rightarrow> prepared_check result" where
  "validate_payment_group transactions =
     rbind (rfold (totals_step payment_charge ''payment group transaction is required'' ''payment_balance'' ''available'') transactions []) (\<lambda>totals.
     rbind (check_totals ''payment group insufficient funds for '' totals) (\<lambda>_.
       Inr (ok_check ''payment_group_balance'' [(''sender_count'', PInt (int (length totals)))])))"

definition validate_asa_transfer_group :: "prepared_transaction list \<Rightarrow> prepared_check result" where
  "validate_asa_transfer_group transactions =
     rbind (rfold (totals_step asa_charge ''ASA transfer group transaction is required'' ''asa_transfer'' ''balance'') transactions []) (\<lambda>totals.
     rbind (check_totals ''ASA transfer group insufficient asset balance for '' totals) (\<lambda>_.
       Inr (ok_check ''asa_transfer_group_balance'' [(''holding_count'', PInt (int (length totals)))])))"

section \<open>Groups\<close>

text \<open>\<^verbatim>\<open>for index, x in enumerate(xs): try: ... except Exception as e: raise SignerError(f"<what> {index}: {e}")\<close>\<close>

definition prepare_each :: "string \<Rightarrow> ('x \<Rightarrow> ('w, prepared_transaction) client_action) \<Rightarrow> 'x list \<Rightarrow> ('w, prepared_transaction list) client_action" where
  "prepare_each what prepare xs =
     amap (\<lambda>(index, x). acatch (\<lambda>_. True) (\<lambda>e. araise (signer_error (what @ show_nat index @ '': '' @ exc_msg e))) (prepare x))
       (List.enumerate 0 xs)"

definition prepare_payment_group :: "'w env \<Rightarrow> txn_builder \<Rightarrow> nat \<Rightarrow> 'w algod option \<Rightarrow> payment_args list \<Rightarrow> ('w, prepared_group) client_action" where
  "prepare_payment_group E B c algod_client payments =
     araise_if (payments = []) (value_error ''payments must not be empty'') (
     abind (prepare_each ''payment '' (prepare_payment E B c algod_client) payments) (\<lambda>prepared.
     abind (alift (validate_payment_group prepared)) (\<lambda>check.
       aret \<lparr>pg_transactions = prepared,
             pg_checks = [ok_check ''payment_group'' [(''count'', PInt (int (length payments)))], check]\<rparr>)))"

definition prepare_asa_transfer_group :: "'w env \<Rightarrow> txn_builder \<Rightarrow> nat \<Rightarrow> 'w algod option \<Rightarrow> asa_transfer_args list \<Rightarrow> ('w, prepared_group) client_action" where
  "prepare_asa_transfer_group E B c algod_client transfers =
     araise_if (transfers = []) (value_error ''transfers must not be empty'') (
     abind (prepare_each ''ASA transfer '' (prepare_asa_transfer E B c algod_client) transfers) (\<lambda>prepared.
     abind (alift (validate_asa_transfer_group prepared)) (\<lambda>check.
       aret \<lparr>pg_transactions = prepared,
             pg_checks = [ok_check ''asa_transfer_group'' [(''count'', PInt (int (length transfers)))], check]\<rparr>)))"

definition prepare_sweep_group :: "'w env \<Rightarrow> txn_builder \<Rightarrow> nat \<Rightarrow> 'w algod option \<Rightarrow> asa_transfer_args list \<Rightarrow> payment_args list \<Rightarrow>
    ('w, prepared_group) client_action" where
  "prepare_sweep_group E B c algod_client asa_transfers payments =
     araise_if (asa_transfers = [] \<and> payments = []) (value_error ''sweep group must not be empty'') (
     abind (prepare_each ''ASA transfer '' (prepare_asa_transfer E B c algod_client) asa_transfers) (\<lambda>transfers.
     abind (prepare_each ''payment '' (prepare_payment E B c algod_client) payments) (\<lambda>pays.
     let prepared = transfers @ pays;
         first = ok_check ''sweep_group'' [(''asa_transfer_count'', PInt (int (length asa_transfers))), (''payment_count'', PInt (int (length payments)))] in
     abind (alift (if asa_transfers \<noteq> [] then rbind (validate_asa_transfer_group (take (length asa_transfers) prepared)) (\<lambda>k. Inr [k]) else Inr [])) (\<lambda>asa.
     abind (alift (if payments \<noteq> [] then rbind (validate_payment_group (drop (length asa_transfers) prepared)) (\<lambda>k. Inr [k]) else Inr [])) (\<lambda>pay.
       aret \<lparr>pg_transactions = prepared, pg_checks = first # asa @ pay\<rparr>)))))"

definition prepare_payment_app_call_group :: "prepared_transaction \<Rightarrow> prepared_transaction \<Rightarrow> prepared_group result" where
  "prepare_payment_app_call_group payment app_call =
     raise_if (pt_transaction payment = None) (value_error ''payment transaction is required'') (
     raise_if (pt_transaction app_call = None) (value_error ''app call transaction is required'')
       (Inr \<lparr>pg_transactions = [payment, app_call],
             pg_checks = [ok_check ''payment_app_call_order'' [(''payment_index'', PInt 0), (''app_call_index'', PInt 1)]]\<rparr>))"

section \<open>What the totals mean\<close>

text \<open>
  The specification of the totals, without the dictionary: what the items charge to a key, and what
  the last item of the key recorded as available.
\<close>

definition charged :: "('x \<Rightarrow> string) \<Rightarrow> ('x \<Rightarrow> int) \<Rightarrow> 'x list \<Rightarrow> string \<Rightarrow> int" where
  "charged key amount xs k = sum_list (map amount (filter (\<lambda>x. key x = k) xs))"

definition last_available :: "('x \<Rightarrow> string) \<Rightarrow> ('x \<Rightarrow> int) \<Rightarrow> 'x list \<Rightarrow> string \<Rightarrow> int" where
  "last_available key have_of xs k = (let ys = filter (\<lambda>x. key x = k) xs in if ys = [] then 0 else have_of (last ys))"

text \<open>
  A way of charging, on items of a given shape: every such item charges one key and carries one check
  of the right name that records what the key has.
\<close>

locale ledger =
  fixes charge :: "txn \<Rightarrow> (string \<times> int) result" and missing name field :: string
    and item_ok :: "prepared_transaction \<Rightarrow> bool" and key :: "prepared_transaction \<Rightarrow> string"
    and cost have_of :: "prepared_transaction \<Rightarrow> int"
  assumes charged_item: "item_ok it \<Longrightarrow> \<exists>txn. pt_transaction it = Some txn \<and> charge txn = Inr (key it, cost it)"
    and recorded_item: "item_ok it \<Longrightarrow> rfold (read_available name field) (pt_checks it) a = Inr (have_of it)"
begin

lemma step:
  assumes "item_ok it"
  shows "totals_step charge missing name field it ts =
     Inr (AList.update (key it) (have_of it, (case map_of ts (key it) of Some v \<Rightarrow> snd v | None \<Rightarrow> 0) + cost it) ts)"
proof -
  from charged_item [OF assms] obtain txn where "pt_transaction it = Some txn" "charge txn = Inr (key it, cost it)" by blast
  then show ?thesis by (simp add: totals_step_def recorded_item [OF assms] split: option.splits prod.splits)
qed

definition totals_for :: "prepared_transaction list \<Rightarrow> totals \<Rightarrow> bool" where
  "totals_for its ts \<longleftrightarrow> distinct (map fst ts) \<and> fst ` set ts = key ` set its \<and>
     (\<forall>(k, a, r) \<in> set ts. a = last_available key have_of its k \<and> r = charged key cost its k)"

lemma totals_for_map_of:
  assumes "totals_for its ts"
  shows "map_of ts k = (if k \<in> key ` set its then Some (last_available key have_of its k, charged key cost its k) else None)"
proof (cases "map_of ts k")
  case None
  then have "k \<notin> fst ` set ts" by (simp add: map_of_eq_None_iff)
  with None assms show ?thesis by (simp add: totals_for_def)
next
  case (Some v)
  obtain a r where v: "v = (a, r)" by (cases v)
  from Some have mem: "(k, a, r) \<in> set ts" unfolding v by (rule map_of_SomeD)
  then have "k \<in> key ` set its" using assms unfolding totals_for_def by force
  moreover have "a = last_available key have_of its k \<and> r = charged key cost its k"
    using assms mem unfolding totals_for_def by blast
  ultimately show ?thesis using Some v by simp
qed

lemma charged_snoc: "charged key cost (its @ [it]) k = charged key cost its k + (if key it = k then cost it else 0)"
  by (simp add: charged_def)

lemma available_snoc: "last_available key have_of (its @ [it]) k = (if key it = k then have_of it else last_available key have_of its k)"
  by (simp add: last_available_def)

lemma charged_none: "k \<notin> key ` set its \<Longrightarrow> charged key cost its k = 0"
  unfolding charged_def by (subst filter_False) auto

lemma totals_step_for:
  assumes "totals_for its ts" and "item_ok it"
  shows "\<exists>ts'. totals_step charge missing name field it ts = Inr ts' \<and> totals_for (its @ [it]) ts'"
proof -
  define old where "old = (case map_of ts (key it) of Some v \<Rightarrow> snd v | None \<Rightarrow> 0)"
  have old: "old = charged key cost its (key it)"
    unfolding old_def totals_for_map_of [OF assms(1)] by (auto simp: charged_none)
  let ?ts = "AList.update (key it) (have_of it, old + cost it) ts"
  have dist: "distinct (map fst ts)" using assms(1) by (simp add: totals_for_def)
  have dom: "fst ` set ?ts = key ` set (its @ [it])"
    using assms(1) by (simp add: dom_update totals_for_def)
  have "a = last_available key have_of (its @ [it]) k \<and> r = charged key cost (its @ [it]) k" if "(k, a, r) \<in> set ?ts" for k a r
  proof -
    have "map_of ?ts k = Some (a, r)" using that dist by (simp add: distinct_update)
    then show ?thesis
      unfolding update_conv' charged_snoc available_snoc fun_upd_apply totals_for_map_of [OF assms(1)] using old by (auto split: if_splits)
  qed
  then have "totals_for (its @ [it]) ?ts" unfolding totals_for_def using dist dom by (auto simp: distinct_update)
  then show ?thesis unfolding step [OF assms(2)] old_def by blast
qed

lemma totals_fold:
  "totals_for done ts \<Longrightarrow> \<forall>it \<in> set its. item_ok it \<Longrightarrow>
     \<exists>ts'. rfold (totals_step charge missing name field) its ts = Inr ts' \<and> totals_for (done @ its) ts'"
proof (induction its arbitrary: "done" ts)
  case (Cons it its)
  from totals_step_for [OF Cons.prems(1)] Cons.prems(2) obtain ts1 where
    1: "totals_step charge missing name field it ts = Inr ts1" "totals_for (done @ [it]) ts1" by auto
  from Cons.IH [OF 1(2)] Cons.prems(2) show ?case by (simp add: 1(1))
qed simp

lemma check_totals_Inr: "check_totals what ts = Inr u \<longleftrightarrow> (\<forall>(k, a, r) \<in> set ts. r \<le> a)"
  by (induction what ts rule: check_totals.induct) (auto simp: result_simps)

lemma totals_verdict:
  assumes "\<forall>it \<in> set its. item_ok it"
  shows "\<exists>ts. rfold (totals_step charge missing name field) its [] = Inr ts \<and> set (map fst ts) = key ` set its \<and> distinct (map fst ts) \<and>
     (check_totals what ts = Inr () \<longleftrightarrow> (\<forall>it \<in> set its. charged key cost its (key it) \<le> last_available key have_of its (key it)))"
proof -
  have "totals_for [] []" by (simp add: totals_for_def)
  from totals_fold [OF this assms] obtain ts where ts: "rfold (totals_step charge missing name field) its [] = Inr ts" "totals_for its ts" by auto
  have "(\<forall>(k, a, r) \<in> set ts. r \<le> a) \<longleftrightarrow> (\<forall>k \<in> fst ` set ts. charged key cost its k \<le> last_available key have_of its k)"
    using ts(2) unfolding totals_for_def by (fastforce simp: image_iff)
  also have "fst ` set ts = key ` set its" using ts(2) by (simp add: totals_for_def)
  finally show ?thesis using ts unfolding check_totals_Inr by (auto simp: totals_for_def)
qed

end

section \<open>The two ledgers\<close>

text \<open>What the single check of an item records under a field.\<close>

definition recorded :: "string \<Rightarrow> prepared_transaction \<Rightarrow> int" where
  "recorded field it = (case pt_checks it of [ck] \<Rightarrow> (case pget (ck_data ck) field of PInt i \<Rightarrow> i | _ \<Rightarrow> 0) | _ \<Rightarrow> 0)"

definition item_txn :: "prepared_transaction \<Rightarrow> txn" where
  "item_txn it = the (pt_transaction it)"

definition charge_cost :: "(txn \<Rightarrow> (string \<times> int) result) \<Rightarrow> prepared_transaction \<Rightarrow> int" where
  "charge_cost charge it = (case charge (item_txn it) of Inr (k, a) \<Rightarrow> a | Inl e \<Rightarrow> 0)"

definition charge_key :: "(txn \<Rightarrow> (string \<times> int) result) \<Rightarrow> prepared_transaction \<Rightarrow> string" where
  "charge_key charge it = (case charge (item_txn it) of Inr (k, a) \<Rightarrow> k | Inl e \<Rightarrow> [])"

definition payment_item :: "prepared_transaction \<Rightarrow> bool" where
  "payment_item it \<longleftrightarrow> (\<exists>txn p available. pt_transaction it = Some txn \<and> pt_checks it = [payment_check p txn available])"

definition transfer_item :: "prepared_transaction \<Rightarrow> bool" where
  "transfer_item it \<longleftrightarrow> (\<exists>txn index receiver amount cl rev p balance. pt_transaction it = Some txn \<and>
     tx_body txn = AssetTransferTxn index receiver amount cl rev \<and> pt_checks it = [transfer_check p balance])"

lemma truthy_pobj [simp]: "truthy (pobj kvs) \<longleftrightarrow> kvs \<noteq> []"
  by (simp add: pobj_def)

interpretation payments: ledger payment_charge "''payment group transaction is required''" "''payment_balance''" "''available''"
  payment_item "charge_key payment_charge" "charge_cost payment_charge" "recorded ''available''"
  by unfold_locales
    (auto simp: payment_item_def charge_key_def charge_cost_def item_txn_def payment_charge_def recorded_def read_available_def payment_check_def)

interpretation transfers: ledger asa_charge "''ASA transfer group transaction is required''" "''asa_transfer''" "''balance''"
  transfer_item "charge_key asa_charge" "charge_cost asa_charge" "recorded ''balance''"
  by unfold_locales
    (auto simp: transfer_item_def charge_key_def charge_cost_def item_txn_def asa_charge_def recorded_def read_available_def transfer_check_def)

lemma validate_payment_group_iff:
  assumes "\<forall>it \<in> set its. payment_item it"
  shows "(\<exists>k. validate_payment_group its = Inr k) \<longleftrightarrow> (\<forall>it \<in> set its.
     charged (charge_key payment_charge) (charge_cost payment_charge) its (charge_key payment_charge it)
       \<le> last_available (charge_key payment_charge) (recorded ''available'') its (charge_key payment_charge it))"
  using payments.totals_verdict [OF assms, of "''payment group insufficient funds for ''"]
  by (elim exE conjE) (simp add: validate_payment_group_def rbind_Inr)

lemma validate_asa_transfer_group_iff:
  assumes "\<forall>it \<in> set its. transfer_item it"
  shows "(\<exists>k. validate_asa_transfer_group its = Inr k) \<longleftrightarrow> (\<forall>it \<in> set its.
     charged (charge_key asa_charge) (charge_cost asa_charge) its (charge_key asa_charge it)
       \<le> last_available (charge_key asa_charge) (recorded ''balance'') its (charge_key asa_charge it))"
  using transfers.totals_verdict [OF assms, of "''ASA transfer group insufficient asset balance for ''"]
  by (elim exE conjE) (simp add: validate_asa_transfer_group_def rbind_Inr)

lemma amap_Inr:
  "amap f xs s = (Inr ys, t) \<Longrightarrow> length ys = length xs \<and> (\<forall>i < length xs. \<exists>u v. f (xs ! i) u = (Inr (ys ! i), v))"
proof (induction xs arbitrary: s ys)
  case (Cons x xs)
  then obtain y u zs where 1: "f x s = (Inr y, u)" "amap f xs u = (Inr zs, t)" "ys = y # zs" by (auto simp: result_simps)
  from Cons.IH [OF 1(2)] 1 show ?case by (auto simp: less_Suc_eq_0_disj)
qed (auto simp: result_simps)

lemma prepare_each_Inr:
  assumes "prepare_each what prepare xs s = (Inr its, t)"
  shows "length its = length xs \<and> (\<forall>i < length xs. \<exists>u v. prepare (xs ! i) u = (Inr (its ! i), v))"
proof -
  from amap_Inr [OF assms [unfolded prepare_each_def]]
  show ?thesis by (auto simp: nth_enumerate_eq acatch_Inr araise_Inr)
qed

text \<open>The texts of two holdings are equal only if sender and asset are.\<close>

lemma holding_key_inject: "a @ CHR '':'' # show_int i = b @ CHR '':'' # show_int j \<longleftrightarrow> a = b \<and> i = j"
  using append_colon_inject [of a "show_int i" b "show_int j"] show_int_no_colon show_int_inject by auto

lemma charged_zip:
  assumes "list_all2 (\<lambda>p it. key' p = key it \<and> cost' p it = cost it) ps its"
  shows "charged key cost its k = charged (\<lambda>(p, it). key' p) (\<lambda>(p, it). cost' p it) (zip ps its) k"
  using assms by (induction rule: list_all2_induct) (auto simp: charged_def)

lemma last_available_zip:
  assumes "list_all2 (\<lambda>p it. key' p = key it) ps its"
  shows "last_available key have_of its k = last_available (\<lambda>(p, it). key' p) (\<lambda>(p, it). have_of it) (zip ps its) k"
proof -
  have "filter (\<lambda>x. key x = k) its = map snd (filter (\<lambda>x. (case x of (p, it) \<Rightarrow> key' p) = k) (zip ps its))"
    using assms by (induction rule: list_all2_induct) auto
  then show ?thesis by (simp add: last_available_def last_map split_beta)
qed

section \<open>Properties\<close>

text \<open>An item that was prepared for a payment, and what it records.\<close>

definition prepared_for_payment :: "'w algod option \<Rightarrow> payment_args \<Rightarrow> prepared_transaction \<Rightarrow> bool" where
  "prepared_for_payment n p it \<longleftrightarrow> (\<exists>txn info amount min_balance. pt_transaction it = Some txn \<and> tx_sender txn = pa_sender p \<and>
     tx_body txn = PaymentTxn (pa_receiver p) (pa_amount p) None \<and> node_says n (pa_sender p) info \<and>
     account_amount info = Inr amount \<and> account_min_balance info = Inr min_balance \<and> recorded ''available'' it = amount - min_balance)"

definition prepared_for_transfer :: "'w algod option \<Rightarrow> asa_transfer_args \<Rightarrow> prepared_transaction \<Rightarrow> bool" where
  "prepared_for_transfer n p it \<longleftrightarrow> (\<exists>txn info h balance. pt_transaction it = Some txn \<and> tx_sender txn = at_sender p \<and>
     tx_body txn = AssetTransferTxn (at_asset_id p) (at_receiver p) (at_amount p) None None \<and> node_says n (at_sender p) info \<and>
     account_asset_holding info (at_asset_id p) = Inr (Some h) \<and> asset_holding_amount h = Inr balance \<and> recorded ''balance'' it = balance)"

lemma prepare_payment_item:
  assumes "builder_ok B" and "prepare_payment E B c n p s = (Inr it, t)"
  shows "payment_item it \<and> prepared_for_payment n p it \<and> charge_key payment_charge it = pa_sender p \<and>
     charge_cost payment_charge it = pa_amount p + tx_fee (item_txn it)"
proof -
  from prepare_payment_Inr [OF assms(2)] obtain sp info txn amount min_balance where
    b: "B (pa_sender p) (apply_prep_fee sp (pa_fee p)) (pa_note p) (MkPayment (pa_receiver p) (pa_amount p) None None) = Inr txn"
    and says: "node_says n (pa_sender p) info" "account_amount info = Inr amount" "account_min_balance info = Inr min_balance"
    and it: "pt_transaction it = Some txn" "pt_checks it = [payment_check p txn (amount - min_balance)]"
    by (elim exE conjE)
  from builderD [OF assms(1) b] have txn: "tx_sender txn = pa_sender p" "tx_body txn = PaymentTxn (pa_receiver p) (pa_amount p) None" by simp_all
  have "recorded ''available'' it = amount - min_balance" by (simp add: recorded_def it payment_check_def)
  with says it txn have "prepared_for_payment n p it" unfolding prepared_for_payment_def by blast
  moreover have "payment_item it" using it unfolding payment_item_def by blast
  ultimately show ?thesis using it txn by (simp add: charge_key_def charge_cost_def item_txn_def payment_charge_def)
qed

lemma prepare_transfer_item:
  assumes "builder_ok B" and "prepare_asa_transfer E B c n p s = (Inr it, t)"
  shows "transfer_item it \<and> prepared_for_transfer n p it \<and> charge_key asa_charge it = at_sender p @ '':'' @ show_int (at_asset_id p) \<and>
     charge_cost asa_charge it = at_amount p"
proof -
  from prepare_asa_transfer_Inr [OF assms(2)] obtain sp info txn h balance where
    b: "B (at_sender p) (apply_prep_fee sp (at_fee p)) (at_note p) (MkAssetTransfer (at_receiver p) (at_amount p) (at_asset_id p) None) = Inr txn"
    and says: "node_says n (at_sender p) info" "account_asset_holding info (at_asset_id p) = Inr (Some h)" "asset_holding_amount h = Inr balance"
    and it: "pt_transaction it = Some txn" "pt_checks it = [transfer_check p balance]"
    by (elim exE conjE)
  from builderD [OF assms(1) b] have txn: "tx_sender txn = at_sender p"
    "tx_body txn = AssetTransferTxn (at_asset_id p) (at_receiver p) (at_amount p) None None" by simp_all
  have "recorded ''balance'' it = balance" by (simp add: recorded_def it transfer_check_def)
  with says it txn have "prepared_for_transfer n p it" unfolding prepared_for_transfer_def by blast
  moreover have "transfer_item it" using it txn unfolding transfer_item_def by blast
  ultimately show ?thesis using it txn by (simp add: charge_key_def charge_cost_def item_txn_def asa_charge_def)
qed

text \<open>
  C31. A prepared payment group is funded as a whole. Item by item, the transactions pay what was asked;
  and for every sender, what all its payments cost together, fees included, is covered by what the node
  reported for that sender when its last payment was prepared. A sender cannot pass by having each of
  its payments fit on its own.
\<close>

theorem payment_group_funded:
  assumes "builder_ok B" and "prepare_payment_group E B c n ps s = (Inr g, t)" and "sender \<in> pa_sender ` set ps"
  shows "list_all2 (prepared_for_payment n) ps (pg_transactions g) \<and>
     charged (\<lambda>(p, it). pa_sender p) (\<lambda>(p, it). pa_amount p + tx_fee (item_txn it)) (zip ps (pg_transactions g)) sender
       \<le> last_available (\<lambda>(p, it). pa_sender p) (\<lambda>(p, it). recorded ''available'' it) (zip ps (pg_transactions g)) sender"
proof -
  let ?its = "pg_transactions g"
  from assms(2) obtain u k where each: "prepare_each ''payment '' (prepare_payment E B c n) ps s = (Inr ?its, u)"
    and val: "validate_payment_group ?its = Inr k"
    by (auto simp: prepare_payment_group_def abind_Inr alift_Inr araise_if_Inr aret_Inr)
  note each = prepare_each_Inr [OF each]
  have item: "payment_item (?its ! i) \<and> prepared_for_payment n (ps ! i) (?its ! i) \<and> charge_key payment_charge (?its ! i) = pa_sender (ps ! i) \<and>
     charge_cost payment_charge (?its ! i) = pa_amount (ps ! i) + tx_fee (item_txn (?its ! i))" if "i < length ps" for i
    using each that prepare_payment_item [OF assms(1)] by blast
  have all: "list_all2 (prepared_for_payment n) ps ?its" using each item by (simp add: list_all2_conv_all_nth)
  have zip: "list_all2 (\<lambda>p it. pa_sender p = charge_key payment_charge it \<and> pa_amount p + tx_fee (item_txn it) = charge_cost payment_charge it) ps ?its"
    using each item by (simp add: list_all2_conv_all_nth)
  then have key: "list_all2 (\<lambda>p it. pa_sender p = charge_key payment_charge it) ps ?its" by (rule list_all2_mono) simp
  have ok: "\<forall>it \<in> set ?its. payment_item it" using each item by (auto simp: in_set_conv_nth)
  from assms(3) obtain i where i: "i < length ps" "sender = pa_sender (ps ! i)" by (auto simp: in_set_conv_nth)
  then have "?its ! i \<in> set ?its" "charge_key payment_charge (?its ! i) = sender" using each item by auto
  with val validate_payment_group_iff [OF ok] have
    "charged (charge_key payment_charge) (charge_cost payment_charge) ?its sender
       \<le> last_available (charge_key payment_charge) (recorded ''available'') ?its sender" by blast
  then show ?thesis using all unfolding charged_zip [OF zip] last_available_zip [OF key] by blast
qed

text \<open>
  A prepared asset transfer group is covered holding by holding. For every sender and asset, the
  amounts the group moves out of that holding together are at most the balance the node reported for it;
  the text key of the running totals never confuses two holdings.
\<close>

theorem asa_group_funded:
  assumes "builder_ok B" and "prepare_asa_transfer_group E B c n ps s = (Inr g, t)" and "p \<in> set ps"
  shows "list_all2 (prepared_for_transfer n) ps (pg_transactions g) \<and>
     sum_list (map at_amount (filter (\<lambda>q. at_sender q = at_sender p \<and> at_asset_id q = at_asset_id p) ps))
       \<le> recorded ''balance'' (snd (last (filter (\<lambda>(q, it). at_sender q = at_sender p \<and> at_asset_id q = at_asset_id p) (zip ps (pg_transactions g)))))"
proof -
  let ?its = "pg_transactions g" and ?key = "\<lambda>q. at_sender q @ '':'' @ show_int (at_asset_id q)"
  let ?same = "\<lambda>q. at_sender q = at_sender p \<and> at_asset_id q = at_asset_id p"
  from assms(2) obtain u k where each: "prepare_each ''ASA transfer '' (prepare_asa_transfer E B c n) ps s = (Inr ?its, u)"
    and val: "validate_asa_transfer_group ?its = Inr k"
    by (auto simp: prepare_asa_transfer_group_def abind_Inr alift_Inr araise_if_Inr aret_Inr)
  note each = prepare_each_Inr [OF each]
  have item: "transfer_item (?its ! i) \<and> prepared_for_transfer n (ps ! i) (?its ! i) \<and> charge_key asa_charge (?its ! i) = ?key (ps ! i) \<and>
     charge_cost asa_charge (?its ! i) = at_amount (ps ! i)" if "i < length ps" for i
    using each that prepare_transfer_item [OF assms(1)] by blast
  have all: "list_all2 (prepared_for_transfer n) ps ?its" using each item by (simp add: list_all2_conv_all_nth)
  have zip: "list_all2 (\<lambda>q it. ?key q = charge_key asa_charge it \<and> at_amount q = charge_cost asa_charge it) ps ?its"
    using each item by (simp add: list_all2_conv_all_nth)
  then have key: "list_all2 (\<lambda>q it. ?key q = charge_key asa_charge it) ps ?its" by (rule list_all2_mono) simp
  have ok: "\<forall>it \<in> set ?its. transfer_item it" using each item by (auto simp: in_set_conv_nth)
  from assms(3) obtain i where i: "i < length ps" "p = ps ! i" by (auto simp: in_set_conv_nth)
  then have "?its ! i \<in> set ?its" "charge_key asa_charge (?its ! i) = ?key p" using each item by auto
  with val validate_asa_transfer_group_iff [OF ok] have
    "charged (charge_key asa_charge) (charge_cost asa_charge) ?its (?key p)
       \<le> last_available (charge_key asa_charge) (recorded ''balance'') ?its (?key p)" by metis
  then have le: "sum_list (map (\<lambda>(q, it). at_amount q) (filter (\<lambda>(q, it). ?same q) (zip ps ?its)))
     \<le> last_available (\<lambda>(q, it). ?key q) (\<lambda>(q, it). recorded ''balance'' it) (zip ps ?its) (?key p)"
    unfolding charged_zip [OF zip] last_available_zip [OF key] by (simp add: charged_def case_prod_unfold holding_key_inject)
  have len: "length ps = length ?its" using each by simp
  then have "map (\<lambda>(q, it). at_amount q) (filter (\<lambda>(q, it). ?same q) (zip ps ?its)) = map at_amount (filter ?same ps)"
    by (induction rule: list_induct2) auto
  moreover have "(p, ?its ! i) \<in> set (filter (\<lambda>(q, it). ?same q) (zip ps ?its))" using i len by (auto simp: set_zip)
  then have "filter (\<lambda>(q, it). ?same q) (zip ps ?its) \<noteq> []" by (metis empty_iff empty_set)
  then have "last_available (\<lambda>(q, it). ?key q) (\<lambda>(q, it). recorded ''balance'' it) (zip ps ?its) (?key p) =
     recorded ''balance'' (snd (last (filter (\<lambda>(q, it). ?same q) (zip ps ?its))))"
    by (simp add: last_available_def Let_def case_prod_unfold holding_key_inject)
  ultimately show ?thesis using all le by simp
qed

subsection \<open>Evaluation\<close>

abbreviation sample_pay_group_run :: "prepared_group result \<times> (unit, client) state" where
  "sample_pay_group_run \<equiv> prepare_payment_group sample_inventory_env sample_builder 0 (Some (sample_node [(''A'', sample_account 2200)]))
     [sample_payment] (initial_state sample_client)"

theorem payment_group_funded_witness:
  "\<exists>g t. sample_pay_group_run = (Inr g, t) \<and> map (\<lambda>it. tx_fee (item_txn it)) (pg_transactions g) = [1000] \<and>
     5 + 1000 \<le> recorded ''available'' (pg_transactions g ! 0)"
proof -
  have "(case sample_pay_group_run of (Inr g, t) \<Rightarrow> map (\<lambda>it. tx_fee (item_txn it)) (pg_transactions g) = [1000] | _ \<Rightarrow> False)"
    by code_simp
  then obtain g t where run: "sample_pay_group_run = (Inr g, t)"
    and fees: "map (\<lambda>it. tx_fee (item_txn it)) (pg_transactions g) = [1000]" by (auto split: prod.splits sum.splits)
  then obtain a where its: "pg_transactions g = [a]" "tx_fee (item_txn a) = 1000" by auto
  have "''A'' \<in> pa_sender ` set [sample_payment]" by (simp add: sample_payment_def)
  from payment_group_funded [OF sample_builder_ok run this] have "5 + 1000 \<le> recorded ''available'' a"
    by (simp add: its charged_def last_available_def sample_payment_def)
  with run fees its show ?thesis by (intro exI [of _ g] exI [of _ t]) simp
qed

definition sample_holding :: pyval where
  "sample_holding = pobj [(''amount'', PInt 500000), (''assets'', PList [pobj [(''asset-id'', PInt 7), (''amount'', PInt 30)]])]"

definition sample_transfer :: asa_transfer_args where
  "sample_transfer = \<lparr>at_sender = ''A'', at_receiver = ''B'', at_asset_id = 7, at_amount = 10, at_note = None, at_fee = Some 0\<rparr>"

abbreviation sample_asa_group_run :: "prepared_group result \<times> (unit, client) state" where
  "sample_asa_group_run \<equiv> prepare_asa_transfer_group sample_inventory_env sample_builder 0
     (Some (sample_node [(''A'', sample_holding), (''B'', sample_holding)])) [sample_transfer] (initial_state sample_client)"

theorem asa_group_funded_witness:
  "\<exists>g t. sample_asa_group_run = (Inr g, t) \<and> length (pg_transactions g) = 1 \<and> 10 \<le> recorded ''balance'' (pg_transactions g ! 0)"
proof -
  have "(case sample_asa_group_run of (Inr g, t) \<Rightarrow> length (pg_transactions g) = 1 | _ \<Rightarrow> False)" by code_simp
  then obtain g t where run: "sample_asa_group_run = (Inr g, t)" and len: "length (pg_transactions g) = 1" by (auto split: prod.splits sum.splits)
  then obtain a where its: "pg_transactions g = [a]" by (auto simp: length_Suc_conv)
  have "sample_transfer \<in> set [sample_transfer]" by simp
  from asa_group_funded [OF sample_builder_ok run this] have "10 \<le> recorded ''balance'' a"
    by (simp add: its sample_transfer_def)
  with run len its show ?thesis by (intro exI [of _ g] exI [of _ t]) simp
qed

end
