(* ===== verification/Inventory_Wire.thy ===== *)
theory Inventory_Wire
  imports Client_Invariants
begin

text \<open>
  The catalogue of key types (\<^verbatim>\<open>list_key_types\<close> with the data classes it fills), and the wire form of
  the inventory: the JSON a signer sends for a key or a key type, with every field that has its default
  value left out. Reading such a document gives back the object it describes, field by field.
\<close>

section \<open>Key types\<close>

record input_mode =
  im_name :: pyval
  im_label :: pyval
  im_transform :: pyval
  im_byte_length :: pyval
  im_input_type :: pyval

record creation_param =
  cp_name :: pyval
  cp_label :: pyval
  cp_description :: pyval
  cp_param_type :: pyval
  cp_required :: pyval
  cp_max_length :: pyval
  cp_input_modes :: "input_mode list option"
  cp_min_items :: pyval
  cp_max_items :: pyval
  cp_options :: pyval
  cp_min :: pyval
  cp_max :: pyval
  cp_example :: pyval
  cp_placeholder :: pyval
  cp_default :: pyval

record key_type_info =
  kt_key_type :: pyval
  kt_family :: pyval
  kt_display_name :: pyval
  kt_description :: pyval
  kt_authorization_kind :: pyval
  kt_requires_logicsig :: pyval
  kt_mnemonic_word_count :: pyval
  kt_mnemonic_import :: pyval
  kt_mnemonic_scheme :: pyval
  kt_signing_flow :: pyval
  kt_cosigner_component_key_type :: pyval
  kt_per_key_contract :: pyval
  kt_bounded_authorization :: "bounded_authorization option"
  kt_creation_params :: "creation_param list option"
  kt_runtime_args :: "runtime_arg list option"

definition parse_input_mode :: "pyval \<Rightarrow> input_mode result" where
  "parse_input_mode mode =
     rbind (py_item mode ''name'') (\<lambda>name.
       Inr \<lparr>im_name = name, im_label = pget_or mode ''label'' (PStr []), im_transform = pget_or mode ''transform'' (PStr []),
            im_byte_length = pget_or mode ''byte_length'' (PInt 0), im_input_type = pget_or mode ''input_type'' (PStr [])\<rparr>)"

text \<open>\<^verbatim>\<open>[...] or None\<close>: an empty list of modes becomes \<^verbatim>\<open>None\<close>.\<close>

definition list_or_none :: "'a list \<Rightarrow> 'a list option" where
  "list_or_none xs = (if xs = [] then None else Some xs)"

definition parse_creation_param :: "pyval \<Rightarrow> creation_param result" where
  "parse_creation_param p =
     rbind (py_item p ''name'') (\<lambda>name.
     rbind (py_iter (pget_or p ''input_modes'' (PList []))) (\<lambda>ms.
     rbind (rmap parse_input_mode ms) (\<lambda>modes.
       Inr \<lparr>cp_name = name, cp_label = pget_or p ''label'' (PStr []), cp_description = pget_or p ''description'' (PStr []),
            cp_param_type = pget_or p ''type'' (PStr []), cp_required = pget_or p ''required'' (PBool False),
            cp_max_length = pget_or p ''max_length'' (PInt 0), cp_input_modes = list_or_none modes,
            cp_min_items = pget_or p ''min_items'' (PInt 0), cp_max_items = pget_or p ''max_items'' (PInt 0),
            cp_options = pget p ''options'', cp_min = pget p ''min'', cp_max = pget p ''max'',
            cp_example = pget_or p ''example'' (PStr []), cp_placeholder = pget_or p ''placeholder'' (PStr []),
            cp_default = pget_or p ''default'' (PStr [])\<rparr>)))"

text \<open>\<^verbatim>\<open>if kt.get(k): x = [f(i) for i in kt[k]]\<close>, \<^verbatim>\<open>None\<close> otherwise\<close>

definition optional_items :: "(pyval \<Rightarrow> 'a result) \<Rightarrow> pyval \<Rightarrow> string \<Rightarrow> 'a list option result" where
  "optional_items f kt k =
     rbind (py_get kt k) (\<lambda>v.
       if truthy v then rbind (rbind (py_iter v) (rmap f)) (\<lambda>xs. Inr (Some xs)) else Inr None)"

definition parse_key_type :: "pyval \<Rightarrow> key_type_info result" where
  "parse_key_type kt =
     rbind (optional_items parse_creation_param kt ''creation_params'') (\<lambda>creation_params.
     rbind (optional_items parse_signing_arg kt ''runtime_args'') (\<lambda>runtime_args.
     rbind (py_item kt ''key_type'') (\<lambda>key_type.
     rbind (parse_bounded_authorization (pget kt ''bounded_authorization'')) (\<lambda>bounded.
       Inr \<lparr>kt_key_type = key_type, kt_family = pget_or kt ''family'' (PStr []),
            kt_display_name = pget_or kt ''display_name'' (PStr []), kt_description = pget_or kt ''description'' (PStr []),
            kt_authorization_kind = pget_or kt ''authorization_kind'' (PStr []),
            kt_requires_logicsig = pget_or kt ''requires_logicsig'' (PBool False),
            kt_mnemonic_word_count = pget_or kt ''mnemonic_word_count'' (PInt 0),
            kt_mnemonic_import = pget_or kt ''mnemonic_import'' (PBool False),
            kt_mnemonic_scheme = pget_or kt ''mnemonic_scheme'' (PStr []),
            kt_signing_flow = pget_or kt ''signing_flow'' (PStr []),
            kt_cosigner_component_key_type = pget_or kt ''cosigner_component_key_type'' (PStr []),
            kt_per_key_contract = pget_or kt ''per_key_contract'' (PBool False),
            kt_bounded_authorization = bounded, kt_creation_params = creation_params, kt_runtime_args = runtime_args\<rparr>))))"

definition list_key_types :: "'w env \<Rightarrow> nat \<Rightarrow> ('w, key_type_info list) client_action" where
  "list_key_types E c =
     abind (get_client c) (\<lambda>cl.
     abind (acatch is_request_exception failed_to_connect
              (http E c ''GET'' ''/keytypes'' PNone (timeout_for cl INVENTORY_TIMEOUT))) (\<lambda>r.
     araise_if (rs_status r = 401) not_authenticated (
     if rs_status r \<noteq> 200 then
       alift (raise_built (signer_http_error r (''Failed to list key types: HTTP '' @ show_int (rs_status r)))) else
     abind (alift (resp_json r)) (\<lambda>data.
       alift (rbind (rbind (py_get_or data ''key_types'' (PList [])) py_iter) (rmap parse_key_type))))))"

lemma issues_list_key_types: "issues (to_path c {''/keytypes''}) (list_key_types E c)"
  unfolding list_key_types_def by (intro issues_intros) (simp add: to_path_def)

section \<open>The documents a signer sends\<close>

text \<open>A field that is left out when it has the value the reader takes for an absent one.\<close>

definition omit :: "string \<Rightarrow> pyval \<Rightarrow> pyval \<Rightarrow> (string \<times> pyval) list" where
  "omit k d v = (if v = d then [] else [(k, v)])"

lemma map_of_omit [simp]:
  "map_of (omit k d v) k' = (if k' = k \<and> v \<noteq> d then Some v else None)"
  "map_of (omit k d v @ kvs) k' = (if k' = k \<and> v \<noteq> d then Some v else map_of kvs k')"
  by (auto simp: omit_def)

declare map_of_append [simp del]

lemma case_omit [simp]:
  "(case if v \<noteq> d then Some v else None of None \<Rightarrow> d | Some y \<Rightarrow> y) = v"
  "(case if v = d then None else Some v of None \<Rightarrow> d | Some y \<Rightarrow> y) = v"
  by simp_all

fun optional_doc :: "('a \<Rightarrow> pyval) \<Rightarrow> 'a option \<Rightarrow> pyval" where
  "optional_doc f None = PNone"
| "optional_doc f (Some x) = f x"

definition list_doc :: "('a \<Rightarrow> pyval) \<Rightarrow> 'a list \<Rightarrow> pyval" where
  "list_doc f xs = PList (map f xs)"

definition runtime_arg_doc :: "runtime_arg \<Rightarrow> pyval" where
  "runtime_arg_doc a = pobj ([(''name'', ra_name a)] @ omit ''type'' (PStr ''bytes'') (ra_arg_type a)
     @ omit ''description'' (PStr []) (ra_description a) @ omit ''label'' (PStr []) (ra_label a)
     @ omit ''required'' (PBool False) (ra_required a) @ omit ''byte_length'' (PInt 0) (ra_byte_length a)
     @ omit ''max_size'' (PInt 0) (ra_max_size a))"

definition admin_operation_doc :: "bounded_admin_operation \<Rightarrow> pyval" where
  "admin_operation_doc oper = pobj (omit ''kind'' (PStr []) (ao_kind oper)
     @ omit ''authorization'' (PStr []) (ao_authorization oper) @ omit ''policy_gate'' (PStr []) (ao_policy_gate oper))"

definition derived_arg_doc :: "bounded_derived_arg \<Rightarrow> pyval" where
  "derived_arg_doc a = pobj (omit ''name'' (PStr []) (da_name a) @ omit ''kind'' (PStr []) (da_kind a)
     @ omit ''parameter'' (PStr []) (da_parameter a) @ omit ''max_size'' (PInt 0) (da_max_size a))"

definition argument_slot_doc :: "bounded_argument_slot \<Rightarrow> pyval" where
  "argument_slot_doc a = pobj (omit ''index'' (PInt 0) (as_index a) @ omit ''name'' (PStr []) (as_name a)
     @ omit ''source'' (PStr []) (as_source a) @ omit ''max_size'' (PInt 0) (as_max_size a)
     @ [(''paths'', pobj (omit ''spend'' (PStr []) (pm_spend (as_paths a))
          @ omit ''spending_rekey'' (PStr []) (pm_spending_rekey (as_paths a))
          @ omit ''admin_rekey'' (PStr []) (pm_admin_rekey (as_paths a))))])"

definition cosigner_doc :: "bounded_cosigner \<Rightarrow> pyval" where
  "cosigner_doc a = pobj (omit ''contract'' (PStr []) (bc_contract a) @ omit ''component_key_type'' (PStr []) (bc_component_key_type a)
     @ omit ''public_key_hex'' (PStr []) (bc_public_key_hex a) @ omit ''component_key_id'' (PStr []) (bc_component_key_id a)
     @ omit ''signature_max_size'' (PInt 0) (bc_signature_max_size a) @ omit ''required_on'' (PList []) (PList (bc_required_on a)))"

definition layout_doc :: "bounded_signature_arg_layout \<Rightarrow> pyval" where
  "layout_doc l = pobj (omit ''count'' (PInt 0) (sl_count l) @ omit ''max_sizes'' (PList []) (PList (sl_max_sizes l)))"

definition bounded_doc :: "bounded_authorization \<Rightarrow> pyval" where
  "bounded_doc b = pobj ([(''max_fee'', PInt (ba_max_fee b))] @ omit ''contract'' (PStr []) (ba_contract b)
     @ [(''base_signature_arg_layout'', layout_doc (ba_base_signature_arg_layout b))]
     @ omit ''spend_effects'' (PList []) (PList (ba_spend_effects b))
     @ omit ''admin_operations'' (PList []) (list_doc admin_operation_doc (ba_admin_operations b))
     @ omit ''runtime_args'' (PList []) (list_doc runtime_arg_doc (ba_runtime_args b))
     @ omit ''derived_args'' (PList []) (list_doc derived_arg_doc (ba_derived_args b))
     @ omit ''argument_layout'' (PList []) (list_doc argument_slot_doc (ba_argument_layout b))
     @ omit ''layer3_policy'' (PStr []) (ba_layer3_policy b) @ omit ''cosigner'' PNone (optional_doc cosigner_doc (ba_cosigner b))
     @ omit ''admin_key_id'' (PStr []) (ba_admin_key_id b) @ omit ''program_binding'' (PStr []) (ba_program_binding b))"

definition usage_doc :: "lsig_usage \<Rightarrow> pyval" where
  "usage_doc u = pobj (omit ''program_bytes'' (PInt 0) (program_bytes u) @ omit ''argument_bytes'' (PInt 0) (argument_bytes u)
     @ omit ''max_opcode_cost'' (PInt 0) (max_opcode_cost u))"

definition profile_doc :: "lsig_profile \<Rightarrow> pyval" where
  "profile_doc p = pobj (omit ''default'' PNone (optional_doc usage_doc (lp_default p))
     @ omit ''spend'' PNone (optional_doc usage_doc (lp_spend p))
     @ omit ''spending_rekey'' PNone (optional_doc usage_doc (lp_spending_rekey p))
     @ omit ''admin_rekey'' PNone (optional_doc usage_doc (lp_admin_rekey p)))"

definition key_info_doc :: "key_info \<Rightarrow> pyval" where
  "key_info_doc k = pobj ([(''address'', ki_address k), (''key_type'', ki_key_type k)]
     @ omit ''public_key_hex'' (PStr []) (ki_public_key_hex k) @ omit ''authorization_kind'' (PStr []) (ki_authorization_kind k)
     @ omit ''signing_flow'' (PStr []) (ki_signing_flow k)
     @ omit ''cosigner_component_key_type'' (PStr []) (ki_cosigner_component_key_type k)
     @ omit ''logic_sig_resources'' PNone (optional_doc profile_doc (ki_logic_sig_resources k))
     @ omit ''is_generic_lsig'' (PBool False) (ki_is_generic_lsig k) @ omit ''is_witness_key'' (PBool False) (ki_is_witness_key k)
     @ omit ''bounded_authorization'' PNone (optional_doc bounded_doc (ki_bounded_authorization k))
     @ omit ''is_spending_account'' PNone (ki_is_spending_account k)
     @ omit ''signing_args'' PNone (optional_doc (list_doc runtime_arg_doc) (ki_signing_args k))
     @ omit ''parameters'' PNone (ki_parameters k)
     @ omit ''template_provenance_status'' (PStr []) (ki_template_provenance_status k)
     @ omit ''template_provenance_note'' (PStr []) (ki_template_provenance_note k))"

definition input_mode_doc :: "input_mode \<Rightarrow> pyval" where
  "input_mode_doc m = pobj ([(''name'', im_name m)] @ omit ''label'' (PStr []) (im_label m)
     @ omit ''transform'' (PStr []) (im_transform m) @ omit ''byte_length'' (PInt 0) (im_byte_length m)
     @ omit ''input_type'' (PStr []) (im_input_type m))"

definition creation_param_doc :: "creation_param \<Rightarrow> pyval" where
  "creation_param_doc p = pobj ([(''name'', cp_name p)] @ omit ''label'' (PStr []) (cp_label p)
     @ omit ''description'' (PStr []) (cp_description p) @ omit ''type'' (PStr []) (cp_param_type p)
     @ omit ''required'' (PBool False) (cp_required p) @ omit ''max_length'' (PInt 0) (cp_max_length p)
     @ omit ''input_modes'' (PList []) (case cp_input_modes p of None \<Rightarrow> PList [] | Some ms \<Rightarrow> list_doc input_mode_doc ms)
     @ omit ''min_items'' (PInt 0) (cp_min_items p) @ omit ''max_items'' (PInt 0) (cp_max_items p)
     @ omit ''options'' PNone (cp_options p) @ omit ''min'' PNone (cp_min p) @ omit ''max'' PNone (cp_max p)
     @ omit ''example'' (PStr []) (cp_example p) @ omit ''placeholder'' (PStr []) (cp_placeholder p)
     @ omit ''default'' (PStr []) (cp_default p))"

definition key_type_doc :: "key_type_info \<Rightarrow> pyval" where
  "key_type_doc t = pobj ([(''key_type'', kt_key_type t)] @ omit ''family'' (PStr []) (kt_family t)
     @ omit ''display_name'' (PStr []) (kt_display_name t) @ omit ''description'' (PStr []) (kt_description t)
     @ omit ''authorization_kind'' (PStr []) (kt_authorization_kind t) @ omit ''requires_logicsig'' (PBool False) (kt_requires_logicsig t)
     @ omit ''mnemonic_word_count'' (PInt 0) (kt_mnemonic_word_count t) @ omit ''mnemonic_import'' (PBool False) (kt_mnemonic_import t)
     @ omit ''mnemonic_scheme'' (PStr []) (kt_mnemonic_scheme t) @ omit ''signing_flow'' (PStr []) (kt_signing_flow t)
     @ omit ''cosigner_component_key_type'' (PStr []) (kt_cosigner_component_key_type t)
     @ omit ''per_key_contract'' (PBool False) (kt_per_key_contract t)
     @ omit ''bounded_authorization'' PNone (optional_doc bounded_doc (kt_bounded_authorization t))
     @ omit ''creation_params'' PNone (optional_doc (list_doc creation_param_doc) (kt_creation_params t))
     @ omit ''runtime_args'' PNone (optional_doc (list_doc runtime_arg_doc) (kt_runtime_args t)))"

section \<open>Objects with a wire form\<close>

text \<open>
  What the readers can produce at all: resource numbers are integers, a fee limit is not negative, and
  an empty optional list is \<^verbatim>\<open>None\<close>.
\<close>

fun int_value :: "pyval \<Rightarrow> bool" where
  "int_value (PInt i) = True"
| "int_value _ = False"

definition usage_readable :: "lsig_usage \<Rightarrow> bool" where
  "usage_readable u \<longleftrightarrow> int_value (program_bytes u) \<and> int_value (argument_bytes u) \<and> int_value (max_opcode_cost u)"

definition profile_readable :: "lsig_profile \<Rightarrow> bool" where
  "profile_readable p \<longleftrightarrow> pred_option usage_readable (lp_default p) \<and> pred_option usage_readable (lp_spend p) \<and>
     pred_option usage_readable (lp_spending_rekey p) \<and> pred_option usage_readable (lp_admin_rekey p)"

definition key_readable :: "key_info \<Rightarrow> bool" where
  "key_readable k \<longleftrightarrow> is_str (ki_address k) \<and> pred_option profile_readable (ki_logic_sig_resources k) \<and>
     pred_option (\<lambda>b. 0 \<le> ba_max_fee b) (ki_bounded_authorization k) \<and> ki_signing_args k \<noteq> Some []"

definition key_type_readable :: "key_type_info \<Rightarrow> bool" where
  "key_type_readable t \<longleftrightarrow> pred_option (\<lambda>b. 0 \<le> ba_max_fee b) (kt_bounded_authorization t) \<and>
     kt_creation_params t \<noteq> Some [] \<and> kt_runtime_args t \<noteq> Some [] \<and>
     pred_option (list_all (\<lambda>p. cp_input_modes p \<noteq> Some [])) (kt_creation_params t)"

section \<open>Reading back\<close>

named_theorems reads \<open>a reader applied to the document of an object returns the object\<close>

lemma list_doc_simps [simp]:
  "list_doc f xs = PList [] \<longleftrightarrow> xs = []" "list_doc f xs = PNone \<longleftrightarrow> False"
  "truthy (list_doc f xs) \<longleftrightarrow> xs \<noteq> []" "py_iter (list_doc f xs) = Inr (map f xs)" "list_doc f [] = PList []"
  by (simp_all add: list_doc_def)

lemma read_values [simp]: "py_iter (py_or (PList xs) (PList [])) = Inr xs" "py_iter (py_or (list_doc f xs) (PList [])) = Inr (map f xs)"
  by (cases xs; simp add: list_doc_def)+

lemma py_or_pobj [simp]: "py_or (pobj kvs) (PDict []) = pobj kvs"
  by (cases kvs) (simp_all add: py_or_def pobj_def)

lemma list_field_pobj: "list_field (pobj kvs) k = py_iter (py_or (case map_of kvs k of None \<Rightarrow> PNone | Some v \<Rightarrow> v) (PList []))"
  by (simp add: list_field_def)

lemma py_or_omitted [simp]:
  "py_or (case if v \<noteq> PList [] then Some v else None of None \<Rightarrow> PNone | Some y \<Rightarrow> y) (PList []) = py_or v (PList [])"
  by simp

lemma rmap_docs [reads]: "(\<And>x. x \<in> set xs \<Longrightarrow> g (f x) = Inr x) \<Longrightarrow> rmap g (map f xs) = Inr xs"
  by (induction xs) simp_all

lemma read_runtime_arg [reads]:
  "parse_signing_arg (runtime_arg_doc a) = Inr a" "parse_bounded_runtime_arg (runtime_arg_doc a) = Inr a"
  by (simp_all add: parse_signing_arg_def parse_bounded_runtime_arg_def parse_runtime_arg_def runtime_arg_doc_def)

lemma read_admin_operation [reads]: "parse_admin_operation (admin_operation_doc oper) = Inr oper"
  by (simp add: parse_admin_operation_def admin_operation_doc_def)

lemma read_derived_arg [reads]: "parse_derived_arg (derived_arg_doc a) = Inr a"
  by (simp add: parse_derived_arg_def derived_arg_doc_def)

lemma read_argument_slot [reads]: "parse_argument_slot (argument_slot_doc a) = Inr a"
  by (simp add: parse_argument_slot_def argument_slot_doc_def Let_def)

lemma read_cosigner [reads]: "parse_bounded_cosigner (cosigner_doc a) = Inr (Some a)"
  by (simp add: parse_bounded_cosigner_def cosigner_doc_def list_field_pobj)

lemma optional_doc_PNone: "(\<And>x. f x \<noteq> PNone) \<Longrightarrow> optional_doc f x = PNone \<longleftrightarrow> x = None"
  by (cases x) simp_all

lemma pobj_not_PNone [simp]: "pobj kvs \<noteq> PNone"
  by (simp add: pobj_def)

lemma read_optional:
  assumes "\<And>x. f x \<noteq> PNone" and "\<And>x. x' = Some x \<Longrightarrow> g (f x) = Inr (Some x)" and "g PNone = Inr None"
  shows "g (optional_doc f x') = Inr x'"
  using assms by (cases x') simp_all

lemma read_optional_cosigner [reads]: "parse_bounded_cosigner (optional_doc cosigner_doc c) = Inr c"
  by (rule read_optional) (simp add: cosigner_doc_def, simp add: reads, simp add: parse_bounded_cosigner_def)

lemma read_layout [reads]:
  "py_get_or (layout_doc l) ''count'' (PInt 0) = Inr (sl_count l)" "list_field (layout_doc l) ''max_sizes'' = Inr (sl_max_sizes l)"
  "py_or (layout_doc l) (PDict []) = layout_doc l"
  by (simp_all add: layout_doc_def list_field_pobj)

lemma dict_cases_pobj: "(case pobj kvs of PDict ys \<Rightarrow> f ys | _ \<Rightarrow> d) = f (map (\<lambda>(k, v). (PStr k, v)) kvs)"
  by (simp add: pobj_def)

lemma list_field_doc:
  assumes "map_of kvs k = (if xs \<noteq> [] then Some (list_doc f xs) else None)"
  shows "list_field (pobj kvs) k = Inr (map f xs)"
  using assms by (cases xs) (simp_all add: list_field_def list_doc_def)

lemma bounded_lists [reads]:
  "list_field (bounded_doc b) ''admin_operations'' = Inr (map admin_operation_doc (ba_admin_operations b))"
  "list_field (bounded_doc b) ''runtime_args'' = Inr (map runtime_arg_doc (ba_runtime_args b))"
  "list_field (bounded_doc b) ''derived_args'' = Inr (map derived_arg_doc (ba_derived_args b))"
  "list_field (bounded_doc b) ''argument_layout'' = Inr (map argument_slot_doc (ba_argument_layout b))"
  "list_field (bounded_doc b) ''spend_effects'' = Inr (ba_spend_effects b)"
  unfolding bounded_doc_def by (rule list_field_doc, simp)+ (simp add: list_field_pobj)

lemma bounded_fields [reads]:
  "pget (bounded_doc b) ''base_signature_arg_layout'' = layout_doc (ba_base_signature_arg_layout b)"
  "pget (bounded_doc b) ''cosigner'' = optional_doc cosigner_doc (ba_cosigner b)"
  "pget_or (bounded_doc b) ''contract'' (PStr []) = ba_contract b"
  "pget_or (bounded_doc b) ''layer3_policy'' (PStr []) = ba_layer3_policy b"
  "pget_or (bounded_doc b) ''admin_key_id'' (PStr []) = ba_admin_key_id b"
  "pget_or (bounded_doc b) ''program_binding'' (PStr []) = ba_program_binding b"
  by (simp_all add: bounded_doc_def)

lemma bounded_doc_cases:
  "\<exists>kvs. bounded_doc b = PDict kvs \<and> dict_lookup kvs ''max_fee'' = Some (PInt (ba_max_fee b))"
  by (simp add: bounded_doc_def pobj_def)

lemma read_bounded: "0 \<le> ba_max_fee b \<Longrightarrow> parse_bounded_authorization (bounded_doc b) = Inr (Some b)"
proof -
  assume fee: "0 \<le> ba_max_fee b"
  obtain kvs where doc: "bounded_doc b = PDict kvs" "dict_lookup kvs ''max_fee'' = Some (PInt (ba_max_fee b))"
    using bounded_doc_cases by blast
  show ?thesis
    using fee bounded_lists [of b, unfolded doc(1)] bounded_fields [of b, unfolded doc(1)] unfolding parse_bounded_authorization_def doc(1)
    by (simp add: doc(2) Let_def reads)
qed

lemma read_optional_bounded [reads]:
  "pred_option (\<lambda>b. 0 \<le> ba_max_fee b) x \<Longrightarrow> parse_bounded_authorization (optional_doc bounded_doc x) = Inr x"
  by (rule read_optional) (simp add: bounded_doc_def, simp add: read_bounded, simp add: parse_bounded_authorization_def)

lemma int_value_cases: "int_value v \<Longrightarrow> \<exists>i. v = PInt i"
  by (cases v) simp_all

lemma read_usage: "usage_readable u \<Longrightarrow> parse_lsig_resource_usage (usage_doc u) = Inr (Some u)"
  by (cases u) (auto simp: usage_readable_def parse_lsig_resource_usage_def usage_doc_def dest!: int_value_cases)

lemma read_optional_usage: "pred_option usage_readable x \<Longrightarrow> parse_lsig_resource_usage (optional_doc usage_doc x) = Inr x"
  by (rule read_optional) (simp add: usage_doc_def, simp add: read_usage, simp add: parse_lsig_resource_usage_def)

lemma profile_fields:
  "py_get (profile_doc p) ''default'' = Inr (optional_doc usage_doc (lp_default p))"
  "py_get (profile_doc p) ''spend'' = Inr (optional_doc usage_doc (lp_spend p))"
  "py_get (profile_doc p) ''spending_rekey'' = Inr (optional_doc usage_doc (lp_spending_rekey p))"
  "py_get (profile_doc p) ''admin_rekey'' = Inr (optional_doc usage_doc (lp_admin_rekey p))"
  "is_dict (profile_doc p)"
  by (simp_all add: profile_doc_def)

lemma read_profile: "profile_readable p \<Longrightarrow> parse_lsig_resource_profile (profile_doc p) = Inr (Some p)"
  by (simp add: profile_readable_def parse_lsig_resource_profile_def profile_fields read_optional_usage del: py_get_dict)

lemma read_optional_profile [reads]: "pred_option profile_readable x \<Longrightarrow> parse_lsig_resource_profile (optional_doc profile_doc x) = Inr x"
  by (rule read_optional) (simp add: profile_doc_def, simp add: read_profile, simp add: parse_lsig_resource_profile_def)

lemma read_items [reads]:
  assumes "py_get doc k = Inr (optional_doc (list_doc f) x)" and "x \<noteq> Some []" and "\<And>xs y. x = Some xs \<Longrightarrow> y \<in> set xs \<Longrightarrow> g (f y) = Inr y"
  shows "optional_items g doc k = Inr x"
  using assms by (cases x) (simp_all add: optional_items_def reads)

lemma parse_key_info_items:
  "parse_key_info k = rbind (optional_items parse_signing_arg k ''signing_args'') (\<lambda>signing_args.
     rbind (py_item k ''address'') (\<lambda>address.
     rbind (py_item k ''key_type'') (\<lambda>key_type.
     rbind (parse_lsig_resource_profile (pget k ''logic_sig_resources'')) (\<lambda>profile.
     rbind (parse_bounded_authorization (pget k ''bounded_authorization'')) (\<lambda>bounded.
       Inr \<lparr>ki_address = address, ki_key_type = key_type,
            ki_public_key_hex = pget_or k ''public_key_hex'' (PStr []),
            ki_authorization_kind = pget_or k ''authorization_kind'' (PStr []),
            ki_signing_flow = pget_or k ''signing_flow'' (PStr []),
            ki_cosigner_component_key_type = pget_or k ''cosigner_component_key_type'' (PStr []),
            ki_logic_sig_resources = profile,
            ki_is_generic_lsig = pget_or k ''is_generic_lsig'' (PBool False),
            ki_is_witness_key = pget_or k ''is_witness_key'' (PBool False),
            ki_bounded_authorization = bounded,
            ki_is_spending_account = pget k ''is_spending_account'',
            ki_signing_args = signing_args,
            ki_parameters = pget k ''parameters'',
            ki_template_provenance_status = pget_or k ''template_provenance_status'' (PStr []),
            ki_template_provenance_note = pget_or k ''template_provenance_note'' (PStr [])\<rparr>)))))"
  by (simp add: parse_key_info_def optional_items_def rbind_assoc)

lemma key_info_fields:
  "py_get (key_info_doc k) ''signing_args'' = Inr (optional_doc (list_doc runtime_arg_doc) (ki_signing_args k))"
  "py_item (key_info_doc k) ''address'' = Inr (ki_address k)"
  "py_item (key_info_doc k) ''key_type'' = Inr (ki_key_type k)"
  "pget (key_info_doc k) ''logic_sig_resources'' = optional_doc profile_doc (ki_logic_sig_resources k)"
  "pget (key_info_doc k) ''bounded_authorization'' = optional_doc bounded_doc (ki_bounded_authorization k)"
  "pget_or (key_info_doc k) ''public_key_hex'' (PStr []) = ki_public_key_hex k"
  "pget_or (key_info_doc k) ''authorization_kind'' (PStr []) = ki_authorization_kind k"
  "pget_or (key_info_doc k) ''signing_flow'' (PStr []) = ki_signing_flow k"
  "pget_or (key_info_doc k) ''cosigner_component_key_type'' (PStr []) = ki_cosigner_component_key_type k"
  "pget_or (key_info_doc k) ''is_generic_lsig'' (PBool False) = ki_is_generic_lsig k"
  "pget_or (key_info_doc k) ''is_witness_key'' (PBool False) = ki_is_witness_key k"
  "pget (key_info_doc k) ''is_spending_account'' = ki_is_spending_account k"
  "pget (key_info_doc k) ''parameters'' = ki_parameters k"
  "pget_or (key_info_doc k) ''template_provenance_status'' (PStr []) = ki_template_provenance_status k"
  "pget_or (key_info_doc k) ''template_provenance_note'' (PStr []) = ki_template_provenance_note k"
  by (simp_all add: key_info_doc_def)

lemma read_key_info: "key_readable k \<Longrightarrow> parse_key_info (key_info_doc k) = Inr k"
  by (simp add: parse_key_info_items key_info_fields key_readable_def reads read_items [where f = runtime_arg_doc and x = "ki_signing_args k"])

lemma read_input_mode: "parse_input_mode (input_mode_doc m) = Inr m"
  by (simp add: parse_input_mode_def input_mode_doc_def)

lemma read_creation_param:
  assumes "cp_input_modes p \<noteq> Some []"
  shows "parse_creation_param (creation_param_doc p) = Inr p"
proof -
  let ?ms = "case cp_input_modes p of None \<Rightarrow> [] | Some ms \<Rightarrow> ms"
  have modes: "(case cp_input_modes p of None \<Rightarrow> PList [] | Some ms \<Rightarrow> list_doc input_mode_doc ms) = list_doc input_mode_doc ?ms"
    by (cases "cp_input_modes p") simp_all
  have "py_iter (pget_or (creation_param_doc p) ''input_modes'' (PList [])) = Inr (map input_mode_doc ?ms)"
    unfolding creation_param_doc_def modes by simp
  moreover have "list_or_none ?ms = cp_input_modes p"
    using assms by (cases "cp_input_modes p") (simp_all add: list_or_none_def)
  moreover have "rmap parse_input_mode (map input_mode_doc ?ms) = Inr ?ms" by (rule rmap_docs) (rule read_input_mode)
  ultimately show ?thesis by (simp add: parse_creation_param_def) (simp add: creation_param_doc_def)
qed

lemma key_type_fields:
  "py_get (key_type_doc t) ''creation_params'' = Inr (optional_doc (list_doc creation_param_doc) (kt_creation_params t))"
  "py_get (key_type_doc t) ''runtime_args'' = Inr (optional_doc (list_doc runtime_arg_doc) (kt_runtime_args t))"
  "py_item (key_type_doc t) ''key_type'' = Inr (kt_key_type t)"
  "pget (key_type_doc t) ''bounded_authorization'' = optional_doc bounded_doc (kt_bounded_authorization t)"
  "pget_or (key_type_doc t) ''family'' (PStr []) = kt_family t"
  "pget_or (key_type_doc t) ''display_name'' (PStr []) = kt_display_name t"
  "pget_or (key_type_doc t) ''description'' (PStr []) = kt_description t"
  "pget_or (key_type_doc t) ''authorization_kind'' (PStr []) = kt_authorization_kind t"
  "pget_or (key_type_doc t) ''requires_logicsig'' (PBool False) = kt_requires_logicsig t"
  "pget_or (key_type_doc t) ''mnemonic_word_count'' (PInt 0) = kt_mnemonic_word_count t"
  "pget_or (key_type_doc t) ''mnemonic_import'' (PBool False) = kt_mnemonic_import t"
  "pget_or (key_type_doc t) ''mnemonic_scheme'' (PStr []) = kt_mnemonic_scheme t"
  "pget_or (key_type_doc t) ''signing_flow'' (PStr []) = kt_signing_flow t"
  "pget_or (key_type_doc t) ''cosigner_component_key_type'' (PStr []) = kt_cosigner_component_key_type t"
  "pget_or (key_type_doc t) ''per_key_contract'' (PBool False) = kt_per_key_contract t"
  by (simp_all add: key_type_doc_def)

lemma read_key_type:
  assumes "key_type_readable t"
  shows "parse_key_type (key_type_doc t) = Inr t"
proof -
  have "optional_items parse_creation_param (key_type_doc t) ''creation_params'' = Inr (kt_creation_params t)"
  proof (rule read_items [where f = creation_param_doc])
    show "kt_creation_params t \<noteq> Some []" using assms by (simp add: key_type_readable_def)
    fix xs y assume "kt_creation_params t = Some xs" "y \<in> set xs"
    with assms show "parse_creation_param (creation_param_doc y) = Inr y"
      by (intro read_creation_param) (auto simp: key_type_readable_def list_all_iff)
  qed (rule key_type_fields)
  moreover have "optional_items parse_signing_arg (key_type_doc t) ''runtime_args'' = Inr (kt_runtime_args t)"
    using assms by (intro read_items [where f = runtime_arg_doc]) (simp_all add: key_type_readable_def key_type_fields reads)
  ultimately show ?thesis
    using assms by (simp add: parse_key_type_def key_type_fields key_type_readable_def reads)
qed

lemma update_new: "k \<notin> set (map fst kc) \<Longrightarrow> AList.update k v kc = kc @ [(k, v)]"
  by (induction kc) auto

lemma list_keys_step_doc:
  assumes "key_readable k" and "ki_address k \<notin> set (map fst (key_cache (st_clients s c)))"
  shows "list_keys_step c (key_info_doc k) acc s =
    (Inr (acc @ [k]), s\<lparr>st_clients := (st_clients s)(c := (st_clients s c)\<lparr>key_cache := key_cache (st_clients s c) @ [(ki_address k, k)]\<rparr>)\<rparr>)"
proof -
  have "hashable (ki_address k)" using assms(1) by (cases "ki_address k") (simp_all add: key_readable_def)
  with assms show ?thesis by (simp add: list_keys_step_def read_key_info update_new abind_def action_simps)
qed

lemma list_keys_docs:
  assumes "list_all key_readable ks" and "distinct (map ki_address ks)"
    and "\<forall>k \<in> set ks. ki_address k \<notin> set (map fst (key_cache (st_clients s c)))"
  shows "\<exists>t. afold (list_keys_step c) (map key_info_doc ks) acc s = (Inr (acc @ ks), t) \<and>
    key_cache (st_clients t c) = key_cache (st_clients s c) @ map (\<lambda>k. (ki_address k, k)) ks"
  using assms
proof (induction ks arbitrary: acc s)
  case Nil
  then show ?case by (simp add: action_simps)
next
  case (Cons k ks)
  let ?s = "s\<lparr>st_clients := (st_clients s)(c := (st_clients s c)\<lparr>key_cache := key_cache (st_clients s c) @ [(ki_address k, k)]\<rparr>)\<rparr>"
  have "list_keys_step c (key_info_doc k) acc s = (Inr (acc @ [k]), ?s)" using Cons.prems by (intro list_keys_step_doc) simp_all
  moreover have "\<exists>t. afold (list_keys_step c) (map key_info_doc ks) (acc @ [k]) ?s = (Inr ((acc @ [k]) @ ks), t) \<and>
    key_cache (st_clients t c) = key_cache (st_clients ?s c) @ map (\<lambda>k. (ki_address k, k)) ks"
    using Cons.prems by (intro Cons.IH) (auto simp: image_iff dest: sym)
  ultimately show ?case by (simp add: abind_run)
qed

lemma cached_key: "k \<in> set ks \<Longrightarrow> distinct (map ki_address ks) \<Longrightarrow> map_of (map (\<lambda>k. (ki_address k, k)) ks) (ki_address k) = Some k"
  by (induction ks) (auto simp: image_iff)

section \<open>Properties\<close>

text \<open>
  The catalogue arrives as it was sent. When the signer answers \<^verbatim>\<open>/keytypes\<close> with the documents
  of some key types, fields with default values left out, \<^verbatim>\<open>list_key_types\<close> returns exactly these key
  types, in order, having sent this one request and changed no client.
\<close>

theorem key_types_roundtrip:
  assumes "env_send E c (mk_request ''GET'' ''/keytypes'' PNone (timeout_for (st_clients s c) INVENTORY_TIMEOUT)) (st_world s)
      = (HttpReply (ok_reply (pobj [(''key_types'', list_doc key_type_doc ts)])), w)"
    and "list_all key_type_readable ts"
  shows "list_key_types E c s = (Inr ts,
     s\<lparr>st_world := w, st_trace := st_trace s @ [(c, mk_request ''GET'' ''/keytypes'' PNone (timeout_for (st_clients s c) INVENTORY_TIMEOUT))]\<rparr>)"
proof -
  have "rmap parse_key_type (map key_type_doc ts) = Inr ts"
    using assms(2) by (intro rmap_docs) (simp add: read_key_type list_all_iff)
  with assms(1) show ?thesis
    by (simp add: list_key_types_def abind_def action_simps acatch_def http_run ok_reply_def resp_json_def alift_def split del: if_split)
qed

text \<open>
  C36. The inventory arrives as it was sent. When the signer answers \<^verbatim>\<open>/keys\<close> with the documents of
  some keys with distinct addresses, a fresh \<^verbatim>\<open>list_keys\<close> returns exactly these keys, in order, and
  afterwards \<^verbatim>\<open>get_key_info\<close> finds each under its address without asking the signer again.
\<close>

theorem inventory_roundtrip:
  assumes "env_send E c (mk_request ''GET'' ''/keys'' PNone (timeout_for (st_clients s c) INVENTORY_TIMEOUT)) (st_world s)
      = (HttpReply (ok_reply (pobj [(''keys'', list_doc key_info_doc ks)])), w)"
    and "list_all key_readable ks" and "distinct (map ki_address ks)"
  shows "\<exists>t. list_keys E c True s = (Inr ks, t) \<and>
    (\<forall>k a. k \<in> set ks \<and> ki_address k = PStr a \<longrightarrow> get_key_info E c a t = (Inr (Some k), t))"
proof -
  define s1 where "s1 = s\<lparr>st_world := w, st_trace := st_trace s @ [(c, mk_request ''GET'' ''/keys'' PNone (timeout_for (st_clients s c) INVENTORY_TIMEOUT))],
    st_clients := (st_clients s)(c := clear_key_cache (st_clients s c))\<rparr>"
  have "list_keys E c True s = afold (list_keys_step c) (map key_info_doc ks) [] s1"
    using assms(1) by (simp add: list_keys_def abind_def action_simps acatch_def http_run ok_reply_def resp_json_def s1_def split del: if_split)
  moreover have "key_cache (st_clients s1 c) = []" by (simp add: s1_def clear_key_cache_def)
  ultimately obtain t where run: "list_keys E c True s = (Inr ks, t)"
    and cache: "key_cache (st_clients t c) = map (\<lambda>k. (ki_address k, k)) ks"
    using list_keys_docs [OF assms(2,3), of s1 c "[]"] by auto
  have "get_key_info E c a t = (Inr (Some k), t)" if "k \<in> set ks" "ki_address k = PStr a" for k a
    using cached_key [OF that(1) assms(3)] that(2) cache by (simp add: get_key_info_def abind_def action_simps)
  with run show ?thesis by blast
qed

section \<open>Witnesses\<close>

definition sample_key :: key_info where
  "sample_key = \<lparr>ki_address = PStr ''ADDR'', ki_key_type = PStr ''ed25519'', ki_public_key_hex = PStr [], ki_authorization_kind = PStr [],
     ki_signing_flow = PStr [], ki_cosigner_component_key_type = PStr [], ki_logic_sig_resources = None, ki_is_generic_lsig = PBool False,
     ki_is_witness_key = PBool True, ki_bounded_authorization = None, ki_is_spending_account = PNone, ki_signing_args = None,
     ki_parameters = PNone, ki_template_provenance_status = PStr [], ki_template_provenance_note = PStr []\<rparr>"

definition sample_key_type :: key_type_info where
  "sample_key_type = \<lparr>kt_key_type = PStr ''ed25519'', kt_family = PStr ''native'', kt_display_name = PStr [], kt_description = PStr [],
     kt_authorization_kind = PStr [], kt_requires_logicsig = PBool False, kt_mnemonic_word_count = PInt 25, kt_mnemonic_import = PBool True,
     kt_mnemonic_scheme = PStr [], kt_signing_flow = PStr [], kt_cosigner_component_key_type = PStr [], kt_per_key_contract = PBool False,
     kt_bounded_authorization = None, kt_creation_params = None,
     kt_runtime_args = Some [\<lparr>ra_name = PStr ''x'', ra_arg_type = PStr ''bytes'', ra_description = PStr [], ra_label = PStr [],
       ra_required = PBool False, ra_byte_length = PInt 32, ra_max_size = PInt 0\<rparr>]\<rparr>"

definition sample_wire_env :: "unit env" where
  "sample_wire_env = scripted_env [(''/keys'', ok_reply (pobj [(''keys'', list_doc key_info_doc [sample_key])])),
     (''/keytypes'', ok_reply (pobj [(''key_types'', list_doc key_type_doc [sample_key_type])]))]"

theorem key_types_roundtrip_witness:
  "list_key_types sample_wire_env 0 (initial_state sample_client) = (Inr [sample_key_type],
     (initial_state sample_client)\<lparr>st_trace := [(0, mk_request ''GET'' ''/keytypes'' PNone (timeout_for sample_client INVENTORY_TIMEOUT))]\<rparr>)"
  using key_types_roundtrip [of sample_wire_env 0 "initial_state sample_client" "[sample_key_type]" "()"]
  by (simp add: sample_wire_env_def scripted_defs key_type_readable_def sample_key_type_def)

theorem inventory_roundtrip_witness:
  "\<exists>t. list_keys sample_wire_env 0 True (initial_state sample_client) = (Inr [sample_key], t) \<and>
     get_key_info sample_wire_env 0 ''ADDR'' t = (Inr (Some sample_key), t)"
  using inventory_roundtrip [of sample_wire_env 0 "initial_state sample_client" "[sample_key]" "()"]
  by (auto simp: sample_wire_env_def scripted_defs key_readable_def sample_key_def)

end
