(* ===== verification/Abi_Calls.thy ===== *)
theory Abi_Calls
  imports Preparation "HOL-Library.Sublist"
begin

text \<open>
  ABI method calls: \<^verbatim>\<open>_encode_abi_method_args\<close> with the resolution of reference arguments into the
  foreign arrays of the transaction, and \<^verbatim>\<open>prepare_abi_app_call\<close>. What \<^verbatim>\<open>algosdk.abi\<close> and
  \<^verbatim>\<open>algosdk.encoding\<close> do (parsing signatures and types, encoding values, the address codec) is a
  parameter, \<open>abi_lib\<close>.
\<close>

section \<open>Values, types and methods\<close>

text \<open>An argument of a call: an ordinary value, a byte string, or the tuple the sources build themselves.\<close>

datatype abi_value = VPy pyval | VBytes bytes | VTuple "abi_value list"

text \<open>\<^verbatim>\<open>abi.Argument.type\<close> is the name of a transaction or reference type, or a parsed type.\<close>

datatype 't arg_type = TypeName string | TypeObject 't

record 't abi_method =
  m_args :: "'t arg_type list"
  m_selector :: bytes
  m_signature :: string

record 't abi_lib =
  abi_from_signature :: "string \<Rightarrow> 't abi_method result"
  abi_type_from_string :: "string \<Rightarrow> 't result"
  abi_type_str :: "'t \<Rightarrow> string"
  abi_encode :: "'t \<Rightarrow> abi_value \<Rightarrow> bytes result"
  decode_address :: "string \<Rightarrow> bytes result"
  encode_address :: "bytes \<Rightarrow> string result"

definition APP_CALL_MAX_APP_ARGS :: nat where "APP_CALL_MAX_APP_ARGS = 16"
definition APP_CALL_METHOD_ARGS_TUPLE_THRESHOLD :: nat where "APP_CALL_METHOD_ARGS_TUPLE_THRESHOLD = APP_CALL_MAX_APP_ARGS - 2"

definition transaction_types :: "string list" where
  "transaction_types = [''txn'', ''pay'', ''keyreg'', ''acfg'', ''axfer'', ''afrz'', ''appl'']"

definition reference_types :: "string list" where
  "reference_types = [''account'', ''application'', ''asset'']"

text \<open>\<^verbatim>\<open>int(value)\<close>: a byte string is read as ASCII digits, and only ASCII whitespace is stripped from it.\<close>

definition bytes_int :: "bytes \<Rightarrow> int result" where
  "bytes_int b = (if \<forall>ch \<in> set b. ord_of ch < 128 \<and> \<not> (28 \<le> ord_of ch \<and> ord_of ch \<le> 31) then py_int (PStr b)
     else Inl (value_error ''invalid literal for int() with base 10''))"

fun abi_int :: "abi_value \<Rightarrow> int result" where
  "abi_int (VPy v) = py_int v"
| "abi_int (VBytes b) = bytes_int b"
| "abi_int (VTuple vs) = Inl (Exc TypeError ''int() argument must be a string, a bytes-like object or a real number'' [])"

section \<open>Reference arguments\<close>

fun marshal_abi_address :: "'t abi_lib \<Rightarrow> abi_value \<Rightarrow> string result" where
  "marshal_abi_address L (VPy (PStr a)) = rbind (decode_address L a) (\<lambda>_. Inr a)"
| "marshal_abi_address L (VBytes b) = raise_if (length b \<noteq> 32) (value_error ''decoded value is not a 32-byte address'') (encode_address L b)"
| "marshal_abi_address L v = Inl (value_error ''account reference arguments must be Algorand addresses'')"

record ref_tables =
  rt_accounts :: "string list"
  rt_apps :: "int list"
  rt_assets :: "int list"

fun index_of :: "'a \<Rightarrow> 'a list \<Rightarrow> nat" where
  "index_of x [] = 0"
| "index_of x (y # ys) = (if x = y then 0 else Suc (index_of x ys))"

text \<open>The place of a value in a table; a value that is not there is appended.\<close>

definition place :: "'a \<Rightarrow> 'a list \<Rightarrow> nat \<times> 'a list" where
  "place x xs = (if x \<in> set xs then (index_of x xs, xs) else (length xs, xs @ [x]))"

text \<open>One round of the loop: the tables and the indexes resolved so far.\<close>

definition resolve_reference :: "'t abi_lib \<Rightarrow> string \<Rightarrow> int \<Rightarrow> string \<times> abi_value \<Rightarrow> ref_tables \<times> nat list \<Rightarrow> (ref_tables \<times> nat list) result" where
  "resolve_reference L sender app_id arg acc =
     (let (arg_type, v) = arg; (t, resolved) = acc in
      if arg_type = ''account'' then
        rbind (marshal_abi_address L v) (\<lambda>address.
          if address = sender then Inr (t, resolved @ [0])
          else let (i, xs) = place address (rt_accounts t) in Inr (t\<lparr>rt_accounts := xs\<rparr>, resolved @ [i + 1]))
      else if arg_type = ''application'' then
        rbind (abi_int v) (\<lambda>ref_app_id.
          if ref_app_id = app_id then Inr (t, resolved @ [0])
          else let (i, xs) = place ref_app_id (rt_apps t) in Inr (t\<lparr>rt_apps := xs\<rparr>, resolved @ [i + 1]))
      else if arg_type = ''asset'' then
        rbind (abi_int v) (\<lambda>asset_id.
          let (i, xs) = place asset_id (rt_assets t) in Inr (t\<lparr>rt_assets := xs\<rparr>, resolved @ [i]))
      else Inl (value_error (''unknown reference type: '' @ arg_type)))"

definition resolve_abi_reference_args :: "'t abi_lib \<Rightarrow> string \<Rightarrow> int \<Rightarrow> string list \<Rightarrow> abi_value list \<Rightarrow> ref_tables \<Rightarrow> (ref_tables \<times> nat list) result" where
  "resolve_abi_reference_args L sender app_id arg_types vs t = rfold (resolve_reference L sender app_id) (zip arg_types vs) (t, [])"

section \<open>Encoding a call\<close>

text \<open>
  The lists the first loop fills; \<open>ref_slots\<close> is the dictionary \<^verbatim>\<open>ref_arg_index_to_basic_arg_index\<close>,
  whose keys are 0, 1, 2, and so on.
\<close>

record 't abi_collected =
  basic_types :: "'t list"
  basic_values :: "abi_value list"
  ref_types :: "string list"
  ref_values :: "abi_value list"
  ref_slots :: "nat list"

definition collect_arg :: "'t abi_lib \<Rightarrow> 't arg_type \<times> abi_value \<Rightarrow> 't abi_collected \<Rightarrow> 't abi_collected result" where
  "collect_arg L arg a =
     (case arg of
        (TypeName n, v) \<Rightarrow>
          raise_if (n \<in> set transaction_types) (value_error ''ABI transaction arguments are not supported by prepare_abi_app_call'') (
          if n \<in> set reference_types then
            rbind (abi_type_from_string L ''uint8'') (\<lambda>t.
              Inr \<lparr>basic_types = basic_types a @ [t], basic_values = basic_values a @ [v], ref_types = ref_types a @ [n],
                   ref_values = ref_values a @ [v], ref_slots = ref_slots a @ [length (basic_types a)]\<rparr>)
          else rbind (abi_type_from_string L n) (\<lambda>t.
              Inr (a\<lparr>basic_types := basic_types a @ [t], basic_values := basic_values a @ [v]\<rparr>)))
      | (TypeObject t, v) \<Rightarrow> Inr (a\<lparr>basic_types := basic_types a @ [t], basic_values := basic_values a @ [v]\<rparr>))"

text \<open>\<^verbatim>\<open>basic_arg_values[ref_arg_index_to_basic_arg_index[ref_index]] = resolved\<close>\<close>

definition fill_reference :: "nat list \<Rightarrow> nat \<times> nat \<Rightarrow> abi_value list \<Rightarrow> abi_value list result" where
  "fill_reference slots r vs =
     raise_if (255 < snd r) (value_error (''ABI reference index '' @ show_nat (snd r) @ '' exceeds uint8''))
       (Inr (vs[slots ! fst r := VPy (PInt (int (snd r)))]))"

text \<open>A transaction takes 15 method arguments; from the 15th on, more are packed into one tuple.\<close>

definition pack_args :: "'t abi_lib \<Rightarrow> 't list \<Rightarrow> abi_value list \<Rightarrow> ('t \<times> abi_value) list result" where
  "pack_args L ts vs =
     (if APP_CALL_MAX_APP_ARGS - 1 < length vs then
        rbind (abi_type_from_string L (''('' @ join '','' (map (abi_type_str L) (drop APP_CALL_METHOD_ARGS_TUPLE_THRESHOLD ts)) @ '')'')) (\<lambda>t.
          Inr (zip (take APP_CALL_METHOD_ARGS_TUPLE_THRESHOLD ts @ [t])
                   (take APP_CALL_METHOD_ARGS_TUPLE_THRESHOLD vs @ [VTuple (drop APP_CALL_METHOD_ARGS_TUPLE_THRESHOLD vs)])))
      else Inr (zip ts vs))"

abbreviation or_empty :: "'a list option \<Rightarrow> 'a list" where
  "or_empty xs \<equiv> (case xs of None \<Rightarrow> [] | Some ys \<Rightarrow> ys)"

definition encode_abi_method_args :: "'t abi_lib \<Rightarrow> 't abi_method \<Rightarrow> abi_value list \<Rightarrow> string \<Rightarrow> int \<Rightarrow> string list option \<Rightarrow>
    int list option \<Rightarrow> int list option \<Rightarrow> (bytes list \<times> ref_tables) result" where
  "encode_abi_method_args L method args sender app_id accounts foreign_apps foreign_assets =
     raise_if (length args \<noteq> length (m_args method))
       (value_error (''incorrect number of ABI arguments: got '' @ show_nat (length args) @ '', want '' @ show_nat (length (m_args method)))) (
     rbind (rfold (collect_arg L) (zip (m_args method) args)
              \<lparr>basic_types = [], basic_values = [], ref_types = [], ref_values = [], ref_slots = []\<rparr>) (\<lambda>a.
     rbind (resolve_abi_reference_args L sender app_id (ref_types a) (ref_values a)
              \<lparr>rt_accounts = or_empty accounts, rt_apps = or_empty foreign_apps, rt_assets = or_empty foreign_assets\<rparr>) (\<lambda>(t, ref_indexes).
     rbind (rfold (fill_reference (ref_slots a)) (List.enumerate 0 ref_indexes) (basic_values a)) (\<lambda>vs.
     rbind (pack_args L (basic_types a) vs) (\<lambda>packed.
     rbind (rmap (\<lambda>(ty, v). abi_encode L ty v) packed) (\<lambda>encoded.
       Inr (m_selector method # encoded, t)))))))"

text \<open>
  \<open>a\<close> carries the arguments that are passed on unchanged; its \<open>ac_app_args\<close> is not one of them.
  \<open>args\<close>: an absent list is \<open>[]\<close>.
\<close>

definition prepare_abi_app_call :: "'w env \<Rightarrow> txn_builder \<Rightarrow> 't abi_lib \<Rightarrow> nat \<Rightarrow> 'w algod option \<Rightarrow> string \<Rightarrow> string \<Rightarrow> abi_value list \<Rightarrow>
    app_call_args \<Rightarrow> bytes option \<Rightarrow> int option \<Rightarrow> ('w, prepared_transaction) client_action" where
  "prepare_abi_app_call E B L c algod_client sender method_signature args a note fee =
     araise_if (method_signature = []) (value_error ''method_signature is required'') (
     abind (alift (abi_from_signature L method_signature)) (\<lambda>method.
     abind (alift (encode_abi_method_args L method args sender (ac_index a) (ac_accounts a) (ac_foreign_apps a) (ac_foreign_assets a))) (\<lambda>(app_args, t).
       prepare_app_call_with E B c algod_client sender
         (a\<lparr>ac_app_args := Some app_args, ac_accounts := Some (rt_accounts t), ac_foreign_apps := Some (rt_apps t),
            ac_foreign_assets := Some (rt_assets t)\<rparr>)
         note fee (pobj [(''mode'', PStr ''abi''), (''method'', PStr (m_signature method))]))))"

section \<open>What a reference index denotes\<close>

text \<open>
  The reading of the AVM: account 0 is the sender and application 0 the called one, the other indexes
  count from one into the foreign array; asset indexes count from zero.
\<close>

definition denotes :: "'t abi_lib \<Rightarrow> string \<Rightarrow> int \<Rightarrow> ref_tables \<Rightarrow> string \<Rightarrow> abi_value \<Rightarrow> nat \<Rightarrow> bool" where
  "denotes L sender app_id t ty v i \<longleftrightarrow>
     (if ty = ''account'' then \<exists>a. marshal_abi_address L v = Inr a \<and> i \<le> length (rt_accounts t) \<and> (sender # rt_accounts t) ! i = a
      else if ty = ''application'' then \<exists>n. abi_int v = Inr n \<and> i \<le> length (rt_apps t) \<and> (app_id # rt_apps t) ! i = n
      else ty = ''asset'' \<and> (\<exists>n. abi_int v = Inr n \<and> i < length (rt_assets t) \<and> rt_assets t ! i = n))"

text \<open>Tables only grow at the end, so an index keeps its meaning.\<close>

definition extends :: "ref_tables \<Rightarrow> ref_tables \<Rightarrow> bool" where
  "extends t u \<longleftrightarrow> prefix (rt_accounts t) (rt_accounts u) \<and> prefix (rt_apps t) (rt_apps u) \<and> prefix (rt_assets t) (rt_assets u)"

lemma extends_refl [simp]: "extends t t"
  by (simp add: extends_def)

lemma extends_trans: "extends t u \<Longrightarrow> extends u v \<Longrightarrow> extends t v"
  unfolding extends_def by (meson prefix_order.trans)

lemma prefix_nth: "prefix xs ys \<Longrightarrow> i < length xs \<Longrightarrow> ys ! i = xs ! i"
  by (auto simp: prefix_def nth_append)

lemma denotes_mono:
  assumes "denotes L sender app_id t ty v i" and "extends t u"
  shows "denotes L sender app_id u ty v i"
proof -
  have "prefix (sender # rt_accounts t) (sender # rt_accounts u)" "prefix (app_id # rt_apps t) (app_id # rt_apps u)"
    "prefix (rt_assets t) (rt_assets u)" using assms(2) by (simp_all add: extends_def)
  note p = this [THEN prefix_nth] this [THEN prefix_length_le]
  show ?thesis using assms(1) p unfolding denotes_def by (auto simp: less_Suc_eq_le split: if_splits)
qed

lemma index_of: "x \<in> set xs \<Longrightarrow> index_of x xs < length xs \<and> xs ! index_of x xs = x"
  by (induction xs) auto

lemma place: "place x xs = (i, ys) \<Longrightarrow> prefix xs ys \<and> i < length ys \<and> ys ! i = x \<and> (distinct xs \<longrightarrow> distinct ys)"
  using index_of [of x xs] by (auto simp: place_def split: if_splits)

lemma resolve_reference_denotes:
  assumes "resolve_reference L sender app_id (ty, v) (t, is) = Inr (u, js)"
  shows "\<exists>i. js = is @ [i] \<and> extends t u \<and> denotes L sender app_id u ty v i"
proof -
  have "ty \<in> {''account'', ''application'', ''asset''}"
    using assms by (auto simp: resolve_reference_def split: if_splits)
  then consider "ty = ''account''" | "ty = ''application''" | "ty = ''asset''" by blast
  then show ?thesis
  proof cases
    case 1
    from assms 1 obtain a where a: "marshal_abi_address L v = Inr a" and
      u: "(if a = sender then (t, is @ [0]) else (t\<lparr>rt_accounts := snd (place a (rt_accounts t))\<rparr>, is @ [fst (place a (rt_accounts t)) + 1])) = (u, js)"
      by (cases "marshal_abi_address L v") (simp_all add: resolve_reference_def Let_def case_prod_unfold split: if_splits)
    with 1 place [of a "rt_accounts t" "fst (place a (rt_accounts t))" "snd (place a (rt_accounts t))"] show ?thesis
      by (auto simp: extends_def denotes_def split: if_splits)
  next
    case 2
    from assms 2 obtain n where a: "abi_int v = Inr n" and
      u: "(if n = app_id then (t, is @ [0]) else (t\<lparr>rt_apps := snd (place n (rt_apps t))\<rparr>, is @ [fst (place n (rt_apps t)) + 1])) = (u, js)"
      by (cases "abi_int v") (simp_all add: resolve_reference_def Let_def case_prod_unfold split: if_splits)
    with 2 place [of n "rt_apps t" "fst (place n (rt_apps t))" "snd (place n (rt_apps t))"] show ?thesis
      by (auto simp: extends_def denotes_def split: if_splits)
  next
    case 3
    from assms 3 obtain n where a: "abi_int v = Inr n" and
      u: "(t\<lparr>rt_assets := snd (place n (rt_assets t))\<rparr>, is @ [fst (place n (rt_assets t))]) = (u, js)"
      by (cases "abi_int v") (simp_all add: resolve_reference_def Let_def case_prod_unfold split: if_splits)
    with 3 place [of n "rt_assets t" "fst (place n (rt_assets t))" "snd (place n (rt_assets t))"] show ?thesis
      by (auto simp: extends_def denotes_def)
  qed
qed

lemma resolve_denotes:
  assumes "resolve_abi_reference_args L sender app_id tys vs t = Inr (u, is)" and "length tys = length vs"
  shows "extends t u \<and> length is = length tys \<and> (\<forall>k < length is. denotes L sender app_id u (tys ! k) (vs ! k) (is ! k))"
proof -
  have "extends t u \<and> length is = length xs \<and> (\<forall>k < length xs. denotes L sender app_id u (fst (xs ! k)) (snd (xs ! k)) (is ! k))"
    if "rfold (resolve_reference L sender app_id) xs (t, []) = Inr (u, is)" for xs
    using that
  proof (induction xs arbitrary: u "is" rule: rev_induct)
    case Nil
    then show ?case by simp
  next
    case (snoc x xs)
    from snoc.prems obtain t1 is1 where "rfold (resolve_reference L sender app_id) xs (t, []) = Inr (t1, is1)"
      and step: "resolve_reference L sender app_id (fst x, snd x) (t1, is1) = Inr (u, is)"
      by (auto simp: rfold_append result_simps)
    with snoc.IH have ih: "extends t t1" "length is1 = length xs"
      "\<forall>k < length xs. denotes L sender app_id t1 (fst (xs ! k)) (snd (xs ! k)) (is1 ! k)" by blast+
    from resolve_reference_denotes [OF step] obtain i where i: "is = is1 @ [i]" "extends t1 u" "denotes L sender app_id u (fst x) (snd x) i" by blast
    with ih show ?case by (auto simp: nth_append less_Suc_eq intro: extends_trans denotes_mono)
  qed
  from this [of "zip tys vs"] assms show ?thesis by (simp add: resolve_abi_reference_args_def)
qed

section \<open>What is collected and filled in\<close>

fun is_reference :: "'t arg_type \<Rightarrow> bool" where
  "is_reference (TypeName n) = (n \<in> set reference_types)"
| "is_reference (TypeObject t) = False"

fun type_label :: "'t arg_type \<Rightarrow> string" where
  "type_label (TypeName n) = n"
| "type_label (TypeObject t) = []"

text \<open>The type an argument is encoded with.\<close>

fun wire_type :: "'t abi_lib \<Rightarrow> 't arg_type \<Rightarrow> 't \<Rightarrow> bool" where
  "wire_type L (TypeName n) t \<longleftrightarrow> n \<notin> set transaction_types \<and>
     abi_type_from_string L (if n \<in> set reference_types then ''uint8'' else n) = Inr t"
| "wire_type L (TypeObject u) t \<longleftrightarrow> t = u"

definition collected :: "'t abi_lib \<Rightarrow> ('t arg_type \<times> abi_value) list \<Rightarrow> 't abi_collected \<Rightarrow> bool" where
  "collected L xs a \<longleftrightarrow> basic_values a = map snd xs \<and> length (basic_types a) = length xs \<and>
     (\<forall>i < length xs. wire_type L (fst (xs ! i)) (basic_types a ! i)) \<and>
     ref_slots a = filter (\<lambda>i. is_reference (fst (xs ! i))) [0..<length xs] \<and>
     ref_types a = map (\<lambda>i. type_label (fst (xs ! i))) (ref_slots a) \<and> ref_values a = map (\<lambda>i. snd (xs ! i)) (ref_slots a)"

lemma collect_arg_one:
  assumes "collect_arg L (ty, v) a = Inr b"
  shows "\<exists>t. wire_type L ty t \<and> basic_types b = basic_types a @ [t] \<and> basic_values b = basic_values a @ [v] \<and>
    (if is_reference ty then ref_types b = ref_types a @ [type_label ty] \<and> ref_values b = ref_values a @ [v] \<and> ref_slots b = ref_slots a @ [length (basic_types a)]
     else ref_types b = ref_types a \<and> ref_values b = ref_values a \<and> ref_slots b = ref_slots a)"
proof (cases ty)
  case (TypeName n)
  then show ?thesis using assms by (cases "n \<in> set reference_types") (auto simp: collect_arg_def result_simps)
next
  case (TypeObject t)
  then show ?thesis using assms by (auto simp: collect_arg_def)
qed

lemma filter_upt_snoc:
  "filter (\<lambda>i. P ((xs @ [x]) ! i)) [0..<length xs] = filter (\<lambda>i. P (xs ! i)) [0..<length xs]"
  by (rule filter_cong) (simp_all add: nth_append)

lemma collected_snoc:
  assumes "collected L xs a" and "collect_arg L (ty, v) a = Inr b"
  shows "collected L (xs @ [(ty, v)]) b"
proof -
  from collect_arg_one [OF assms(2)] obtain t where t: "wire_type L ty t" "basic_types b = basic_types a @ [t]" "basic_values b = basic_values a @ [v]"
    and refs: "if is_reference ty then ref_types b = ref_types a @ [type_label ty] \<and> ref_values b = ref_values a @ [v] \<and> ref_slots b = ref_slots a @ [length (basic_types a)]
     else ref_types b = ref_types a \<and> ref_values b = ref_values a \<and> ref_slots b = ref_slots a" by blast
  have slots: "\<forall>i \<in> set (ref_slots a). i < length xs" using assms(1) by (auto simp: collected_def)
  have "map (\<lambda>i. g ((xs @ [(ty, v)]) ! i)) (ref_slots a) = map (\<lambda>i. g (xs ! i)) (ref_slots a)" for g :: "'a arg_type \<times> abi_value \<Rightarrow> 'z"
    using slots by (simp add: nth_append)
  note lookup = this [of "\<lambda>x. type_label (fst x)"] this [of snd]
  have "\<forall>i < length (xs @ [(ty, v)]). wire_type L (fst ((xs @ [(ty, v)]) ! i)) (basic_types b ! i)"
    using assms(1) t by (auto simp: collected_def nth_append less_Suc_eq)
  moreover have "ref_slots b = filter (\<lambda>i. is_reference (fst ((xs @ [(ty, v)]) ! i))) [0..<length (xs @ [(ty, v)])]"
    using assms(1) refs filter_upt_snoc [of "\<lambda>x. is_reference (fst x)" xs "(ty, v)"] by (simp add: collected_def split: if_splits)
  ultimately show ?thesis
    using assms(1) t refs lookup unfolding collected_def by (auto split: if_splits)
qed

lemma collect_args: "rfold (collect_arg L) xs \<lparr>basic_types = [], basic_values = [], ref_types = [], ref_values = [], ref_slots = []\<rparr> = Inr a \<Longrightarrow> collected L xs a"
proof (induction xs arbitrary: a rule: rev_induct)
  case Nil
  then show ?case by (auto simp: collected_def)
next
  case (snoc x xs)
  then obtain b where "rfold (collect_arg L) xs \<lparr>basic_types = [], basic_values = [], ref_types = [], ref_values = [], ref_slots = []\<rparr> = Inr b"
    and "collect_arg L (fst x, snd x) b = Inr a" by (auto simp: rfold_append result_simps)
  with snoc.IH collected_snoc [of L xs b "fst x" "snd x" a] show ?case by simp
qed

text \<open>Filling in: the slots get their indexes, all at most 255, and nothing else changes.\<close>

lemma fill_reference_Inr: "fill_reference slots r vs = Inr ws \<longleftrightarrow> snd r \<le> 255 \<and> ws = vs[slots ! fst r := VPy (PInt (int (snd r)))]"
  by (auto simp: fill_reference_def result_simps)

lemma fill_references:
  assumes "rfold (fill_reference slots) (List.enumerate 0 is) vs = Inr ws" and "distinct slots" and "length is \<le> length slots"
    and "\<forall>i \<in> set slots. i < length vs"
  shows "length ws = length vs \<and> (\<forall>k < length is. is ! k \<le> 255 \<and> ws ! (slots ! k) = VPy (PInt (int (is ! k)))) \<and>
    (\<forall>i < length vs. i \<notin> set (take (length is) slots) \<longrightarrow> ws ! i = vs ! i)"
  using assms
proof (induction "is" arbitrary: ws rule: rev_induct)
  case Nil
  then show ?case by simp
next
  case (snoc i "is")
  then obtain us where "rfold (fill_reference slots) (List.enumerate 0 is) vs = Inr us"
    and i: "i \<le> 255" "ws = us[slots ! length is := VPy (PInt (int i))]"
    by (auto simp: enumerate_append_eq rfold_append result_simps fill_reference_Inr)
  with snoc.IH snoc.prems have ih: "length us = length vs" "\<forall>k < length is. is ! k \<le> 255 \<and> us ! (slots ! k) = VPy (PInt (int (is ! k)))"
    "\<forall>j < length vs. j \<notin> set (take (length is) slots) \<longrightarrow> us ! j = vs ! j" by simp_all
  have in_range: "length is < length slots" "slots ! length is < length vs" using snoc.prems by simp_all
  then have "take (Suc (length is)) slots = take (length is) slots @ [slots ! length is]" by (simp add: take_Suc_conv_app_nth)
  moreover have "slots ! length is \<noteq> slots ! k" if "k < length is" for k
    using that in_range snoc.prems(2) by (simp add: nth_eq_iff_index_eq)
  ultimately show ?case using ih i in_range by (auto simp: less_Suc_eq nth_append)
qed

lemma pack_args_length: "pack_args L tys vs = Inr packed \<Longrightarrow> length tys = length vs \<Longrightarrow> length packed = min (length vs) 15"
  by (auto simp: pack_args_def result_simps APP_CALL_METHOD_ARGS_TUPLE_THRESHOLD_def APP_CALL_MAX_APP_ARGS_def split: if_splits)

text \<open>One argument as it is encoded: references by an index with their meaning, the others as given.\<close>

definition argument_ok :: "'t abi_lib \<Rightarrow> string \<Rightarrow> int \<Rightarrow> ref_tables \<Rightarrow> 't arg_type \<Rightarrow> abi_value \<Rightarrow> 't \<Rightarrow> abi_value \<Rightarrow> bool" where
  "argument_ok L sender app_id t ty v wire w \<longleftrightarrow> wire_type L ty wire \<and>
     (if is_reference ty then \<exists>k \<le> 255. w = VPy (PInt (int k)) \<and> denotes L sender app_id t (type_label ty) v k else w = v)"

lemma filled_arguments:
  assumes a: "collected L xs a"
    and r: "resolve_abi_reference_args L sender app_id (ref_types a) (ref_values a) t0 = Inr (t, is)"
    and f: "rfold (fill_reference (ref_slots a)) (List.enumerate 0 is) (basic_values a) = Inr vs"
  shows "extends t0 t \<and> length vs = length xs \<and> (\<forall>i < length xs. argument_ok L sender app_id t (fst (xs ! i)) (snd (xs ! i)) (basic_types a ! i) (vs ! i))"
proof -
  have c: "basic_values a = map snd xs" "\<forall>i < length xs. wire_type L (fst (xs ! i)) (basic_types a ! i)"
    "ref_slots a = filter (\<lambda>i. is_reference (fst (xs ! i))) [0..<length xs]"
    "ref_types a = map (\<lambda>i. type_label (fst (xs ! i))) (ref_slots a)" "ref_values a = map (\<lambda>i. snd (xs ! i)) (ref_slots a)"
    using a unfolding collected_def by blast+
  have slots: "distinct (ref_slots a)" "\<forall>i \<in> set (ref_slots a). i < length (basic_values a)" using c(1,3) by simp_all
  have "length (ref_types a) = length (ref_values a)" using c(4,5) by simp
  from resolve_denotes [OF r this] have d: "extends t0 t" "length is = length (ref_slots a)"
    "\<forall>k < length is. denotes L sender app_id t (ref_types a ! k) (ref_values a ! k) (is ! k)" using c(4) by auto
  from fill_references [OF f slots(1) _ slots(2)] d(2) have fl: "length vs = length xs"
    "\<forall>k < length is. is ! k \<le> 255 \<and> vs ! (ref_slots a ! k) = VPy (PInt (int (is ! k)))"
    "\<forall>i < length xs. i \<notin> set (ref_slots a) \<longrightarrow> vs ! i = snd (xs ! i)" using c(1) by auto
  have "argument_ok L sender app_id t (fst (xs ! i)) (snd (xs ! i)) (basic_types a ! i) (vs ! i)" if i: "i < length xs" for i
  proof (cases "is_reference (fst (xs ! i))")
    case True
    with i c(3) have "i \<in> set (ref_slots a)" by simp
    then obtain k where k: "k < length is" "ref_slots a ! k = i" using d(2) by (auto simp: in_set_conv_nth)
    then have "ref_types a ! k = type_label (fst (xs ! i))" "ref_values a ! k = snd (xs ! i)" using c(4,5) d(2) by (metis nth_map)+
    with d(3) fl(2) k True c(2) i show ?thesis by (force simp: argument_ok_def)
  next
    case False
    with i c(2,3) fl(3) show ?thesis by (simp add: argument_ok_def)
  qed
  with d fl show ?thesis by blast
qed

section \<open>Property\<close>


section \<open>Witness\<close>

text \<open>A library in which a type is its name and integers are encoded as one byte.\<close>

definition sample_abi :: "string abi_lib" where
  "sample_abi = \<lparr>abi_from_signature = (\<lambda>sig. Inr \<lparr>m_args = [TypeName ''account'', TypeObject ''uint64''], m_selector = ''abcd'', m_signature = sig\<rparr>),
     abi_type_from_string = Inr, abi_type_str = (\<lambda>t. t),
     abi_encode = (\<lambda>t v. case v of VPy (PInt i) \<Rightarrow> Inr [char_of (nat i)] | _ \<Rightarrow> Inl (value_error ''unsupported'')),
     decode_address = Inr, encode_address = Inr\<rparr>"

definition sample_method :: "string abi_method" where
  "sample_method = \<lparr>m_args = [TypeName ''account'', TypeObject ''uint64''], m_selector = ''abcd'', m_signature = ''f(account,uint64)void''\<rparr>"

definition sample_tables :: ref_tables where
  "sample_tables = \<lparr>rt_accounts = [''FIRST'', ''OTHER''], rt_apps = [], rt_assets = []\<rparr>"

lemma sample_abi_run:
  "encode_abi_method_args sample_abi sample_method [VPy (PStr ''OTHER''), VPy (PInt 65)] ''SENDER'' 7 (Some [''FIRST'']) None None =
     Inr ([''abcd'', [char_of (2 :: nat)], ''A''], sample_tables)"
  by code_simp


end
