(* ===== verification/Algokit_Adapter.thy ===== *)
theory Algokit_Adapter
  imports Canonical_Group Sign_Protocol Account_Checks
begin

text \<open>
  \<^verbatim>\<open>algokit.py\<close>: an account object that signs for AlgoKit through a signer client. Its one piece of
  state is the identifier of the request in flight, guarded by a lock, which a second thread may read
  to cancel the request. AlgoKit's transactions are objects the adapter only asks for their sender;
  their codec is a parameter, absent when the package is not installed.
\<close>

section \<open>The account object\<close>

record 'w account =
  ak_client :: nat
  ak_addr :: pyval
  ak_auth_address :: pyval
  ak_lsig_args :: "(string \<times> bytes) list"
  ak_new_request_id :: "('w, string) client_action option"
  ak_encode_transaction :: "(pyval \<Rightarrow> bytes result) option"
  ak_current_request_id :: "string option"

definition default_request_id :: "'w env \<Rightarrow> ('w, string) client_action" where
  "default_request_id E = abind (fresh_token E) (\<lambda>rnd. aret (''sdk-'' @ bytes_hex rnd))"

definition default_encode_transaction :: "(pyval \<Rightarrow> bytes result) option \<Rightarrow> pyval \<Rightarrow> bytes result" where
  "default_encode_transaction codec txn =
     (case codec of
        None \<Rightarrow> Inl (signer_error (''algokit_transact is not importable; install algokit-utils >= 5.0.0b1 '' @ ''or pass an explicit encode_transaction''))
      | Some encode \<Rightarrow> encode txn)"

definition txn_sender :: "pyval \<Rightarrow> string result" where
  "txn_sender txn =
     (let sender = py_getattr txn ''sender'' PNone in
      raise_if (sender = PNone) (signer_error ''AlgoKit transaction is missing sender'') (Inr (py_str sender)))"

definition new_account :: "nat \<Rightarrow> pyval \<Rightarrow> pyval \<Rightarrow> (string \<times> bytes) list \<Rightarrow> ('w, string) client_action option \<Rightarrow>
    (pyval \<Rightarrow> bytes result) option \<Rightarrow> 'w account" where
  "new_account c address auth_address lsig_args new_request_id encode =
     \<lparr>ak_client = c, ak_addr = address, ak_auth_address = py_or auth_address address, ak_lsig_args = lsig_args,
      ak_new_request_id = new_request_id, ak_encode_transaction = encode, ak_current_request_id = None\<rparr>"

definition list_apsigner_accounts :: "'w env \<Rightarrow> nat \<Rightarrow> bool \<Rightarrow> ('w, 'w account list) client_action" where
  "list_apsigner_accounts E c refresh =
     abind (list_keys E c refresh) (\<lambda>keys. aret (map (\<lambda>key. new_account c (ki_address key) (ki_address key) [] None None) keys))"

section \<open>The request in flight\<close>

text \<open>The two critical sections.\<close>

definition acquire :: "string \<Rightarrow> 'w account \<Rightarrow> 'w account result" where
  "acquire request_id a =
     raise_if (ak_current_request_id a \<noteq> None) (Exc RuntimeError ''ApsignerAccount already has an in-flight signing request'' [])
       (Inr (a\<lparr>ak_current_request_id := Some request_id\<rparr>))"

definition end_sign :: "string \<Rightarrow> 'w account \<Rightarrow> 'w account" where
  "end_sign request_id a = (if ak_current_request_id a = Some request_id then a\<lparr>ak_current_request_id := None\<rparr> else a)"

definition begin_sign :: "'w env \<Rightarrow> 'w account \<Rightarrow> ('w, client) state \<Rightarrow> string result \<times> 'w account \<times> ('w, client) state" where
  "begin_sign E a s =
     (case (case ak_new_request_id a of Some new \<Rightarrow> new | None \<Rightarrow> default_request_id E) s of
        (Inl e, t) \<Rightarrow> (Inl e, a, t)
      | (Inr request_id, t) \<Rightarrow>
          (case acquire request_id a of Inl e \<Rightarrow> (Inl e, a, t) | Inr a' \<Rightarrow> (Inr request_id, a', t)))"

text \<open>\<^verbatim>\<open>except (SignerError, OSError)\<close>; the HTTP library's errors are \<^verbatim>\<open>OSError\<close>s too.\<close>

definition tolerated :: "exc \<Rightarrow> bool" where
  "tolerated e \<longleftrightarrow> is_signer_error e \<or> exc_cls e \<in> {OSError, TimeoutError, RequestException}"

definition cancel :: "'w env \<Rightarrow> 'w account \<Rightarrow> ('w, unit) client_action" where
  "cancel E a =
     (case ak_current_request_id a of
        None \<Rightarrow> aret ()
      | Some request_id \<Rightarrow> acatch tolerated (\<lambda>_. aret ()) (abind (cancel_sign_request E (ak_client a) request_id) (\<lambda>_. aret ())))"

section \<open>Signing\<close>

definition algokit_entry :: "(pyval \<Rightarrow> bytes result) option \<Rightarrow> 'w account \<Rightarrow> pyval list \<Rightarrow> int \<Rightarrow> pyval result" where
  "algokit_entry codec a txn_group index =
     raise_if (index < 0 \<or> int (length txn_group) \<le> index)
       (signer_error (''index '' @ show_int index @ '' out of range for '' @ show_nat (length txn_group) @ '' transactions'')) (
     let txn = txn_group ! nat index in
     raise_if (txn = PNone) (signer_error (''transaction is required at index '' @ show_int index)) (
     rbind (case ak_encode_transaction a of Some encode \<Rightarrow> encode txn | None \<Rightarrow> default_encode_transaction codec txn) (\<lambda>raw.
     rbind (txn_sender txn) (\<lambda>sender.
       Inr (pobj ([(''txn_bytes_hex'', PStr (bytes_hex raw)), (''txn_sender'', PStr sender), (''auth_address'', ak_auth_address a)]
         @ (if ak_lsig_args a \<noteq> [] then [(''lsig_args'', hex_args (ak_lsig_args a))] else [])))))))"

text \<open>\<^verbatim>\<open>(mutations.get("dummies_added") or 0) > 0\<close>\<close>

definition positive :: "pyval \<Rightarrow> bool result" where
  "positive v = (case as_int v of Some n \<Rightarrow> Inr (0 < n)
     | None \<Rightarrow> Inl (Exc TypeError (CHR 0x27 # ''>'' @ CHR 0x27 # '' not supported between instances of '' @ CHR 0x27 # type_name v
         @ CHR 0x27 # '' and '' @ CHR 0x27 # ''int'' @ [CHR 0x27]) []))"

definition regrouped :: "pyval \<Rightarrow> bool result" where
  "regrouped mutations =
     (let m = py_or mutations (PDict []) in
      rbind (py_get m ''group_id_changed'') (\<lambda>changed.
        if truthy changed then Inr True else positive (py_or (pget m ''dummies_added'') (PInt 0))))"

definition algokit_reply :: "int list \<Rightarrow> group_sign_response \<Rightarrow> bytes list result" where
  "algokit_reply indexes_to_sign res =
     rbind (regrouped (gs_mutations res)) (\<lambda>changed.
     raise_if changed (signer_error (''apsigner re-grouped these transactions (added LogicSig-budget ''
       @ ''dummy transactions or recomputed the group ID); AlgoKit assigns ''
       @ ''its own group ID and cannot use a re-grouped result. Sign ''
       @ ''large-LogicSig groups through the aplane SDK'' @ CHR 0x27 # ''s group/guarded flow instead.'')) (
     rbind (py_len (gs_signed res)) (\<lambda>n.
     raise_if (n \<noteq> int (length indexes_to_sign))
       (signer_error (''apsigner returned '' @ show_int n @ '' signed transaction(s), but AlgoKit requested '' @ show_nat (length indexes_to_sign))) (
     rbind (py_iter (gs_signed res)) (rmap fromhex_value)))))"

definition sign_in_flight :: "'w env \<Rightarrow> (pyval \<Rightarrow> bytes result) option \<Rightarrow> 'w account \<Rightarrow> pyval list \<Rightarrow> int list \<Rightarrow> string \<Rightarrow> ('w, bytes list) client_action" where
  "sign_in_flight E codec a txn_group indexes_to_sign request_id =
     abind (alift (rmap (algokit_entry codec a txn_group) indexes_to_sign)) (\<lambda>requests.
     abind (sign_requests E (ak_client a) requests (Some request_id)) (\<lambda>result.
       alift (algokit_reply indexes_to_sign result)))"

text \<open>\<open>end_sign\<close> is the \<^verbatim>\<open>finally\<close> block: it runs however the part before it ends.\<close>

definition algokit_sign :: "'w env \<Rightarrow> (pyval \<Rightarrow> bytes result) option \<Rightarrow> pyval list \<Rightarrow> int list \<Rightarrow> 'w account \<Rightarrow> ('w, client) state \<Rightarrow>
    bytes list result \<times> 'w account \<times> ('w, client) state" where
  "algokit_sign E codec txn_group indexes_to_sign a s =
     (if indexes_to_sign = [] then (Inr [], a, s) else
      case begin_sign E a s of
        (Inl e, a', t) \<Rightarrow> (Inl e, a', t)
      | (Inr request_id, a', t) \<Rightarrow>
          (case sign_in_flight E codec a' txn_group indexes_to_sign request_id t of (r, u) \<Rightarrow> (r, end_sign request_id a', u)))"

section \<open>Several threads\<close>

text \<open>
  Threads share one account. A thread signs (from entering the first critical section to leaving the
  second), or cancels (from reading the identifier to the reply to its request), or does neither. The
  history records which identifiers were taken into flight and which were sent for cancellation.
\<close>

datatype thread = Outside | Signing string | Cancelling string

record 'w adapter =
  ad_account :: "'w account"
  ad_threads :: "nat \<Rightarrow> thread"
  ad_begun :: "string list"
  ad_cancelled :: "string list"

inductive adapter_step :: "'w adapter \<Rightarrow> 'w adapter \<Rightarrow> bool" where
  begin_ok: "ad_threads s i = Outside \<Longrightarrow> acquire rid (ad_account s) = Inr a \<Longrightarrow>
     adapter_step s (s\<lparr>ad_account := a, ad_threads := (ad_threads s)(i := Signing rid), ad_begun := rid # ad_begun s\<rparr>)"
| begin_busy: "ad_threads s i = Outside \<Longrightarrow> acquire rid (ad_account s) = Inl e \<Longrightarrow> adapter_step s s"
| finish: "ad_threads s i = Signing rid \<Longrightarrow>
     adapter_step s (s\<lparr>ad_account := end_sign rid (ad_account s), ad_threads := (ad_threads s)(i := Outside)\<rparr>)"
| cancel_read: "ad_threads s i = Outside \<Longrightarrow> ak_current_request_id (ad_account s) = Some rid \<Longrightarrow>
     adapter_step s (s\<lparr>ad_threads := (ad_threads s)(i := Cancelling rid)\<rparr>)"
| cancel_send: "ad_threads s i = Cancelling rid \<Longrightarrow>
     adapter_step s (s\<lparr>ad_threads := (ad_threads s)(i := Outside), ad_cancelled := rid # ad_cancelled s\<rparr>)"

definition fresh_adapter :: "'w account \<Rightarrow> 'w adapter" where
  "fresh_adapter a = \<lparr>ad_account = a, ad_threads = (\<lambda>_. Outside), ad_begun = [], ad_cancelled = []\<rparr>"

inductive adapter_reachable :: "'w account \<Rightarrow> 'w adapter \<Rightarrow> bool" for a where
  start: "ak_current_request_id a = None \<Longrightarrow> adapter_reachable a (fresh_adapter a)"
| step: "adapter_reachable a s \<Longrightarrow> adapter_step s t \<Longrightarrow> adapter_reachable a t"

inductive_cases adapter_stepE: "adapter_step s t"

definition adapter_inv :: "'w adapter \<Rightarrow> bool" where
  "adapter_inv s \<longleftrightarrow>
     (\<forall>i rid. ad_threads s i = Signing rid \<longrightarrow> ak_current_request_id (ad_account s) = Some rid) \<and>
     (\<forall>i j rid rid'. ad_threads s i = Signing rid \<longrightarrow> ad_threads s j = Signing rid' \<longrightarrow> i = j) \<and>
     (\<forall>rid. ak_current_request_id (ad_account s) = Some rid \<longrightarrow> rid \<in> set (ad_begun s) \<and> (\<exists>i. ad_threads s i = Signing rid)) \<and>
     (\<forall>i rid. ad_threads s i = Cancelling rid \<longrightarrow> rid \<in> set (ad_begun s)) \<and>
     set (ad_cancelled s) \<subseteq> set (ad_begun s)"

lemma acquire_Inr [simp]:
  "acquire rid a = Inr a' \<longleftrightarrow> ak_current_request_id a = None \<and> a' = a\<lparr>ak_current_request_id := Some rid\<rparr>"
  by (auto simp: acquire_def result_simps)

lemma acquire_Inl [simp]: "acquire rid a = Inl e \<Longrightarrow> ak_current_request_id a \<noteq> None"
  by (auto simp: acquire_def raise_if_def split: if_splits)

lemma adapter_step_inv: "adapter_step s t \<Longrightarrow> adapter_inv s \<Longrightarrow> adapter_inv t"
proof (induction rule: adapter_step.induct)
  case (begin_ok s i rid a)
  then have none: "\<And>j r. ad_threads s j \<noteq> Signing r" unfolding adapter_inv_def by auto
  with begin_ok show ?case unfolding adapter_inv_def by (auto split: if_splits)
next
  case (finish s i rid)
  then have sole: "\<And>j r. ad_threads s j = Signing r \<Longrightarrow> j = i" and cur: "ak_current_request_id (ad_account s) = Some rid"
    unfolding adapter_inv_def by blast+
  have none: "((ad_threads s)(i := Outside)) j \<noteq> Signing r" for j r using sole by auto
  have "((ad_threads s)(i := Outside)) j = Cancelling r \<Longrightarrow> r \<in> set (ad_begun s)" for j r
    using finish(2) unfolding adapter_inv_def by (cases "j = i") auto
  moreover have "set (ad_cancelled s) \<subseteq> set (ad_begun s)" using finish(2) unfolding adapter_inv_def by blast
  ultimately show ?case unfolding adapter_inv_def using none cur by (simp add: end_sign_def del: fun_upd_apply)
next
  case (cancel_read s i rid)
  have sig: "((ad_threads s)(i := Cancelling rid)) j = Signing r \<longleftrightarrow> ad_threads s j = Signing r" for j r using cancel_read(1) by simp
  have "rid \<in> set (ad_begun s)" using cancel_read(2,3) unfolding adapter_inv_def by blast
  then have "((ad_threads s)(i := Cancelling rid)) j = Cancelling r \<Longrightarrow> r \<in> set (ad_begun s)" for j r
    using cancel_read(3) unfolding adapter_inv_def by (cases "j = i") auto
  with cancel_read(3) show ?case unfolding adapter_inv_def by (simp add: sig del: fun_upd_apply)
next
  case (cancel_send s i rid)
  have sig: "((ad_threads s)(i := Outside)) j = Signing r \<longleftrightarrow> ad_threads s j = Signing r" for j r using cancel_send(1) by simp
  have "((ad_threads s)(i := Outside)) j = Cancelling r \<Longrightarrow> r \<in> set (ad_begun s)" for j r
    using cancel_send(2) unfolding adapter_inv_def by (cases "j = i") auto
  moreover have "rid \<in> set (ad_begun s)" using cancel_send unfolding adapter_inv_def by blast
  ultimately show ?case using cancel_send(2) unfolding adapter_inv_def by (simp add: sig del: fun_upd_apply)
qed simp_all

lemma adapter_reachable_inv: "adapter_reachable a s \<Longrightarrow> adapter_inv s"
proof (induction rule: adapter_reachable.induct)
  case start
  then show ?case by (simp add: adapter_inv_def fresh_adapter_def)
next
  case (step s t)
  then show ?case by (blast intro: adapter_step_inv)
qed

text \<open>A report that leaves AlgoKit's group alone: none at all, or one without a new group id or dummies.\<close>

definition gs_mutations_untouched :: "pyval \<Rightarrow> bool" where
  "gs_mutations_untouched m \<longleftrightarrow> \<not> truthy m \<or>
     is_dict m \<and> \<not> phas m ''group_id_changed'' \<and> (\<not> phas m ''dummies_added'' \<or> (\<exists>n \<le> 0. as_int (pget m ''dummies_added'') = Some n))"

lemma regrouped_False: "regrouped m = Inr False \<Longrightarrow> gs_mutations_untouched m"
proof (cases "truthy m")
  case True
  assume "regrouped m = Inr False"
  with True show ?thesis
    by (auto simp: regrouped_def gs_mutations_untouched_def positive_def phas_def py_or_def Let_def rbind_Inr py_get_Inr_iff
        split: if_splits option.splits)
qed (simp add: gs_mutations_untouched_def)

section \<open>Properties\<close>



text \<open>
  What AlgoKit is given. A call that returns has asked the signer for exactly the transactions at the
  requested indices, in order, under the account's authorizing address; the signer's report says that it
  did not regroup them; and there is one signed transaction per index, decoded, in the same order.
\<close>

theorem algokit_sign_result:
  assumes "algokit_sign E codec txns ixs a s = (Inr signed, a', t)" and "ixs \<noteq> []"
  shows "\<exists>rid reqs res u xs. sign_requests E (ak_client a) reqs (Some rid) u = (Inr res, t) \<and>
     length reqs = length ixs \<and> length signed = length ixs \<and> gs_mutations_untouched (gs_mutations res) \<and>
     py_iter (gs_signed res) = Inr xs \<and>
     (\<forall>k < length ixs. 0 \<le> ixs ! k \<and> nat (ixs ! k) < length txns \<and> algokit_entry codec a txns (ixs ! k) = Inr (reqs ! k) \<and>
        pget (reqs ! k) ''auth_address'' = ak_auth_address a \<and> fromhex_value (xs ! k) = Inr (signed ! k))"
proof -
  from assms obtain rid b u where beg: "begin_sign E a s = (Inr rid, b, u)" and run: "sign_in_flight E codec b txns ixs rid u = (Inr signed, t)"
    by (auto simp: algokit_sign_def split: prod.splits sum.splits)
  from beg have b: "b = a\<lparr>ak_current_request_id := Some rid\<rparr>" by (auto simp: begin_sign_def split: prod.splits sum.splits)
  from run obtain reqs res where reqs: "rmap (algokit_entry codec b txns) ixs = Inr reqs"
    and sign: "sign_requests E (ak_client b) reqs (Some rid) u = (Inr res, t)" and reply: "algokit_reply ixs res = Inr signed"
    by (auto simp: sign_in_flight_def abind_Inr alift_Inr)
  have entry: "algokit_entry codec b txns ix = algokit_entry codec a txns ix" for ix by (simp add: algokit_entry_def b)
  from reply obtain xs where mut: "regrouped (gs_mutations res) = Inr False" and xs: "py_iter (gs_signed res) = Inr xs"
    and len: "int (length xs) = int (length ixs)" and dec: "rmap fromhex_value xs = Inr signed"
    by (auto simp: algokit_reply_def rbind_Inr raise_if_Inr py_len_Inr)
  have each: "0 \<le> ix \<and> nat ix < length txns \<and> pget e ''auth_address'' = ak_auth_address a" if "algokit_entry codec a txns ix = Inr e" for ix e
    using that by (auto simp: algokit_entry_def Let_def rbind_Inr raise_if_Inr)
  have "\<forall>k < length ixs. 0 \<le> ixs ! k \<and> nat (ixs ! k) < length txns \<and> algokit_entry codec a txns (ixs ! k) = Inr (reqs ! k) \<and>
        pget (reqs ! k) ''auth_address'' = ak_auth_address a \<and> fromhex_value (xs ! k) = Inr (signed ! k)"
  proof (intro allI impI)
    fix k assume k: "k < length ixs"
    then have "algokit_entry codec a txns (ixs ! k) = Inr (reqs ! k)" "fromhex_value (xs ! k) = Inr (signed ! k)"
      using reqs dec len entry unfolding rmap_Inr by simp_all
    with each [OF this(1)] show "0 \<le> ixs ! k \<and> nat (ixs ! k) < length txns \<and> algokit_entry codec a txns (ixs ! k) = Inr (reqs ! k) \<and>
        pget (reqs ! k) ''auth_address'' = ak_auth_address a \<and> fromhex_value (xs ! k) = Inr (signed ! k)" by blast
  qed
  moreover have "gs_mutations_untouched (gs_mutations res)" using mut by (rule regrouped_False)
  ultimately show ?thesis using sign xs len reqs dec b unfolding rmap_Inr
    by (intro exI [of _ rid] exI [of _ reqs] exI [of _ res] exI [of _ u] exI [of _ xs]) simp
qed

subsection \<open>Evaluation\<close>

definition sample_account_object :: "unit account" where
  "sample_account_object = new_account 0 (PStr ''A'') (PStr []) [] (Some (aret ''r1'')) (Some (\<lambda>_. Inr ''x''))"

definition sample_ak_txn :: pyval where
  "sample_ak_txn = PData ''Transaction'' [(''sender'', PStr ''A'')]"

definition sample_ak_env :: "unit env" where
  "sample_ak_env = scripted_env [(''/sign'', ok_reply (pobj [(''signed'', PList [PStr ''aa''])]))]"

abbreviation sample_ak_run :: "bytes list result \<times> unit account \<times> (unit, client) state" where
  "sample_ak_run \<equiv> algokit_sign sample_ak_env None [PNone, sample_ak_txn] [1] sample_account_object (initial_state sample_client)"


lemma sample_ak_returns: "\<exists>a' t. sample_ak_run = (Inr [[CHR 0xAA]], a', t)"
proof -
  have "(case sample_ak_run of (Inr signed, a', t) \<Rightarrow> signed = [[CHR 0xAA]] | _ \<Rightarrow> False)" by code_simp
  then show ?thesis by (auto split: prod.splits sum.splits)
qed


theorem algokit_sign_result_witness:
  "\<exists>a' t rid res u req. sample_ak_run = (Inr [[CHR 0xAA]], a', t) \<and>
     sign_requests sample_ak_env 0 [req] (Some rid) u = (Inr res, t) \<and> pget req ''auth_address'' = PStr ''A''"
proof -
  obtain a' t where run: "sample_ak_run = (Inr [[CHR 0xAA]], a', t)" using sample_ak_returns by (elim exE)
  from algokit_sign_result [OF run] obtain rid reqs res u where
    s: "sign_requests sample_ak_env (ak_client sample_account_object) reqs (Some rid) u = (Inr res, t)" and len: "length reqs = 1"
    and auth: "pget (reqs ! 0) ''auth_address'' = ak_auth_address sample_account_object" by auto
  from len obtain req where req: "reqs = [req]" by (auto simp: length_Suc_conv)
  have "ak_client sample_account_object = 0" "ak_auth_address sample_account_object = PStr ''A''"
    by (simp_all add: sample_account_object_def new_account_def)
  with run s auth req show ?thesis by (intro exI [of _ a'] exI [of _ t] exI [of _ rid] exI [of _ res] exI [of _ u] exI [of _ req]) simp
qed

end
