(* ===== verification/Client_Contracts.thy ===== *)
theory Client_Contracts
  imports Prepared_Guarded Submission Prepared_Groups Inventory_Wire Abi_Calls Algokit_Adapter
begin

text \<open>
  What every method of the SDK obeys, whatever the contract. A contract is a relation between the
  states before and after a call that doing nothing meets and that sequencing keeps
  (\<open>effect_contract\<close>). The locales below add what the contract has to say about the primitive
  effects - an exchange with an endpoint of the signer, a change of a cache, a call to a node - and
  derive that the methods built from them obey it too:
    \<^item> \<open>inventory_contract\<close>: reading the signer's status, keys and key types;
    \<^item> \<open>node_contract\<close>: preparing transactions, which also asks a node;
    \<^item> \<open>signing_contract\<close>: every request and flow that signs, plans, simulates or cancels;
    \<^item> \<open>admin_contract\<close>: changing the signer's key store.
  The proofs follow the text of each definition by the rules of the collection \<open>contract_intros\<close>.
\<close>

named_theorems contract_intros \<open>how a contract passes through the definitions of the SDK\<close>

section \<open>Reading the signer's inventory\<close>

definition read_paths :: "string list" where
  "read_paths = [''/health'', ''/status'', ''/keys'', ''/keytypes'']"

locale inventory_contract = effect_contract R for R :: "('w, client) state \<Rightarrow> ('w, client) state \<Rightarrow> bool" +
  fixes E :: "'w env"
  assumes reads: "path \<in> set read_paths \<Longrightarrow> obeys R (http E c ''GET'' path PNone tmo)"
    and caches_wait: "obeys R (cache_approval_wait E c v)"
    and caches_key: "obeys R (list_keys_step c k keys)"
    and drops_cache: "obeys R (update_client c clear_key_cache)"
    and tags_cache: "obeys R (update_client c (\<lambda>cl. cl\<lparr>key_cache_revision := v\<rparr>))"
begin

lemmas contract_structure [contract_intros] = structure_rules
lemmas cache_changes [contract_intros] = caches_wait caches_key drops_cache tags_cache

lemma read_exchanges [contract_intros]:
  "obeys R (http E c ''GET'' ''/health'' PNone tmo)" "obeys R (http E c ''GET'' ''/status'' PNone tmo)"
  "obeys R (http E c ''GET'' ''/keys'' PNone tmo)" "obeys R (http E c ''GET'' ''/keytypes'' PNone tmo)"
  by (rule reads, simp add: read_paths_def)+

lemma failed_obeys [contract_intros]: "obeys R (failed_to_connect e)"
  unfolding failed_to_connect_def by (intro contract_intros)

lemma inventory_obeys [contract_intros]:
  "obeys R (health E c)" "obeys R (get_status E c)" "obeys R (list_keys E c refresh)" "obeys R (list_key_types E c)"
  unfolding health_def get_status_def list_keys_def list_key_types_def by (intro contract_intros)+

lemma cached_inventory_obeys [contract_intros]:
  "obeys R (list_keys_if_keyset_changed E c)" "obeys R (get_key_info E c a)" "obeys R (discover_approval_wait E c)"
  "obeys R (list_apsigner_accounts E c refresh)"
  unfolding list_keys_if_keyset_changed_def get_key_info_def discover_approval_wait_def list_apsigner_accounts_def
  by (intro contract_intros)+

lemma resolve_obeys [contract_intros]:
  assumes "\<And>l a. lookup = Some l \<Longrightarrow> obeys R (l a)"
  shows "obeys R (resolve_auth_address E c address lookup)"
  unfolding resolve_auth_address_def Let_def by (intro contract_intros) (rule assms)

end

section \<open>Preparing transactions\<close>

locale node_contract = inventory_contract +
  assumes world_moves: "R s (s\<lparr>st_world := w\<rparr>)"
begin

lemma ask_obeys [contract_intros]: "obeys R (ask q)"
  by (simp add: obeys_def ask_def world_moves split: prod.splits)

lemma with_algod_obeys [contract_intros]: "(\<And>N. obeys R (k N)) \<Longrightarrow> obeys R (with_algod n k)"
  unfolding with_algod_def by (intro contract_intros)

lemma prep_params_obeys [contract_intros]: "obeys R (prep_params N fee)"
  unfolding prep_params_def by (intro contract_intros)

lemma known_account_obeys [contract_intros]: "obeys R (resolve_auth_address E c address (Some (\<lambda>_. aret info)))"
  by (intro contract_intros) (auto intro: contract_intros)

lemma prepare_obeys [contract_intros]:
  "obeys R (prepare_payment E B c n p)"
  "obeys R (prepare_asa_transfer E B c n q)"
  "obeys R (prepare_asa_opt_in E B c n sender i note fee)"
  "obeys R (prepare_asa_opt_out E B c n sender i cl note fee)"
  "obeys R (prepare_account_close E B c n sender cl note fee)"
  "obeys R (prepare_rekey E B c n sender cl note fee)"
  "obeys R (prepare_keyreg E B c n sender k note fee)"
  "obeys R (prepare_app_call_with E B c n sender a note fee info)"
  "obeys R (prepare_app_call E B c n sender a note fee)"
  "obeys R (prepare_app_deploy E B c n sender ap cp oi a note fee)"
  unfolding prepare_defs Let_def by ((intro contract_intros; fastforce intro: contract_intros)+)

lemma prepare_each_obeys [contract_intros]: "(\<And>x. obeys R (f x)) \<Longrightarrow> obeys R (prepare_each what f xs)"
  unfolding prepare_each_def by (intro contract_intros)

lemma prepare_groups_obey [contract_intros]:
  "obeys R (prepare_payment_group E B c n ps)"
  "obeys R (prepare_asa_transfer_group E B c n ts)"
  "obeys R (prepare_sweep_group E B c n ts ps)"
  "obeys R (prepare_abi_app_call E B A c n sender sig args ac note fee)"
  unfolding prepare_payment_group_def prepare_asa_transfer_group_def prepare_sweep_group_def prepare_abi_app_call_def Let_def
  by (intro contract_intros)+

end

section \<open>Signing\<close>

definition sign_paths :: "string list" where
  "sign_paths = [''/sign'', ''/plan'', ''/sign/cancel'', ''/sign/component'', ''/sign/assemble'']"

locale signing_contract = inventory_contract +
  assumes posts: "path \<in> set sign_paths \<Longrightarrow> obeys R (http E c ''POST'' path body tmo)"
    and draws_token: "obeys R (fresh_token E)"
begin

lemmas token_obeys [contract_intros] = draws_token

lemma sign_exchanges [contract_intros]:
  "obeys R (http E c ''POST'' ''/sign'' body tmo)" "obeys R (http E c ''POST'' ''/plan'' body tmo)"
  "obeys R (http E c ''POST'' ''/sign/cancel'' body tmo)" "obeys R (http E c ''POST'' ''/sign/component'' body tmo)"
  "obeys R (http E c ''POST'' ''/sign/assemble'' body tmo)"
  by (rule posts, simp add: sign_paths_def)+

lemma cancel_obeys [contract_intros]:
  "obeys R (cancel_sign_request E c rid)" "obeys R (best_effort_cancel_sign_request E c rid)"
  "obeys R (cancel_and_fail E c rid e)"
  unfolding cancel_and_fail_def best_effort_cancel_sign_request_def cancel_sign_request_def Let_def
  by (intro contract_intros)+

lemma request_obeys [contract_intros]:
  "obeys R (ensure_request_id E r)" "obeys R (component_timeout E c r)"
  unfolding ensure_request_id_def component_timeout_def Let_def by (intro contract_intros)+

lemma transport_obeys [contract_intros]:
  "obeys R (sign_requests E c es rid)" "obeys R (plan_requests E c es)"
  "obeys R (request_components E c r)" "obeys R (request_assemble E c r)"
  unfolding sign_requests_def plan_requests_def request_components_def request_assemble_def Let_def
  by (intro contract_intros)+

lemma group_signing_obeys [contract_intros]:
  "obeys R (sign_request_list E K c txns auths la ps us rid)"
  "obeys R (sign_transaction E K c txn auth args rid)"
  "obeys R (sign_transactions_list E K c txns auths' la ps us rid)"
  "obeys R (sign_transactions E K c txns auths' la ps us rid)"
  "obeys R (plan_group E K c txns auths' la ps us)"
  unfolding sign_request_list_def sign_transaction_def sign_transactions_def sign_transactions_list_def plan_group_def Let_def
  by (intro contract_intros)+

lemma simulate_obeys [contract_intros]:
  "obeys R (simulate_prepared_group E K sim c g rid)"
  "obeys R (simulate_prepared_transaction E K sim c p rid)"
  unfolding simulate_prepared_group_def simulate_prepared_transaction_def Let_def by (intro contract_intros)+

text \<open>The frozen-group flows.\<close>

lemma collect_obeys [contract_intros]: "obeys R (collect_component E a b d e f g)"
  unfolding collect_component_def Let_def by (intro contract_intros)

lemma passthrough_obeys [contract_intros]:
  "obeys R (request_primary_guarded_passthrough E K c a b d e)"
  "obeys R (request_bounded_primary_passthrough E K c frozen n st)"
  unfolding request_primary_guarded_passthrough_def request_bounded_primary_passthrough_def Let_def
  by (intro contract_intros)+

lemma guarded_obeys [contract_intros]:
  "obeys R (user_side E K c a b d e f)"
  "obeys R (cosigner_side E c a cs r i idx rid st)"
  "obeys R (sign_guarded_group E K u a b cs r i p q idx rid)"
  unfolding sign_guarded_group_def user_side_def cosigner_side_def Let_def by (intro contract_intros)+

lemma item_key_obeys [contract_intros]: "obeys R (item_key E c p)" "obeys R (client_item_key E u p)"
  unfolding client_item_key_def item_key_def by (intro contract_intros)+

lemma bounded_obeys [contract_intros]:
  "obeys R (bounded_input_step E K c ip st)"
  "obeys R (bounded_user_side E K u' ps)"
  "obeys R (bounded_cosigner_side E K u' n cs r i rid st')"
  "obeys R (sign_prepared_bounded_cosigner_group E K u g cs r a b)"
  unfolding sign_prepared_bounded_cosigner_group_def bounded_user_side_def bounded_cosigner_side_def bounded_input_step_def Let_def
  by (intro contract_intros)+

lemma prepared_guarded_obeys [contract_intros]:
  "obeys R (flow_kind_step E u ip st)"
  "obeys R (prepared_cosigner_flow_kinds E u g)"
  "obeys R (guarded_input_step E K c ip gs)"
  "obeys R (build_prepared_guarded_sign_inputs E K u g)"
  "obeys R (sign_prepared_guarded_group E K u g cs r a b)"
  unfolding sign_prepared_guarded_group_def prepared_cosigner_flow_kinds_def flow_kind_step_def
    build_prepared_guarded_sign_inputs_def guarded_input_step_def Let_def
  by (intro contract_intros)+

lemma simulate_guarded_obeys [contract_intros]:
  "obeys R m \<Longrightarrow> obeys R (simulate_signing K sim m)"
  "obeys R (simulate_guarded_group E K sim u a b cs r i p q idx rid)"
  "obeys R (simulate_prepared_guarded_group E K sim u g cs r a' b')"
  unfolding simulate_guarded_group_def simulate_prepared_guarded_group_def simulate_signing_def Let_def
  by (intro contract_intros; assumption?)+

text \<open>The AlgoKit adapter.\<close>

lemma adapter_obeys [contract_intros]:
  "obeys R (cancel E a)" "obeys R (sign_in_flight E codec a txns idx rid)" "obeys R (default_request_id E)"
  unfolding cancel_def sign_in_flight_def default_request_id_def by (intro contract_intros)+

lemma algokit_sign_obeys:
  assumes "\<And>new. ak_new_request_id a = Some new \<Longrightarrow> obeys R new"
  shows "R s (snd (snd (algokit_sign E codec txns idx a s)))"
proof -
  have new: "obeys R (case ak_new_request_id a of Some new \<Rightarrow> new | None \<Rightarrow> default_request_id E)"
    using assms by (intro contract_intros) simp
  have begun: "R s t" if "begin_sign E a s = (r, a', t)" for r a' t
    using that result_rule [OF new] unfolding begin_sign_def by (auto split: prod.splits sum.splits)
  have "R s u" if "begin_sign E a s = (Inr rid, a', t)" and "sign_in_flight E codec a' txns idx rid t = (r, u)" for rid a' t r u
    using contract_trans [OF begun [OF that(1)] result_rule [OF adapter_obeys(2) that(2)]] .
  with begun show ?thesis unfolding algokit_sign_def by (auto simp: contract_refl split: prod.splits sum.splits)
qed

end

section \<open>Changing the key store\<close>

locale admin_contract = inventory_contract +
  assumes generates: "obeys R (http E c ''POST'' ''/admin/generate'' body tmo)"
    and deletes: "obeys R (http E c ''DELETE'' ''/admin/keys'' body tmo)"
begin

lemmas admin_exchanges [contract_intros] = generates deletes

lemma admin_obeys [contract_intros]: "obeys R (generate_key E c kt ps)" "obeys R (delete_key E c a)"
  unfolding generate_key_def delete_key_def Let_def by (intro contract_intros)+

end

end
