(* ===== verification/Client_Lifetime.thy ===== *)
theory Client_Lifetime
  imports Client_Contracts
begin

text \<open>
  The life of the client objects. A program that uses the SDK constructs clients and calls their
  methods and the flows that work on several of them, in any order, on any arguments, whether the
  calls return or raise, while the world changes on its own between the calls. The calls are sorted by
  what they are for: \<open>preparing\<close> (reading the inventory and preparing transactions), \<open>signing\<close> and
  \<open>administering\<close>; \<open>sdk_step\<close> is any one event of a program.

  Two contracts are shown to hold of them through the locales of \<open>Client_Contracts\<close>: each call keeps
  the invariant of the client objects, and each kind of call sends only its own kind of requests.
\<close>

section \<open>The calls of a program\<close>

text \<open>
  A call ends in the state its definition computes. A caller's account lookup and a caller's source of
  request identifiers are calls outside the SDK (\<open>ask\<close>).
\<close>

inductive preparing :: "'w env \<Rightarrow> 't abi_lib \<Rightarrow> ('w, client) state \<Rightarrow> ('w, client) state \<Rightarrow> bool"
  for E :: "'w env" and A :: "'t abi_lib" where
  health: "preparing E A s (snd (health E c s))"
| get_status: "preparing E A s (snd (get_status E c s))"
| list_keys: "preparing E A s (snd (list_keys E c refresh s))"
| list_keys_if_changed: "preparing E A s (snd (list_keys_if_keyset_changed E c s))"
| get_key_info: "preparing E A s (snd (get_key_info E c a s))"
| list_key_types: "preparing E A s (snd (list_key_types E c s))"
| algokit_list: "preparing E A s (snd (list_apsigner_accounts E c refresh s))"
| resolve: "preparing E A s (snd (resolve_auth_address E c a (map_option (\<lambda>q x. ask (q x)) lookup) s))"
| payment: "preparing E A s (snd (prepare_payment E B c n p s))"
| asa_transfer: "preparing E A s (snd (prepare_asa_transfer E B c n t s))"
| asa_opt_in: "preparing E A s (snd (prepare_asa_opt_in E B c n sender i note fee s))"
| asa_opt_out: "preparing E A s (snd (prepare_asa_opt_out E B c n sender i cl note fee s))"
| account_close: "preparing E A s (snd (prepare_account_close E B c n sender cl note fee s))"
| rekey: "preparing E A s (snd (prepare_rekey E B c n sender cl note fee s))"
| keyreg: "preparing E A s (snd (prepare_keyreg E B c n sender k note fee s))"
| app_call: "preparing E A s (snd (prepare_app_call E B c n sender ac note fee s))"
| app_deploy: "preparing E A s (snd (prepare_app_deploy E B c n sender ap cp oi ac note fee s))"
| abi_call: "preparing E A s (snd (prepare_abi_app_call E B A c n sender sig args ac note fee s))"
| payment_group: "preparing E A s (snd (prepare_payment_group E B c n ps s))"
| asa_group: "preparing E A s (snd (prepare_asa_transfer_group E B c n ts s))"
| sweep_group: "preparing E A s (snd (prepare_sweep_group E B c n ts ps s))"

inductive signing :: "'w env \<Rightarrow> ('w, client) state \<Rightarrow> ('w, client) state \<Rightarrow> bool" for E :: "'w env" where
  cancel_sign: "signing E s (snd (cancel_sign_request E c rid s))"
| components: "signing E s (snd (request_components E c rq s))"
| assemble: "signing E s (snd (request_assemble E c rq s))"
| sign_requests: "signing E s (snd (sign_requests E c es rid' s))"
| plan_requests: "signing E s (snd (plan_requests E c es s))"
| sign_transaction: "signing E s (snd (sign_transaction E K c txn auth la rid' s))"
| sign_transactions: "signing E s (snd (sign_transactions E K c txns auths las pt us rid' s))"
| sign_transactions_list: "signing E s (snd (sign_transactions_list E K c txns auths las pt us rid' s))"
| plan_group: "signing E s (snd (plan_group E K c txns auths las pt us s))"
| simulate_group: "signing E s (snd (simulate_prepared_group E K sim c g rid' s))"
| simulate_transaction: "signing E s (snd (simulate_prepared_transaction E K sim c pr rid' s))"
| guarded: "signing E s (snd (sign_guarded_group E K u reqs tgts cs r i prim pt' idx rid s))"
| prepared_guarded: "signing E s (snd (sign_prepared_guarded_group E K u g cs r i rid s))"
| prepared_bounded: "signing E s (snd (sign_prepared_bounded_cosigner_group E K u g cs r i rid s))"
| simulate_guarded: "signing E s (snd (simulate_guarded_group E K sim' u reqs tgts cs r i prim pt' idx rid s))"
| simulate_prepared_guarded: "signing E s (snd (simulate_prepared_guarded_group E K sim' u g cs r i rid s))"
| algokit_cancel: "signing E s (snd (cancel E acct s))"
| algokit_sign: "ak_new_request_id acct = map_option ask new_id \<Longrightarrow>
    signing E s (snd (snd (algokit_sign E codec txn_group indexes acct s)))"

inductive administering :: "'w env \<Rightarrow> ('w, client) state \<Rightarrow> ('w, client) state \<Rightarrow> bool" for E :: "'w env" where
  generate_key: "administering E s (snd (generate_key E c kt ps s))"
| delete_key: "administering E s (snd (delete_key E c a s))"

inductive sdk_step :: "'w env \<Rightarrow> 't abi_lib \<Rightarrow> ('w, client) state \<Rightarrow> ('w, client) state \<Rightarrow> bool"
  for E :: "'w env" and A :: "'t abi_lib" where
  construct: "new_client url tmo tun = Inr cl \<Longrightarrow> sdk_step E A s (s\<lparr>st_clients := (st_clients s)(c := cl)\<rparr>)"
| world: "sdk_step E A s (s\<lparr>st_world := w\<rparr>)"
| close: "sdk_step E A s (snd (close (ask q) c s))"
| prepare: "preparing E A s t \<Longrightarrow> sdk_step E A s t"
| sign: "signing E s t \<Longrightarrow> sdk_step E A s t"
| administer: "administering E s t \<Longrightarrow> sdk_step E A s t"

text \<open>The states a program reaches from one in which every client was just constructed.\<close>

inductive sdk_reachable :: "'w env \<Rightarrow> 't abi_lib \<Rightarrow> ('w, client) state \<Rightarrow> bool"
  for E :: "'w env" and A :: "'t abi_lib" where
  start: "(\<And>c. \<exists>url tmo tun. new_client url tmo tun = Inr (st_clients s c)) \<Longrightarrow> sdk_reachable E A s"
| step: "sdk_reachable E A s \<Longrightarrow> sdk_step E A s t \<Longrightarrow> sdk_reachable E A t"

section \<open>A contract covers every call\<close>

lemma obeysD: "obeys R m \<Longrightarrow> R s (snd (m s))"
  by (simp add: obeys_def)

context node_contract
begin

lemma preparing_obeys: "preparing E A s t \<Longrightarrow> R s t"
proof (induction rule: preparing.induct)
  case (resolve s c a lookup)
  have "obeys R (resolve_auth_address E c a (map_option (\<lambda>q x. ask (q x)) lookup))"
    by (intro resolve_obeys) (auto intro: ask_obeys)
  then show ?case by (simp add: obeys_def)
qed (rule obeysD, intro contract_intros)+

end

context signing_contract
begin

lemma signing_obeys:
  assumes "signing E s t" and "\<And>w s. R s (s\<lparr>st_world := w\<rparr>)"
  shows "R s t"
  using assms(1)
proof (induction rule: signing.induct)
  case (algokit_sign acct new_id s codec txn_group indexes)
  have "obeys R new" if "ak_new_request_id acct = Some new" for new
    using that algokit_sign assms(2) by (auto simp: obeys_def ask_def split: prod.splits)
  then show ?case by (rule algokit_sign_obeys)
qed (rule obeysD, intro contract_intros)+

end

context admin_contract
begin

lemma administering_obeys: "administering E s t \<Longrightarrow> R s t"
  by (induction rule: administering.induct) (rule obeysD, intro contract_intros)+

end

section \<open>The invariant of the client objects\<close>

lemma http_keeps_clients: "obeys (maintains I) (http E c meth path body tmo)"
  unfolding http_def by (intro kept.structure_rules) (rule preserves_world(2) [unfolded preserves_def])

lemma caches_keep_clients:
  "obeys (maintains client_ok) (cache_approval_wait E c v)" "obeys (maintains client_ok) (list_keys_step c k keys)"
  "obeys (maintains client_ok) (update_client c clear_key_cache)"
  "obeys (maintains client_ok) (update_client c (\<lambda>cl. cl\<lparr>key_cache_revision := v'\<rparr>))"
  "obeys (maintains client_ok) (fresh_token E)"
  unfolding preserves_def [symmetric] by (intro preserves_intros; simp)+

interpretation valid_node: node_contract "maintains client_ok" E for E
  by unfold_locales (auto simp: http_keeps_clients caches_keep_clients maintains_def)

interpretation valid_sign: signing_contract "maintains client_ok" E for E
  by unfold_locales (auto simp: http_keeps_clients caches_keep_clients)

interpretation valid_admin: admin_contract "maintains client_ok" E for E
  by unfold_locales (auto simp: http_keeps_clients)

lemma close_keeps: "obeys (maintains client_ok) (close (ask q) c)"
  unfolding close_def preserves_def [symmetric] by (intro preserves_intros) simp_all

lemma sdk_step_ok: "sdk_step E A s t \<Longrightarrow> maintains client_ok s t"
proof (induction rule: sdk_step.induct)
  case (close s q c)
  show ?case using close_keeps by (rule obeysD)
next
  case (sign s t)
  then show ?case by (rule valid_sign.signing_obeys) (rule valid_node.world_moves)
qed (auto simp: maintains_def new_client_ok dest: valid_node.preparing_obeys valid_admin.administering_obeys)

lemma reachable_ok: "sdk_reachable E A s \<Longrightarrow> client_ok (st_clients s c)"
proof (induction arbitrary: c rule: sdk_reachable.induct)
  case (start s)
  then show ?case by (metis new_client_ok)
next
  case (step s t)
  then show ?case using sdk_step_ok unfolding maintains_def by blast
qed

section \<open>The requests of each kind of call\<close>

definition read_request :: "event \<Rightarrow> bool" where
  "read_request e \<longleftrightarrow> rq_method (snd e) = ''GET'' \<and> rq_path (snd e) \<in> set read_paths"

definition sign_request :: "event \<Rightarrow> bool" where
  "sign_request e \<longleftrightarrow> read_request e \<or> rq_method (snd e) = ''POST'' \<and> rq_path (snd e) \<in> set sign_paths"

lemma http_appends:
  "P (c, mk_request meth path body tmo) \<Longrightarrow> obeys (appends P) (http E c meth path body tmo)"
  using issues_http unfolding issues_def .

lemma quiet_appends: "obeys (appends P) (cache_approval_wait E c v)" "obeys (appends P) (list_keys_step c k keys)"
  "obeys (appends P) (update_client c f)" "obeys (appends P) (fresh_token E)" "appends P s (s\<lparr>st_world := w\<rparr>)"
  unfolding issues_def [symmetric] by (intro issues_intros issues_cache_approval_wait)+ (simp add: appends_def)

interpretation reading: node_contract "appends read_request" E for E
  by unfold_locales (auto simp: quiet_appends read_request_def intro: http_appends)

interpretation requesting: signing_contract "appends sign_request" E for E
  by unfold_locales (auto simp: quiet_appends read_request_def sign_request_def intro: http_appends)

section \<open>Properties\<close>

text \<open>
  C6. Whatever a program does with its clients - in any order, with any arguments, calls that raise
  included, against any signers, nodes and clock - each client object it holds stays well formed: a
  configured timeout is positive, a cached approval wait lies within the limit and carries the time it
  was read at, the timeout of the next signing request is positive, at most half an hour and the slack,
  and at most the configured timeout, and the key cache maps each address once, to a key of that address whose bounded contract, if
  it has one, has a fee limit that is not negative.
\<close>

theorem reachable_clients_valid:
  assumes "sdk_reachable E A s"
  shows "(case timeout (st_clients s c) of None \<Rightarrow> True | Some u \<Rightarrow> 0 < u \<and> sign_request_timeout (st_clients s c) t \<le> u) \<and>
     (case approval_wait_seconds (st_clients s c) of None \<Rightarrow> True | Some n \<Rightarrow> 0 < n \<and> n \<le> 1800) \<and>
     (approval_wait_known (st_clients s c) \<longleftrightarrow> approval_wait_fetched_at (st_clients s c) \<noteq> None) \<and>
     0 < sign_request_timeout (st_clients s c) t \<and> sign_request_timeout (st_clients s c) t \<le> 1830 \<and>
     distinct (map fst (key_cache (st_clients s c))) \<and>
     list_all (\<lambda>(a, k). ki_address k = a \<and> (case ki_bounded_authorization k of None \<Rightarrow> True | Some b \<Rightarrow> 0 \<le> ba_max_fee b))
       (key_cache (st_clients s c))"
proof -
  have ok: "client_ok (st_clients s c)" using assms by (rule reachable_ok)
  then have "distinct (map fst (key_cache (st_clients s c))) \<and>
     list_all (\<lambda>(a, k). ki_address k = a \<and> (case ki_bounded_authorization k of None \<Rightarrow> True | Some b \<Rightarrow> 0 \<le> ba_max_fee b))
       (key_cache (st_clients s c))"
    by (fastforce simp: client_ok_def cache_ok_def list_all_iff split: option.splits)
  with ok sign_request_timeout_bounds [OF ok, of t] show ?thesis
    by (auto simp: client_ok_def timeout_defs split: option.splits)
qed

definition plain_client :: client where
  "plain_client = \<lparr>base_url = ''http://127.0.0.1:11270'', timeout = None, tunnel = False, key_cache = [],
     key_cache_revision = PNone, approval_wait_seconds = None, approval_wait_fetched_at = None, approval_wait_known = False\<rparr>"

lemma plain_client_new: "new_client ''http://127.0.0.1:11270/'' None False = Inr plain_client"
  by code_simp

theorem reachable_clients_valid_witness:
  "sdk_reachable sample_inventory_env sample_abi
     (snd (list_keys_if_keyset_changed sample_inventory_env 0 (initial_state plain_client))) \<and>
   map fst (key_cache (st_clients (snd (list_keys_if_keyset_changed sample_inventory_env 0 (initial_state plain_client))) 0)) = [PStr ''A''] \<and>
   list_all (\<lambda>(a, k). ki_address k = a)
     (key_cache (st_clients (snd (list_keys_if_keyset_changed sample_inventory_env 0 (initial_state plain_client))) 0))"
  (is "sdk_reachable ?E ?A ?s \<and> ?keys \<and> ?addresses")
proof -
  have "sdk_reachable ?E ?A (initial_state plain_client)"
  proof (rule sdk_reachable.start)
    fix c show "\<exists>url tmo tun. new_client url tmo tun = Inr (st_clients (initial_state plain_client) c)"
      unfolding initial_state_def using plain_client_new by auto
  qed
  then have reach: "sdk_reachable ?E ?A ?s" by (rule sdk_reachable.step) (rule sdk_step.prepare, rule preparing.list_keys_if_changed)
  moreover have ?keys by code_simp
  moreover have ?addresses using reachable_clients_valid [OF reach, of 0] by (auto simp: list_all_iff)
  ultimately show ?thesis by blast
qed

text \<open>
  C7. Least privilege of the calls. Reading the inventory and preparing transactions sends the signer
  \<^verbatim>\<open>GET\<close> requests for its health, status, keys and key types and nothing else, so it can neither sign
  nor change anything; the signing, planning, simulating and cancelling calls send such reads and
  \<^verbatim>\<open>POST\<close> requests to the signing endpoints, so they never generate or delete a key. This holds on
  every path, also when a call raises.
\<close>

theorem call_footprints:
  "(preparing E A s t \<longrightarrow> (\<exists>es. st_trace t = st_trace s @ es \<and> list_all read_request es)) \<and>
   (signing E s t \<longrightarrow> (\<exists>es. st_trace t = st_trace s @ es \<and> list_all sign_request es))"
  using reading.preparing_obeys requesting.signing_obeys [OF _ quiet_appends(5)]
  unfolding appends_def list_all_iff by blast

text \<open>A run of each kind: preparing reads the key, signing posts.\<close>

definition read_trace :: "(unit, client) state" where
  "read_trace = snd (list_keys_if_keyset_changed sample_inventory_env 0 (initial_state plain_client))"

definition plan_trace :: "(unit, client) state" where
  "plan_trace = snd (plan_requests sample_inventory_env 0 [pobj [(''txn_bytes_hex'', PStr ''00''), (''auth_address'', PStr ''A'')]] (initial_state plain_client))"

theorem call_footprints_witness:
  "map (\<lambda>e. (rq_method (snd e), rq_path (snd e))) (st_trace read_trace) = [(''GET'', ''/status''), (''GET'', ''/keys'')] \<and>
   list_all read_request (st_trace read_trace) \<and>
   map (\<lambda>e. (rq_method (snd e), rq_path (snd e))) (st_trace plan_trace) = [(''POST'', ''/plan'')] \<and>
   list_all sign_request (st_trace plan_trace)"
proof -
  have "st_trace (initial_state plain_client) = []" by (simp add: initial_state_def)
  moreover have "preparing sample_inventory_env sample_abi (initial_state plain_client) read_trace"
    unfolding read_trace_def by (rule preparing.list_keys_if_changed)
  moreover have "signing sample_inventory_env (initial_state plain_client) plan_trace"
    unfolding plan_trace_def by (rule signing.plan_requests)
  ultimately have "list_all read_request (st_trace read_trace) \<and> list_all sign_request (st_trace plan_trace)"
    using call_footprints [of sample_inventory_env sample_abi "initial_state plain_client" read_trace]
      call_footprints [of sample_inventory_env sample_abi "initial_state plain_client" plan_trace] by auto
  moreover have "map (\<lambda>e. (rq_method (snd e), rq_path (snd e))) (st_trace read_trace) = [(''GET'', ''/status''), (''GET'', ''/keys'')]" by code_simp
  moreover have "map (\<lambda>e. (rq_method (snd e), rq_path (snd e))) (st_trace plan_trace) = [(''POST'', ''/plan'')]" by code_simp
  ultimately show ?thesis by blast
qed

end
