(* ===== verification/Endpoint_Registry.thy ===== *)
theory Endpoint_Registry
  imports Py_Prelude
begin

text \<open>
  The client's configuration: \<^verbatim>\<open>config.yaml\<close>, and the registry of signer and cosigner endpoints in
  \<^verbatim>\<open>endpoints.yaml\<close>. What the operating system and the YAML library answer is a parameter (\<open>host_os\<close>);
  the parts of \<^verbatim>\<open>urllib.parse\<close> and \<^verbatim>\<open>os.path\<close> the sources rely on are modelled (POSIX paths).
\<close>

section \<open>The surroundings\<close>

datatype yaml_file = NoFile | Unreadable exc | BadYaml string | Yaml pyval

text \<open>
  \<open>os_check_bracketed\<close> is what \<^verbatim>\<open>urllib.parse\<close> asks the \<^verbatim>\<open>ipaddress\<close> module about a host in
  brackets.
\<close>

record host_os =
  os_getenv :: "string \<Rightarrow> string option"
  os_expanduser :: "string \<Rightarrow> string"
  os_path_exists :: "string \<Rightarrow> bool"
  os_read_yaml :: "string \<Rightarrow> yaml_file"
  os_check_bracketed :: "string \<Rightarrow> unit result"

definition path_isabs :: "string \<Rightarrow> bool" where
  "path_isabs p \<longleftrightarrow> starts_with ''/'' p"

definition path_join :: "string \<Rightarrow> string \<Rightarrow> string" where
  "path_join a b = (if path_isabs b then b else if a = [] \<or> last a = CHR ''/'' then a @ b else a @ ''/'' @ b)"

definition resolve_data_dir :: "host_os \<Rightarrow> string option \<Rightarrow> string result" where
  "resolve_data_dir H data_dir =
     (let resolved = (if data_dir \<noteq> None \<and> data_dir \<noteq> Some [] then data_dir else os_getenv H ''APCLIENT_DATA'') in
      case resolved of
        Some (c # cs) \<Rightarrow> Inr (os_expanduser H (c # cs))
      | _ \<Rightarrow> Inl (signer_error ''client data directory not specified: pass data_dir or set APCLIENT_DATA''))"

text \<open>\<^verbatim>\<open>yaml.safe_load(f) or {}\<close>\<close>

definition load_yaml :: "host_os \<Rightarrow> string \<Rightarrow> string \<Rightarrow> pyval result" where
  "load_yaml H path what =
     (case os_read_yaml H path of
        NoFile \<Rightarrow> Inl (Exc OSError (''No such file or directory: '' @ repr_str path) [])
      | Unreadable e \<Rightarrow> Inl e
      | BadYaml m \<Rightarrow> Inl (signer_error (''failed to parse '' @ what @ '': '' @ m))
      | Yaml v \<Rightarrow> Inr (py_or v (PDict [])))"

section \<open>\<^verbatim>\<open>config.yaml\<close>\<close>

record client_config =
  cc_network :: string
  cc_networks_allowed :: "string list"
  cc_theme :: string

definition default_config :: client_config where
  "default_config = \<lparr>cc_network = ''testnet'', cc_networks_allowed = [], cc_theme = ''auto''\<rparr>"

fun all_strings :: "pyval list \<Rightarrow> string list option" where
  "all_strings [] = Some []"
| "all_strings (PStr s # vs) = map_option (Cons s) (all_strings vs)"
| "all_strings (v # vs) = None"

fun dict_has :: "pyval \<Rightarrow> string \<Rightarrow> bool" where
  "dict_has (PDict kvs) k = (dict_lookup kvs k \<noteq> None)"
| "dict_has v k = False"

definition parse_config :: "pyval \<Rightarrow> client_config result" where
  "parse_config data =
     raise_if (\<not> is_dict data) (signer_error ''config.yaml must be a mapping'') (
     case List.find (dict_has data) [''endpoint'', ''ssh'', ''signer_port''] of
       Some field \<Rightarrow> Inl (signer_error (''unsupported client routing in config.yaml: remove '' @ CHR 0x22 # field @ CHR 0x22 #
         '' and configure endpoints.yaml''))
     | None \<Rightarrow> Inr
         \<lparr>cc_network = (case pget data ''network'' of PStr s \<Rightarrow> s | _ \<Rightarrow> cc_network default_config),
          cc_networks_allowed = (case pget data ''networks_allowed'' of
             PList xs \<Rightarrow> (case all_strings xs of Some ss \<Rightarrow> ss | None \<Rightarrow> []) | _ \<Rightarrow> []),
          cc_theme = (case pget data ''theme'' of PStr (c # cs) \<Rightarrow> c # cs | _ \<Rightarrow> cc_theme default_config)\<rparr>)"

definition load_config :: "host_os \<Rightarrow> string \<Rightarrow> client_config result" where
  "load_config H data_dir =
     (let config_path = path_join data_dir ''config.yaml'' in
      if \<not> os_path_exists H config_path then Inr default_config
      else rbind (load_yaml H config_path ''config.yaml'') parse_config)"

section \<open>URLs\<close>

text \<open>\<^verbatim>\<open>s.partition(c)\<close>: before the first \<open>c\<close>, whether there is one, after it.\<close>

definition partition_at :: "char \<Rightarrow> string \<Rightarrow> string \<times> bool \<times> string" where
  "partition_at c s = (takeWhile (\<lambda>x. x \<noteq> c) s, c \<in> set s, drop 1 (dropWhile (\<lambda>x. x \<noteq> c) s))"

definition after_last :: "char \<Rightarrow> string \<Rightarrow> string" where
  "after_last c s = rev (takeWhile (\<lambda>x. x \<noteq> c) (rev s))"

definition is_alpha :: "char \<Rightarrow> bool" where
  "is_alpha c = (let n = ord_of c in 65 \<le> n \<and> n \<le> 90 \<or> 97 \<le> n \<and> n \<le> 122)"

definition scheme_char :: "char \<Rightarrow> bool" where
  "scheme_char c \<longleftrightarrow> is_ascii_alnum c \<or> c \<in> set ''+-.''"

text \<open>\<^verbatim>\<open>urlsplit\<close>: the scheme and the network location.\<close>

definition url_clean :: "string \<Rightarrow> string" where
  "url_clean url = filter (\<lambda>c. c \<notin> {CHR 0x09, CHR 0x0D, CHR 0x0A}) (dropWhile (\<lambda>c. ord_of c \<le> 32) url)"

definition split_scheme :: "string \<Rightarrow> string \<times> string" where
  "split_scheme url =
     (case partition_at (CHR '':'') url of (pre, found, rest) \<Rightarrow>
        if found \<and> pre \<noteq> [] \<and> is_alpha (hd pre) \<and> list_all scheme_char pre then (lower pre, rest) else ([], url))"

definition netloc_of :: "string \<Rightarrow> string" where
  "netloc_of rest = (if starts_with ''//'' rest then takeWhile (\<lambda>c. c \<notin> set ''/?#'') (drop 2 rest) else [])"

record url_parts =
  url_scheme :: string
  url_netloc :: string

definition urlparse :: "host_os \<Rightarrow> string \<Rightarrow> url_parts result" where
  "urlparse H url =
     (case split_scheme (url_clean url) of (scheme, rest) \<Rightarrow>
      let netloc = netloc_of rest; opened = CHR ''['' \<in> set netloc; closed = CHR '']'' \<in> set netloc in
      raise_if (opened \<noteq> closed) (value_error ''Invalid IPv6 URL'') (
      rbind (if opened then os_check_bracketed H netloc else Inr ()) (\<lambda>_.
        Inr \<lparr>url_scheme = scheme, url_netloc = netloc\<rparr>)))"

definition hostinfo :: "string \<Rightarrow> string \<times> string" where
  "hostinfo netloc =
     (let info = after_last (CHR ''@'') netloc in
      case partition_at (CHR ''['') info of (_, bracket, bracketed) \<Rightarrow>
        if bracket then
          (case partition_at (CHR '']'') bracketed of (host, _, after) \<Rightarrow> (case partition_at (CHR '':'') after of (_, _, port) \<Rightarrow> (host, port)))
        else (case partition_at (CHR '':'') info of (host, _, port) \<Rightarrow> (host, port)))"

text \<open>\<^verbatim>\<open>parsed.hostname\<close>, with \<open>[]\<close> for \<^verbatim>\<open>None\<close>: lower case, except for an IPv6 zone.\<close>

definition url_hostname :: "url_parts \<Rightarrow> string" where
  "url_hostname u =
     (case partition_at (CHR ''%'') (fst (hostinfo (url_netloc u))) of (host, percent, zone) \<Rightarrow>
        lower host @ (if percent then ''%'' else []) @ zone)"

definition ascii_digit :: "char \<Rightarrow> bool" where
  "ascii_digit c \<longleftrightarrow> digit_val c \<noteq> None"

definition url_port :: "url_parts \<Rightarrow> int option result" where
  "url_port u =
     (let port = snd (hostinfo (url_netloc u)) in
      if port = [] then Inr None
      else raise_if (\<not> list_all ascii_digit port) (value_error (''Port could not be cast to integer value as '' @ repr_str port)) (
        case parse_digits port 0 of
          None \<Rightarrow> Inl (value_error (''Port could not be cast to integer value as '' @ repr_str port))
        | Some n \<Rightarrow> raise_if (65535 < n) (value_error ''Port out of range 0-65535'') (Inr (Some n))))"

section \<open>Endpoints\<close>

definition CLIENT_ENDPOINTS_FILE :: string where "CLIENT_ENDPOINTS_FILE = ''endpoints.yaml''"
definition CLIENT_ENDPOINT_SCHEMA_VERSION :: int where "CLIENT_ENDPOINT_SCHEMA_VERSION = 2"
definition DEFAULT_SSH_PORT :: int where "DEFAULT_SSH_PORT = 1127"

record client_endpoint =
  ep_role :: string
  ep_url :: string
  ep_identity_file :: string
  ep_known_hosts_path :: string

record endpoint_registry =
  rg_schema_version :: int
  rg_default :: string
  rg_endpoints :: "(string \<times> client_endpoint) list"

definition require_mapping :: "pyval \<Rightarrow> string \<Rightarrow> (pyval \<times> pyval) list result" where
  "require_mapping value label = (case value of PDict kvs \<Rightarrow> Inr kvs | _ \<Rightarrow> Inl (signer_error (label @ '' must be a mapping'')))"

definition require_known_fields :: "(pyval \<times> pyval) list \<Rightarrow> string list \<Rightarrow> string \<Rightarrow> unit result" where
  "require_known_fields value allowed label =
     (let unknown = filter (\<lambda>k. k \<notin> PStr ` set allowed) (map fst value) in
      raise_if (unknown \<noteq> []) (signer_error (label @ '' contains unknown field '' @ CHR 0x22 # hd (sort (map py_str unknown)) @ [CHR 0x22]))
        (Inr ()))"

definition optional_string :: "pyval \<Rightarrow> string \<Rightarrow> string result" where
  "optional_string value field =
     (case value of PNone \<Rightarrow> Inr [] | PStr s \<Rightarrow> Inr s | _ \<Rightarrow> Inl (signer_error (field @ '' must be a string'')))"

definition resolve_path :: "host_os \<Rightarrow> string \<Rightarrow> string \<Rightarrow> string" where
  "resolve_path H file_path data_dir =
     (if file_path = [] then [] else
      let expanded = os_expanduser H file_path in if path_isabs expanded then expanded else path_join data_dir expanded)"

definition alias_char :: "char \<Rightarrow> bool" where
  "alias_char c \<longleftrightarrow> is_ascii_alnum c \<or> c \<in> set ''._-''"

definition validate_endpoint_alias :: "string \<Rightarrow> unit result" where
  "validate_endpoint_alias alias =
     raise_if (alias = [] \<or> \<not> list_all alias_char alias)
       (signer_error (''alias '' @ CHR 0x22 # alias @ CHR 0x22 # '' must contain only ASCII letters, digits, ''
          @ join '', '' [repr_str ''.'', repr_str ''_'', ''or '' @ repr_str ''-'']))
       (Inr ())"

definition endpoint_label :: "string \<Rightarrow> string" where
  "endpoint_label alias = ''endpoint '' @ CHR 0x22 # alias @ [CHR 0x22]"

definition endpoint_error :: "string \<Rightarrow> string \<Rightarrow> exc" where
  "endpoint_error alias m = signer_error (endpoint_label alias @ '': '' @ m)"

definition check_endpoint_url :: "host_os \<Rightarrow> string \<Rightarrow> string \<Rightarrow> unit result" where
  "check_endpoint_url H alias endpoint_url =
     raise_if (endpoint_url = []) (endpoint_error alias ''url is required'') (
     raise_if (endpoint_url = ''self'') (endpoint_error alias
       (''url '' @ CHR 0x22 # ''self'' @ CHR 0x22 # '' is not supported; configure an explicit ssh://host[:port] endpoint'')) (
     rbind (rewrap is_value_error (\<lambda>e. endpoint_error alias (''invalid url: '' @ exc_msg e))
              (rbind (urlparse H endpoint_url) (\<lambda>parsed. rbind (url_port parsed) (\<lambda>port. Inr (parsed, port))))) (\<lambda>(parsed, parsed_port).
     raise_if (url_scheme parsed \<noteq> ''ssh'') (endpoint_error alias (''unsupported url scheme '' @ CHR 0x22 # url_scheme parsed @ CHR 0x22 #
       ''; a node is reached only through its SSH server (ssh://host[:port])'')) (
     raise_if (url_hostname parsed = []) (endpoint_error alias ''url host is required'') (
     raise_if (case parsed_port of None \<Rightarrow> False | Some p \<Rightarrow> \<not> (1 \<le> p \<and> p \<le> 65535))
       (endpoint_error alias (''invalid url port '' @ CHR 0x22 # show_int (the parsed_port) @ [CHR 0x22])) (Inr ()))))))"

definition normalize_client_endpoint :: "host_os \<Rightarrow> string \<Rightarrow> string \<Rightarrow> pyval \<Rightarrow> client_endpoint result" where
  "normalize_client_endpoint H data_dir alias raw_value =
     rbind (require_mapping raw_value (endpoint_label alias)) (\<lambda>raw.
     rbind (require_known_fields raw [''role'', ''url'', ''identity_file'', ''known_hosts_path'', ''signer_port'', ''local_port'', ''token_file'']
              (endpoint_label alias)) (\<lambda>_.
     rbind (optional_string (pget raw_value ''role'') ''role'') (\<lambda>role0.
     let role = strip role0 in
     raise_if (role \<notin> {''signer'', ''cosigner''}) (endpoint_error alias (''unsupported role '' @ CHR 0x22 # role @ CHR 0x22 #
       '' (expected '' @ CHR 0x22 # ''signer'' @ CHR 0x22 # '' or '' @ CHR 0x22 # ''cosigner'' @ CHR 0x22 # '')'')) (
     rbind (optional_string (pget raw_value ''url'') ''url'') (\<lambda>url0.
     let endpoint_url = rstrip_char (CHR ''/'') (strip url0) in
     rbind (check_endpoint_url H alias endpoint_url) (\<lambda>_.
     rbind (optional_string (pget raw_value ''identity_file'') ''identity_file'') (\<lambda>identity_file.
     rbind (optional_string (pget raw_value ''known_hosts_path'') ''known_hosts_path'') (\<lambda>known_hosts_path.
       Inr \<lparr>ep_role = role, ep_url = endpoint_url,
            ep_identity_file = resolve_path H (if identity_file = [] then ''.ssh/id_ed25519'' else identity_file) data_dir,
            ep_known_hosts_path = resolve_path H (if known_hosts_path = [] then ''.ssh/known_hosts'' else known_hosts_path) data_dir\<rparr>))))))))"

definition add_endpoint :: "host_os \<Rightarrow> string \<Rightarrow> pyval \<times> pyval \<Rightarrow> (string \<times> client_endpoint) list \<Rightarrow> (string \<times> client_endpoint) list result" where
  "add_endpoint H data_dir entry endpoints =
     (case entry of
        (PStr alias, endpoint_raw) \<Rightarrow>
          rbind (validate_endpoint_alias alias) (\<lambda>_.
          rbind (normalize_client_endpoint H data_dir alias endpoint_raw) (\<lambda>endpoint.
            Inr (AList.update alias endpoint endpoints)))
      | _ \<Rightarrow> Inl (signer_error ''endpoint aliases must be strings''))"

definition empty_registry :: endpoint_registry where
  "empty_registry = \<lparr>rg_schema_version = CLIENT_ENDPOINT_SCHEMA_VERSION, rg_default = [], rg_endpoints = []\<rparr>"

text \<open>The alias that \<^verbatim>\<open>default\<close> becomes, given the one that was written and the signer endpoints.\<close>

definition choose_default :: "string \<Rightarrow> string list \<Rightarrow> string result" where
  "choose_default default_alias signer_aliases =
     (let quoted = (\<lambda>s. CHR 0x22 # s @ [CHR 0x22]); label = CLIENT_ENDPOINTS_FILE @ '' default endpoint '' @ quoted default_alias in
      raise_if (1 < length signer_aliases) (signer_error (CLIENT_ENDPOINTS_FILE @ '' may contain at most one '' @ quoted ''signer'' @ '' endpoint'')) (
      case signer_aliases of
        [] \<Rightarrow> raise_if (default_alias \<noteq> []) (signer_error (label @ '' is set but no '' @ quoted ''signer'' @ '' endpoint is configured'')) (Inr [])
      | signer # _ \<Rightarrow>
          raise_if (default_alias \<noteq> [] \<and> default_alias \<noteq> signer)
            (signer_error (label @ '' must be the '' @ quoted ''signer'' @ '' endpoint '' @ quoted signer)) (Inr signer)))"

definition parse_endpoint_registry :: "host_os \<Rightarrow> string \<Rightarrow> pyval \<Rightarrow> endpoint_registry result" where
  "parse_endpoint_registry H data_dir raw_value =
     rbind (require_mapping raw_value CLIENT_ENDPOINTS_FILE) (\<lambda>raw.
     rbind (require_known_fields raw [''schema_version'', ''default'', ''endpoints''] CLIENT_ENDPOINTS_FILE) (\<lambda>_.
     let schema_version = pget_or raw_value ''schema_version'' (PInt 0) in
     raise_if (exact_int schema_version \<noteq> Some CLIENT_ENDPOINT_SCHEMA_VERSION)
       (signer_error (CLIENT_ENDPOINTS_FILE @ '' schema_version = '' @ py_str schema_version @ '', want '' @ show_int CLIENT_ENDPOINT_SCHEMA_VERSION)) (
     let endpoints_value = (if pget raw_value ''endpoints'' = PNone then PDict [] else pget raw_value ''endpoints'') in
     rbind (require_mapping endpoints_value (CLIENT_ENDPOINTS_FILE @ '' endpoints'')) (\<lambda>endpoints_raw.
     rbind (rfold (add_endpoint H data_dir) endpoints_raw []) (\<lambda>endpoints.
     let cosigner_count = length (filter (\<lambda>(_, e). ep_role e = ''cosigner'') endpoints) in
     raise_if (12 < cosigner_count) (signer_error (CLIENT_ENDPOINTS_FILE @ '' configures '' @ show_nat cosigner_count
       @ '' cosigner endpoints; maximum is 12; remove or consolidate endpoint profiles'')) (
     rbind (optional_string (pget raw_value ''default'') ''default'') (\<lambda>default0.
     let default_alias = strip default0 in
     rbind (if default_alias \<noteq> [] then validate_endpoint_alias default_alias else Inr ()) (\<lambda>_.
     rbind (choose_default default_alias (map fst (filter (\<lambda>(_, e). ep_role e = ''signer'') endpoints))) (\<lambda>chosen.
       Inr \<lparr>rg_schema_version = CLIENT_ENDPOINT_SCHEMA_VERSION, rg_default = chosen, rg_endpoints = endpoints\<rparr>)))))))))"

definition load_client_endpoint_registry :: "host_os \<Rightarrow> string \<Rightarrow> endpoint_registry result" where
  "load_client_endpoint_registry H data_dir =
     (let endpoints_path = path_join data_dir CLIENT_ENDPOINTS_FILE in
      if \<not> os_path_exists H endpoints_path then Inr empty_registry
      else rbind (load_yaml H endpoints_path endpoints_path) (parse_endpoint_registry H data_dir))"

definition resolve_client_endpoint :: "endpoint_registry \<Rightarrow> string option \<Rightarrow> (string \<times> client_endpoint) result" where
  "resolve_client_endpoint registry alias =
     (let selected = (case alias of Some (c # cs) \<Rightarrow> c # cs | _ \<Rightarrow> rg_default registry) in
      raise_if (selected = []) (signer_error (CLIENT_ENDPOINTS_FILE @ '' has no default signer endpoint'')) (
      case map_of (rg_endpoints registry) selected of
        None \<Rightarrow> Inl (signer_error (''endpoint alias '' @ CHR 0x22 # selected @ CHR 0x22 # '' is not defined''))
      | Some e \<Rightarrow> Inr (selected, e)))"

definition client_endpoint_ssh_host_port :: "host_os \<Rightarrow> client_endpoint \<Rightarrow> (string \<times> int) result" where
  "client_endpoint_ssh_host_port H endpoint =
     rbind (urlparse H (ep_url endpoint)) (\<lambda>parsed.
     raise_if (url_scheme parsed \<noteq> ''ssh'') (signer_error (endpoint_label (ep_url endpoint) @ '' requires ssh://'')) (
     rbind (url_port parsed) (\<lambda>port.
       Inr (url_hostname parsed, (case port of Some p \<Rightarrow> if p = 0 then DEFAULT_SSH_PORT else p | None \<Rightarrow> DEFAULT_SSH_PORT)))))"

section \<open>Lemmas\<close>

definition url_usable :: "host_os \<Rightarrow> string \<Rightarrow> bool" where
  "url_usable H url \<longleftrightarrow> (\<exists>u port. urlparse H url = Inr u \<and> url_port u = Inr port \<and> url_scheme u = ''ssh'' \<and> url_hostname u \<noteq> [] \<and>
     (case port of None \<Rightarrow> True | Some p \<Rightarrow> 1 \<le> p \<and> p \<le> 65535))"

definition endpoint_ok :: "host_os \<Rightarrow> string \<times> client_endpoint \<Rightarrow> bool" where
  "endpoint_ok H ae \<longleftrightarrow> fst ae \<noteq> [] \<and> list_all alias_char (fst ae) \<and> ep_role (snd ae) \<in> {''signer'', ''cosigner''} \<and>
     url_usable H (ep_url (snd ae))"

lemma check_endpoint_url_Inr: "check_endpoint_url H alias url = Inr u \<Longrightarrow> url_usable H url"
  unfolding check_endpoint_url_def url_usable_def
  by (auto simp: raise_if_Inr rbind_Inr rewrap_Inr split: option.splits)

lemma normalize_client_endpoint_Inr:
  "normalize_client_endpoint H data_dir alias v = Inr e \<Longrightarrow> ep_role e \<in> {''signer'', ''cosigner''} \<and> url_usable H (ep_url e)"
  unfolding normalize_client_endpoint_def Let_def by (auto simp: raise_if_Inr rbind_Inr dest: check_endpoint_url_Inr)

lemma validate_endpoint_alias_Inr [simp]: "validate_endpoint_alias a = Inr u \<longleftrightarrow> a \<noteq> [] \<and> list_all alias_char a"
  by (auto simp: validate_endpoint_alias_def raise_if_Inr)

lemma add_endpoint_Inr:
  assumes "add_endpoint H d entry es = Inr es'"
  shows "\<exists>a e. es' = AList.update a e es \<and> endpoint_ok H (a, e)"
  using assms unfolding add_endpoint_def endpoint_ok_def
  by (auto simp: rbind_Inr dest!: normalize_client_endpoint_Inr split: prod.splits pyval.splits)

lemma set_update_cases: "x \<in> set (AList.update k v al) \<Longrightarrow> x = (k, v) \<or> x \<in> set al"
  by (induction al) (auto split: if_splits)

lemma add_endpoints:
  "rfold (add_endpoint H d) raw es = Inr es' \<Longrightarrow> distinct (map fst es) \<Longrightarrow> list_all (endpoint_ok H) es \<Longrightarrow>
     distinct (map fst es') \<and> list_all (endpoint_ok H) es'"
proof (induction raw arbitrary: es)
  case (Cons r raw)
  then obtain es1 where step: "add_endpoint H d r es = Inr es1" and rest: "rfold (add_endpoint H d) raw es1 = Inr es'"
    by (auto simp: result_simps)
  from add_endpoint_Inr [OF step] obtain a e where e: "es1 = AList.update a e es" "endpoint_ok H (a, e)" by blast
  have "endpoint_ok H x" if "x \<in> set es1" for x
    using set_update_cases [OF that [unfolded e(1)]] e(2) Cons.prems(3) by (auto simp: list_all_iff)
  then have "list_all (endpoint_ok H) es1" by (simp add: list_all_iff)
  moreover have "distinct (map fst es1)" using Cons.prems(2) e by (simp add: distinct_update)
  ultimately show ?case using Cons.IH [OF rest] by blast
qed simp

lemma choose_default_Inr:
  "choose_default d signers = Inr x \<longleftrightarrow> (signers = [] \<and> d = [] \<and> x = [] \<or> (\<exists>a. signers = [a] \<and> (d = [] \<or> d = a) \<and> x = a))"
  by (cases signers) (auto simp: choose_default_def Let_def raise_if_Inr)

definition signers :: "endpoint_registry \<Rightarrow> string list" where
  "signers r = map fst (filter (\<lambda>(_, e). ep_role e = ''signer'') (rg_endpoints r))"

definition registry_ok :: "host_os \<Rightarrow> endpoint_registry \<Rightarrow> bool" where
  "registry_ok H r \<longleftrightarrow> distinct (map fst (rg_endpoints r)) \<and> list_all (endpoint_ok H) (rg_endpoints r) \<and>
     length (filter (\<lambda>(_, e). ep_role e = ''cosigner'') (rg_endpoints r)) \<le> 12 \<and>
     (signers r = [] \<and> rg_default r = [] \<or> signers r = [rg_default r])"

lemma parse_endpoint_registry_Inr:
  assumes "parse_endpoint_registry H d v = Inr r"
  shows "registry_ok H r"
proof -
  from assms obtain raw es dflt where fold: "rfold (add_endpoint H d) raw [] = Inr es"
    and count: "\<not> 12 < length (filter (\<lambda>(_, e). ep_role e = ''cosigner'') es)"
    and choice: "choose_default (strip dflt) (map fst (filter (\<lambda>(_, e). ep_role e = ''signer'') es)) = Inr (rg_default r)"
    and r: "rg_endpoints r = es"
    unfolding parse_endpoint_registry_def Let_def by (auto simp: raise_if_Inr rbind_Inr)
  from add_endpoints [OF fold] have "distinct (map fst es)" "list_all (endpoint_ok H) es" by simp_all
  with count choice r show ?thesis unfolding registry_ok_def signers_def choose_default_Inr by auto
qed

lemma load_registry_Inr: "load_client_endpoint_registry H d = Inr r \<Longrightarrow> registry_ok H r"
  unfolding load_client_endpoint_registry_def Let_def
  by (auto simp: rbind_Inr dest: parse_endpoint_registry_Inr split: if_splits)
    (simp add: registry_ok_def empty_registry_def signers_def)

lemma resolve_client_endpoint_Inr:
  "resolve_client_endpoint r alias = Inr (a, e) \<Longrightarrow> (a, e) \<in> set (rg_endpoints r) \<and> a = (case alias of Some (c # cs) \<Rightarrow> c # cs | _ \<Rightarrow> rg_default r)"
  unfolding resolve_client_endpoint_def Let_def by (auto simp: raise_if_Inr dest: map_of_SomeD split: option.splits)

lemma host_port_usable:
  "url_usable H (ep_url e) \<Longrightarrow> \<exists>h p. client_endpoint_ssh_host_port H e = Inr (h, p) \<and> h \<noteq> [] \<and> 1 \<le> p \<and> p \<le> 65535"
  unfolding url_usable_def client_endpoint_ssh_host_port_def
  by (auto simp: rbind_def raise_if_def DEFAULT_SSH_PORT_def split: option.splits)

subsection \<open>Plain URLs\<close>

definition host_char :: "char \<Rightarrow> bool" where
  "host_char c = (let n = ord_of c in 97 \<le> n \<and> n \<le> 122 \<or> 48 \<le> n \<and> n \<le> 57 \<or> n = 45 \<or> n = 46)"

definition plain_host :: "string \<Rightarrow> bool" where
  "plain_host h \<longleftrightarrow> h \<noteq> [] \<and> list_all host_char h"

lemma host_char_plain:
  assumes "host_char c"
  shows "c \<notin> set ''/?#[]@:%''" "c \<notin> {CHR 0x09, CHR 0x0D, CHR 0x0A}" "lower_char c = c"
  using assms by (auto simp: host_char_def lower_char_def Let_def)

lemma show_int_host_chars: "0 \<le> p \<Longrightarrow> list_all host_char (show_int p)"
  unfolding list_all_iff show_int_def using show_nat_digits [of "nat p"] by (auto simp: host_char_def Let_def)

lemma takeWhile_all: "list_all P xs \<Longrightarrow> takeWhile P xs = xs"
  by (simp add: list_all_iff)

lemma partition_at_absent: "c \<notin> set s \<Longrightarrow> partition_at c s = (s, False, [])"
proof -
  assume c: "c \<notin> set s"
  have "takeWhile (\<lambda>x. x \<noteq> c) s = s" "dropWhile (\<lambda>x. x \<noteq> c) s = []"
    using c by (auto simp: takeWhile_eq_all_conv dropWhile_eq_Nil_conv)
  then show ?thesis unfolding partition_at_def using c by (simp only: drop_Nil simp_thms)
qed

lemma partition_at_first: "c \<notin> set a \<Longrightarrow> partition_at c (a @ c # b) = (a, True, b)"
  unfolding partition_at_def by (subst takeWhile_append2, auto) (subst dropWhile_append2, auto)

lemma after_last_absent: "c \<notin> set s \<Longrightarrow> after_last c s = s"
  unfolding after_last_def by (subst takeWhile_eq_all_conv [THEN iffD2], auto)

lemma lower_plain: "list_all host_char h \<Longrightarrow> lower h = h"
  unfolding lower_def list_all_iff by (rule map_idI) (auto dest: host_char_plain(3))

lemma plain_notin: "list_all host_char s \<Longrightarrow> x \<in> set ''/?#[]@:%'' \<Longrightarrow> x \<notin> set s"
  using host_char_plain(1) by (auto simp: list_all_iff)

lemma urlparse_plain:
  assumes "list_all (\<lambda>c. c = CHR '':'' \<or> host_char c) loc"
  shows "urlparse H (''ssh://'' @ loc) = Inr \<lparr>url_scheme = ''ssh'', url_netloc = loc\<rparr>"
proof -
  have ok: "c \<notin> set ''/?#[]@%''" "c \<notin> {CHR 0x09, CHR 0x0D, CHR 0x0A}" if "c \<in> set loc" for c
  proof -
    have "c = CHR '':'' \<or> host_char c" using that assms by (auto simp: list_all_iff)
    then show "c \<notin> set ''/?#[]@%''" "c \<notin> {CHR 0x09, CHR 0x0D, CHR 0x0A}"
      using host_char_plain(1,2) [of c] by (elim disjE; simp)+
  qed
  have "filter (\<lambda>c. c \<notin> {CHR 0x09, CHR 0x0D, CHR 0x0A}) loc = loc" using ok(2) by (intro filter_True) blast
  then have clean: "url_clean (''ssh://'' @ loc) = ''ssh://'' @ loc" unfolding url_clean_def by simp
  have "partition_at (CHR '':'') (''ssh://'' @ loc) = (''ssh'', True, ''//'' @ loc)"
    using partition_at_first [of "CHR '':''" "''ssh''" "''//'' @ loc"] by simp
  moreover have "list_all scheme_char ''ssh''" "is_alpha (CHR ''s'')" "lower ''ssh'' = ''ssh''" by code_simp+
  ultimately have split: "split_scheme (''ssh://'' @ loc) = (''ssh'', ''//'' @ loc)" unfolding split_scheme_def by simp
  have "takeWhile (\<lambda>c. c \<notin> set ''/?#'') loc = loc" using ok(1) by (intro takeWhile_eq_all_conv [THEN iffD2]) auto
  then have "netloc_of (''//'' @ loc) = loc" unfolding netloc_of_def by simp
  moreover have "CHR ''['' \<notin> set loc" "CHR '']'' \<notin> set loc" using ok(1) by auto
  ultimately show ?thesis unfolding urlparse_def clean split by (simp add: Let_def)
qed

lemma hostinfo_plain:
  assumes "list_all host_char h" and "list_all host_char p"
  shows "hostinfo (h @ '':'' @ p) = (h, p)" "hostinfo h = (h, [])"
proof -
  have "CHR ''@'' \<notin> set (h @ '':'' @ p)" "CHR ''['' \<notin> set (h @ '':'' @ p)" "CHR '':'' \<notin> set h" "CHR ''@'' \<notin> set h" "CHR ''['' \<notin> set h"
    using plain_notin [OF assms(1)] plain_notin [OF assms(2)] by auto
  then show "hostinfo (h @ '':'' @ p) = (h, p)" "hostinfo h = (h, [])"
    using partition_at_first [of "CHR '':''" h p] by (simp_all add: hostinfo_def after_last_absent partition_at_absent Let_def)
qed

lemma digits_show_nat: "list_all ascii_digit (show_nat n)"
  unfolding list_all_iff ascii_digit_def using show_nat_digits [of n] digit_val_char_of by fastforce

lemma url_port_show: "0 \<le> p \<Longrightarrow> p \<le> 65535 \<Longrightarrow> snd (hostinfo (url_netloc u)) = show_int p \<Longrightarrow> url_port u = Inr (Some p)"
  using digits_show_nat [of "nat p"] parse_digits_show_nat [of "nat p" "[]"] show_nat_head [of "nat p"]
  by (auto simp: url_port_def Let_def show_int_def raise_if_def)

section \<open>Properties\<close>

text \<open>
  C34. What a loaded registry promises, whatever the file said: aliases are distinct and made of the
  permitted characters; every endpoint is a signer or a cosigner behind an ssh URL with a host, and a
  port in range if one is given; there are at most twelve cosigners and at most one signer, and the
  default is exactly that signer.
\<close>

theorem registry_invariant:
  assumes "load_client_endpoint_registry H data_dir = Inr r"
  shows "registry_ok H r"
  using assms by (rule load_registry_Inr)

text \<open>
  Loading and using agree. An endpoint that is selected from a loaded registry always yields a host
  and a port to connect to; selecting without an alias yields the registry's only signer.
\<close>

theorem selected_endpoint_connects:
  assumes "load_client_endpoint_registry H data_dir = Inr r" and "resolve_client_endpoint r alias = Inr (a, e)"
  shows "\<exists>h p. client_endpoint_ssh_host_port H e = Inr (h, p) \<and> h \<noteq> [] \<and> 1 \<le> p \<and> p \<le> 65535 \<and>
     (alias = None \<longrightarrow> ep_role e = ''signer'' \<and> signers r = [a])"
proof -
  note ok = load_registry_Inr [OF assms(1), unfolded registry_ok_def]
  note sel = resolve_client_endpoint_Inr [OF assms(2)]
  have "url_usable H (ep_url e)" using ok sel unfolding list_all_iff endpoint_ok_def by fastforce
  from host_port_usable [OF this] obtain h p where hp: "client_endpoint_ssh_host_port H e = Inr (h, p)" "h \<noteq> []" "1 \<le> p" "p \<le> 65535" by blast
  have "ep_role e = ''signer'' \<and> signers r = [a]" if "alias = None"
  proof -
    have a: "a = rg_default r" using sel that by simp
    have "fst (a, e) \<noteq> []" using ok sel unfolding list_all_iff endpoint_ok_def by blast
    with ok a have one: "signers r = [a]" by auto
    then have "a \<in> set (signers r)" by simp
    then obtain e' where "(a, e') \<in> set (rg_endpoints r)" "ep_role e' = ''signer''" unfolding signers_def by auto
    with sel ok have "e' = e" by (metis eq_key_imp_eq_value)
    with \<open>ep_role e' = ''signer''\<close> one show ?thesis by simp
  qed
  with hp show ?thesis by blast
qed


subsection \<open>Evaluation\<close>

definition sample_os :: host_os where
  "sample_os = \<lparr>os_getenv = (\<lambda>_. None), os_expanduser = (\<lambda>p. p), os_path_exists = (\<lambda>_. True),
     os_read_yaml = (\<lambda>_. Yaml (pobj [(''schema_version'', PInt 2), (''endpoints'', pobj
        [(''main'', pobj [(''role'', PStr ''signer''), (''url'', PStr ''ssh://node.local:2200/'')]),
         (''co-1'', pobj [(''role'', PStr ''cosigner''), (''url'', PStr ''ssh://co.local'')])])])),
     os_check_bracketed = (\<lambda>_. Inr ())\<rparr>"

lemma sample_registry:
  "\<exists>r e. load_client_endpoint_registry sample_os ''/d'' = Inr r \<and> resolve_client_endpoint r None = Inr (''main'', e) \<and>
     ep_url e = ''ssh://node.local:2200''"
proof -
  have "(case load_client_endpoint_registry sample_os ''/d'' of Inr r \<Rightarrow>
     (case resolve_client_endpoint r None of Inr (a, e) \<Rightarrow> a = ''main'' \<and> ep_url e = ''ssh://node.local:2200'' | _ \<Rightarrow> False) | _ \<Rightarrow> False)"
    by code_simp
  then show ?thesis by (auto split: sum.splits prod.splits)
qed

theorem registry_invariant_witness:
  "\<exists>r. load_client_endpoint_registry sample_os ''/d'' = Inr r \<and> registry_ok sample_os r"
proof -
  obtain r where r: "load_client_endpoint_registry sample_os ''/d'' = Inr r" using sample_registry by (elim exE conjE)
  from registry_invariant [OF r] r show ?thesis by (intro exI conjI)
qed

theorem selected_endpoint_connects_witness:
  "\<exists>r e h p. load_client_endpoint_registry sample_os ''/d'' = Inr r \<and> resolve_client_endpoint r None = Inr (''main'', e) \<and>
     client_endpoint_ssh_host_port sample_os e = Inr (h, p) \<and> signers r = [''main'']"
proof -
  obtain r e where r: "load_client_endpoint_registry sample_os ''/d'' = Inr r" and e: "resolve_client_endpoint r None = Inr (''main'', e)"
    using sample_registry by (elim exE conjE)
  from selected_endpoint_connects [OF r e] obtain h p where "client_endpoint_ssh_host_port sample_os e = Inr (h, p)" "signers r = [''main'']" by auto
  with r e show ?thesis by (intro exI conjI)
qed


end
