(* ===== verification/Ssh_Tunnel.thy ===== *)
theory Ssh_Tunnel
  imports Client_Invariants Endpoint_Registry
begin

text \<open>
  The SSH tunnel of a client: loading the client key, verification of the server's host key, the
  set-up of the connection under its deadline, the local listener, tear-down, and the constructors
  \<^verbatim>\<open>connect_ssh\<close> and \<^verbatim>\<open>from_env\<close> built on them.

  Sockets, threads, files and \<^verbatim>\<open>paramiko\<close> are a parameter, \<open>ssh_lib\<close>: each of its operations acts on
  the world outside and may fail. What the SDK does with them is recorded in a log. The timer that
  ends a slow set-up runs beside the code below, which sees of it only the flag \<^verbatim>\<open>setup_timed_out\<close>;
  how the two threads share that flag is the subject of the theory \<open>Setup_Deadline\<close>.
\<close>

section \<open>The world of a tunnel\<close>

datatype key_class = Ed25519Key | ECDSAKey

datatype 'k ssh_event =
    Connected string int
  | TransportMade
  | HostKeyReceived 'k
  | AuthTried string
  | TransportClosed
  | SocketClosed
  | Listening int
  | ListenerClosed

text \<open>The mutable attributes of \<^verbatim>\<open>_SSHTunnel\<close>: whether each holds an object.\<close>

record tunnel_obj =
  to_ssh_client :: bool
  to_transport :: bool
  to_server_socket :: bool
  to_running :: bool

text \<open>
  The world with what the SDK itself keeps: the log, the tunnel objects, and the deadline of an
  enrollment in progress, a variable that the host key prompt moves.
\<close>

record ('v, 'k) net =
  nw_world :: 'v
  nw_log :: "'k ssh_event list"
  nw_tunnels :: "nat \<Rightarrow> tunnel_obj"
  nw_deadline :: real

record ('v, 'k, 'p, 'h) ssh_lib =
  ssh_monotonic :: "'v \<Rightarrow> real"
  ssh_timed_out :: "'v \<Rightarrow> bool"
  ssh_load_key :: "key_class \<Rightarrow> string \<Rightarrow> 'v \<Rightarrow> 'p result \<times> 'v"
  ssh_free_port :: "'v \<Rightarrow> int result \<times> 'v"
  ssh_create_connection :: "string \<Rightarrow> int \<Rightarrow> real \<Rightarrow> 'v \<Rightarrow> unit result \<times> 'v"
  ssh_settimeout :: "real option \<Rightarrow> 'v \<Rightarrow> unit result \<times> 'v"
  ssh_gettimeout :: "'v \<Rightarrow> real option"
  ssh_start_timer :: "real \<Rightarrow> 'v \<Rightarrow> unit result \<times> 'v"
  ssh_cancel_timer :: "'v \<Rightarrow> 'v"
  ssh_transport :: "'v \<Rightarrow> unit result \<times> 'v"
  ssh_start_client :: "real \<Rightarrow> 'v \<Rightarrow> unit result \<times> 'v"
  ssh_server_key :: "'v \<Rightarrow> 'k result \<times> 'v"
  ssh_auth_publickey :: "string \<Rightarrow> 'p \<Rightarrow> 'v \<Rightarrow> unit result \<times> 'v"
  ssh_is_authenticated :: "'v \<Rightarrow> bool result \<times> 'v"
  ssh_close_transport :: "'v \<Rightarrow> 'v"
  ssh_close_socket :: "'v \<Rightarrow> 'v"
  ssh_new_listener :: "'v \<Rightarrow> unit result \<times> 'v"
  ssh_bind_listen :: "int \<Rightarrow> 'v \<Rightarrow> unit result \<times> 'v"
  ssh_close_listener :: "'v \<Rightarrow> 'v"
  ssh_start_accept :: "'v \<Rightarrow> unit result \<times> 'v"
  pk_name :: "'k \<Rightarrow> string"
  pk_eq :: "'k \<Rightarrow> 'k \<Rightarrow> bool"
  hk_new :: 'h
  hk_lookup :: "'h \<Rightarrow> string \<Rightarrow> (string \<Rightarrow> 'k option) option"
  hk_add :: "'h \<Rightarrow> string \<Rightarrow> string \<Rightarrow> 'k \<Rightarrow> 'h"
  hk_exists :: "string \<Rightarrow> 'v \<Rightarrow> bool"
  hk_load :: "string \<Rightarrow> 'v \<Rightarrow> 'h result \<times> 'v"
  hk_save :: "'h \<Rightarrow> string \<Rightarrow> 'v \<Rightarrow> unit result \<times> 'v"
  fs_makedirs :: "string \<Rightarrow> 'v \<Rightarrow> unit result \<times> 'v"
  fs_chmod :: "string \<Rightarrow> 'v \<Rightarrow> unit result \<times> 'v"

type_synonym ('v, 'k, 'a) ssh_action = "(('v, 'k) net, 'a) client_action"

definition call :: "('v \<Rightarrow> 'a result \<times> 'v) \<Rightarrow> ('v, 'k, 'a) ssh_action" where
  "call q = ask (\<lambda>n. case q (nw_world n) of (r, w) \<Rightarrow> (r, n\<lparr>nw_world := w\<rparr>))"

definition look :: "('v \<Rightarrow> 'a) \<Rightarrow> ('v, 'k, 'a) ssh_action" where
  "look q = ask (\<lambda>n. (Inr (q (nw_world n)), n))"

definition act :: "('v \<Rightarrow> 'v) \<Rightarrow> ('v, 'k, unit) ssh_action" where
  "act q = ask (\<lambda>n. (Inr (), n\<lparr>nw_world := q (nw_world n)\<rparr>))"

definition log_event :: "'k ssh_event \<Rightarrow> ('v, 'k, unit) ssh_action" where
  "log_event ev = ask (\<lambda>n. (Inr (), n\<lparr>nw_log := nw_log n @ [ev]\<rparr>))"

definition set_tunnel :: "nat \<Rightarrow> (tunnel_obj \<Rightarrow> tunnel_obj) \<Rightarrow> ('v, 'k, unit) ssh_action" where
  "set_tunnel c f = ask (\<lambda>n. (Inr (), n\<lparr>nw_tunnels := (nw_tunnels n)(c := f (nw_tunnels n c))\<rparr>))"

definition get_tunnel :: "nat \<Rightarrow> ('v, 'k, tunnel_obj) ssh_action" where
  "get_tunnel c = ask (\<lambda>n. (Inr (nw_tunnels n c), n))"

text \<open>\<^verbatim>\<open>except Exception: h; raise\<close>\<close>

definition on_error :: "('w, 'c, unit) action \<Rightarrow> ('w, 'c, 'a) action \<Rightarrow> ('w, 'c, 'a) action" where
  "on_error h m = acatch (\<lambda>_. True) (\<lambda>e. abind h (\<lambda>_. araise e)) m"

text \<open>\<^verbatim>\<open>try: m finally: h\<close>\<close>

definition afinally :: "('w, 'c, unit) action \<Rightarrow> ('w, 'c, 'a) action \<Rightarrow> ('w, 'c, 'a) action" where
  "afinally h m = abind (on_error h m) (\<lambda>x. abind h (\<lambda>_. aret x))"

section \<open>Arguments\<close>

text \<open>
  \<^verbatim>\<open>setup_timeout\<close>: a finite number of seconds with its text in messages (\<^verbatim>\<open>f"{t:g}"\<close>), an infinity or
  not-a-number, or a value of another type.
\<close>

datatype setup_timeout = Seconds real string | NotFinite | NotANumber

fun timeout_usable :: "setup_timeout \<Rightarrow> bool" where
  "timeout_usable (Seconds t txt) = (0 < t)"
| "timeout_usable _ = False"

fun timeout_seconds :: "setup_timeout \<Rightarrow> real" where
  "timeout_seconds (Seconds t txt) = t"
| "timeout_seconds _ = 0"

fun timeout_text :: "setup_timeout \<Rightarrow> string" where
  "timeout_text (Seconds t txt) = txt"
| "timeout_text _ = []"

record ssh_args =
  sa_host :: string
  sa_port :: int
  sa_key_path :: string
  sa_local_port :: int
  sa_known_hosts_path :: string
  sa_trust_on_first_use :: bool
  sa_setup_timeout :: setup_timeout

definition SSH_USERNAME :: string where "SSH_USERNAME = ''aplane''"
definition CLIENT_SSH_KEY_REQUIREMENT :: string where "CLIENT_SSH_KEY_REQUIREMENT = ''Ed25519 or ECDSA (P-256/384/521)''"

definition new_tunnel :: "ssh_args \<Rightarrow> unit result" where
  "new_tunnel T = raise_if (\<not> timeout_usable (sa_setup_timeout T)) (signer_error ''SSH setup timeout must be positive'') (Inr ())"

section \<open>The client key\<close>

text \<open>The loop over the key classes; \<open>errors\<close> are the messages so far.\<close>

fun load_key_classes :: "('v, 'k, 'p, 'h) ssh_lib \<Rightarrow> string \<Rightarrow> key_class list \<Rightarrow> string list \<Rightarrow> ('v, 'k, 'p) ssh_action" where
  "load_key_classes S path [] errors =
     araise (signer_error (''Failed to load SSH key '' @ path @ '': not an '' @ CLIENT_SSH_KEY_REQUIREMENT @ '' private key; ''
       @ ''the signer does not accept other key types ('' @ last errors @ '')''))"
| "load_key_classes S path (kc # kcs) errors =
     acatch (\<lambda>e. is_ssh_exception e \<or> is_value_error e)
       (\<lambda>e. if exc_cls e = PasswordRequiredException
            then araise (signer_error (''SSH key '' @ path @ '' is encrypted; use an unencrypted key: '' @ exc_msg e))
            else load_key_classes S path kcs (errors @ [exc_msg e]))
       (call (ssh_load_key S kc path))"

definition load_client_ssh_key :: "('v, 'k, 'p, 'h) ssh_lib \<Rightarrow> string \<Rightarrow> ('v, 'k, 'p) ssh_action" where
  "load_client_ssh_key S path = load_key_classes S path [Ed25519Key, ECDSAKey] []"

section \<open>The host key\<close>

text \<open>\<^verbatim>\<open>os.path.dirname\<close>\<close>

definition dirname :: "string \<Rightarrow> string" where
  "dirname p =
     (let head = rev (dropWhile (\<lambda>ch. ch \<noteq> CHR ''/'') (rev p)) in
      if \<forall>ch \<in> set head. ch = CHR ''/'' then head else rstrip_char (CHR ''/'') head)"

definition host_entry :: "ssh_args \<Rightarrow> string" where
  "host_entry T = (if sa_port T = 22 then sa_host T else ''['' @ sa_host T @ '']:'' @ show_int (sa_port T))"

definition host_port_text :: "ssh_args \<Rightarrow> string" where
  "host_port_text T = sa_host T @ '':'' @ show_int (sa_port T)"

definition load_host_keys :: "('v, 'k, 'p, 'h) ssh_lib \<Rightarrow> string \<Rightarrow> ('v, 'k, 'h) ssh_action" where
  "load_host_keys S path = abind (look (hk_exists S path)) (\<lambda>present. if present then call (hk_load S path) else aret (hk_new S))"

definition verify_host_key :: "('v, 'k, 'p, 'h) ssh_lib \<Rightarrow> ssh_args \<Rightarrow> 'k \<Rightarrow> ('v, 'k, unit) ssh_action" where
  "verify_host_key S T server_key =
     (let path = sa_known_hosts_path T in
      abind (load_host_keys S path) (\<lambda>host_keys.
      case hk_lookup S host_keys (host_entry T) of
        Some known \<Rightarrow>
          araise_if (case known (pk_name S server_key) of None \<Rightarrow> True | Some expected \<Rightarrow> \<not> pk_eq S expected server_key)
            (signer_error (''SSH host key mismatch for '' @ host_port_text T @ '' (possible MITM attack); remove the old key from ''
               @ path @ '' to connect'')) (aret ())
      | None \<Rightarrow>
          araise_if (\<not> sa_trust_on_first_use T)
            (signer_error (''Unknown SSH host key for '' @ host_port_text T @ ''; pass trust_on_first_use=True for explicit first-use trust, ''
               @ ''or connect via apshell first to save the host key to '' @ path)) (
          abind (if dirname path \<noteq> [] then call (fs_makedirs S (dirname path)) else aret ()) (\<lambda>_.
          abind (call (hk_save S (hk_add S host_keys (host_entry T) (pk_name S server_key) server_key) path)) (\<lambda>_.
            call (fs_chmod S path))))))"

section \<open>Setting up the connection\<close>

definition deadline_exceeded :: exc where
  "deadline_exceeded = Exc TimeoutError ''SSH setup deadline exceeded'' []"

definition remaining_setup_time :: "('v, 'k, 'p, 'h) ssh_lib \<Rightarrow> real \<Rightarrow> ('v, 'k, real) ssh_action" where
  "remaining_setup_time S deadline =
     abind (look (ssh_monotonic S)) (\<lambda>t. araise_if (deadline - t \<le> 0) deadline_exceeded (aret (deadline - t)))"

text \<open>\<^verbatim>\<open>setup_timed_out.is_set() or time.monotonic() >= deadline\<close>\<close>

definition overdue :: "('v, 'k, 'p, 'h) ssh_lib \<Rightarrow> real \<Rightarrow> ('v, 'k, bool) ssh_action" where
  "overdue S deadline = look (\<lambda>w. ssh_timed_out S w \<or> deadline \<le> ssh_monotonic S w)"

definition authenticate :: "('v, 'k, 'p, 'h) ssh_lib \<Rightarrow> 'p \<Rightarrow> real \<Rightarrow> ('v, 'k, unit) ssh_action" where
  "authenticate S pkey deadline =
     abind (remaining_setup_time S deadline) (\<lambda>r.
     abind (call (ssh_settimeout S (Some r))) (\<lambda>_.
     abind (log_event (AuthTried SSH_USERNAME)) (\<lambda>_.
     abind (call (ssh_auth_publickey S SSH_USERNAME pkey)) (\<lambda>_.
     abind (call (ssh_is_authenticated S)) (\<lambda>ok.
     araise_if (\<not> ok) (signer_error ''SSH public-key authentication did not complete'') (
     abind (overdue S deadline) (\<lambda>late.
     araise_if late deadline_exceeded (aret ()))))))))"

text \<open>What runs on the open transport.\<close>

definition negotiate :: "('v, 'k, 'p, 'h) ssh_lib \<Rightarrow> ssh_args \<Rightarrow> 'p \<Rightarrow> real \<Rightarrow> ('v, 'k, unit) ssh_action" where
  "negotiate S T pkey deadline =
     abind (look (ssh_gettimeout S)) (\<lambda>transport_socket_timeout.
     abind (remaining_setup_time S deadline) (\<lambda>r.
     abind (call (ssh_start_client S r)) (\<lambda>_.
     abind (call (ssh_server_key S)) (\<lambda>server_key.
     abind (log_event (HostKeyReceived server_key)) (\<lambda>_.
     abind (verify_host_key S T server_key) (\<lambda>_.
     abind (authenticate S pkey deadline) (\<lambda>_.
     abind (act (ssh_cancel_timer S)) (\<lambda>_.
       call (ssh_settimeout S transport_socket_timeout)))))))))"

definition close_transport :: "('v, 'k, 'p, 'h) ssh_lib \<Rightarrow> ('v, 'k, unit) ssh_action" where
  "close_transport S = abind (act (ssh_close_transport S)) (\<lambda>_. log_event TransportClosed)"

definition close_socket :: "('v, 'k, 'p, 'h) ssh_lib \<Rightarrow> ('v, 'k, unit) ssh_action" where
  "close_socket S = abind (act (ssh_close_socket S)) (\<lambda>_. log_event SocketClosed)"

text \<open>
  The \<^verbatim>\<open>try\<close> block. Its handler closes the transport if there is one, else the socket if there is one;
  the timer is cancelled first when it was started.
\<close>

definition establish :: "('v, 'k, 'p, 'h) ssh_lib \<Rightarrow> ssh_args \<Rightarrow> 'p \<Rightarrow> real \<Rightarrow> ('v, 'k, unit) ssh_action" where
  "establish S T pkey deadline =
     abind (remaining_setup_time S deadline) (\<lambda>r.
     abind (call (ssh_create_connection S (sa_host T) (sa_port T) r)) (\<lambda>_.
     abind (log_event (Connected (sa_host T) (sa_port T))) (\<lambda>_.
     abind (on_error (close_socket S) (
       abind (remaining_setup_time S deadline) (\<lambda>r.
       abind (call (ssh_settimeout S (Some r))) (\<lambda>_.
       abind (remaining_setup_time S deadline) (\<lambda>r.
         call (ssh_start_timer S r)))))) (\<lambda>_.
     abind (on_error (abind (act (ssh_cancel_timer S)) (\<lambda>_. close_socket S)) (call (ssh_transport S))) (\<lambda>_.
     abind (log_event TransportMade) (\<lambda>_.
       on_error (abind (act (ssh_cancel_timer S)) (\<lambda>_. close_transport S)) (negotiate S T pkey deadline)))))))"

definition setup_error :: "('v, 'k, 'p, 'h) ssh_lib \<Rightarrow> ssh_args \<Rightarrow> real \<Rightarrow> exc \<Rightarrow> ('v, 'k, unit) ssh_action" where
  "setup_error S T deadline e =
     abind (overdue S deadline) (\<lambda>late.
     if late \<or> exc_cls e = TimeoutError
       then araise (signer_error (''SSH setup timed out after '' @ timeout_text (sa_setup_timeout T) @ '' seconds''))
     else if is_signer_error e then araise e
     else if is_ssh_authentication e
       then araise (Exc AuthenticationError (''SSH authentication failed: '' @ exc_msg e @ '': the client'' @ CHR 0x27 # ''s SSH key is not ''
         @ ''enrolled at the signer, or was revoked (the signer accepts '' @ CLIENT_SSH_KEY_REQUIREMENT
         @ '' client keys); enroll it with request_enrollment or apshell enroll'') [])
     else if is_ssh_exception e then araise (signer_error (''SSH connection failed: '' @ exc_msg e))
     else araise e)"

text \<open>After the connection: the local listener and the thread that accepts on it.\<close>

definition start_listener :: "('v, 'k, 'p, 'h) ssh_lib \<Rightarrow> ssh_args \<Rightarrow> nat \<Rightarrow> ('v, 'k, unit) ssh_action" where
  "start_listener S T c =
     abind (set_tunnel c (\<lambda>t. t\<lparr>to_transport := True\<rparr>)) (\<lambda>_.
     abind (call (ssh_new_listener S)) (\<lambda>_.
     abind (set_tunnel c (\<lambda>t. t\<lparr>to_server_socket := True\<rparr>)) (\<lambda>_.
     abind (call (ssh_bind_listen S (sa_local_port T))) (\<lambda>_.
     abind (log_event (Listening (sa_local_port T))) (\<lambda>_.
     abind (set_tunnel c (\<lambda>t. t\<lparr>to_running := True\<rparr>)) (\<lambda>_.
       call (ssh_start_accept S)))))))"

definition tunnel_start :: "('v, 'k, 'p, 'h) ssh_lib \<Rightarrow> ssh_args \<Rightarrow> nat \<Rightarrow> ('v, 'k, unit) ssh_action" where
  "tunnel_start S T c =
     araise_if (sa_known_hosts_path T = []) (signer_error ''known_hosts path is required for SSH host key verification'') (
     abind (load_client_ssh_key S (sa_key_path T)) (\<lambda>pkey.
     abind (look (ssh_monotonic S)) (\<lambda>t.
     let deadline = t + timeout_seconds (sa_setup_timeout T) in
     abind (acatch (\<lambda>_. True) (setup_error S T deadline) (establish S T pkey deadline)) (\<lambda>_.
       start_listener S T c))))"

definition tunnel_stop :: "('v, 'k, 'p, 'h) ssh_lib \<Rightarrow> nat \<Rightarrow> ('v, 'k, unit) ssh_action" where
  "tunnel_stop S c =
     abind (set_tunnel c (\<lambda>t. t\<lparr>to_running := False\<rparr>)) (\<lambda>_.
     abind (get_tunnel c) (\<lambda>t.
     abind (if to_server_socket t
            then abind (abind (act (ssh_close_listener S)) (\<lambda>_. log_event ListenerClosed)) (\<lambda>_. set_tunnel c (\<lambda>t. t\<lparr>to_server_socket := False\<rparr>))
            else aret ()) (\<lambda>_.
     if to_ssh_client t
     then abind (close_transport S) (\<lambda>_. set_tunnel c (\<lambda>t. t\<lparr>to_ssh_client := False, to_transport := False\<rparr>))
     else if to_transport t
     then abind (close_transport S) (\<lambda>_. set_tunnel c (\<lambda>t. t\<lparr>to_transport := False\<rparr>))
     else aret ())))"

section \<open>Connecting a client\<close>

text \<open>
  The new client takes the identity \<open>c\<close>. \<open>H\<close> expands user directories; the remote end of the forward
  is nominal, so it is not an argument.
\<close>

definition fresh_tunnel :: tunnel_obj where
  "fresh_tunnel = \<lparr>to_ssh_client = False, to_transport = False, to_server_socket = False, to_running = False\<rparr>"

text \<open>The signer behind the tunnel is part of the world outside: its replies change nothing of the SDK's own.\<close>

definition net_env :: "'v env \<Rightarrow> ('v, 'k) net env" where
  "net_env E =
     \<lparr>env_send = (\<lambda>c rq n. case env_send E c rq (nw_world n) of (out, w) \<Rightarrow> (out, n\<lparr>nw_world := w\<rparr>)),
      env_now = (\<lambda>n. env_now E (nw_world n)),
      env_token = (\<lambda>n. case env_token E (nw_world n) of (r, w) \<Rightarrow> (r, n\<lparr>nw_world := w\<rparr>))\<rparr>"

definition connect_ssh :: "'v env \<Rightarrow> ('v, 'k, 'p, 'h) ssh_lib \<Rightarrow> host_os \<Rightarrow> nat \<Rightarrow> ssh_args \<Rightarrow> int option \<Rightarrow> ('v, 'k, unit) ssh_action" where
  "connect_ssh E S H c T tmo =
     abind (if sa_local_port T \<noteq> 0 then aret (sa_local_port T) else call (ssh_free_port S)) (\<lambda>local_port.
     let T' = T\<lparr>sa_key_path := os_expanduser H (sa_key_path T), sa_known_hosts_path := os_expanduser H (sa_known_hosts_path T),
                sa_local_port := local_port\<rparr> in
     abind (acatch (\<lambda>e. \<not> is_signer_error e) (\<lambda>e. araise (Exc SignerUnavailableError (''SSH tunnel failed: '' @ exc_msg e) []))
              (abind (alift (new_tunnel T')) (\<lambda>_.
               abind (set_tunnel c (\<lambda>_. fresh_tunnel)) (\<lambda>_. tunnel_start S T' c)))) (\<lambda>_.
     abind (alift (new_client (''http://127.0.0.1:'' @ show_int local_port) tmo True)) (\<lambda>cl.
     abind (update_client c (\<lambda>_. cl)) (\<lambda>_.
     abind (health (net_env E) c) (\<lambda>ok.
     if \<not> ok then
       abind (close (tunnel_stop S c) c) (\<lambda>_.
         araise (Exc SignerUnavailableError ''Connected via SSH but signer not responding'' []))
     else aret ())))))"

definition from_env :: "'v env \<Rightarrow> ('v, 'k, 'p, 'h) ssh_lib \<Rightarrow> host_os \<Rightarrow> nat \<Rightarrow> string option \<Rightarrow> int option \<Rightarrow> string option \<Rightarrow> bool \<Rightarrow>
    setup_timeout \<Rightarrow> ('v, 'k, unit) ssh_action" where
  "from_env E S H c data_dir tmo endpoint trust_on_first_use ssh_setup_timeout =
     abind (alift (resolve_data_dir H data_dir)) (\<lambda>dir.
     abind (alift (load_config H dir)) (\<lambda>_.
     abind (alift (load_client_endpoint_registry H dir)) (\<lambda>registry.
     abind (alift (resolve_client_endpoint registry endpoint)) (\<lambda>(_, selected).
     abind (alift (client_endpoint_ssh_host_port H selected)) (\<lambda>(host, ssh_port).
     araise_if (\<not> os_path_exists H (ep_identity_file selected)) (signer_error (''SSH key not found at '' @ ep_identity_file selected)) (
       connect_ssh E S H c
         \<lparr>sa_host = host, sa_port = ssh_port, sa_key_path = ep_identity_file selected, sa_local_port = 0,
          sa_known_hosts_path = ep_known_hosts_path selected, sa_trust_on_first_use = trust_on_first_use,
          sa_setup_timeout = ssh_setup_timeout\<rparr> tmo))))))"

section \<open>Running the primitives\<close>

lemma ask_run: "ask q s = (fst (q (st_world s)), s\<lparr>st_world := snd (q (st_world s))\<rparr>)"
  by (simp add: ask_def case_prod_unfold)

abbreviation log_of :: "(('v, 'k) net, 'c) state \<Rightarrow> 'k ssh_event list" where
  "log_of s \<equiv> nw_log (st_world s)"

abbreviation tunnel_of :: "nat \<Rightarrow> (('v, 'k) net, 'c) state \<Rightarrow> tunnel_obj" where
  "tunnel_of c s \<equiv> nw_tunnels (st_world s) c"

lemmas ssh_prims = call_def look_def act_def log_event_def set_tunnel_def get_tunnel_def ask_run case_prod_unfold

text \<open>Actions that keep a view of the state: the log, or the tunnels, or a part of them.\<close>

definition same :: "(('w, 'c) state \<Rightarrow> 'b) \<Rightarrow> ('w, 'c) state \<Rightarrow> ('w, 'c) state \<Rightarrow> bool" where
  "same v s t \<longleftrightarrow> v t = v s"

interpretation viewed: effect_contract "same v" for v
  by unfold_locales (simp_all add: same_def)

definition keeps :: "(('w, 'c) state \<Rightarrow> 'b) \<Rightarrow> ('w, 'c, 'a) action \<Rightarrow> bool" where
  "keeps v m \<longleftrightarrow> obeys (same v) m"

named_theorems keeps_intros \<open>composition of actions that keep a view of the state\<close>

lemma keeps_iff: "keeps v m \<longleftrightarrow> (\<forall>s. v (snd (m s)) = v s)"
  by (simp add: keeps_def obeys_def same_def)

lemma keepsD: "keeps v m \<Longrightarrow> m s = (r, t) \<Longrightarrow> v t = v s"
  by (metis keeps_iff snd_conv)

lemmas keeps_structure [keeps_intros] = viewed.structure_rules [folded keeps_def]

lemma keeps_on_error [keeps_intros]: "keeps v h \<Longrightarrow> keeps v m \<Longrightarrow> keeps v (on_error h m)"
  unfolding on_error_def by (intro keeps_intros)

lemma keeps_world [keeps_intros]:
  "keeps log_of (call q)" "keeps log_of (look q')" "keeps log_of (act q'')" "keeps log_of (set_tunnel c f)" "keeps log_of (get_tunnel c)"
  by (simp_all add: keeps_iff ssh_prims)

lemma keeps_view: "keeps v m \<Longrightarrow> keeps (\<lambda>s. g (v s)) m"
  by (simp add: keeps_iff)

lemma keeps_load_classes [keeps_intros]: "keeps log_of (load_key_classes S path kcs errors)"
  by (induction kcs arbitrary: errors) (auto intro!: keeps_intros)

lemma keeps_load_key [keeps_intros]: "keeps log_of (load_client_ssh_key S path)"
  unfolding load_client_ssh_key_def by (intro keeps_intros)

lemma keeps_load_host_keys [keeps_intros]: "keeps log_of (load_host_keys S path)"
  unfolding load_host_keys_def by (intro keeps_intros)

lemma keeps_verify [keeps_intros]: "keeps log_of (verify_host_key S T k)"
  unfolding verify_host_key_def Let_def by (intro keeps_intros)

lemma keeps_remaining [keeps_intros]: "keeps log_of (remaining_setup_time S d)"
  unfolding remaining_setup_time_def by (intro keeps_intros)

lemma keeps_overdue [keeps_intros]: "keeps log_of (overdue S d)"
  unfolding overdue_def by (intro keeps_intros)

lemma keeps_setup_error [keeps_intros]: "keeps log_of (setup_error S T d e)"
  unfolding setup_error_def by (intro keeps_intros)

section \<open>The state of the connection\<close>

datatype connection = NoConnection | SocketOpen | TransportOpen

fun connection_step :: "'k ssh_event \<Rightarrow> connection \<Rightarrow> connection" where
  "connection_step (Connected h p) _ = SocketOpen"
| "connection_step TransportMade _ = TransportOpen"
| "connection_step TransportClosed _ = NoConnection"
| "connection_step SocketClosed _ = NoConnection"
| "connection_step _ x = x"

definition connection_of :: "(('v, 'k) net, 'c) state \<Rightarrow> connection" where
  "connection_of s = fold connection_step (log_of s) NoConnection"

lemma keeps_connection:
  "keeps connection_of (call q)" "keeps connection_of (look q')" "keeps connection_of (act q'')"
  "keeps connection_of (set_tunnel c f)" "keeps connection_of (get_tunnel c)" "keeps connection_of (load_client_ssh_key S path)"
  "keeps connection_of (verify_host_key S T k)" "keeps connection_of (remaining_setup_time S d)" "keeps connection_of (overdue S d)"
  "keeps connection_of (log_event (HostKeyReceived k))" "keeps connection_of (log_event (AuthTried u))"
  "keeps connection_of (log_event (Listening p))" "keeps connection_of (log_event ListenerClosed)"
  unfolding connection_of_def by (rule keeps_view, intro keeps_intros)+ (simp_all add: keeps_iff ssh_prims)

text \<open>\<open>moves a b e m\<close>: from connection state \<open>a\<close> the action ends in \<open>b\<close>, or in \<open>e\<close> when it raises.\<close>

definition moves :: "connection \<Rightarrow> connection \<Rightarrow> connection \<Rightarrow> ('v, 'k, 'a) ssh_action \<Rightarrow> bool" where
  "moves a b e m \<longleftrightarrow> (\<forall>s. connection_of s = a \<longrightarrow> connection_of (snd (m s)) = (case fst (m s) of Inr _ \<Rightarrow> b | Inl _ \<Rightarrow> e))"

lemma movesI: "(\<And>s x t. connection_of s = a \<Longrightarrow> m s = (Inr x, t) \<Longrightarrow> connection_of t = b) \<Longrightarrow>
    (\<And>s x t. connection_of s = a \<Longrightarrow> m s = (Inl x, t) \<Longrightarrow> connection_of t = e) \<Longrightarrow> moves a b e m"
  unfolding moves_def by (metis (no_types, lifting) old.sum.simps(5,6) prod.collapse sum.exhaust)

lemma movesD:
  "moves a b e m \<Longrightarrow> connection_of s = a \<Longrightarrow> m s = (Inr x, t) \<Longrightarrow> connection_of t = b"
  "moves a b e m \<Longrightarrow> connection_of s = a \<Longrightarrow> m s = (Inl y, t) \<Longrightarrow> connection_of t = e"
  unfolding moves_def by (metis fst_conv old.sum.simps(6) snd_conv, metis fst_conv old.sum.simps(5) snd_conv)

lemma moves_quiet: "keeps log_of m \<Longrightarrow> moves a a a m"
  by (rule movesI) (auto simp: connection_of_def dest: keepsD)

lemma moves_kept: "keeps connection_of m \<Longrightarrow> moves a a a m"
  by (rule movesI) (auto dest: keepsD)

lemma moves_event: "connection_step ev a = b \<Longrightarrow> moves a b e (log_event ev)"
  by (auto simp: moves_def connection_of_def ssh_prims)

lemma moves_bind: "moves a b e m \<Longrightarrow> (\<And>x. moves b d e (f x)) \<Longrightarrow> moves a d e (abind m f)"
  by (rule movesI) (auto simp: abind_Inr abind_Inl dest: movesD)

lemma moves_quiet_bind: "keeps log_of m \<Longrightarrow> (\<And>x. moves a b a (f x)) \<Longrightarrow> moves a b a (abind m f)"
  by (rule moves_bind [OF moves_quiet])

lemma moves_on_error: "moves a b x m \<Longrightarrow> moves x e e h \<Longrightarrow> moves a b e (on_error h m)"
  unfolding on_error_def
  by (rule movesI) (fastforce simp: acatch_def abind_def araise_def split: prod.splits sum.splits dest: movesD)+

text \<open>A handler that always raises.\<close>

definition raises :: "('w, 'c, 'a) action \<Rightarrow> bool" where
  "raises m \<longleftrightarrow> (\<forall>s. \<exists>e. fst (m s) = Inl e)"

lemma moves_catch:
  fixes m :: "('a, 'b, 'c) ssh_action"
  shows "moves a b e m \<Longrightarrow> (\<And>x. keeps log_of (h x) \<and> raises (h x)) \<Longrightarrow> moves a b e (acatch p h m)"
proof (rule movesI)
  fix s :: "(('a, 'b) net, client) state" and x t assume m: "moves a b e m" and h: "\<And>x. keeps log_of (h x) \<and> raises (h x)" and a: "connection_of s = a"
  { assume "acatch p h m s = (Inr x, t)"
    with h have "m s = (Inr x, t)" unfolding acatch_Inr raises_def by (metis Inl_Inr_False fst_conv)
    with m a show "connection_of t = b" by (rule movesD) }
next
  fix s :: "(('a, 'b) net, client) state" and x t assume m: "moves a b e m" and h: "\<And>x. keeps log_of (h x) \<and> raises (h x)" and a: "connection_of s = a"
    and r: "acatch p h m s = (Inl x, t)"
  then obtain y u where u: "m s = (Inl y, u)" "log_of t = log_of u"
    by (auto simp: acatch_def split: prod.splits sum.splits if_splits dest: keepsD [of log_of])
  then have "connection_of t = connection_of u" by (simp add: connection_of_def)
  with movesD(2) [OF m a u(1)] show "connection_of t = e" by simp
qed

lemma setup_error_raises: "raises (setup_error S T d e)"
  by (simp add: raises_def setup_error_def overdue_def abind_def ssh_prims araise_def)

subsection \<open>The operations\<close>

lemma moves_close: "moves TransportOpen NoConnection NoConnection (close_transport S)" "moves SocketOpen NoConnection NoConnection (close_socket S)"
  by (simp_all add: moves_def close_transport_def close_socket_def connection_of_def abind_def ssh_prims)

lemma moves_cancel_close:
  "moves TransportOpen NoConnection NoConnection (abind (act f) (\<lambda>_. close_transport S))"
  "moves SocketOpen NoConnection NoConnection (abind (act f) (\<lambda>_. close_socket S))"
  by (simp_all add: moves_def close_transport_def close_socket_def connection_of_def abind_def ssh_prims)

lemma moves_negotiate: "moves TransportOpen TransportOpen TransportOpen (negotiate S T pkey d)"
  unfolding negotiate_def authenticate_def by (rule moves_kept) (intro keeps_intros keeps_connection)

lemma moves_establish: "moves NoConnection TransportOpen NoConnection (establish S T pkey d)"
proof -
  have 1: "moves SocketOpen TransportOpen NoConnection (abind (log_event TransportMade) (\<lambda>_.
       on_error (abind (act (ssh_cancel_timer S)) (\<lambda>_. close_transport S)) (negotiate S T pkey d)))"
    by (rule moves_bind [OF moves_event], simp, rule moves_on_error [OF moves_negotiate moves_cancel_close(1)])
  have 2: "moves SocketOpen SocketOpen NoConnection (on_error (abind (act (ssh_cancel_timer S)) (\<lambda>_. close_socket S)) (call (ssh_transport S)))"
    by (rule moves_on_error [OF moves_quiet moves_cancel_close(2)]) (intro keeps_intros)
  have 3: "moves SocketOpen SocketOpen NoConnection (on_error (close_socket S) (abind (remaining_setup_time S d) (\<lambda>r.
       abind (call (ssh_settimeout S (Some r))) (\<lambda>_. abind (remaining_setup_time S d) (\<lambda>r. call (ssh_start_timer S r))))))"
    by (rule moves_on_error [OF moves_quiet moves_close(2)]) (intro keeps_intros)
  show ?thesis
    unfolding establish_def
    by (rule moves_quiet_bind, intro keeps_intros, rule moves_quiet_bind, intro keeps_intros,
        rule moves_bind [OF moves_event], simp, rule moves_bind [OF 3], rule moves_bind [OF 2], rule 1)
qed

lemma moves_start_listener: "moves a a a (start_listener S T c)"
  unfolding start_listener_def by (rule moves_kept) (intro keeps_intros keeps_connection)

section \<open>Authentication attempts\<close>

fun is_auth :: "'k ssh_event \<Rightarrow> bool" where
  "is_auth (AuthTried u) = True"
| "is_auth _ = False"

definition auths_of :: "(('v, 'k) net, 'c) state \<Rightarrow> 'k ssh_event list" where
  "auths_of s = filter is_auth (log_of s)"

lemma keeps_auths:
  "keeps auths_of (call q)" "keeps auths_of (look q')" "keeps auths_of (act q'')"
  "keeps auths_of (set_tunnel c f)" "keeps auths_of (get_tunnel c)" "keeps auths_of (load_client_ssh_key S path)"
  "keeps auths_of (verify_host_key S T k)" "keeps auths_of (remaining_setup_time S d)" "keeps auths_of (overdue S d)"
  "keeps auths_of (setup_error S T d e)"
  "keeps auths_of (log_event (HostKeyReceived k))" "keeps auths_of (log_event (Connected h p))" "keeps auths_of (log_event (Listening p))"
  "keeps auths_of (log_event TransportMade)" "keeps auths_of (log_event TransportClosed)" "keeps auths_of (log_event SocketClosed)"
  "keeps auths_of (log_event ListenerClosed)"
  unfolding auths_of_def by (rule keeps_view, intro keeps_intros)+ (simp_all add: keeps_iff ssh_prims)

lemma keeps_auths_closing: "keeps auths_of (close_transport S)" "keeps auths_of (close_socket S)"
  unfolding close_transport_def close_socket_def by (intro keeps_intros keeps_auths)+

text \<open>
  The server's key was received and verified, and then, at most once, authentication was tried under
  the fixed name.
\<close>

definition verified_first :: "('v, 'k, 'p, 'h) ssh_lib \<Rightarrow> ssh_args \<Rightarrow> (('v, 'k) net, client) state \<Rightarrow> (('v, 'k) net, client) state \<Rightarrow> bool" where
  "verified_first S T s t \<longleftrightarrow> auths_of t = auths_of s \<or>
     (auths_of t = auths_of s @ [AuthTried SSH_USERNAME] \<and>
      (\<exists>k u v. auths_of u = auths_of s \<and> (\<exists>es. log_of u = es @ [HostKeyReceived k]) \<and> verify_host_key S T k u = (Inr (), v)))"

definition careful :: "('v, 'k, 'p, 'h) ssh_lib \<Rightarrow> ssh_args \<Rightarrow> ('v, 'k, 'a) ssh_action \<Rightarrow> bool" where
  "careful S T m \<longleftrightarrow> (\<forall>s. verified_first S T s (snd (m s)))"

lemma verified_first_kept:
  "auths_of t' = auths_of t \<Longrightarrow> verified_first S T s t' = verified_first S T s t"
  "auths_of s' = auths_of s \<Longrightarrow> verified_first S T s' t = verified_first S T s t"
  by (simp_all add: verified_first_def)

lemma careful_kept: "keeps auths_of m \<Longrightarrow> careful S T m"
  by (simp add: careful_def keeps_iff verified_first_def)

lemma careful_bind_left: "careful S T m \<Longrightarrow> (\<And>x. keeps auths_of (f x)) \<Longrightarrow> careful S T (abind m f)"
  unfolding careful_def
proof
  fix s assume m: "\<forall>s. verified_first S T s (snd (m s))" and f: "\<And>x. keeps auths_of (f x)"
  have "auths_of (snd (abind m f s)) = auths_of (snd (m s))"
    using f by (auto simp: abind_def keeps_iff split: prod.splits sum.splits)
  with m verified_first_kept(1) show "verified_first S T s (snd (abind m f s))" by blast
qed

lemma careful_bind_right: "keeps auths_of m \<Longrightarrow> (\<And>x. careful S T (f x)) \<Longrightarrow> careful S T (abind m f)"
  unfolding careful_def
proof
  fix s assume m: "keeps auths_of m" and f: "\<And>x. \<forall>s. verified_first S T s (snd (f x s))"
  obtain r t where r: "m s = (r, t)" by fastforce
  from keepsD [OF m r] have t: "auths_of t = auths_of s" .
  show "verified_first S T s (snd (abind m f s))"
  proof (cases r)
    case (Inl e)
    with r t show ?thesis by (simp add: abind_def verified_first_def)
  next
    case (Inr x)
    with r f have "verified_first S T t (snd (abind m f s))" by (simp add: abind_def)
    with verified_first_kept(2) [OF t] show ?thesis by blast
  qed
qed

lemma careful_catch: "careful S T m \<Longrightarrow> (\<And>e. keeps auths_of (h e)) \<Longrightarrow> careful S T (acatch p h m)"
  unfolding careful_def
proof
  fix s assume m: "\<forall>s. verified_first S T s (snd (m s))" and h: "\<And>e. keeps auths_of (h e)"
  have "auths_of (snd (acatch p h m s)) = auths_of (snd (m s))"
    using h by (auto simp: acatch_def keeps_iff split: prod.splits sum.splits)
  with m verified_first_kept(1) show "verified_first S T s (snd (acatch p h m s))" by blast
qed

lemma careful_on_error: "careful S T m \<Longrightarrow> keeps auths_of h \<Longrightarrow> careful S T (on_error h m)"
  unfolding on_error_def by (intro careful_catch keeps_intros)

lemma authenticate_auths:
  fixes S :: "('v, 'k, 'p, 'h) ssh_lib"
  shows "auths_of (snd (authenticate S pkey d s)) \<in> {auths_of s, auths_of s @ [AuthTried SSH_USERNAME]}"
proof -
  define m where "m = abind (remaining_setup_time S d) (\<lambda>r. call (ssh_settimeout S (Some r)) ::  ('v, 'k, unit) ssh_action)"
  define k where "k = (\<lambda>_ :: unit. abind (call (ssh_auth_publickey S SSH_USERNAME pkey)) (\<lambda>_.
     abind (call (ssh_is_authenticated S)) (\<lambda>ok.
     araise_if (\<not> ok) (signer_error ''SSH public-key authentication did not complete'') (
     abind (overdue S d) (\<lambda>late. araise_if late deadline_exceeded (aret ()))))) :: ('v, 'k, unit) ssh_action)"
  have eq: "authenticate S pkey d = abind m (\<lambda>_. abind (log_event (AuthTried SSH_USERNAME)) k)"
    by (auto simp: authenticate_def m_def k_def abind_def fun_eq_iff split: prod.splits sum.splits)
  have m: "keeps auths_of m" and k: "keeps auths_of (k x)" for x unfolding m_def k_def by (intro keeps_intros keeps_auths)+
  obtain r t where r: "m s = (r, t)" by fastforce
  from keepsD [OF m r] have t: "auths_of t = auths_of s" .
  show ?thesis
  proof (cases r)
    case (Inl e)
    with r t show ?thesis by (simp add: eq abind_def)
  next
    case (Inr x)
    obtain u where u: "log_event (AuthTried SSH_USERNAME) t = (Inr (), u)" "auths_of u = auths_of t @ [AuthTried SSH_USERNAME]"
      by (simp add: ssh_prims auths_of_def)
    with r Inr have "snd (authenticate S pkey d s) = snd (k () u)" by (simp add: eq abind_def)
    with k u(2) t show ?thesis by (simp add: keeps_iff)
  qed
qed

lemma careful_negotiate: "careful S T (negotiate S T pkey d)"
proof -
  have step: "verified_first S T s (snd (abind (log_event (HostKeyReceived k)) (\<lambda>_. abind (verify_host_key S T k) (\<lambda>_.
     abind (authenticate S pkey d) (\<lambda>_. abind (act (ssh_cancel_timer S)) (\<lambda>_. call (ssh_settimeout S old))))) s))" for k old s
  proof -
    define u where "u = s\<lparr>st_world := (st_world s)\<lparr>nw_log := log_of s @ [HostKeyReceived k]\<rparr>\<rparr>"
    have u: "log_event (HostKeyReceived k) s = (Inr (), u)" "auths_of u = auths_of s" "\<exists>es. log_of u = es @ [HostKeyReceived k]"
      by (simp_all add: ssh_prims auths_of_def u_def)
    obtain r v where v: "verify_host_key S T k u = (r, v)" by fastforce
    have av: "auths_of v = auths_of u" using keepsD [OF keeps_auths(7) v] .
    show ?thesis
    proof (cases r)
      case (Inl e)
      with u v av show ?thesis by (simp add: abind_def verified_first_def)
    next
      case (Inr x)
      let ?m = "abind (authenticate S pkey d) (\<lambda>_. abind (act (ssh_cancel_timer S)) (\<lambda>_. call (ssh_settimeout S old)))"
      have "keeps auths_of (abind (act (ssh_cancel_timer S)) (\<lambda>_. call (ssh_settimeout S old)))" by (intro keeps_intros keeps_auths)
      then have "auths_of (snd (?m v)) = auths_of (snd (authenticate S pkey d v))"
        by (auto simp: abind_def [of "authenticate S pkey d"] keeps_iff split: prod.splits sum.splits)
      with authenticate_auths [of S pkey d v] have "auths_of (snd (?m v)) \<in> {auths_of s, auths_of s @ [AuthTried SSH_USERNAME]}"
        using av u(2) by simp
      moreover have "abind (log_event (HostKeyReceived k)) (\<lambda>_. abind (verify_host_key S T k) (\<lambda>_. ?m)) s = ?m v"
        using u(1) v Inr by (simp add: abind_run)
      ultimately show ?thesis using u v Inr unfolding verified_first_def by force
    qed
  qed
  have last: "careful S T (abind (log_event (HostKeyReceived k)) (\<lambda>_. abind (verify_host_key S T k) (\<lambda>_.
     abind (authenticate S pkey d) (\<lambda>_. abind (act (ssh_cancel_timer S)) (\<lambda>_. call (ssh_settimeout S old))))))" for k old
    unfolding careful_def using step by blast
  show ?thesis
    unfolding negotiate_def
    by (rule careful_bind_right [OF keeps_auths(2)], rule careful_bind_right [OF keeps_auths(8)], rule careful_bind_right [OF keeps_auths(1)],
        rule careful_bind_right [OF keeps_auths(1)], rule last)
qed

lemma careful_establish: "careful S T (establish S T pkey d)"
  unfolding establish_def
  by (rule careful_bind_right, intro keeps_intros keeps_auths, rule careful_bind_right, intro keeps_intros keeps_auths,
      rule careful_bind_right, intro keeps_intros keeps_auths, rule careful_bind_right, intro keeps_intros keeps_auths keeps_auths_closing,
      rule careful_bind_right, intro keeps_intros keeps_auths keeps_auths_closing, rule careful_bind_right, intro keeps_intros keeps_auths,
      rule careful_on_error [OF careful_negotiate], intro keeps_intros keeps_auths keeps_auths_closing)

lemma keeps_start_listener: "keeps auths_of (start_listener S T c)"
  unfolding start_listener_def by (intro keeps_intros keeps_auths)

lemma careful_tunnel_start: "careful S T (tunnel_start S T c)"
proof -
  have last: "careful S T (abind (acatch (\<lambda>_. True) (setup_error S T d) (establish S T pkey d)) (\<lambda>_. start_listener S T c))" for d pkey
    by (intro careful_bind_left careful_catch careful_establish keeps_auths keeps_start_listener)
  have "careful S T (abind (load_client_ssh_key S (sa_key_path T)) (\<lambda>pkey. abind (look (ssh_monotonic S)) (\<lambda>t.
     let deadline = t + timeout_seconds (sa_setup_timeout T) in
     abind (acatch (\<lambda>_. True) (setup_error S T deadline) (establish S T pkey deadline)) (\<lambda>_. start_listener S T c))))"
    unfolding Let_def by (rule careful_bind_right [OF keeps_auths(6)], rule careful_bind_right [OF keeps_auths(2)], rule last)
  moreover have "careful S T (araise e)" for e by (intro careful_kept keeps_intros)
  ultimately show ?thesis by (cases "sa_known_hosts_path T = []") (simp_all add: tunnel_start_def)
qed

section \<open>What a verified host key is\<close>

text \<open>The keys on file for the endpoint when verification starts.\<close>

definition known_keys :: "('v, 'k, 'p, 'h) ssh_lib \<Rightarrow> ssh_args \<Rightarrow> (('v, 'k) net, client) state \<Rightarrow> (string \<Rightarrow> 'k option) option result" where
  "known_keys S T s = (case fst (load_host_keys S (sa_known_hosts_path T) s) of Inl e \<Rightarrow> Inl e | Inr hk \<Rightarrow> Inr (hk_lookup S hk (host_entry T)))"

definition host_trusted :: "('v, 'k, 'p, 'h) ssh_lib \<Rightarrow> ssh_args \<Rightarrow> 'k \<Rightarrow> (('v, 'k) net, client) state \<Rightarrow> bool" where
  "host_trusted S T k s \<longleftrightarrow>
     (\<exists>known expected. known_keys S T s = Inr (Some known) \<and> known (pk_name S k) = Some expected \<and> pk_eq S expected k) \<or>
     known_keys S T s = Inr None \<and> sa_trust_on_first_use T"

lemma verify_host_key_trusted:
  assumes "verify_host_key S T k s = (Inr (), t)"
  shows "host_trusted S T k s"
proof -
  obtain hk u where hk: "load_host_keys S (sa_known_hosts_path T) s = (Inr hk, u)"
    using assms by (auto simp: verify_host_key_def Let_def abind_Inr)
  then have known: "known_keys S T s = Inr (hk_lookup S hk (host_entry T))" by (simp add: known_keys_def)
  show ?thesis
  proof (cases "hk_lookup S hk (host_entry T)")
    case None
    with assms hk known show ?thesis by (simp add: verify_host_key_def Let_def abind_run host_trusted_def araise_if_Inr)
  next
    case (Some m)
    with assms hk known show ?thesis
      by (auto simp: verify_host_key_def Let_def abind_run host_trusted_def araise_if_Inr split: option.splits)
  qed
qed

end
