(* ===== verification/Ssh_Connect.thy ===== *)
theory Ssh_Connect
  imports Ssh_Tunnel
begin

text \<open>
  Properties of connecting: authentication only follows the verification of the server's key, trust
  on first use pins the key that was seen, and what a failed or successful \<^verbatim>\<open>connect_ssh\<close> leaves open.
\<close>

section \<open>The tunnel object\<close>

abbreviation tunnels_of :: "(('v, 'k) net, 'c) state \<Rightarrow> nat \<Rightarrow> tunnel_obj" where
  "tunnels_of s \<equiv> nw_tunnels (st_world s)"

lemma keeps_tunnels:
  "keeps tunnels_of (call q)" "keeps tunnels_of (look q')" "keeps tunnels_of (act q'')" "keeps tunnels_of (log_event ev)" "keeps tunnels_of (get_tunnel c)"
  by (simp_all add: keeps_iff ssh_prims)

lemma keeps_tunnels_load_classes: "keeps tunnels_of (load_key_classes S path kcs errors)"
  by (induction kcs arbitrary: errors) (auto intro!: keeps_intros keeps_tunnels)

lemma keeps_tunnels_setup:
  "keeps tunnels_of (load_client_ssh_key S path)" "keeps tunnels_of (establish S T pkey d)" "keeps tunnels_of (setup_error S T d e)"
  unfolding load_client_ssh_key_def establish_def negotiate_def authenticate_def verify_host_key_def load_host_keys_def Let_def
    remaining_setup_time_def overdue_def close_transport_def close_socket_def setup_error_def
  by (rule keeps_tunnels_load_classes) (intro keeps_intros keeps_tunnels)+

definition running_tunnel :: tunnel_obj where
  "running_tunnel = \<lparr>to_ssh_client = False, to_transport = True, to_server_socket = True, to_running = True\<rparr>"

lemma start_listener_tunnel:
  assumes "start_listener S T c s = (Inr (), t)"
  shows "tunnels_of t = (tunnels_of s)(c := (tunnels_of s c)\<lparr>to_transport := True, to_server_socket := True, to_running := True\<rparr>)"
  using assms unfolding start_listener_def
  by (auto simp: abind_Inr ssh_prims)

text \<open>
  What the connection and the tunnel object are like after starting: a failure leaves no connection, except
  that of the local listener; success leaves the running tunnel.
\<close>

definition started :: "('v, 'k, 'p, 'h) ssh_lib \<Rightarrow> ssh_args \<Rightarrow> nat \<Rightarrow> (('v, 'k) net, client) state \<Rightarrow> unit result \<Rightarrow> (('v, 'k) net, client) state \<Rightarrow> bool" where
  "started S T c s r t \<longleftrightarrow>
     (\<forall>e. r = Inl e \<longrightarrow> connection_of t = NoConnection \<or> (\<exists>u. start_listener S T c u = (Inl e, t) \<and> connection_of t = TransportOpen)) \<and>
     (r = Inr () \<longrightarrow> connection_of t = TransportOpen \<and>
        tunnels_of t = (tunnels_of s)(c := (tunnels_of s c)\<lparr>to_transport := True, to_server_socket := True, to_running := True\<rparr>))"

lemma listener_started:
  assumes "start_listener S T c s = (r, t)" and "connection_of s = TransportOpen"
  shows "started S T c s r t"
  using movesD [OF moves_start_listener [of TransportOpen S T c] assms(2)] start_listener_tunnel [of S T c s t] assms(1)
  unfolding started_def by blast

lemma establish_started:
  assumes "abind (acatch (\<lambda>_. True) (setup_error S T d) (establish S T pkey d)) (\<lambda>_. start_listener S T c) s = (r, t)" (is "abind ?m _ s = _")
    and "connection_of s = NoConnection"
  shows "started S T c s r t"
proof -
  have mv: "moves NoConnection TransportOpen NoConnection ?m"
    by (rule moves_catch [OF moves_establish]) (simp add: setup_error_raises keeps_setup_error)
  have "keeps tunnels_of ?m" by (intro keeps_intros keeps_tunnels_setup)
  moreover obtain rm u where m: "?m s = (rm, u)" by fastforce
  ultimately have u: "tunnels_of u = tunnels_of s" by (rule keepsD)
  show ?thesis
  proof (cases rm)
    case (Inl e)
    with assms(1) m movesD(2) [OF mv assms(2)] show ?thesis by (auto simp: abind_def started_def)
  next
    case (Inr x)
    with m movesD(1) [OF mv assms(2)] have "connection_of u = TransportOpen" by blast
    moreover from assms(1) m Inr have "start_listener S T c u = (r, t)" by (simp add: abind_def)
    ultimately have "started S T c u r t" by (intro listener_started)
    with u show ?thesis by (simp add: started_def)
  qed
qed

lemma tunnel_start_run:
  assumes "tunnel_start S T c s = (r, t)" and "connection_of s = NoConnection"
  shows "started S T c s r t"
proof (cases "sa_known_hosts_path T = []")
  case True
  with assms show ?thesis by (auto simp: tunnel_start_def araise_def started_def)
next
  case False
  obtain rk u where k: "load_client_ssh_key S (sa_key_path T) s = (rk, u)" by fastforce
  have u: "connection_of u = NoConnection" "tunnels_of u = tunnels_of s"
    using keepsD [OF keeps_connection(6) k] keepsD [OF keeps_tunnels_setup(1) k] assms(2) by simp_all
  show ?thesis
  proof (cases rk)
    case (Inl e)
    with False assms k u show ?thesis by (auto simp: tunnel_start_def abind_def started_def)
  next
    case (Inr pkey)
    define d where "d = ssh_monotonic S (nw_world (st_world u)) + timeout_seconds (sa_setup_timeout T)"
    have "abind (acatch (\<lambda>_. True) (setup_error S T d) (establish S T pkey d)) (\<lambda>_. start_listener S T c) u = (r, t)"
      using False assms(1) k Inr by (simp add: tunnel_start_def abind_run Let_def d_def) (simp add: abind_def ssh_prims)
    from establish_started [OF this u(1)] u(2) show ?thesis by (simp add: started_def)
  qed
qed

section \<open>Through the tunnel\<close>

lemma keeps_health:
  "keeps log_of (health (net_env E) c)" "keeps tunnels_of (health (net_env E) c)" "keeps st_clients (health (net_env E) c)"
  by (simp_all add: keeps_iff health_def http_run net_env_def abind_def acatch_def action_simps case_prod_unfold split: http_outcome.splits)

lemma tunnel_stop_running:
  assumes "tunnels_of s c = running_tunnel" and "connection_of s = TransportOpen"
  obtains t where "tunnel_stop S c s = (Inr (), t)" "connection_of t = NoConnection" "tunnels_of t c = fresh_tunnel" "st_clients t = st_clients s"
  using assms
  by (simp add: tunnel_stop_def abind_def ssh_prims action_simps close_transport_def running_tunnel_def fresh_tunnel_def connection_of_def)

text \<open>What a successful \<^verbatim>\<open>connect_ssh\<close> leaves: a running tunnel, and a client that talks to its local end.\<close>

definition connected :: "nat \<Rightarrow> int option \<Rightarrow> (('v, 'k) net, client) state \<Rightarrow> bool" where
  "connected c tmo t \<longleftrightarrow> connection_of t = TransportOpen \<and> tunnels_of t c = running_tunnel \<and>
     (\<exists>p. new_client (''http://127.0.0.1:'' @ show_int p) tmo True = Inr (st_clients t c))"

lemma health_returns: "\<exists>ok. fst (health E c s) = Inr ok"
  by (auto simp: health_def http_run abind_def acatch_def action_simps is_request_exception_def split: prod.splits http_outcome.splits)

lemma open_tunnel_run:
  assumes "abind (alift (new_tunnel T)) (\<lambda>_. abind (set_tunnel c (\<lambda>_. fresh_tunnel)) (\<lambda>_. tunnel_start S T c)) s = (r, t)"
    and "connection_of s = NoConnection"
  shows "(\<forall>e. r = Inl e \<longrightarrow> connection_of t = NoConnection \<or> (\<exists>u. start_listener S T c u = (Inl e, t) \<and> connection_of t = TransportOpen)) \<and>
    (r = Inr () \<longrightarrow> connection_of t = TransportOpen \<and> tunnels_of t c = running_tunnel)"
proof (cases "new_tunnel T")
  case (Inl e)
  with assms show ?thesis by (auto simp: araise_def)
next
  case Inr
  obtain u where u: "set_tunnel c (\<lambda>_. fresh_tunnel) s = (Inr (), u)" "connection_of u = NoConnection" "tunnels_of u c = fresh_tunnel"
    using assms(2) by (simp add: ssh_prims connection_of_def)
  with assms(1) Inr have "tunnel_start S T c u = (r, t)" by (simp add: abind_run)
  from tunnel_start_run [OF this u(2)] u(3) show ?thesis by (auto simp: started_def fresh_tunnel_def running_tunnel_def)
qed

text \<open>Once the tunnel runs: the client is created and the signer is greeted; if it is silent, the tunnel is torn down.\<close>

lemma greet_run:
  assumes "abind (alift (new_client (''http://127.0.0.1:'' @ show_int port) tmo True)) (\<lambda>cl.
      abind (update_client c (\<lambda>_. cl)) (\<lambda>_. abind (health (net_env E) c) (\<lambda>ok.
      if \<not> ok then abind (close (tunnel_stop S c) c) (\<lambda>_. araise (Exc SignerUnavailableError ''Connected via SSH but signer not responding'' []))
      else aret ()))) s = (r, t)"
    and "connection_of s = TransportOpen" and "tunnels_of s c = running_tunnel"
  shows "(\<forall>e. r = Inl e \<longrightarrow> connection_of t = NoConnection) \<and> (r = Inr () \<longrightarrow> connected c tmo t)"
proof -
  obtain cl where cl: "new_client (''http://127.0.0.1:'' @ show_int port) tmo True = Inr cl" "tunnel cl" by (simp add: new_client_def)
  define s3 where "s3 = s\<lparr>st_clients := (st_clients s)(c := cl)\<rparr>"
  obtain ok s4 where h: "health (net_env E) c s3 = (Inr ok, s4)" using health_returns [of "net_env E" c s3] by (metis prod.collapse)
  have s4: "connection_of s4 = TransportOpen" "tunnels_of s4 c = running_tunnel" "st_clients s4 c = cl"
    using keepsD [OF keeps_health(1) h] keepsD [OF keeps_health(2) h] keepsD [OF keeps_health(3) h] assms(2,3)
    by (simp_all add: s3_def connection_of_def)
  have rest: "(if \<not> ok then abind (close (tunnel_stop S c) c) (\<lambda>_. araise (Exc SignerUnavailableError ''Connected via SSH but signer not responding'' []))
      else aret ()) s4 = (r, t)"
    using assms(1) cl h by (simp add: abind_def action_simps s3_def)
  show ?thesis
  proof (cases ok)
    case True
    with rest s4 cl(1) show ?thesis by (auto simp: action_simps connected_def)
  next
    case False
    obtain s5 where s5: "tunnel_stop S c s4 = (Inr (), s5)" "connection_of s5 = NoConnection" "st_clients s5 = st_clients s4"
      using tunnel_stop_running [OF s4(2,1)] by blast
    have "close (tunnel_stop S c) c s4 = (Inr (), s5\<lparr>st_clients := (st_clients s5)(c := (st_clients s5 c)\<lparr>tunnel := False\<rparr>)\<rparr>)"
      using s4(3) cl(2) s5(1) by (simp add: close_def abind_def action_simps acatch_def)
    with rest False s5(2) show ?thesis by (auto simp: abind_run action_simps connection_of_def)
  qed
qed

lemma connect_ssh_run:
  assumes "connect_ssh E S H c T tmo s = (r, t)" and "connection_of s = NoConnection"
  shows "(\<forall>e. r = Inl e \<longrightarrow> connection_of t = NoConnection \<or>
      (\<exists>T' u e'. start_listener S T' c u = (Inl e', t) \<and> connection_of t = TransportOpen)) \<and>
    (r = Inr () \<longrightarrow> connected c tmo t)"
proof -
  let ?port = "if sa_local_port T \<noteq> 0 then aret (sa_local_port T) else call (ssh_free_port S)"
  obtain rp s1 where p: "?port s = (rp, s1)" by fastforce
  have "keeps connection_of ?port" by (intro keeps_intros keeps_connection)
  from keepsD [OF this p] assms(2) have c1: "connection_of s1 = NoConnection" by simp
  show ?thesis
  proof (cases rp)
    case (Inl e)
    with assms(1) p c1 show ?thesis by (auto simp: connect_ssh_def abind_run)
  next
    case (Inr port)
    define T' where "T' = T\<lparr>sa_key_path := os_expanduser H (sa_key_path T), sa_known_hosts_path := os_expanduser H (sa_known_hosts_path T), sa_local_port := port\<rparr>"
    define m where "m = abind (alift (new_tunnel T')) (\<lambda>_. abind (set_tunnel c (\<lambda>_. fresh_tunnel)) (\<lambda>_. tunnel_start S T' c))"
    obtain rm s2 where m: "m s1 = (rm, s2)" by fastforce
    note ends = open_tunnel_run [OF m [unfolded m_def] c1]
    have run: "abind (acatch (\<lambda>e. \<not> is_signer_error e) (\<lambda>e. araise (Exc SignerUnavailableError (''SSH tunnel failed: '' @ exc_msg e) [])) m)
      (\<lambda>_. abind (alift (new_client (''http://127.0.0.1:'' @ show_int port) tmo True)) (\<lambda>cl.
      abind (update_client c (\<lambda>_. cl)) (\<lambda>_. abind (health (net_env E) c) (\<lambda>ok.
      if \<not> ok then abind (close (tunnel_stop S c) c) (\<lambda>_. araise (Exc SignerUnavailableError ''Connected via SSH but signer not responding'' []))
      else aret ())))) s1 = (r, t)"
      using assms(1) p Inr by (simp add: connect_ssh_def abind_run Let_def m_def T'_def)
    show ?thesis
    proof (cases rm)
      case (Inl e)
      then obtain e' where "r = Inl e'" "t = s2" using run m by (auto simp: abind_def acatch_def araise_def split: if_splits)
      with ends Inl show ?thesis by blast
    next
      case (Inr x)
      with run m greet_run [of port tmo c E S s2 r t] ends show ?thesis by (simp add: abind_def [of "acatch _ _ _"] acatch_def)
    qed
  qed
qed

section \<open>Pinning\<close>

text \<open>
  What is relied on of the host key file and of \<^verbatim>\<open>paramiko.HostKeys\<close>: a key added for a host without
  entries is what a lookup then finds, a saved file loads with the same entries, and changing its mode
  leaves it as it is.
\<close>

definition store_ok :: "('v, 'k, 'p, 'h) ssh_lib \<Rightarrow> bool" where
  "store_ok S \<longleftrightarrow>
     (\<forall>h host n k. hk_lookup S h host = None \<longrightarrow> hk_lookup S (hk_add S h host n k) host = Some [n \<mapsto> k]) \<and>
     (\<forall>h p w w'. hk_save S h p w = (Inr (), w') \<longrightarrow> hk_exists S p w' \<and>
        (\<exists>h'. fst (hk_load S p w') = Inr h' \<and> (\<forall>host. hk_lookup S h' host = hk_lookup S h host))) \<and>
     (\<forall>p w w'. fs_chmod S p w = (Inr (), w') \<longrightarrow> hk_exists S p w' = hk_exists S p w \<and> fst (hk_load S p w') = fst (hk_load S p w))"

lemma load_host_keys_fst:
  "fst (load_host_keys S p s) = (if hk_exists S p (nw_world (st_world s)) then fst (hk_load S p (nw_world (st_world s))) else Inr (hk_new S))"
  by (simp add: load_host_keys_def abind_def ssh_prims action_simps)

lemma first_use_saved:
  assumes "store_ok S" and "verify_host_key S T k s = (Inr (), t)" and "known_keys S T s = Inr None"
  shows "known_keys S T t = Inr (Some [pk_name S k \<mapsto> k])"
proof -
  let ?p = "sa_known_hosts_path T"
  from assms(3) obtain hk u where hk: "load_host_keys S ?p s = (Inr hk, u)" "hk_lookup S hk (host_entry T) = None"
    by (cases "load_host_keys S ?p s") (auto simp: known_keys_def split: sum.splits)
  let ?hk = "hk_add S hk (host_entry T) (pk_name S k) k"
  from assms(2) hk obtain w1 w2 w3 where save: "hk_save S ?hk ?p w1 = (Inr (), w2)" and chmod: "fs_chmod S ?p w2 = (Inr (), w3)"
    and t: "nw_world (st_world t) = w3"
    unfolding verify_host_key_def Let_def by (auto simp: abind_run araise_if_Inr abind_Inr ssh_prims) (metis prod.collapse)
  from assms(1) save obtain h' where h': "hk_exists S ?p w2" "fst (hk_load S ?p w2) = Inr h'" "\<forall>host. hk_lookup S h' host = hk_lookup S ?hk host"
    unfolding store_ok_def by blast
  with assms(1) chmod have "hk_exists S ?p w3" "fst (hk_load S ?p w3) = Inr h'" unfolding store_ok_def by metis+
  then have "fst (load_host_keys S ?p t) = Inr h'" by (simp add: load_host_keys_fst t)
  moreover have "hk_lookup S ?hk (host_entry T) = Some [pk_name S k \<mapsto> k]" using assms(1) hk(2) unfolding store_ok_def by blast
  ultimately show ?thesis using h'(3) by (simp add: known_keys_def)
qed

lemma verify_known:
  assumes "known_keys S T s = Inr (Some known)"
  shows "fst (verify_host_key S T k s) = Inr () \<longleftrightarrow> (\<exists>expected. known (pk_name S k) = Some expected \<and> pk_eq S expected k)"
proof -
  from assms obtain hk u where hk: "load_host_keys S (sa_known_hosts_path T) s = (Inr hk, u)" "hk_lookup S hk (host_entry T) = Some known"
    by (cases "load_host_keys S (sa_known_hosts_path T) s") (auto simp: known_keys_def split: sum.splits)
  then show ?thesis
    by (simp add: verify_host_key_def Let_def abind_run araise_if_def araise_def aret_def split: option.splits)
qed

lemma known_keys_flag: "known_keys S (T\<lparr>sa_trust_on_first_use := b\<rparr>) s = known_keys S T s"
proof -
  have "host_entry (T\<lparr>sa_trust_on_first_use := b\<rparr>) = host_entry T" by (simp add: host_entry_def)
  from this [symmetric] show ?thesis by (simp add: known_keys_def cong: sum.case_cong)
qed

section \<open>Properties\<close>


text \<open>
  C10. Trust on first use pins the key. When an unknown host was accepted on first use, every later
  verification for the same host, port and file accepts exactly the key that was seen then, whether
  or not the caller still asks for trust on first use.
\<close>

theorem first_use_pins_key:
  assumes "store_ok S" and "verify_host_key S T k s = (Inr (), t)" and "known_keys S T s = Inr None"
  shows "sa_trust_on_first_use T \<and>
    (fst (verify_host_key S (T\<lparr>sa_trust_on_first_use := b\<rparr>) k' t) = Inr () \<longleftrightarrow> pk_name S k' = pk_name S k \<and> pk_eq S k k')"
proof -
  have "known_keys S (T\<lparr>sa_trust_on_first_use := b\<rparr>) t = Inr (Some [pk_name S k \<mapsto> k])"
    using first_use_saved [OF assms] by (simp add: known_keys_flag)
  from verify_known [OF this] verify_host_key_trusted [OF assms(2)] assms(3) show ?thesis
    by (auto simp: host_trusted_def)
qed

text \<open>
  What connecting leaves behind. When \<^verbatim>\<open>connect_ssh\<close> succeeds there is a running tunnel and a fresh
  client on its local end; when it fails, the socket and the transport it opened are closed again,
  also when only the signer behind the tunnel is silent. The one exception is a failure to set up the
  local listener after the transport is ready.
\<close>

theorem connect_ssh_outcome:
  assumes "connect_ssh E S H c T tmo s = (r, t)" and "connection_of s = NoConnection"
  shows "case r of
      Inr _ \<Rightarrow> connected c tmo t \<and> client_ok (st_clients t c)
    | Inl e \<Rightarrow> connection_of t = NoConnection \<or> (\<exists>T' u e'. start_listener S T' c u = (Inl e', t) \<and> connection_of t = TransportOpen)"
  using connect_ssh_run [OF assms] by (cases r) (auto simp: connected_def dest: new_client_ok)

section \<open>Witnesses\<close>

text \<open>
  A world for evaluation: the host key file (absent, or entries of host, key type and key), a server
  that presents the key \<open>SRV\<close> and accepts every client key, a clock that stands still. \<open>bindable\<close> says
  whether the local port can be bound.
\<close>

type_synonym sample_file = "(string \<times> string \<times> string) list option"

definition sample_lookup :: "(string \<times> string \<times> string) list \<Rightarrow> string \<Rightarrow> (string \<Rightarrow> string option) option" where
  "sample_lookup es host = (if host \<in> fst ` set es then Some (\<lambda>n. map_of (map (\<lambda>(h, n, k). ((h, n), k)) es) (host, n)) else None)"

definition sample_ssh :: "bool \<Rightarrow> (sample_file, string, string, (string \<times> string \<times> string) list) ssh_lib" where
  "sample_ssh bindable = \<lparr>ssh_monotonic = (\<lambda>_. 0), ssh_timed_out = (\<lambda>_. False), ssh_load_key = (\<lambda>_ p w. (Inr p, w)),
     ssh_free_port = (\<lambda>w. (Inr 5000, w)), ssh_create_connection = (\<lambda>_ _ _ w. (Inr (), w)), ssh_settimeout = (\<lambda>_ w. (Inr (), w)),
     ssh_gettimeout = (\<lambda>_. None), ssh_start_timer = (\<lambda>_ w. (Inr (), w)), ssh_cancel_timer = (\<lambda>w. w), ssh_transport = (\<lambda>w. (Inr (), w)),
     ssh_start_client = (\<lambda>_ w. (Inr (), w)), ssh_server_key = (\<lambda>w. (Inr ''SRV'', w)), ssh_auth_publickey = (\<lambda>_ _ w. (Inr (), w)),
     ssh_is_authenticated = (\<lambda>w. (Inr True, w)), ssh_close_transport = (\<lambda>w. w), ssh_close_socket = (\<lambda>w. w),
     ssh_new_listener = (\<lambda>w. (Inr (), w)),
     ssh_bind_listen = (\<lambda>_ w. (if bindable then Inr () else Inl (Exc OSError ''Address already in use'' []), w)),
     ssh_close_listener = (\<lambda>w. w), ssh_start_accept = (\<lambda>w. (Inr (), w)), pk_name = (\<lambda>_. ''ssh-ed25519''), pk_eq = (\<lambda>a b. a = b),
     hk_new = [], hk_lookup = sample_lookup, hk_add = (\<lambda>es h n k. (h, n, k) # es), hk_exists = (\<lambda>_ w. w \<noteq> None),
     hk_load = (\<lambda>_ w. (case w of Some es \<Rightarrow> Inr es | None \<Rightarrow> Inl (Exc OSError ''no file'' []), w)),
     hk_save = (\<lambda>es _ w. (Inr (), Some es)), fs_makedirs = (\<lambda>_ w. (Inr (), w)), fs_chmod = (\<lambda>_ w. (Inr (), w))\<rparr>"

definition sample_ssh_args :: ssh_args where
  "sample_ssh_args = \<lparr>sa_host = ''signer'', sa_port = 1127, sa_key_path = ''id'', sa_local_port = 6000, sa_known_hosts_path = ''known_hosts'',
     sa_trust_on_first_use = True, sa_setup_timeout = Seconds 60 ''60''\<rparr>"

definition sample_ssh_state :: "((sample_file, string) net, client) state" where
  "sample_ssh_state = \<lparr>st_world = \<lparr>nw_world = None, nw_log = [], nw_tunnels = (\<lambda>_. fresh_tunnel), nw_deadline = 0\<rparr>, st_clients = (\<lambda>_. sample_client), st_trace = []\<rparr>"

definition sample_ssh_env :: "sample_file env" where
  "sample_ssh_env = \<lparr>env_send = (\<lambda>c rq w. (HttpReply (ok_reply PNone), w)), env_now = (\<lambda>_. 0), env_token = (\<lambda>w. ([], w))\<rparr>"

definition sample_plain_os :: host_os where
  "sample_plain_os = \<lparr>os_getenv = (\<lambda>_. None), os_expanduser = (\<lambda>p. p), os_path_exists = (\<lambda>_. True), os_read_yaml = (\<lambda>_. NoFile),
     os_check_bracketed = (\<lambda>_. Inr ())\<rparr>"

lemma sample_store_ok: "store_ok (sample_ssh b)"
proof -
  have "sample_lookup ((host, n, k) # es) host = Some [n \<mapsto> k]" if "sample_lookup es host = None" for es host n k
  proof -
    from that have "host \<notin> fst ` set es" by (simp add: sample_lookup_def split: if_splits)
    then have "map_of (map (\<lambda>(h, n, k). ((h, n), k)) es) (host, m) = None" for m by (force simp: map_of_eq_None_iff)
    then show ?thesis by (auto simp: sample_lookup_def fun_eq_iff)
  qed
  then show ?thesis by (auto simp: store_ok_def sample_ssh_def)
qed

abbreviation sample_entry :: "string \<times> string \<times> string" where
  "sample_entry \<equiv> (''[signer]:1127'', ''ssh-ed25519'', ''SRV'')"

text \<open>The connected state after the first contact, with the given log and tunnel object.\<close>

definition after_contact :: "string ssh_event list \<Rightarrow> tunnel_obj \<Rightarrow> ((sample_file, string) net, client) state" where
  "after_contact es tn = sample_ssh_state\<lparr>st_world := \<lparr>nw_world = Some [sample_entry], nw_log = es, nw_tunnels = (\<lambda>_. fresh_tunnel)(0 := tn), nw_deadline = 0\<rparr>\<rparr>"

abbreviation contact_log :: "string ssh_event list" where
  "contact_log \<equiv> [Connected ''signer'' 1127, TransportMade, HostKeyReceived ''SRV'', AuthTried SSH_USERNAME]"

lemma sample_host_entry [simp]: "host_entry sample_ssh_args = ''[signer]:1127''"
  by code_simp

lemma sample_args_fields [simp]:
  "sa_host sample_ssh_args = ''signer''" "sa_port sample_ssh_args = 1127" "sa_local_port sample_ssh_args = 6000"
  "sa_known_hosts_path sample_ssh_args = ''known_hosts''" "sa_trust_on_first_use sample_ssh_args"
  "sa_setup_timeout sample_ssh_args = Seconds 60 ''60''" "sa_key_path sample_ssh_args = ''id''"
  by (simp_all add: sample_ssh_args_def)

lemma sample_ssh_fields [simp]:
  "ssh_monotonic (sample_ssh bindable) = (\<lambda>_. 0)"
  "ssh_timed_out (sample_ssh bindable) = (\<lambda>_. False)"
  "ssh_load_key (sample_ssh bindable) = (\<lambda>_ p w. (Inr p, w))"
  "ssh_free_port (sample_ssh bindable) = (\<lambda>w. (Inr 5000, w))"
  "ssh_create_connection (sample_ssh bindable) = (\<lambda>_ _ _ w. (Inr (), w))"
  "ssh_settimeout (sample_ssh bindable) = (\<lambda>_ w. (Inr (), w))"
  "ssh_gettimeout (sample_ssh bindable) = (\<lambda>_. None)"
  "ssh_start_timer (sample_ssh bindable) = (\<lambda>_ w. (Inr (), w))"
  "ssh_cancel_timer (sample_ssh bindable) = (\<lambda>w. w)"
  "ssh_transport (sample_ssh bindable) = (\<lambda>w. (Inr (), w))"
  "ssh_start_client (sample_ssh bindable) = (\<lambda>_ w. (Inr (), w))"
  "ssh_server_key (sample_ssh bindable) = (\<lambda>w. (Inr ''SRV'', w))"
  "ssh_auth_publickey (sample_ssh bindable) = (\<lambda>_ _ w. (Inr (), w))"
  "ssh_is_authenticated (sample_ssh bindable) = (\<lambda>w. (Inr True, w))"
  "ssh_close_transport (sample_ssh bindable) = (\<lambda>w. w)"
  "ssh_close_socket (sample_ssh bindable) = (\<lambda>w. w)"
  "ssh_new_listener (sample_ssh bindable) = (\<lambda>w. (Inr (), w))"
  "ssh_bind_listen (sample_ssh bindable) = (\<lambda>_ w. (if bindable then Inr () else Inl (Exc OSError ''Address already in use'' []), w))"
  "ssh_close_listener (sample_ssh bindable) = (\<lambda>w. w)"
  "ssh_start_accept (sample_ssh bindable) = (\<lambda>w. (Inr (), w))"
  "pk_name (sample_ssh bindable) = (\<lambda>_. ''ssh-ed25519'')"
  "pk_eq (sample_ssh bindable) = (\<lambda>a b. a = b)"
  "hk_new (sample_ssh bindable) = []"
  "hk_lookup (sample_ssh bindable) = sample_lookup"
  "hk_add (sample_ssh bindable) = (\<lambda>es h n k. (h, n, k) # es)"
  "hk_exists (sample_ssh bindable) = (\<lambda>_ w. w \<noteq> None)"
  "hk_load (sample_ssh bindable) = (\<lambda>_ w. (case w of Some es \<Rightarrow> Inr es | None \<Rightarrow> Inl (Exc OSError ''no file'' []), w))"
  "hk_save (sample_ssh bindable) = (\<lambda>es _ w. (Inr (), Some es))"
  "fs_makedirs (sample_ssh bindable) = (\<lambda>_ w. (Inr (), w))"
  "fs_chmod (sample_ssh bindable) = (\<lambda>_ w. (Inr (), w))"
  by (simp_all add: sample_ssh_def)

lemmas sample_run = abind_def ssh_prims action_simps acatch_def on_error_def araise_if_def

lemma sample_verify:
  "nw_world (st_world s) = None \<Longrightarrow> verify_host_key (sample_ssh b) sample_ssh_args ''SRV'' s =
     (Inr (), s\<lparr>st_world := (st_world s)\<lparr>nw_world := Some [sample_entry]\<rparr>\<rparr>)"
  by (simp add: verify_host_key_def sample_run load_host_keys_def dirname_def sample_lookup_def Let_def)

lemma sample_negotiate:
  "nw_world (st_world s) = None \<Longrightarrow> negotiate (sample_ssh b) sample_ssh_args pkey 60 s =
     (Inr (), s\<lparr>st_world := (st_world s)\<lparr>nw_world := Some [sample_entry], nw_log := log_of s @ [HostKeyReceived ''SRV'', AuthTried SSH_USERNAME]\<rparr>\<rparr>)"
  by (simp add: negotiate_def authenticate_def remaining_setup_time_def overdue_def sample_verify sample_run)

lemma sample_establish:
  "nw_world (st_world s) = None \<Longrightarrow> establish (sample_ssh b) sample_ssh_args pkey 60 s =
     (Inr (), s\<lparr>st_world := (st_world s)\<lparr>nw_world := Some [sample_entry], nw_log := log_of s @ contact_log\<rparr>\<rparr>)"
  by (simp add: establish_def remaining_setup_time_def sample_run sample_negotiate)

lemma sample_tunnel_start:
  assumes "nw_world (st_world s) = None"
  shows "tunnel_start (sample_ssh b) sample_ssh_args c s = start_listener (sample_ssh b) sample_ssh_args c
     (s\<lparr>st_world := (st_world s)\<lparr>nw_world := Some [sample_entry], nw_log := log_of s @ contact_log\<rparr>\<rparr>)"
proof -
  have "load_client_ssh_key (sample_ssh b) ''id'' s = (Inr ''id'', s)"
    using assms by (simp add: load_client_ssh_key_def sample_run)
  then show ?thesis
    using assms by (simp add: tunnel_start_def abind_run) (simp add: abind_def ssh_prims acatch_def sample_establish)
qed

lemma sample_auths: "auths_of (snd (tunnel_start (sample_ssh True) sample_ssh_args 0 sample_ssh_state)) = [AuthTried SSH_USERNAME]"
  by (simp add: sample_tunnel_start sample_ssh_state_def) (simp add: start_listener_def sample_run auths_of_def)


theorem first_use_pins_key_witness:
  "\<exists>t. verify_host_key (sample_ssh True) sample_ssh_args ''SRV'' sample_ssh_state = (Inr (), t) \<and>
     fst (verify_host_key (sample_ssh True) (sample_ssh_args\<lparr>sa_trust_on_first_use := False\<rparr>) ''SRV'' t) = Inr () \<and>
     fst (verify_host_key (sample_ssh True) (sample_ssh_args\<lparr>sa_trust_on_first_use := True\<rparr>) ''EVIL'' t) \<noteq> Inr ()"
proof -
  obtain t where run: "verify_host_key (sample_ssh True) sample_ssh_args ''SRV'' sample_ssh_state = (Inr (), t)"
    using sample_verify [of sample_ssh_state True] by (simp add: sample_ssh_state_def)
  have "known_keys (sample_ssh True) sample_ssh_args sample_ssh_state = Inr None"
    by (simp add: known_keys_def load_host_keys_fst sample_lookup_def sample_ssh_state_def)
  note pins = first_use_pins_key [OF sample_store_ok run this]
  from pins [of False "''SRV''"] pins [of True "''EVIL''"] run show ?thesis by simp
qed

lemma sample_connect_start:
  "connect_ssh sample_ssh_env (sample_ssh b) sample_plain_os 0 sample_ssh_args None sample_ssh_state =
     abind (acatch (\<lambda>e. \<not> is_signer_error e) (\<lambda>e. araise (Exc SignerUnavailableError (''SSH tunnel failed: '' @ exc_msg e) []))
       (start_listener (sample_ssh b) sample_ssh_args 0)) (\<lambda>_.
     abind (alift (new_client (''http://127.0.0.1:'' @ show_int 6000) None True)) (\<lambda>cl.
     abind (update_client 0 (\<lambda>_. cl)) (\<lambda>_.
     abind (health (net_env sample_ssh_env) 0) (\<lambda>ok.
     if \<not> ok then abind (close (tunnel_stop (sample_ssh b) 0) 0) (\<lambda>_. araise (Exc SignerUnavailableError ''Connected via SSH but signer not responding'' []))
     else aret ())))) (after_contact contact_log fresh_tunnel)"
proof -
  have args: "sample_ssh_args\<lparr>sa_key_path := ''id'', sa_known_hosts_path := ''known_hosts'', sa_local_port := 6000\<rparr> = sample_ssh_args"
    by (simp add: sample_ssh_args_def)
  have nt: "new_tunnel sample_ssh_args = Inr ()" by (simp add: new_tunnel_def)
  have start: "abind (alift (Inr ())) (\<lambda>_ :: unit. abind (set_tunnel 0 (\<lambda>_. fresh_tunnel)) (\<lambda>_. tunnel_start (sample_ssh b) sample_ssh_args 0)) sample_ssh_state =
    start_listener (sample_ssh b) sample_ssh_args 0 (after_contact contact_log fresh_tunnel)"
    by (simp add: abind_def set_tunnel_def ask_run sample_tunnel_start sample_ssh_state_def after_contact_def)
  have step: "acatch p h m s = acatch p h n t" if "m s = n t" for p h and m n :: "(sample_file, string, unit) ssh_action" and s t
    using that by (simp add: acatch_def)
  have bind: "abind m f s = abind n f t" if "m s = n t" for m n :: "(sample_file, string, unit) ssh_action" and f :: "unit \<Rightarrow> (sample_file, string, unit) ssh_action" and s t
    using that by (simp add: abind_def)
  show ?thesis
    unfolding connect_ssh_def Let_def sample_plain_os_def
    by (simp add: args nt del: abind_prim(3)) (rule bind, rule step, rule start)
qed

lemma sample_listener:
  "start_listener (sample_ssh b) sample_ssh_args 0 (after_contact contact_log fresh_tunnel) =
     (if b then (Inr (), after_contact (contact_log @ [Listening 6000]) running_tunnel)
      else (Inl (Exc OSError ''Address already in use'' []), after_contact contact_log (running_tunnel\<lparr>to_running := False\<rparr>)))"
  by (simp add: start_listener_def sample_run after_contact_def running_tunnel_def fresh_tunnel_def)

lemma sample_connects: "fst (connect_ssh sample_ssh_env (sample_ssh True) sample_plain_os 0 sample_ssh_args None sample_ssh_state) = Inr ()"
proof -
  obtain cl where cl: "new_client (''http://127.0.0.1:'' @ show_int 6000) None True = Inr cl" by (simp add: new_client_def)
  show ?thesis
    unfolding sample_connect_start cl
    by (simp add: abind_def acatch_def action_simps sample_listener)
      (simp add: health_def http_run net_env_def sample_ssh_env_def ok_reply_def abind_def acatch_def action_simps)
qed

theorem connect_ssh_outcome_witness:
  "\<exists>t. connect_ssh sample_ssh_env (sample_ssh True) sample_plain_os 0 sample_ssh_args None sample_ssh_state = (Inr (), t) \<and>
     connected 0 None t \<and> client_ok (st_clients t 0)"
proof -
  note sample_connects
  then obtain t where run: "connect_ssh sample_ssh_env (sample_ssh True) sample_plain_os 0 sample_ssh_args None sample_ssh_state = (Inr (), t)"
    by (metis prod.collapse)
  have "connection_of sample_ssh_state = NoConnection" by (simp add: connection_of_def sample_ssh_state_def)
  from connect_ssh_outcome [OF run this] run show ?thesis by auto
qed


end
