(* ===== verification/Client_Sessions.thy ===== *)
theory Client_Sessions
  imports Client_Lifetime Ssh_Connect
begin

text \<open>
  A client as a context manager (\<^verbatim>\<open>SignerClient.__enter__\<close>, \<^verbatim>\<open>__exit__\<close>): the tunnel is torn down when
  the \<^verbatim>\<open>with\<close> statement is left, however it is left. The calls made in between go through the tunnel
  but leave the tunnel object and its connection alone, which the contracts of \<open>Client_Contracts\<close> give
  for every method of the client at once.
\<close>

section \<open>The with statement\<close>

definition client_exit :: "('v, 'k, 'p, 'h) ssh_lib \<Rightarrow> nat \<Rightarrow> ('v, 'k, unit) ssh_action" where
  "client_exit S c = close (tunnel_stop S c) c"

text \<open>\<^verbatim>\<open>with enter as client: body\<close>; \<^verbatim>\<open>__exit__\<close> returns \<^verbatim>\<open>False\<close>, so an exception of the body goes on.\<close>

definition with_client :: "('v, 'k, 'p, 'h) ssh_lib \<Rightarrow> nat \<Rightarrow> ('v, 'k, unit) ssh_action \<Rightarrow> ('v, 'k, 'a) ssh_action \<Rightarrow> ('v, 'k, 'a) ssh_action" where
  "with_client S c enter body = abind enter (\<lambda>_. afinally (client_exit S c) body)"

section \<open>Calls through the tunnel leave it alone\<close>

definition session_view :: "nat \<Rightarrow> (('v, 'k) net, client) state \<Rightarrow> 'k ssh_event list \<times> tunnel_obj \<times> bool" where
  "session_view c s = (log_of s, tunnels_of s c, tunnel (st_clients s c))"

lemma net_exchange_same: "obeys (same (session_view c)) (http (net_env E) c' meth path body tmo)"
  by (simp add: obeys_def same_def session_view_def http_run net_env_def case_prod_unfold)

lemma net_updates_same:
  "(\<And>cl. tunnel (f cl) = tunnel cl) \<Longrightarrow> obeys (same (session_view c)) (update_client c' f)"
  "obeys (same (session_view c)) (fresh_token (net_env E))"
  by (simp_all add: obeys_def same_def session_view_def action_simps fresh_token_def net_env_def case_prod_unfold)

lemma net_caches_same:
  "obeys (same (session_view c)) (cache_approval_wait (net_env E) c' v)"
  "obeys (same (session_view c)) (list_keys_step c' k keys)"
  unfolding cache_approval_wait_def list_keys_step_def
  by (intro viewed.structure_rules net_updates_same; simp)+

interpretation session: signing_contract "same (session_view c)" "net_env E" for c E
  by unfold_locales (auto simp: net_exchange_same net_caches_same clear_key_cache_def intro!: net_updates_same)

text \<open>A call to something outside the SDK, such as a node or the terminal.\<close>

lemma session_call: "obeys (same (session_view c)) (call q)"
  by (simp add: obeys_def same_def session_view_def ssh_prims)

section \<open>Leaving the statement\<close>

lemma new_client_tunnel: "new_client url tmo True = Inr cl \<Longrightarrow> tunnel cl"
  by (auto simp: new_client_def result_simps)

lemma session_view_eq:
  assumes "same (session_view c) s t" and "connected c tmo s"
  shows "connection_of t = TransportOpen" "tunnels_of t c = running_tunnel" "tunnel (st_clients t c)"
proof -
  from assms(2) obtain p where "new_client (''http://127.0.0.1:'' @ show_int p) tmo True = Inr (st_clients s c)"
    unfolding connected_def by blast
  then have "tunnel (st_clients s c)" by (rule new_client_tunnel)
  with assms show "connection_of t = TransportOpen" "tunnels_of t c = running_tunnel" "tunnel (st_clients t c)"
    by (auto simp: same_def session_view_def connected_def connection_of_def)
qed

lemma client_exit_closes:
  assumes "connection_of s = TransportOpen" "tunnels_of s c = running_tunnel" "tunnel (st_clients s c)"
  obtains t where "client_exit S c s = (Inr (), t)" "connection_of t = NoConnection" "tunnels_of t c = fresh_tunnel"
    "\<not> tunnel (st_clients t c)"
proof -
  obtain t where "tunnel_stop S c s = (Inr (), t)" "connection_of t = NoConnection" "tunnels_of t c = fresh_tunnel" "st_clients t = st_clients s"
    using tunnel_stop_running [OF assms(2,1)] by blast
  then show thesis
    using assms(3)
    by (intro that [of "t\<lparr>st_clients := (st_clients t)(c := (st_clients t c)\<lparr>tunnel := False\<rparr>)\<rparr>"])
      (simp_all add: client_exit_def close_def abind_def acatch_def action_simps connection_of_def)
qed

definition all_closed :: "nat \<Rightarrow> (('v, 'k) net, client) state \<Rightarrow> bool" where
  "all_closed c t \<longleftrightarrow> connection_of t = NoConnection \<and> tunnels_of t c = fresh_tunnel \<and> \<not> tunnel (st_clients t c)"

lemma afinally_run:
  assumes "m s = (r, u)" and "h u = (Inr (), t)"
  shows "afinally h m s = (r, t)"
  using assms by (cases r) (simp_all add: afinally_def on_error_def abind_def acatch_def action_simps)

lemma with_client_run:
  assumes "enter s = (Inr (), u)" and "connected c tmo u" and "body u = (r, v)" and "keeps (session_view c) body"
  obtains t where "with_client S c enter body s = (r, t)" "all_closed c t"
proof -
  have "same (session_view c) u v" using viewed.result_rule [OF assms(4) [unfolded keeps_def] assms(3)] .
  from client_exit_closes [OF session_view_eq [OF this assms(2)], where S = S] obtain t where t: "client_exit S c v = (Inr (), t)" "all_closed c t"
    unfolding all_closed_def by blast
  from assms(1) afinally_run [where h = "client_exit S c" and m = body, OF assms(3) t(1)] have "with_client S c enter body s = (r, t)" by (simp add: with_client_def abind_run)
  with t(2) show thesis by (rule that [rotated])
qed

section \<open>Property\<close>

text \<open>
  C8. A session leaves nothing open. Take a \<^verbatim>\<open>with\<close> statement over \<^verbatim>\<open>connect_ssh\<close> whose body works on
  the client in any way that does not reach into its tunnel, which holds of every signing call and of
  calls outside the SDK. Either connecting raised, the statement raises that exception and whatever was
  opened is closed again (unless it was the local listener that could not be set up), or the body
  ran on a connected client and the statement ends as the body did, with the same value or exception,
  the SSH connection closed, the tunnel stopped and the client without a tunnel.
\<close>

theorem session_closed:
  assumes "connection_of s = NoConnection" and "keeps (session_view c) body"
    and "with_client S c (connect_ssh E S H c T tmo) body s = (r, t)"
  shows "(\<exists>e. connect_ssh E S H c T tmo s = (Inl e, t) \<and> r = Inl e \<and>
       (connection_of t = NoConnection \<or> (\<exists>T' u e'. start_listener S T' c u = (Inl e', t)))) \<or>
    (\<exists>u. connect_ssh E S H c T tmo s = (Inr (), u) \<and> connected c tmo u \<and> r = fst (body u) \<and> all_closed c t)"
proof -
  obtain q u where q: "connect_ssh E S H c T tmo s = (q, u)" by fastforce
  show ?thesis
  proof (cases q)
    case (Inl e)
    with q assms(3) have "r = Inl e" "u = t" by (simp_all add: with_client_def abind_run)
    with q connect_ssh_run [OF q assms(1)] Inl show ?thesis by blast
  next
    case Inr
    with q connect_ssh_run [OF q assms(1)] have con: "connected c tmo u" and run: "connect_ssh E S H c T tmo s = (Inr (), u)" by auto
    obtain r' v where b: "body u = (r', v)" by fastforce
    from with_client_run [where enter = "connect_ssh E S H c T tmo" and body = body and S = S, OF run con b assms(2)] assms(3) have "r' = r" "all_closed c t" by auto
    with con run b show ?thesis by auto
  qed
qed

text \<open>A session on the sample world whose body asks for the key inventory, which the sample signer does not answer.\<close>

theorem session_closed_witness:
  "\<exists>r t. with_client (sample_ssh True) 0 (connect_ssh sample_ssh_env (sample_ssh True) sample_plain_os 0 sample_ssh_args None)
       (list_keys (net_env sample_ssh_env) 0 True) sample_ssh_state = (r, t) \<and> all_closed 0 t"
proof -
  let ?enter = "connect_ssh sample_ssh_env (sample_ssh True) sample_plain_os 0 sample_ssh_args None"
  let ?body = "list_keys (net_env sample_ssh_env) 0 True"
  obtain r t where run: "with_client (sample_ssh True) 0 ?enter ?body sample_ssh_state = (r, t)" by fastforce
  have "connection_of sample_ssh_state = NoConnection" by (simp add: connection_of_def sample_ssh_state_def)
  moreover have "keeps (session_view 0) ?body" unfolding keeps_def by (rule session.inventory_obeys)
  moreover note ended = session_closed [OF calculation run]
  have "\<nexists>e. ?enter sample_ssh_state = (Inl e, t)" using sample_connects by auto
  with ended have "all_closed 0 t" by blast
  with run show ?thesis by blast
qed

end
