(* ===== verification/Example_Programs.thy ===== *)
theory Example_Programs
  imports Client_Sessions
begin

text \<open>
  The example programs of the repository (\<^verbatim>\<open>src/python/examples\<close>), each a \<^verbatim>\<open>main()\<close> that connects from
  the data directory, builds a transaction or a group, has it signed and submits it. They put the
  components together the way a user of the SDK does.

  The node, the wait for a confirmation and the terminal are parameters acting on the world \<open>'v\<close>
  (\<open>chain\<close>); \<open>ch_submit\<close> is \<^verbatim>\<open>AlgodClient.send_raw_transaction\<close>. The programs' constants are the
  placeholders of the sources.
\<close>

record 'v chain =
  ch_algod :: "'v algod"
  ch_submit :: "string \<Rightarrow> 'v \<Rightarrow> string result \<times> 'v"
  ch_wait :: "string \<Rightarrow> nat \<Rightarrow> 'v \<Rightarrow> pyval result \<times> 'v"
  ch_print :: "string \<Rightarrow> 'v \<Rightarrow> unit result \<times> 'v"

record ('v, 'k, 'p, 'h) platform =
  pf_env :: "'v env"
  pf_ssh :: "('v, 'k, 'p, 'h) ssh_lib"
  pf_os :: host_os
  pf_sdk :: algosdk
  pf_txn :: txn_builder
  pf_chain :: "'v chain"

definition DEFAULT_SSH_SETUP_TIMEOUT :: setup_timeout where
  "DEFAULT_SSH_SETUP_TIMEOUT = Seconds 60 ''60''"

section \<open>What the programs share\<close>

text \<open>\<^verbatim>\<open>with SignerClient.from_env() as signer\<close>; the client takes the identity 0.\<close>

definition signer_session :: "('v, 'k, 'p, 'h) platform \<Rightarrow> ('v, 'k, unit) ssh_action \<Rightarrow> ('v, 'k, unit) ssh_action" where
  "signer_session P body =
     with_client (pf_ssh P) 0 (from_env (pf_env P) (pf_ssh P) (pf_os P) 0 None None None False DEFAULT_SSH_SETUP_TIMEOUT) body"

abbreviation say :: "('v, 'k, 'p, 'h) platform \<Rightarrow> string \<Rightarrow> ('v, 'k, unit) ssh_action" where
  "say P line \<equiv> call (ch_print (pf_chain P) line)"

abbreviation suggested :: "('v, 'k, 'p, 'h) platform \<Rightarrow> ('v, 'k, suggested_params) ssh_action" where
  "suggested P \<equiv> call (algod_params (ch_algod (pf_chain P)))"

text \<open>\<^verbatim>\<open>algod_client.account_info(a).get("auth-addr")\<close>\<close>

definition auth_addr :: "('v, 'k, 'p, 'h) platform \<Rightarrow> string \<Rightarrow> ('v, 'k, pyval) ssh_action" where
  "auth_addr P a = abind (call (algod_account (ch_algod (pf_chain P)) a)) (\<lambda>info. alift (py_get info ''auth-addr''))"

text \<open>\<^verbatim>\<open>v or None\<close> and \<^verbatim>\<open>v or a\<close>, for an address\<close>

definition address_or_none :: "pyval \<Rightarrow> string option" where
  "address_or_none v = (if truthy v then Some (py_str v) else None)"

definition address_or :: "pyval \<Rightarrow> string \<Rightarrow> string" where
  "address_or v a = (if truthy v then py_str v else a)"

text \<open>Submitting through \<^verbatim>\<open>aplanesdk.send_raw_transaction\<close>, then waiting four rounds.\<close>

definition submit_and_wait :: "('v, 'k, 'p, 'h) platform \<Rightarrow> string \<Rightarrow> ('v, 'k, unit) ssh_action" where
  "submit_and_wait P signed =
     abind (call (\<lambda>w. case ch_submit (pf_chain P) signed w of (r, w') \<Rightarrow> (send_raw_transaction (\<lambda>_. r) signed, w'))) (\<lambda>txid.
     abind (say P (''Submitted: '' @ txid)) (\<lambda>_.
     abind (call (ch_wait (pf_chain P) txid 4)) (\<lambda>res.
     abind (alift (py_item res ''confirmed-round'')) (\<lambda>round.
       say P (''Confirmed in round '' @ py_str round)))))"

section \<open>The programs\<close>

definition SEND_SENDER :: string where "SEND_SENDER = ''ED255ACCOUNTEXAMPLE77777777777777777777777777777777777777777''"
definition ASA_RECEIVER :: string where "ASA_RECEIVER = ''RECEIVEREXAMPLE777777777777777777777777777777777777777777''"
definition ALICE :: string where "ALICE = ''ALICEED255EXAMPLE777777777777777777777777777777777777777777''"
definition BOB :: string where "BOB = ''BOBFALCONEXAMPLE7777777777777777777777777777777777777777777''"
definition HASHLOCK_ADDRESS :: string where "HASHLOCK_ADDRESS = ''HASHLOCKEXAMPLE7777777777777777777777777777777777777777''"
definition RECIPIENT :: string where "RECIPIENT = ''RECIPIENTEXAMPLE777777777777777777777777777777777777777''"
definition PREIMAGE :: bytes where "PREIMAGE = ''my_secret_preimage_32_bytes_long''"

definition send_body :: "('v, 'k, 'p, 'h) platform \<Rightarrow> ('v, 'k, unit) ssh_action" where
  "send_body P =
     abind (suggested P) (\<lambda>params.
     abind (alift (pf_txn P SEND_SENDER params None (MkPayment SEND_SENDER 0 None None))) (\<lambda>txn.
     abind (auth_addr P SEND_SENDER) (\<lambda>auth.
     abind (say P (''Signing validation txn for '' @ take 12 SEND_SENDER @ ''...'')) (\<lambda>_.
     abind (sign_transaction (net_env (pf_env P)) (pf_sdk P) 0 txn (address_or_none auth) [] None) (\<lambda>signed.
       submit_and_wait P signed)))))"

definition asa_transfer_body :: "('v, 'k, 'p, 'h) platform \<Rightarrow> ('v, 'k, unit) ssh_action" where
  "asa_transfer_body P =
     abind (suggested P) (\<lambda>params.
     abind (alift (pf_txn P SEND_SENDER params None (MkAssetTransfer ASA_RECEIVER 1 10458941 None))) (\<lambda>txn.
     abind (auth_addr P SEND_SENDER) (\<lambda>auth.
     abind (say P (''Signing ASA transfer for '' @ take 12 SEND_SENDER @ ''...'')) (\<lambda>_.
     abind (sign_transaction (net_env (pf_env P)) (pf_sdk P) 0 txn (address_or_none auth) [] None) (\<lambda>signed.
       submit_and_wait P signed)))))"

definition atomic_swap_body :: "('v, 'k, 'p, 'h) platform \<Rightarrow> ('v, 'k, unit) ssh_action" where
  "atomic_swap_body P =
     abind (suggested P) (\<lambda>params.
     abind (alift (pf_txn P ALICE params None (MkPayment BOB 100000 None None))) (\<lambda>txn_alice_to_bob.
     abind (alift (pf_txn P BOB params None (MkPayment ALICE 100000 None None))) (\<lambda>txn_bob_to_alice.
     abind (call (algod_account (ch_algod (pf_chain P)) ALICE)) (\<lambda>alice_info.
     abind (call (algod_account (ch_algod (pf_chain P)) BOB)) (\<lambda>bob_info.
     abind (alift (py_get alice_info ''auth-addr'')) (\<lambda>alice_auth.
     abind (alift (py_get bob_info ''auth-addr'')) (\<lambda>bob_auth.
     abind (say P (''Signing atomic swap: '' @ take 8 ALICE @ ''... <-> '' @ take 8 BOB @ ''...'')) (\<lambda>_.
     abind (sign_transactions (net_env (pf_env P)) (pf_sdk P) 0 [Some txn_alice_to_bob, Some txn_bob_to_alice]
              (Some [address_or alice_auth ALICE, address_or bob_auth BOB]) [] [] [] None) (\<lambda>signed.
     abind (submit_and_wait P signed) (\<lambda>_.
       say P ''Atomic swap complete!''))))))))))"

text \<open>The listing of the arguments a LogicSig needs, when the key has any.\<close>

definition show_signing_args :: "('v, 'k, 'p, 'h) platform \<Rightarrow> key_info option \<Rightarrow> ('v, 'k, unit) ssh_action" where
  "show_signing_args P info =
     (case info of
        Some k \<Rightarrow>
          (case ki_signing_args k of
             Some args \<Rightarrow>
               if args = [] then aret () else
               abind (say P ''Required arguments for this LogicSig:'') (\<lambda>_.
               afold (\<lambda>arg _. say P (''  - '' @ py_str (ra_name arg) @ '': '' @ py_str (ra_arg_type arg) @ '' ('' @ py_str (ra_description arg) @ '')''))
                 args ())
           | None \<Rightarrow> aret ())
      | None \<Rightarrow> aret ())"

definition htlc_claim_body :: "('v, 'k, 'p, 'h) platform \<Rightarrow> ('v, 'k, unit) ssh_action" where
  "htlc_claim_body P =
     abind (get_key_info (net_env (pf_env P)) 0 HASHLOCK_ADDRESS) (\<lambda>key_info.
     abind (show_signing_args P key_info) (\<lambda>_.
     abind (suggested P) (\<lambda>params.
     abind (alift (pf_txn P HASHLOCK_ADDRESS params None (MkPayment RECIPIENT 0 (Some RECIPIENT) None))) (\<lambda>txn.
     abind (say P ''Signing hashlock claim with preimage...'') (\<lambda>_.
     abind (sign_transaction (net_env (pf_env P)) (pf_sdk P) 0 txn (Some HASHLOCK_ADDRESS) [(''preimage'', PREIMAGE)] None) (\<lambda>signed.
     abind (submit_and_wait P signed) (\<lambda>_.
       say P ''Hashlock claimed successfully!'')))))))"

definition send_main :: "('v, 'k, 'p, 'h) platform \<Rightarrow> ('v, 'k, unit) ssh_action" where
  "send_main P = signer_session P (send_body P)"

definition asa_transfer_main :: "('v, 'k, 'p, 'h) platform \<Rightarrow> ('v, 'k, unit) ssh_action" where
  "asa_transfer_main P = signer_session P (asa_transfer_body P)"

definition atomic_swap_main :: "('v, 'k, 'p, 'h) platform \<Rightarrow> ('v, 'k, unit) ssh_action" where
  "atomic_swap_main P = signer_session P (atomic_swap_body P)"

definition htlc_claim_main :: "('v, 'k, 'p, 'h) platform \<Rightarrow> ('v, 'k, unit) ssh_action" where
  "htlc_claim_main P = signer_session P (htlc_claim_body P)"

definition example_mains :: "('v, 'k, 'p, 'h) platform \<Rightarrow> ('v, 'k, unit) ssh_action list" where
  "example_mains P = [send_main P, asa_transfer_main P, atomic_swap_main P, htlc_claim_main P]"

lemmas body_defs = send_body_def asa_transfer_body_def atomic_swap_body_def htlc_claim_body_def
lemmas main_defs = example_mains_def send_main_def asa_transfer_main_def atomic_swap_main_def htlc_claim_main_def

section \<open>Their bodies leave the tunnel alone\<close>

lemmas session_call_obeys [contract_intros] = session_call

lemma session_shared [contract_intros]:
  "obeys (same (session_view c)) (auth_addr P a)"
  "obeys (same (session_view c)) (submit_and_wait P signed)"
  "obeys (same (session_view c)) (show_signing_args P info)"
  unfolding auth_addr_def submit_and_wait_def show_signing_args_def by (intro contract_intros)+

lemma body_session:
  "obeys (same (session_view c)) (send_body P)" "obeys (same (session_view c)) (asa_transfer_body P)"
  "obeys (same (session_view c)) (atomic_swap_body P)" "obeys (same (session_view c)) (htlc_claim_body P)"
  unfolding body_defs by (intro contract_intros)+

lemma example_bodies:
  "main \<in> set (example_mains P) \<Longrightarrow>
     \<exists>body \<in> {send_body P, asa_transfer_body P, atomic_swap_body P, htlc_claim_body P}. main = signer_session P body"
  by (auto simp: main_defs)

lemma bodies_keep_session: "body \<in> {send_body P, asa_transfer_body P, atomic_swap_body P, htlc_claim_body P} \<Longrightarrow> keeps (session_view c) body"
  using body_session unfolding keeps_def by auto

section \<open>The requests they send\<close>

text \<open>Setting a tunnel up or tearing it down sends nothing to the signer; only the greeting does.\<close>

lemma issues_ssh_prims [issues_intros]:
  "issues P (call q)" "issues P (look f)" "issues P (act g)" "issues P (log_event e)" "issues P (set_tunnel c h)" "issues P (get_tunnel c)"
  unfolding call_def look_def act_def log_event_def set_tunnel_def get_tunnel_def by (intro issues_intros)+

lemma issues_load_classes [issues_intros]: "issues P (load_key_classes S path kcs errors)"
  by (induction kcs arbitrary: errors) (auto intro!: issues_intros)

lemma issues_on_error [issues_intros]: "issues P h \<Longrightarrow> issues P m \<Longrightarrow> issues P (on_error h m)" "issues P h \<Longrightarrow> issues P m \<Longrightarrow> issues P (afinally h m)"
  unfolding afinally_def on_error_def by (intro issues_intros; assumption)+

lemma issues_setup [issues_intros]:
  "issues P (load_client_ssh_key S path)" "issues P (load_host_keys S path)" "issues P (verify_host_key S T k)"
  "issues P (remaining_setup_time S d)" "issues P (overdue S d)" "issues P (setup_error S T d e)"
  "issues P (close_transport S)" "issues P (close_socket S)"
  unfolding load_client_ssh_key_def load_host_keys_def verify_host_key_def remaining_setup_time_def overdue_def setup_error_def
    close_transport_def close_socket_def Let_def
  by (intro issues_intros)+

lemma issues_tunnel [issues_intros]: "issues P (tunnel_start S T c)" "issues P (tunnel_stop S c)"
  unfolding tunnel_start_def tunnel_stop_def start_listener_def establish_def negotiate_def authenticate_def Let_def
  by (intro issues_intros)+

lemma issues_client_exit [issues_intros]: "issues P (client_exit S c)"
  unfolding client_exit_def close_def by (intro issues_intros)

lemma issues_from_env [issues_intros]: "issues sign_request (from_env E S H c dir tmo ep tofu st)"
  unfolding from_env_def connect_ssh_def Let_def close_def
  by (intro issues_intros requesting.inventory_obeys [folded issues_def])

lemma body_requests: "body \<in> {send_body P, asa_transfer_body P, atomic_swap_body P, htlc_claim_body P} \<Longrightarrow> issues sign_request body"
  unfolding body_defs auth_addr_def submit_and_wait_def show_signing_args_def
  by (elim insertE emptyE; hypsubst)
    (intro issues_intros requesting.group_signing_obeys [folded issues_def] requesting.cached_inventory_obeys [folded issues_def])+

lemma issues_session: "issues sign_request body \<Longrightarrow> issues sign_request (signer_session P body)"
  unfolding signer_session_def with_client_def by (intro issues_intros)

section \<open>How a program ends\<close>

lemma silent_run: "silent m \<Longrightarrow> m s = (r, t) \<Longrightarrow> st_trace t = st_trace s"
  using silent_trace [of m s] by simp

lemma silent_finally:
  assumes "silent h" and "afinally h m s = (r, t)" and "m s = (x, v)"
  shows "st_trace t = st_trace v"
proof -
  obtain y w where h: "h v = (y, w)" by fastforce
  with assms(2,3) have "t = w" by (cases x; cases y) (auto simp: afinally_def on_error_def abind_def araise_def aret_def acatch_def)
  with silent_run [OF assms(1) h] show ?thesis by simp
qed

lemma from_env_run:
  assumes "from_env E S H c dir tmo ep tofu st s = (r, t)" and "connection_of s = NoConnection"
  shows "case r of Inr _ \<Rightarrow> connected c tmo t
    | Inl e \<Rightarrow> connection_of t = NoConnection \<or> (\<exists>T u e'. start_listener S T c u = (Inl e', t))"
proof -
  from assms(1) consider (early) e where "r = Inl e" "t = s" | (connect) T where "connect_ssh E S H c T tmo s = (r, t)"
    unfolding from_env_def
    by (auto simp: abind_def alift_def araise_if_def araise_def split: sum.splits prod.splits if_splits)
  then show ?thesis
  proof cases
    case early
    with assms(2) show ?thesis by simp
  next
    case connect
    from connect_ssh_run [OF this assms(2)] show ?thesis by (cases r) auto
  qed
qed

lemma session_ends:
  assumes "signer_session P body s = (r, t)" and "connection_of s = NoConnection" and "keeps (session_view 0) body"
  shows "case r of Inr _ \<Rightarrow> all_closed 0 t \<and> (\<exists>u v. body u = (Inr (), v) \<and> st_trace t = st_trace v)
    | Inl e \<Rightarrow> connection_of t = NoConnection \<or> (\<exists>T u e'. start_listener (pf_ssh P) T 0 u = (Inl e', t))"
proof -
  let ?enter = "from_env (pf_env P) (pf_ssh P) (pf_os P) 0 None None None False DEFAULT_SSH_SETUP_TIMEOUT"
  obtain q u where q: "?enter s = (q, u)" by fastforce
  note entered = from_env_run [OF q assms(2)]
  show ?thesis
  proof (cases q)
    case (Inl e)
    with q assms(1) have "r = Inl e" "t = u" by (simp_all add: signer_session_def with_client_def abind_run)
    with entered Inl show ?thesis by simp
  next
    case Inr
    with q entered have run: "?enter s = (Inr (), u)" and con: "connected 0 None u" by auto
    obtain r' v where b: "body u = (r', v)" by fastforce
    from with_client_run [where enter = ?enter and body = body and S = "pf_ssh P", OF run con b assms(3)] assms(1)
    have "r' = r" "all_closed 0 t" unfolding signer_session_def by auto
    moreover have "afinally (client_exit (pf_ssh P) 0) body u = (r, t)"
      using assms(1) run by (simp add: signer_session_def with_client_def abind_run)
    from silent_finally [OF issues_client_exit this b] have "st_trace t = st_trace v" .
    ultimately show ?thesis using b by (cases r) (auto simp: all_closed_def)
  qed
qed

text \<open>
  A program that returns has had accepted by the node, right after a signing call of its client, what this call
  returned; that call's exchange with the signer was the last.
\<close>

definition client_signed :: "('v, 'k, 'p, 'h) platform \<Rightarrow> string \<Rightarrow> (('v, 'k) net, client) state \<Rightarrow> bool" where
  "client_signed P signed v \<longleftrightarrow> (\<exists>u.
     (\<exists>txn auth args. sign_transaction (net_env (pf_env P)) (pf_sdk P) 0 txn auth args None u = (Inr signed, v)) \<or>
     (\<exists>txns auths. sign_transactions (net_env (pf_env P)) (pf_sdk P) 0 txns auths [] [] [] None u = (Inr signed, v)))"

definition submitted :: "('v, 'k, 'p, 'h) platform \<Rightarrow> (('v, 'k) net, client) state \<Rightarrow> bool" where
  "submitted P t \<longleftrightarrow> (\<exists>signed txid v w'. client_signed P signed v \<and>
     ch_submit (pf_chain P) signed (nw_world (st_world v)) = (Inr txid, w') \<and> st_trace t = st_trace v)"

lemma submit_accepted:
  "submit_and_wait P signed u = (Inr (), v) \<Longrightarrow>
     (\<exists>txid w'. ch_submit (pf_chain P) signed (nw_world (st_world u)) = (Inr txid, w')) \<and> st_trace v = st_trace u"
  using silent_run [of "submit_and_wait P signed" u "Inr ()" v] unfolding submit_and_wait_def
  by (auto simp: abind_Inr call_def ask_def send_raw_transaction_def rewrap_Inr intro!: issues_intros split: prod.splits)

lemma client_signedI:
  "sign_transaction (net_env (pf_env P)) (pf_sdk P) 0 txn auth args None u = (Inr signed, v) \<Longrightarrow> client_signed P signed v"
  "sign_transactions (net_env (pf_env P)) (pf_sdk P) 0 txns auths [] [] [] None u = (Inr signed, v) \<Longrightarrow> client_signed P signed v"
  unfolding client_signed_def by blast+

lemma submittedI:
  assumes "client_signed P signed u" and "submit_and_wait P signed u = (Inr (), v)" and "st_trace t = st_trace v"
  shows "submitted P t"
  using assms submit_accepted [OF assms(2)] unfolding submitted_def by metis

lemma say_silent: "say P line u = (r, v) \<Longrightarrow> st_trace v = st_trace u"
  by (rule silent_run [OF issues_ssh_prims(1)])

lemma single_submits:
  "send_body P u = (Inr (), v) \<Longrightarrow> submitted P v" "asa_transfer_body P u = (Inr (), v) \<Longrightarrow> submitted P v"
  unfolding send_body_def asa_transfer_body_def abind_Inr by (elim exE conjE, rule submittedI [OF client_signedI(1)], assumption, assumption, rule refl)+

lemma swap_submits: "atomic_swap_body P u = (Inr (), v) \<Longrightarrow> submitted P v"
  unfolding atomic_swap_body_def abind_Inr
  by (elim exE conjE) (rule submittedI [OF client_signedI(2)], assumption, simp, rule say_silent)

lemma claim_submits: "htlc_claim_body P u = (Inr (), v) \<Longrightarrow> submitted P v"
  unfolding htlc_claim_body_def abind_Inr
  by (elim exE conjE) (rule submittedI [OF client_signedI(1)], assumption, simp, rule say_silent)

lemma body_submits:
  "body \<in> {send_body P, asa_transfer_body P, atomic_swap_body P, htlc_claim_body P} \<Longrightarrow> body u = (Inr (), v) \<Longrightarrow> submitted P v"
  using single_submits swap_submits claim_submits by blast

lemma submitted_cong: "submitted P v \<Longrightarrow> st_trace t = st_trace v \<Longrightarrow> submitted P t"
  unfolding submitted_def by metis

section \<open>Property\<close>

text \<open>
  C39. The example programs. However one of them ends, every request it sent the signer reads its
  inventory or asks it to sign, so none changes its key store. If it returns, the node accepted
  what the client's last exchange with the signer, a signing call, had just returned, the SSH connection is closed and
  the tunnel is stopped; if it raises, the connection is closed too, unless it was the local listener of the tunnel that could not be set up.
\<close>

theorem example_programs_end:
  assumes "main \<in> set (example_mains P)" and "main s = (r, t)" and "connection_of s = NoConnection"
  shows "(\<exists>es. st_trace t = st_trace s @ es \<and> list_all sign_request es) \<and>
    (case r of
       Inr _ \<Rightarrow> all_closed 0 t \<and> submitted P t
     | Inl e \<Rightarrow> connection_of t = NoConnection \<or> (\<exists>T u e'. start_listener (pf_ssh P) T 0 u = (Inl e', t)))"
proof -
  from example_bodies [OF assms(1)] obtain body where body: "body \<in> {send_body P, asa_transfer_body P, atomic_swap_body P, htlc_claim_body P}"
    and main: "main = signer_session P body" by blast
  from issuesD [OF issues_session [OF body_requests [OF body]] assms(2) [unfolded main]]
  have "\<exists>es. st_trace t = st_trace s @ es \<and> list_all sign_request es" by (simp add: list_all_iff)
  moreover from session_ends [OF assms(2) [unfolded main] assms(3) bodies_keep_session [OF body]] body_submits [OF body]
  have "case r of Inr _ \<Rightarrow> all_closed 0 t \<and> submitted P t
     | Inl e \<Rightarrow> connection_of t = NoConnection \<or> (\<exists>T u e'. start_listener (pf_ssh P) T 0 u = (Inl e', t))"
    by (auto split: sum.splits intro: submitted_cong)
  ultimately show ?thesis ..
qed

text \<open>The sample world of the tunnel, with a node that refuses every call.\<close>

definition sample_platform :: "(sample_file, string, string, (string \<times> string \<times> string) list) platform" where
  "sample_platform =
     (let refuse = Exc OSError ''node unreachable'' [] in
      \<lparr>pf_env = sample_ssh_env, pf_ssh = sample_ssh True, pf_os = sample_os\<lparr>os_getenv := (\<lambda>_. Some ''/d'')\<rparr>, pf_sdk = unary_sdk, pf_txn = sample_builder,
       pf_chain = \<lparr>ch_algod = \<lparr>algod_params = (\<lambda>w. (Inl refuse, w)), algod_account = (\<lambda>_ w. (Inl refuse, w))\<rparr>,
         ch_submit = (\<lambda>_ w. (Inl refuse, w)), ch_wait = (\<lambda>_ _ w. (Inl refuse, w)), ch_print = (\<lambda>_ w. (Inr (), w))\<rparr>\<rparr>)"

theorem example_programs_end_witness:
  "\<exists>r t. send_main sample_platform sample_ssh_state = (r, t) \<and> list_all sign_request (st_trace t) \<and> connection_of t = NoConnection"
proof -
  obtain r t where run: "send_main sample_platform sample_ssh_state = (r, t)" by fastforce
  have start: "connection_of sample_ssh_state = NoConnection" "st_trace sample_ssh_state = []"
    by (simp_all add: connection_of_def sample_ssh_state_def)
  have "send_main sample_platform \<in> set (example_mains sample_platform)" by (simp add: example_mains_def)
  note ends = example_programs_end [OF this run start(1)]
  have "start_listener (pf_ssh sample_platform) T 0 u \<noteq> (Inl e, t)" for T u e
    by (simp add: sample_platform_def Let_def start_listener_def sample_run)
  with ends have "connection_of t = NoConnection" by (auto simp: all_closed_def split: sum.splits)
  with ends start(2) run show ?thesis by auto
qed

end
