(* ===== verification/Enrollment.thy ===== *)
theory Enrollment
  imports Ssh_Connect Py_Codec
begin

text \<open>
  Enrollment of a client key: the label and reply formats, the prompt for an unknown host key, and the
  enroll session (\<^verbatim>\<open>request_enrollment\<close>, \<^verbatim>\<open>request_enrollment_from_env\<close>).

  Besides the SSH library of the tunnel, what \<^verbatim>\<open>paramiko.SSHClient\<close>, the terminal and \<^verbatim>\<open>hashlib\<close> do is a
  parameter, \<open>enroll_lib\<close>. Connecting may call the policy it is given for a host key it does not know.
\<close>

section \<open>What the session uses\<close>

record ('v, 'k, 'p) enroll_lib =
  en_asbytes :: "'p \<Rightarrow> bytes"
  en_sha256 :: "bytes \<Rightarrow> bytes"
  en_get_fingerprint :: "'k \<Rightarrow> bytes"
  en_load_host_keys :: "string \<Rightarrow> 'v \<Rightarrow> unit result \<times> 'v"
  en_auto_add :: "string \<Rightarrow> 'k \<Rightarrow> ('v, 'k, unit) ssh_action"
  en_connect :: "(string \<Rightarrow> 'k \<Rightarrow> ('v, 'k, unit) ssh_action) \<Rightarrow> string \<Rightarrow> int \<Rightarrow> string \<Rightarrow> 'p \<Rightarrow> real \<times> real \<times> real \<Rightarrow> ('v, 'k, unit) ssh_action"
  en_close :: "'v \<Rightarrow> 'v"
  en_exec_command :: "string \<Rightarrow> 'v \<Rightarrow> unit result \<times> 'v"
  en_exit_status :: "'v \<Rightarrow> int result \<times> 'v"
  en_stderr :: "'v \<Rightarrow> string result \<times> 'v"
  en_stdout :: "'v \<Rightarrow> string result \<times> 'v"
  en_input :: "string \<Rightarrow> 'v \<Rightarrow> string result \<times> 'v"
  en_print :: "string \<Rightarrow> 'v \<Rightarrow> unit result \<times> 'v"

record enrollment_result =
  er_fingerprint :: string
  er_pending :: bool

definition SSH_ENROLLMENT_USERNAME :: string where "SSH_ENROLLMENT_USERNAME = ''enroll''"
definition SSH_ENROLLMENT_COMMAND :: string where "SSH_ENROLLMENT_COMMAND = ''enroll''"
definition MAX_ENROLLMENT_LABEL_BYTES :: nat where "MAX_ENROLLMENT_LABEL_BYTES = 64"

section \<open>Formats\<close>

definition ssh_fingerprint_sha256 :: "('v, 'k, 'p) enroll_lib \<Rightarrow> 'p \<Rightarrow> string" where
  "ssh_fingerprint_sha256 L pkey = ''SHA256:'' @ rstrip_char (CHR ''='') (b64encode (en_sha256 L (en_asbytes L pkey)))"

text \<open>The length of \<^verbatim>\<open>label.encode("utf-8")\<close>, for code points below 256.\<close>

definition utf8_length :: "string \<Rightarrow> nat" where
  "utf8_length s = sum_list (map (\<lambda>ch. if ord_of ch < 128 then 1 else 2) s)"

definition validate_enrollment_label :: "pyval \<Rightarrow> unit result" where
  "validate_enrollment_label label =
     (case label of
        PStr l \<Rightarrow>
          if l = [] then Inr () else
          raise_if (MAX_ENROLLMENT_LABEL_BYTES < utf8_length l)
            (signer_error (''enrollment label must be at most '' @ show_nat MAX_ENROLLMENT_LABEL_BYTES @ '' bytes'')) (
          raise_if (strip l \<noteq> l) (signer_error ''enrollment label must not start or end with whitespace'') (
          raise_if (\<exists>ch \<in> set l. ord_of ch < 32 \<or> ord_of ch = 127) (signer_error ''enrollment label must be printable and single-line'')
            (Inr ())))
      | _ \<Rightarrow> Inl (Exc TypeError ''label must be a str'' []))"

definition enrollment_error :: "string \<Rightarrow> exc" where
  "enrollment_error m = Exc EnrollmentError m []"

definition parse_enrollment_reply :: "string \<Rightarrow> string \<Rightarrow> enrollment_result result" where
  "parse_enrollment_reply reply client_fingerprint =
     rbind (if starts_with ''pending '' reply then Inr \<lparr>er_fingerprint = drop (length ''pending '') reply, er_pending = True\<rparr>
            else if starts_with ''enrolled '' reply then Inr \<lparr>er_fingerprint = drop (length ''enrolled '') reply, er_pending = False\<rparr>
            else Inl (enrollment_error (''Unexpected enrollment response: '' @ repr_str reply))) (\<lambda>result.
     raise_if (er_fingerprint result = []) (enrollment_error (''Unexpected enrollment response: '' @ repr_str reply)) (
     raise_if (er_fingerprint result \<noteq> client_fingerprint)
       (enrollment_error (''Signer answered for '' @ er_fingerprint result @ '', but this client authenticated with '' @ client_fingerprint))
       (Inr result)))"

section \<open>The deadline and the prompt\<close>

text \<open>
  The set-up deadline as the enroll session sees it. \<^verbatim>\<open>setup_complete\<close> is still false whenever the prompt
  runs, so resuming depends on the timer's flag alone.
\<close>

definition get_deadline :: "('v, 'k, real) ssh_action" where
  "get_deadline = ask (\<lambda>n. (Inr (nw_deadline n), n))"

definition set_deadline :: "real \<Rightarrow> ('v, 'k, unit) ssh_action" where
  "set_deadline d = ask (\<lambda>n. (Inr (), n\<lparr>nw_deadline := d\<rparr>))"

definition session_remaining :: "('v, 'k, 'p, 'h) ssh_lib \<Rightarrow> ('v, 'k, real) ssh_action" where
  "session_remaining S = abind get_deadline (remaining_setup_time S)"

definition session_overdue :: "('v, 'k, 'p, 'h) ssh_lib \<Rightarrow> ('v, 'k, bool) ssh_action" where
  "session_overdue S = abind get_deadline (overdue S)"

definition pause_deadline :: "('v, 'k, 'p, 'h) ssh_lib \<Rightarrow> ('v, 'k, real) ssh_action" where
  "pause_deadline S =
     abind (act (ssh_cancel_timer S)) (\<lambda>_.
     abind get_deadline (\<lambda>d.
     abind (look (ssh_monotonic S)) (\<lambda>t. aret (d - t))))"

definition resume_deadline :: "('v, 'k, 'p, 'h) ssh_lib \<Rightarrow> real \<Rightarrow> ('v, 'k, unit) ssh_action" where
  "resume_deadline S remaining =
     abind (look (ssh_timed_out S)) (\<lambda>expired.
     if expired then aret () else
     abind (look (ssh_monotonic S)) (\<lambda>t.
     abind (set_deadline (t + max remaining 0)) (\<lambda>_. call (ssh_start_timer S (max remaining 0)))))"

text \<open>\<^verbatim>\<open>":".join(fingerprint[i : i + 2] for i in range(0, len(fingerprint), 2))\<close>\<close>

fun pairs :: "string \<Rightarrow> string list" where
  "pairs (a # b # cs) = [a, b] # pairs cs"
| "pairs [a] = [[a]]"
| "pairs [] = []"

definition save_host_key :: "('v, 'k, 'p, 'h) ssh_lib \<Rightarrow> string \<Rightarrow> string \<Rightarrow> 'k \<Rightarrow> ('v, 'k, unit) ssh_action" where
  "save_host_key S path hostname key =
     abind (look (hk_exists S (dirname path))) (\<lambda>dir_present.
     abind (if dirname path \<noteq> [] \<and> \<not> dir_present then call (fs_makedirs S (dirname path)) else aret ()) (\<lambda>_.
     abind (load_host_keys S path) (\<lambda>host_keys.
       call (hk_save S (hk_add S host_keys hostname (pk_name S key) key) path))))"

text \<open>\<^verbatim>\<open>_InteractiveHostKeyPolicy.missing_host_key\<close>, with the two deadline callbacks set.\<close>

definition missing_host_key :: "('v, 'k, 'p, 'h) ssh_lib \<Rightarrow> ('v, 'k, 'p) enroll_lib \<Rightarrow> string \<Rightarrow> string \<Rightarrow> 'k \<Rightarrow> ('v, 'k, unit) ssh_action" where
  "missing_host_key S L path hostname key =
     abind (call (en_print L (CHR 0x0A # ''Unknown host: '' @ hostname))) (\<lambda>_.
     abind (call (en_print L (''Host key ('' @ pk_name S key @ ''): '' @ join '':'' (pairs (bytes_hex (en_get_fingerprint L key)))))) (\<lambda>_.
     abind (pause_deadline S) (\<lambda>remaining.
     abind (afinally (resume_deadline S remaining) (call (en_input L ''Do you want to trust this server? [y/N]: ''))) (\<lambda>answer.
     araise_if (lower (strip answer) \<notin> {''y'', ''yes''}) (enrollment_error ''Host key rejected by user'') (
     acatch (\<lambda>_. True) (\<lambda>e. call (en_print L (''Warning: Could not save host key: '' @ exc_msg e)))
       (abind (save_host_key S path hostname key) (\<lambda>_. call (en_print L (''Host key saved to '' @ path)))))))))"

section \<open>The enroll session\<close>

definition open_session :: "('v, 'k, 'p, 'h) ssh_lib \<Rightarrow> ('v, 'k, 'p) enroll_lib \<Rightarrow> (string \<Rightarrow> 'k \<Rightarrow> ('v, 'k, unit) ssh_action) \<Rightarrow> string \<Rightarrow> int \<Rightarrow> 'p \<Rightarrow>
    ('v, 'k, unit) ssh_action" where
  "open_session S L policy host ssh_port pkey =
     abind (session_remaining S) (\<lambda>r.
     abind (call (ssh_create_connection S host ssh_port r)) (\<lambda>_.
     abind (session_remaining S) (\<lambda>r.
     abind (call (ssh_settimeout S (Some r))) (\<lambda>_.
     abind (session_remaining S) (\<lambda>r.
     abind (call (ssh_start_timer S r)) (\<lambda>_.
     abind (session_remaining S) (\<lambda>t1.
     abind (session_remaining S) (\<lambda>t2.
     abind (session_remaining S) (\<lambda>t3.
     abind (en_connect L policy host ssh_port SSH_ENROLLMENT_USERNAME pkey (t1, t2, t3)) (\<lambda>_.
     abind (session_overdue S) (\<lambda>late.
     araise_if late deadline_exceeded (act (ssh_cancel_timer S)))))))))))))"

definition session_error :: "('v, 'k, 'p, 'h) ssh_lib \<Rightarrow> ('v, 'k, 'p) enroll_lib \<Rightarrow> setup_timeout \<Rightarrow> exc \<Rightarrow> ('v, 'k, unit) ssh_action" where
  "session_error S L tmo e =
     abind (act (en_close L)) (\<lambda>_.
     abind (session_overdue S) (\<lambda>late.
     if late \<or> (\<not> is_ssh_exception e \<and> exc_cls e = TimeoutError)
       then araise (enrollment_error (''SSH setup timed out after '' @ timeout_text tmo @ '' seconds''))
     else if is_ssh_authentication e
       then araise (enrollment_error (''SSH authentication failed: '' @ exc_msg e @ '' (the signer accepts '' @ CLIENT_SSH_KEY_REQUIREMENT @ '' client keys)''))
     else if is_ssh_exception e then araise (enrollment_error (''SSH connection failed: '' @ exc_msg e))
     else araise (enrollment_error (''Connection failed: '' @ exc_msg e))))"

definition enrollment_command :: "string \<Rightarrow> string" where
  "enrollment_command label = (if label \<noteq> [] then SSH_ENROLLMENT_COMMAND @ '' '' @ label else SSH_ENROLLMENT_COMMAND)"

definition run_enrollment :: "('v, 'k, 'p) enroll_lib \<Rightarrow> string \<Rightarrow> string \<Rightarrow> ('v, 'k, enrollment_result) ssh_action" where
  "run_enrollment L label client_fingerprint =
     abind (call (en_exec_command L (enrollment_command label))) (\<lambda>_.
     abind (call (en_exit_status L)) (\<lambda>exit_status.
     if exit_status \<noteq> 0 then
       abind (call (en_stderr L)) (\<lambda>err.
       abind (if strip err \<noteq> [] then aret (strip err) else abind (call (en_stdout L)) (\<lambda>out. aret (strip out))) (\<lambda>error_msg.
       let m = (if starts_with ''ERROR: '' error_msg then drop (length ''ERROR: '') error_msg else error_msg) in
         araise (enrollment_error (if m \<noteq> [] then m else ''Enrollment rejected''))))
     else
       abind (call (en_stdout L)) (\<lambda>out. alift (parse_enrollment_reply (strip out) client_fingerprint))))"

definition request_enrollment :: "('v, 'k, 'p, 'h) ssh_lib \<Rightarrow> ('v, 'k, 'p) enroll_lib \<Rightarrow> host_os \<Rightarrow> string \<Rightarrow> string \<Rightarrow> int \<Rightarrow> string \<Rightarrow> pyval \<Rightarrow> pyval \<Rightarrow>
    setup_timeout \<Rightarrow> ('v, 'k, enrollment_result) ssh_action" where
  "request_enrollment S L H host ssh_key_path ssh_port known_hosts_path label auto_add_host tmo =
     araise_if (\<not> is_bool auto_add_host) (Exc TypeError ''auto_add_host must be a bool'' []) (
     araise_if (known_hosts_path = []) (signer_error ''known_hosts_path is required for SSH host key verification'') (
     abind (alift (validate_enrollment_label label)) (\<lambda>_.
     let key_path = os_expanduser H ssh_key_path; hosts_path = os_expanduser H known_hosts_path in
     araise_if (\<not> os_path_exists H key_path) (signer_error (''SSH key not found: '' @ key_path)) (
     abind (load_client_ssh_key S key_path) (\<lambda>pkey.
     let client_fingerprint = ssh_fingerprint_sha256 L pkey in
     abind (look (hk_exists S hosts_path)) (\<lambda>present.
     abind (if present then call (en_load_host_keys L hosts_path) else aret ()) (\<lambda>_.
     araise_if (\<not> timeout_usable tmo) (Exc TypeError ''setup_timeout must be a positive number'' []) (
     abind (look (ssh_monotonic S)) (\<lambda>t.
     abind (set_deadline (t + timeout_seconds tmo)) (\<lambda>_.
     let policy = (if auto_add_host = PBool True then en_auto_add L else missing_host_key S L hosts_path) in
     abind (afinally (act (ssh_cancel_timer S))
              (acatch (\<lambda>_. True) (session_error S L tmo) (open_session S L policy host ssh_port pkey))) (\<lambda>_.
       afinally (act (en_close L)) (run_enrollment L (py_str label) client_fingerprint))))))))))))"

text \<open>The printed lines are the source's, less the check mark in front of the last two.\<close>

definition request_enrollment_from_env :: "('v, 'k, 'p, 'h) ssh_lib \<Rightarrow> ('v, 'k, 'p) enroll_lib \<Rightarrow> host_os \<Rightarrow> string option \<Rightarrow> string option \<Rightarrow> pyval \<Rightarrow> pyval \<Rightarrow>
    setup_timeout \<Rightarrow> ('v, 'k, enrollment_result) ssh_action" where
  "request_enrollment_from_env S L H data_dir endpoint label auto_add_host tmo =
     araise_if (\<not> is_bool auto_add_host) (Exc TypeError ''auto_add_host must be a bool'' []) (
     abind (alift (resolve_data_dir H data_dir)) (\<lambda>dir.
     abind (alift (load_config H dir)) (\<lambda>_.
     abind (alift (load_client_endpoint_registry H dir)) (\<lambda>registry.
     abind (alift (resolve_client_endpoint registry endpoint)) (\<lambda>(_, selected).
     abind (alift (client_endpoint_ssh_host_port H selected)) (\<lambda>(host, ssh_port).
     araise_if (\<not> os_path_exists H (ep_identity_file selected))
       (signer_error (''SSH key not found at '' @ ep_identity_file selected @ CHR 0x0A # ''Create one with: ssh-keygen -t ed25519 -f ''
          @ ep_identity_file selected)) (
     abind (call (en_print L (''Requesting enrollment at '' @ host @ '' (SSH port: '' @ show_int ssh_port @ '')...''))) (\<lambda>_.
     abind (request_enrollment S L H host (ep_identity_file selected) ssh_port (ep_known_hosts_path selected) label auto_add_host tmo) (\<lambda>result.
     abind (call (en_print L (if er_pending result
              then ''Client key '' @ er_fingerprint result @ '' queued; have the operator approve it in apadmin''
              else ''Client key '' @ er_fingerprint result @ '' is already enrolled at '' @ host))) (\<lambda>_.
       aret result))))))))))"

section \<open>Lemmas\<close>

definition reply_word :: "bool \<Rightarrow> string" where
  "reply_word pending = (if pending then ''pending '' else ''enrolled '')"

definition label_ok :: "pyval \<Rightarrow> bool" where
  "label_ok label \<longleftrightarrow> (\<exists>l. label = PStr l \<and> utf8_length l \<le> 64 \<and> strip l = l \<and> (\<forall>ch \<in> set l. 32 \<le> ord_of ch \<and> ord_of ch \<noteq> 127))"

lemma label_ok_iff: "validate_enrollment_label label = Inr () \<longleftrightarrow> label_ok label"
  by (cases label) (auto simp: validate_enrollment_label_def label_ok_def result_simps MAX_ENROLLMENT_LABEL_BYTES_def utf8_length_def
      strip_def lstrip_def not_less)

text \<open>The replies that are accepted, and what they are read as.\<close>

lemma parse_reply_iff:
  "parse_enrollment_reply reply fp = Inr r \<longleftrightarrow> fp \<noteq> [] \<and> er_fingerprint r = fp \<and> reply = reply_word (er_pending r) @ fp"
proof
  assume "parse_enrollment_reply reply fp = Inr r"
  then show "fp \<noteq> [] \<and> er_fingerprint r = fp \<and> reply = reply_word (er_pending r) @ fp"
    by (auto simp: parse_enrollment_reply_def result_simps starts_with_iff reply_word_def split: if_splits)
next
  assume "fp \<noteq> [] \<and> er_fingerprint r = fp \<and> reply = reply_word (er_pending r) @ fp"
  then show "parse_enrollment_reply reply fp = Inr r"
    by (cases r) (simp add: parse_enrollment_reply_def reply_word_def)
qed

lemma on_error_Inr: "on_error h m s = (Inr x, t) \<longleftrightarrow> m s = (Inr x, t)"
  by (auto simp: on_error_def acatch_Inr abind_Inr araise_Inr)

lemma afinally_Inr: "afinally h m s = (Inr x, t) \<longleftrightarrow> (\<exists>u. m s = (Inr x, u) \<and> h u = (Inr (), t))"
  by (auto simp: afinally_def abind_Inr on_error_Inr aret_Inr)

text \<open>The command that was run, ended with status 0 and printed \<open>out\<close>.\<close>

definition enroll_printed :: "('v, 'k, 'p) enroll_lib \<Rightarrow> string \<Rightarrow> string \<Rightarrow> (('v, 'k) net, client) state \<Rightarrow> bool" where
  "enroll_printed L label out s \<longleftrightarrow> (\<exists>s1 s2 t. call (en_exec_command L (enrollment_command label)) s = (Inr (), s1) \<and>
     call (en_exit_status L) s1 = (Inr 0, s2) \<and> call (en_stdout L) s2 = (Inr out, t))"

lemma run_enrollment_Inr:
  assumes "run_enrollment L label fp s = (Inr r, t)"
  shows "er_fingerprint r = fp \<and> (\<exists>out. enroll_printed L label out s \<and> strip out = reply_word (er_pending r) @ fp)"
proof -
  from assms obtain out s1 s2 where "call (en_exec_command L (enrollment_command label)) s = (Inr (), s1)"
    "call (en_exit_status L) s1 = (Inr 0, s2)" "call (en_stdout L) s2 = (Inr out, t)" "parse_enrollment_reply (strip out) fp = Inr r"
    unfolding run_enrollment_def by (auto simp: abind_Inr alift_Inr araise_Inr Let_def split: if_splits)
  then show ?thesis unfolding parse_reply_iff enroll_printed_def by blast
qed

text \<open>
  An unknown host is accepted at the prompt only on an explicit yes.
\<close>

lemma missing_host_key_consent:
  assumes "missing_host_key S L path hostname key s = (Inr (), t)"
  shows "\<exists>w w' answer. en_input L ''Do you want to trust this server? [y/N]: '' w = (Inr answer, w') \<and> lower (strip answer) \<in> {''y'', ''yes''}"
proof -
  from assms obtain u v answer rem where "afinally (resume_deadline S rem) (call (en_input L ''Do you want to trust this server? [y/N]: '')) u = (Inr answer, v)"
    and a: "lower (strip answer) \<in> {''y'', ''yes''}"
    unfolding missing_host_key_def abind_Inr araise_if_Inr by (metis (no_types, lifting))
  then obtain v' where "call (en_input L ''Do you want to trust this server? [y/N]: '') u = (Inr answer, v')" unfolding afinally_Inr by blast
  then have "fst (en_input L ''Do you want to trust this server? [y/N]: '' (nw_world (st_world u))) = Inr answer" by (simp add: ssh_prims)
  with a show ?thesis by (metis prod.collapse)
qed

text \<open>Time at the prompt is not charged: what was left of the deadline is left afterwards, unless the timer has fired.\<close>

lemma prompt_not_charged:
  assumes "pause_deadline S s = (Inr left, u)" and "resume_deadline S left v = (Inr (), t)"
    and "\<not> ssh_timed_out S (nw_world (st_world v))" and "0 \<le> left"
  shows "nw_deadline (st_world t) - ssh_monotonic S (nw_world (st_world v)) = left \<and>
    left = nw_deadline (st_world s) - ssh_monotonic S (ssh_cancel_timer S (nw_world (st_world s)))"
  using assms by (auto simp: pause_deadline_def resume_deadline_def get_deadline_def set_deadline_def abind_def ssh_prims aret_def split: sum.splits)

section \<open>Property\<close>

text \<open>
  C18. An enrollment answer is about the client's own key. When \<^verbatim>\<open>request_enrollment\<close> returns, the label
  was a printable single line of at most 64 bytes without surrounding whitespace, the fingerprint in
  the result is that of the key loaded from the given path, and the enroll command with this label
  ended with status 0 and printed \<^verbatim>\<open>pending\<close> or \<^verbatim>\<open>enrolled\<close>, as the result says, followed by exactly this
  fingerprint.
\<close>

theorem enrollment_own_key:
  assumes "request_enrollment S L H host ssh_key_path ssh_port known_hosts_path label auto_add_host tmo s = (Inr r, t)"
  shows "label_ok label \<and> known_hosts_path \<noteq> [] \<and> timeout_usable tmo \<and>
    (\<exists>pkey u v out. load_client_ssh_key S (os_expanduser H ssh_key_path) s = (Inr pkey, u) \<and>
       er_fingerprint r = ssh_fingerprint_sha256 L pkey \<and>
       enroll_printed L (py_str label) out v \<and> strip out = reply_word (er_pending r) @ er_fingerprint r)"
proof -
  from assms obtain pkey u v where l: "validate_enrollment_label label = Inr ()" and p: "known_hosts_path \<noteq> []" and tm: "timeout_usable tmo"
    and k: "load_client_ssh_key S (os_expanduser H ssh_key_path) s = (Inr pkey, u)"
    and r: "afinally (act (en_close L)) (run_enrollment L (py_str label) (ssh_fingerprint_sha256 L pkey)) v = (Inr r, t)"
    unfolding request_enrollment_def Let_def abind_Inr araise_if_Inr alift_Inr by auto
  from r obtain w where "run_enrollment L (py_str label) (ssh_fingerprint_sha256 L pkey) v = (Inr r, w)" unfolding afinally_Inr by blast
  from run_enrollment_Inr [OF this] l p tm k show ?thesis unfolding label_ok_iff by metis
qed

section \<open>Witness\<close>

definition sample_enroll :: "(sample_file, string, string) enroll_lib" where
  "sample_enroll = \<lparr>en_asbytes = (\<lambda>p. p), en_sha256 = (\<lambda>b. b), en_get_fingerprint = (\<lambda>k. k), en_load_host_keys = (\<lambda>_ w. (Inr (), w)),
     en_auto_add = (\<lambda>_ _. aret ()), en_connect = (\<lambda>policy host _ _ _ _. policy host ''SRV''), en_close = (\<lambda>w. w),
     en_exec_command = (\<lambda>_ w. (Inr (), w)), en_exit_status = (\<lambda>w. (Inr 0, w)), en_stderr = (\<lambda>w. (Inr [], w)),
     en_stdout = (\<lambda>w. (Inr (''pending SHA256:aWQ'' @ [CHR 0x0A]), w)), en_input = (\<lambda>_ w. (Inr ''Yes'', w)), en_print = (\<lambda>_ w. (Inr (), w))\<rparr>"

lemma sample_enroll_fields [simp]:
  "en_asbytes sample_enroll = (\<lambda>p. p)" "en_sha256 sample_enroll = (\<lambda>b. b)" "en_get_fingerprint sample_enroll = (\<lambda>k. k)"
  "en_load_host_keys sample_enroll = (\<lambda>_ w. (Inr (), w))" "en_connect sample_enroll = (\<lambda>policy host _ _ _ _. policy host ''SRV'')"
  "en_close sample_enroll = (\<lambda>w. w)" "en_exec_command sample_enroll = (\<lambda>_ w. (Inr (), w))" "en_exit_status sample_enroll = (\<lambda>w. (Inr 0, w))"
  "en_stdout sample_enroll = (\<lambda>w. (Inr (''pending SHA256:aWQ'' @ [CHR 0x0A]), w))" "en_input sample_enroll = (\<lambda>_ w. (Inr ''Yes'', w))"
  "en_print sample_enroll = (\<lambda>_ w. (Inr (), w))"
  by (simp_all add: sample_enroll_def)

lemma sample_texts:
  "ssh_fingerprint_sha256 sample_enroll ''id'' = ''SHA256:aWQ''" "lower (strip ''Yes'') = ''yes''"
  "parse_enrollment_reply (strip (''pending SHA256:aWQ'' @ [CHR 0x0A])) ''SHA256:aWQ'' = Inr \<lparr>er_fingerprint = ''SHA256:aWQ'', er_pending = True\<rparr>"
  "validate_enrollment_label (PStr ''ci'') = Inr ()" "dirname ''known_hosts'' = []"
  by code_simp+

lemma sample_enrollment:
  "fst (request_enrollment (sample_ssh True) sample_enroll sample_plain_os ''signer'' ''id'' 1127 ''known_hosts'' (PStr ''ci'') (PBool False)
     (Seconds 60 ''60'') sample_ssh_state) = Inr \<lparr>er_fingerprint = ''SHA256:aWQ'', er_pending = True\<rparr>"
proof -
  have key: "load_client_ssh_key (sample_ssh True) ''id'' s = (Inr ''id'', s)" for s :: "((sample_file, string) net, client) state"
    by (simp add: load_client_ssh_key_def sample_run)
  have reply: "fst (run_enrollment sample_enroll ''ci'' ''SHA256:aWQ'' s) = Inr \<lparr>er_fingerprint = ''SHA256:aWQ'', er_pending = True\<rparr>"
    for s :: "((sample_file, string) net, client) state"
    using sample_texts(3) by (simp add: run_enrollment_def sample_run)
  show ?thesis
    unfolding request_enrollment_def Let_def sample_plain_os_def
    by (simp add: sample_run key sample_texts sample_ssh_state_def afinally_def open_session_def session_remaining_def remaining_setup_time_def
        session_overdue_def overdue_def get_deadline_def set_deadline_def missing_host_key_def pause_deadline_def resume_deadline_def
        save_host_key_def load_host_keys_def reply)
qed

theorem enrollment_own_key_witness:
  "\<exists>r t. request_enrollment (sample_ssh True) sample_enroll sample_plain_os ''signer'' ''id'' 1127 ''known_hosts'' (PStr ''ci'') (PBool False)
      (Seconds 60 ''60'') sample_ssh_state = (Inr r, t) \<and> label_ok (PStr ''ci'') \<and>
    (\<exists>pkey u. load_client_ssh_key (sample_ssh True) (os_expanduser sample_plain_os ''id'') sample_ssh_state = (Inr pkey, u) \<and>
       er_fingerprint r = ssh_fingerprint_sha256 sample_enroll pkey)"
proof -
  obtain r t where run: "request_enrollment (sample_ssh True) sample_enroll sample_plain_os ''signer'' ''id'' 1127 ''known_hosts'' (PStr ''ci'') (PBool False)
      (Seconds 60 ''60'') sample_ssh_state = (Inr r, t)" using sample_enrollment by (metis prod.collapse)
  from enrollment_own_key [OF run] run show ?thesis by blast
qed

end
