(* ===== verification/Setup_Deadline.thy ===== *)
theory Setup_Deadline
  imports Complex_Main
begin

text \<open>
  The deadline of an SSH set-up (\<^verbatim>\<open>_SSHTunnel.start\<close> and \<^verbatim>\<open>request_enrollment\<close>). The set-up runs in the
  caller's thread; a timer thread runs \<^verbatim>\<open>expire_setup\<close>, which closes the socket under it. The two share
  a lock, the flags \<^verbatim>\<open>setup_complete\<close> and \<^verbatim>\<open>setup_timed_out\<close>, and the socket. While the operator is
  asked about an unknown host key the clock is stopped (\<^verbatim>\<open>pause_setup_deadline\<close>, \<^verbatim>\<open>resume_setup_deadline\<close>).

  A step is what one thread does between two points where the other can come in between: a body that
  runs under the lock and touches only what the lock guards is one step, \<^verbatim>\<open>expire_setup\<close> is several.
\<close>

section \<open>State\<close>

datatype owner = MainThread | TimerThread nat

text \<open>\<open>Prompting r\<close>: at the prompt, with \<open>r\<close> seconds left on the stopped clock.\<close>

datatype main_pc = Working | Prompting real | Checking | Completed | Failed

datatype timer_pc = Waiting real | Fired | Expiring | Closing | Finished | Cancelled

record ssh_setup =
  lock :: "owner option"
  setup_complete :: bool
  setup_timed_out :: bool
  sock_closed :: bool
  deadline :: real
  clock :: real
  main :: main_pc
  timers :: "timer_pc list"

text \<open>\<^verbatim>\<open>timeout_timer.cancel()\<close>: stops the latest timer if it is still waiting, and no other.\<close>

fun cancel_pc :: "timer_pc \<Rightarrow> timer_pc" where
  "cancel_pc (Waiting d) = Cancelled"
| "cancel_pc p = p"

definition cancel_timer :: "timer_pc list \<Rightarrow> timer_pc list" where
  "cancel_timer ts = (if ts = [] then [] else butlast ts @ [cancel_pc (last ts)])"

definition pause_setup_deadline :: "ssh_setup \<Rightarrow> ssh_setup" where
  "pause_setup_deadline s = s\<lparr>main := Prompting (deadline s - clock s), timers := cancel_timer (timers s)\<rparr>"

definition resume_setup_deadline :: "real \<Rightarrow> ssh_setup \<Rightarrow> ssh_setup" where
  "resume_setup_deadline remaining s =
     (if setup_complete s \<or> setup_timed_out s then s\<lparr>main := Working\<rparr>
      else s\<lparr>main := Working, deadline := clock s + max remaining 0, timers := timers s @ [Waiting (clock s + max remaining 0)]\<rparr>)"

text \<open>The final check, with the lock held: \<^verbatim>\<open>if setup_timed_out.is_set() or time.monotonic() >= deadline: raise\<close>\<close>

definition finish_setup :: "ssh_setup \<Rightarrow> ssh_setup" where
  "finish_setup s =
     (if setup_timed_out s \<or> deadline s \<le> clock s then s\<lparr>main := Failed, lock := None\<rparr>
      else s\<lparr>setup_complete := True, main := Completed, lock := None\<rparr>)"

section \<open>Steps\<close>

inductive setup_step :: "ssh_setup \<Rightarrow> ssh_setup \<Rightarrow> bool" where
  tick: "0 \<le> dt \<Longrightarrow> setup_step s (s\<lparr>clock := clock s + dt\<rparr>)"
| start_timer: "main s = Working \<Longrightarrow> timers s = [] \<Longrightarrow> clock s < deadline s \<Longrightarrow> setup_step s (s\<lparr>timers := [Waiting (deadline s)]\<rparr>)"
| raise: "main s = Working \<Longrightarrow> setup_step s (s\<lparr>main := Failed\<rparr>)"
| pause: "main s = Working \<Longrightarrow> lock s = None \<Longrightarrow> setup_step s (pause_setup_deadline s)"
| resume: "main s = Prompting r \<Longrightarrow> lock s = None \<Longrightarrow> setup_step s (resume_setup_deadline r s)"
| check: "main s = Working \<Longrightarrow> lock s = None \<Longrightarrow> setup_step s (s\<lparr>main := Checking, lock := Some MainThread\<rparr>)"
| finish: "main s = Checking \<Longrightarrow> setup_step s (finish_setup s)"
| cancel: "main s \<in> {Completed, Failed} \<Longrightarrow> setup_step s (s\<lparr>timers := cancel_timer (timers s)\<rparr>)"
| fire: "i < length (timers s) \<Longrightarrow> timers s ! i = Waiting d \<Longrightarrow> d \<le> clock s \<Longrightarrow> setup_step s (s\<lparr>timers := (timers s)[i := Fired]\<rparr>)"
| expire_lock: "i < length (timers s) \<Longrightarrow> timers s ! i = Fired \<Longrightarrow> lock s = None \<Longrightarrow>
    setup_step s (s\<lparr>timers := (timers s)[i := Expiring], lock := Some (TimerThread i)\<rparr>)"
| expire_return: "i < length (timers s) \<Longrightarrow> timers s ! i = Expiring \<Longrightarrow> setup_complete s \<Longrightarrow>
    setup_step s (s\<lparr>timers := (timers s)[i := Finished], lock := None\<rparr>)"
| expire_flag: "i < length (timers s) \<Longrightarrow> timers s ! i = Expiring \<Longrightarrow> \<not> setup_complete s \<Longrightarrow>
    setup_step s (s\<lparr>timers := (timers s)[i := Closing], setup_timed_out := True\<rparr>)"
| expire_close: "i < length (timers s) \<Longrightarrow> timers s ! i = Closing \<Longrightarrow>
    setup_step s (s\<lparr>timers := (timers s)[i := Finished], sock_closed := True, lock := None\<rparr>)"

definition initial_setup :: "real \<Rightarrow> real \<Rightarrow> ssh_setup" where
  "initial_setup t allowance =
     \<lparr>lock = None, setup_complete = False, setup_timed_out = False, sock_closed = False, deadline = t + allowance, clock = t,
      main = Working, timers = []\<rparr>"

inductive reachable_setup :: "real \<Rightarrow> real \<Rightarrow> ssh_setup \<Rightarrow> bool" for t allowance where
  init: "reachable_setup t allowance (initial_setup t allowance)"
| step: "reachable_setup t allowance s \<Longrightarrow> setup_step s s' \<Longrightarrow> reachable_setup t allowance s'"

section \<open>The invariant\<close>

text \<open>Who holds the lock and what the flags mean.\<close>

definition locking_inv :: "ssh_setup \<Rightarrow> bool" where
  "locking_inv s \<longleftrightarrow> (lock s = Some MainThread \<longleftrightarrow> main s = Checking) \<and>
     (\<forall>i < length (timers s). timers s ! i \<in> {Expiring, Closing} \<longleftrightarrow> lock s = Some (TimerThread i)) \<and>
     (\<forall>i. lock s = Some (TimerThread i) \<longrightarrow> i < length (timers s)) \<and>
     (setup_complete s \<longleftrightarrow> main s = Completed) \<and> (setup_complete s \<longrightarrow> \<not> setup_timed_out s) \<and>
     (sock_closed s \<longrightarrow> setup_timed_out s) \<and> (Closing \<in> set (timers s) \<longrightarrow> setup_timed_out s)"

fun is_waiting :: "timer_pc \<Rightarrow> bool" where
  "is_waiting (Waiting d) = True"
| "is_waiting _ = False"

text \<open>A timer that has come to its time, whatever it has done since.\<close>

definition is_late :: "timer_pc \<Rightarrow> bool" where
  "is_late p \<longleftrightarrow> p \<in> {Fired, Expiring, Closing, Finished}"

lemma not_late_Waiting [simp]: "\<not> is_late (Waiting d)"
  by (simp add: is_late_def)

text \<open>
  Only the latest timer can be waiting, for no less than the deadline, and none at the prompt; a timer
  that has come to its time, and the flag, mean that the deadline has passed.
\<close>

definition timing_inv :: "ssh_setup \<Rightarrow> bool" where
  "timing_inv s \<longleftrightarrow> (\<forall>d. Waiting d \<in> set (timers s) \<longrightarrow> deadline s \<le> d) \<and>
     list_all (\<lambda>p. \<not> is_waiting p) (butlast (timers s)) \<and>
     (\<forall>r. main s = Prompting r \<longrightarrow> list_all (\<lambda>p. \<not> is_waiting p) (timers s) \<and> (list_ex is_late (timers s) \<longrightarrow> r \<le> 0)) \<and>
     (list_ex is_late (timers s) \<or> setup_timed_out s \<longrightarrow> deadline s \<le> clock s)"

lemma cancel_timer_nth: "i < length ts \<Longrightarrow> cancel_timer ts ! i = ts ! i \<or> cancel_timer ts ! i = Cancelled \<and> is_waiting (ts ! i)"
proof -
  assume i: "i < length ts"
  then obtain us u where ts: "ts = us @ [u]" by (cases ts rule: rev_cases) auto
  with i show ?thesis by (cases u) (auto simp: cancel_timer_def nth_append)
qed

lemma cancel_timer_length [simp]: "length (cancel_timer ts) = length ts"
  by (cases ts) (simp_all add: cancel_timer_def)

lemma cancel_timer_pcs:
  "i < length ts \<Longrightarrow> cancel_timer ts ! i = Expiring \<longleftrightarrow> ts ! i = Expiring"
  "i < length ts \<Longrightarrow> cancel_timer ts ! i = Closing \<longleftrightarrow> ts ! i = Closing"
  using cancel_timer_nth [of i ts] by auto

lemma cancel_timer_set: "set (cancel_timer ts) \<subseteq> insert Cancelled (set ts)"
  using cancel_timer_nth by (auto simp: in_set_conv_nth) metis

lemma cancel_pc_not_waiting: "\<not> is_waiting (cancel_pc p)"
  by (cases p) simp_all

lemma cancel_timer_waiting: "list_all (\<lambda>p. \<not> is_waiting p) (butlast ts) \<Longrightarrow> list_all (\<lambda>p. \<not> is_waiting p) (cancel_timer ts)"
  by (cases ts rule: rev_cases) (auto simp: cancel_timer_def cancel_pc_not_waiting)

lemma cancel_timer_late: "list_ex is_late (cancel_timer ts) \<longleftrightarrow> list_ex is_late ts"
proof -
  have "is_late (cancel_pc u) \<longleftrightarrow> is_late u" for u by (cases u) (simp_all add: is_late_def)
  then show ?thesis by (cases ts rule: rev_cases) (simp_all add: cancel_timer_def)
qed

lemma Closing_nth: "Closing \<in> set ts \<longleftrightarrow> (\<exists>i < length ts. ts ! i = Closing)"
  by (auto simp: in_set_conv_nth)

lemma locking_owner:
  assumes "locking_inv s" and "i < length (timers s)" and "timers s ! i \<in> {Expiring, Closing}"
  shows "lock s = Some (TimerThread i) \<and> main s \<noteq> Checking \<and> (\<forall>j < length (timers s). j \<noteq> i \<longrightarrow> timers s ! j \<notin> {Expiring, Closing})"
proof -
  from assms have l: "lock s = Some (TimerThread i)" unfolding locking_inv_def by blast
  with assms(1) have "main s \<noteq> Checking" unfolding locking_inv_def by simp
  moreover have "timers s ! j \<notin> {Expiring, Closing}" if "j < length (timers s)" "j \<noteq> i" for j
    using assms(1) that l unfolding locking_inv_def by (metis option.inject owner.inject)
  ultimately show ?thesis using l by blast
qed

lemma locking_release:
  assumes "locking_inv s" and "i < length (timers s)" and "timers s ! i \<in> {Expiring, Closing}" and "b \<longrightarrow> setup_timed_out s"
  shows "locking_inv (s\<lparr>timers := (timers s)[i := Finished], sock_closed := b, lock := None\<rparr>)"
proof -
  from locking_owner [OF assms(1-3)] have none: "\<forall>j < length (timers s). (timers s)[i := Finished] ! j \<notin> {Expiring, Closing}"
    and m: "main s \<noteq> Checking" using assms(2) by (simp_all add: nth_list_update)
  from none have "Closing \<notin> set ((timers s)[i := Finished])" by (simp add: Closing_nth)
  with none m assms(1,4) show ?thesis unfolding locking_inv_def by simp
qed

lemma locking_flag:
  assumes "locking_inv s" and "i < length (timers s)" and "timers s ! i = Expiring" and "\<not> setup_complete s"
  shows "locking_inv (s\<lparr>timers := (timers s)[i := Closing], setup_timed_out := True\<rparr>)"
proof -
  have pcs: "((timers s)[i := Closing] ! j \<in> {Expiring, Closing}) = (timers s ! j \<in> {Expiring, Closing})" if "j < length (timers s)" for j
    using that assms(2,3) by (cases "i = j") simp_all
  with assms(1,4) show ?thesis unfolding locking_inv_def by simp
qed

lemma locking_inv_step: "setup_step s s' \<Longrightarrow> locking_inv s \<Longrightarrow> locking_inv s'"
proof (induction rule: setup_step.induct)
  case (pause s)
  then show ?case by (auto simp: locking_inv_def pause_setup_deadline_def cancel_timer_pcs Closing_nth)
next
  case (resume s r)
  then show ?case by (auto simp: locking_inv_def resume_setup_deadline_def nth_append Closing_nth less_Suc_eq)
next
  case (finish s)
  then show ?case by (auto simp: locking_inv_def finish_setup_def)
next
  case (cancel s)
  then show ?case by (auto simp: locking_inv_def cancel_timer_pcs Closing_nth)
next
  case (expire_lock i s)
  then show ?case by (auto simp: locking_inv_def nth_list_update Closing_nth)
next
  case (expire_return i s)
  then have "sock_closed s \<longrightarrow> setup_timed_out s" unfolding locking_inv_def by blast
  with expire_return locking_release [of s i "sock_closed s"] show ?case by simp
next
  case (expire_flag i s)
  then show ?case by (intro locking_flag)
next
  case (expire_close i s)
  then have "Closing \<in> set (timers s)" by (metis nth_mem)
  with expire_close have "setup_timed_out s" by (simp add: locking_inv_def)
  with expire_close locking_release [of s i True] show ?case by simp
qed (auto simp: locking_inv_def nth_list_update Closing_nth)

text \<open>Timing: what replacing one timer's state does to the two lists of the invariant.\<close>

lemma butlast_update: "i < length ts \<Longrightarrow> butlast (ts[i := p]) = (if i < length ts - 1 then (butlast ts)[i := p] else butlast ts)"
  by (cases ts rule: rev_cases) (auto simp: list_update_append)

lemma list_all_update: "list_all P ts \<Longrightarrow> P p \<Longrightarrow> list_all P (ts[i := p])"
  by (auto simp: list_all_iff dest!: set_update_subset_insert [THEN subsetD])

lemma late_update: "i < length ts \<Longrightarrow> is_late (ts ! i) \<Longrightarrow> list_ex is_late ts"
  by (auto simp: list_ex_iff)

lemma timing_update:
  assumes "timing_inv s" and "i < length (timers s)" and "\<not> is_waiting p"
    and "is_late p \<Longrightarrow> deadline s \<le> clock s \<and> (\<forall>r. main s = Prompting r \<longrightarrow> r \<le> 0)"
  shows "timing_inv (s\<lparr>timers := (timers s)[i := p]\<rparr>)"
proof -
  have sub: "set ((timers s)[i := p]) \<subseteq> insert p (set (timers s))" by (rule set_update_subset_insert)
  have "Waiting d \<in> set (timers s)" if "Waiting d \<in> set ((timers s)[i := p])" for d
    using that sub assms(3) by (cases p) auto
  moreover have "list_ex is_late (timers s) \<or> is_late p" if "list_ex is_late ((timers s)[i := p])"
    using that sub by (auto simp: list_ex_iff)
  moreover have "list_all (\<lambda>p. \<not> is_waiting p) (butlast ((timers s)[i := p]))"
    using assms(1-3) by (simp add: timing_inv_def butlast_update list_all_update)
  ultimately show ?thesis using assms(1,3,4) by (auto simp: timing_inv_def intro: list_all_update)
qed

lemma timing_cancel:
  assumes "timing_inv s"
  shows "list_all (\<lambda>p. \<not> is_waiting p) (cancel_timer (timers s))" "Waiting d \<notin> set (cancel_timer (timers s))"
    "list_all (\<lambda>p. \<not> is_waiting p) (butlast (cancel_timer (timers s)))"
proof -
  show all: "list_all (\<lambda>p. \<not> is_waiting p) (cancel_timer (timers s))"
    using assms cancel_timer_waiting by (simp add: timing_inv_def)
  then show "Waiting d \<notin> set (cancel_timer (timers s))" "list_all (\<lambda>p. \<not> is_waiting p) (butlast (cancel_timer (timers s)))"
    by (auto simp: list_all_iff dest: in_set_butlastD)
qed

lemma timing_late:
  assumes "timing_inv s" and "i < length (timers s)" and "is_late (timers s ! i)"
  shows "deadline s \<le> clock s \<and> (\<forall>r. main s = Prompting r \<longrightarrow> r \<le> 0)"
  using late_update [OF assms(2,3)] assms(1) by (simp add: timing_inv_def)

text \<open>A timer thread that has come to its time moves on.\<close>

lemma timing_move:
  assumes "timing_inv s" and "i < length (timers s)" and "is_late (timers s ! i)" and "\<not> is_waiting p" and "is_late p"
  shows "timing_inv (s\<lparr>timers := (timers s)[i := p], setup_timed_out := b, sock_closed := k, lock := l\<rparr>)"
proof -
  from assms timing_late [OF assms(1-3)] have "timing_inv (s\<lparr>timers := (timers s)[i := p]\<rparr>)" by (intro timing_update) simp_all
  with timing_late [OF assms(1-3)] show ?thesis by (simp add: timing_inv_def)
qed

lemma timing_fire:
  assumes "timing_inv s" and "i < length (timers s)" and "timers s ! i = Waiting d" and "d \<le> clock s"
  shows "timing_inv (s\<lparr>timers := (timers s)[i := Fired]\<rparr>)"
proof -
  from assms(2,3) have w: "Waiting d \<in> set (timers s)" by (metis nth_mem)
  then have "\<not> list_all (\<lambda>p. \<not> is_waiting p) (timers s)" by (auto simp: list_all_iff intro: bexI [of _ "Waiting d"])
  with assms(1) have "main s \<noteq> Prompting r" for r by (auto simp: timing_inv_def)
  moreover from assms(1) w have "deadline s \<le> d" by (simp add: timing_inv_def)
  ultimately show ?thesis using assms by (intro timing_update) auto
qed

lemma timing_inv_step: "setup_step s s' \<Longrightarrow> timing_inv s \<Longrightarrow> timing_inv s'"
proof (induction rule: setup_step.induct)
  case (fire i s d)
  then show ?case by (intro timing_fire)
next
  case (pause s)
  with timing_cancel [OF pause(3)] show ?case by (simp add: timing_inv_def pause_setup_deadline_def cancel_timer_late)
next
  case (resume s r)
  then have none: "list_all (\<lambda>p. \<not> is_waiting p) (timers s)" and late: "list_ex is_late (timers s) \<longrightarrow> r \<le> 0"
    by (simp_all add: timing_inv_def)
  from none have "Waiting d \<notin> set (timers s)" for d by (auto simp: list_all_iff)
  with none late resume show ?case by (auto simp: timing_inv_def resume_setup_deadline_def)
next
  case (cancel s)
  with timing_cancel [OF cancel(2)] show ?case by (simp add: timing_inv_def cancel_timer_late)
next
  case (expire_lock i s)
  then show ?case using timing_move [of s i Expiring "Some (TimerThread i)" "sock_closed s" "setup_timed_out s"] by (simp add: is_late_def)
next
  case (expire_return i s)
  then show ?case using timing_move [of s i Finished None "sock_closed s" "setup_timed_out s"] by (simp add: is_late_def)
next
  case (expire_flag i s)
  then show ?case using timing_move [of s i Closing "lock s" "sock_closed s" True] by (simp add: is_late_def)
next
  case (expire_close i s)
  then show ?case using timing_move [of s i Finished None True "setup_timed_out s"] by (simp add: is_late_def)
next
  case (tick dt s)
  then show ?case by (simp add: timing_inv_def) (meson add_increasing2)
next
  case (finish s)
  then show ?case unfolding timing_inv_def finish_setup_def by simp blast
qed (simp_all add: timing_inv_def)

lemma reachable_inv: "reachable_setup t allowance s \<Longrightarrow> locking_inv s \<and> timing_inv s"
proof (induction rule: reachable_setup.induct)
  case init
  then show ?case by (simp add: initial_setup_def locking_inv_def timing_inv_def)
next
  case (step s s')
  then show ?case by (blast intro: locking_inv_step timing_inv_step)
qed

text \<open>A completed set-up stays completed.\<close>

lemma complete_stays: "setup_step s s' \<Longrightarrow> locking_inv s \<Longrightarrow> setup_complete s \<Longrightarrow> setup_complete s'"
  by (induction rule: setup_step.induct)
    (auto simp: pause_setup_deadline_def resume_setup_deadline_def finish_setup_def)

lemma complete_stays_rtranclp:
  assumes "setup_step\<^sup>*\<^sup>* s s'" and "reachable_setup t allowance s" and "setup_complete s"
  shows "reachable_setup t allowance s' \<and> setup_complete s'"
  using assms
proof (induction rule: rtranclp_induct)
  case base
  then show ?case by simp
next
  case (step u v)
  then show ?case by (blast intro: reachable_setup.step complete_stays dest: reachable_inv)
qed

section \<open>Property\<close>

text \<open>
  C17. The deadline of a set-up. However the threads interleave: when the set-up has reported success,
  the timer has not closed the socket and never will; the flag is only set, and the socket only closed,
  once the deadline has passed, prompts not counted; and whenever the set-up finds the flag set in its
  final check, it fails.
\<close>

theorem setup_deadline_safe:
  assumes "reachable_setup t allowance s" and "setup_step\<^sup>*\<^sup>* s s'"
  shows "(main s = Completed \<longrightarrow> main s' = Completed \<and> \<not> sock_closed s' \<and> \<not> setup_timed_out s') \<and>
    (setup_timed_out s \<or> sock_closed s \<longrightarrow> deadline s \<le> clock s \<and> main s \<noteq> Completed) \<and>
    (setup_timed_out s \<longrightarrow> main (finish_setup s) = Failed)"
proof -
  from reachable_inv [OF assms(1)] have inv: "locking_inv s" "timing_inv s" by simp_all
  have "main s' = Completed \<and> \<not> sock_closed s' \<and> \<not> setup_timed_out s'" if "main s = Completed"
  proof -
    from that inv(1) have "setup_complete s" by (simp add: locking_inv_def)
    from complete_stays_rtranclp [OF assms(2,1) this] have "locking_inv s'" "setup_complete s'" by (blast dest: reachable_inv)+
    then show ?thesis by (auto simp: locking_inv_def)
  qed
  moreover have "deadline s \<le> clock s \<and> main s \<noteq> Completed" if "setup_timed_out s \<or> sock_closed s"
    using that inv by (auto simp: locking_inv_def timing_inv_def)
  ultimately show ?thesis by (simp add: finish_setup_def)
qed

text \<open>
  The prompt is not charged: a set-up paused with time left and resumed later has the same time left
  as before, whatever the prompt took.
\<close>

lemma pause_resume_remaining:
  assumes "\<not> setup_complete s" and "\<not> setup_timed_out s" and "clock s \<le> deadline s"
  shows "let p = pause_setup_deadline s; q = resume_setup_deadline (deadline s - clock s) (p\<lparr>clock := clock s + think\<rparr>)
    in deadline q - clock q = deadline s - clock s"
  using assms by (simp add: pause_setup_deadline_def resume_setup_deadline_def Let_def)

section \<open>Witness\<close>

lemma sample_completed: "reachable_setup 0 60 (finish_setup ((initial_setup 0 60)\<lparr>timers := [Waiting 60], main := Checking, lock := Some MainThread\<rparr>))"
proof -
  have "reachable_setup 0 60 ((initial_setup 0 60)\<lparr>timers := [Waiting 60]\<rparr>)"
    using reachable_setup.step [OF reachable_setup.init [of 0 60] setup_step.start_timer [of "initial_setup 0 60"]] by (simp add: initial_setup_def)
  from reachable_setup.step [OF this setup_step.check] have
    "reachable_setup 0 60 ((initial_setup 0 60)\<lparr>timers := [Waiting 60], main := Checking, lock := Some MainThread\<rparr>)" by (simp add: initial_setup_def)
  from reachable_setup.step [OF this setup_step.finish] show ?thesis by simp
qed

theorem setup_deadline_safe_witness:
  "let s = finish_setup ((initial_setup 0 60)\<lparr>timers := [Waiting 60], main := Checking, lock := Some MainThread\<rparr>) in
     main s = Completed \<and> setup_step s (s\<lparr>clock := clock s + 100\<rparr>) \<and> \<not> sock_closed (s\<lparr>clock := clock s + 100\<rparr>)"
proof -
  define s where "s = finish_setup ((initial_setup 0 60)\<lparr>timers := [Waiting 60], main := Checking, lock := Some MainThread\<rparr>)"
  have m: "main s = Completed" by (simp add: s_def finish_setup_def initial_setup_def)
  have step: "setup_step s (s\<lparr>clock := clock s + 100\<rparr>)" by (rule setup_step.tick) simp
  then have steps: "setup_step\<^sup>*\<^sup>* s (s\<lparr>clock := clock s + 100\<rparr>)" by blast
  have "reachable_setup 0 60 s" unfolding s_def by (rule sample_completed)
  from setup_deadline_safe [OF this steps] m step show ?thesis
    unfolding s_def [symmetric] Let_def by blast
qed

end
