(* ===== verification/Tunnel_Forward.thy ===== *)
theory Tunnel_Forward
  imports Py_Codec "HOL-Library.Multiset"
begin

text \<open>
  The threads of a running tunnel: \<^verbatim>\<open>_accept_loop\<close>, which takes local connections and opens a channel
  for each, and \<^verbatim>\<open>_forward\<close>, which copies one direction. Both may run for ever, so they are partial
  functions: not returning is \<open>None\<close>. Sockets and channels are parameters acting on a world \<open>'v\<close>.
\<close>

section \<open>Copying one direction\<close>

record 'v direction =
  d_recv :: "'v \<Rightarrow> bytes result \<times> 'v"
  d_sendall :: "bytes \<Rightarrow> 'v \<Rightarrow> unit result \<times> 'v"
  d_close_dst :: "'v \<Rightarrow> unit result \<times> 'v"
  d_close_src :: "'v \<Rightarrow> unit result \<times> 'v"

text \<open>The \<^verbatim>\<open>while\<close> loop inside the \<^verbatim>\<open>try\<close>; \<open>sent\<close> records what was passed to \<^verbatim>\<open>sendall\<close> without an error.\<close>

partial_function (option) copy_loop :: "'v direction \<Rightarrow> bytes list \<Rightarrow> 'v \<Rightarrow> (unit result \<times> bytes list \<times> 'v) option" where
  "copy_loop D sent w =
     (case d_recv D w of
        (Inl e, u) \<Rightarrow> Some (Inl e, sent, u)
      | (Inr data, u) \<Rightarrow>
          if data = [] then Some (Inr (), sent, u)
          else (case d_sendall D data u of
                  (Inl e, v) \<Rightarrow> Some (Inl e, sent, v)
                | (Inr _, v) \<Rightarrow> copy_loop D (sent @ [data]) v))"

text \<open>Exceptions of the loop and of closing are dropped; both ends are closed, the destination first.\<close>

definition forward :: "'v direction \<Rightarrow> 'v \<Rightarrow> (bytes list \<times> 'v) option" where
  "forward D w =
     (case copy_loop D [] w of None \<Rightarrow> None
      | Some (_, sent, u) \<Rightarrow> Some (sent, snd (d_close_src D (snd (d_close_dst D u)))))"

section \<open>Accepting connections\<close>

datatype 's accepted = TimedOut | ListenerGone | Connection 's

record ('v, 's, 'c) listener =
  l_running :: "'v \<Rightarrow> bool"
  l_accept :: "'v \<Rightarrow> 's accepted \<times> 'v"
  l_open_channel :: "'s \<Rightarrow> 'v \<Rightarrow> 'c option result \<times> 'v"
  l_close :: "'s \<Rightarrow> 'v \<Rightarrow> 'v"
  l_spawn :: "'s \<Rightarrow> 'c \<Rightarrow> 'v \<Rightarrow> 'v"

text \<open>What became of the connections: accepted, closed at once, or given the two forwarding threads.\<close>

record ('v, 's, 'c) accepting =
  a_world :: 'v
  a_accepted :: "'s list"
  a_closed :: "'s list"
  a_forwarded :: "('s \<times> 'c) list"

definition handle_connection :: "('v, 's, 'c) listener \<Rightarrow> 's \<Rightarrow> ('v, 's, 'c) accepting \<Rightarrow> ('v, 's, 'c) accepting" where
  "handle_connection L s a =
     (case l_open_channel L s (a_world a) of
        (Inr (Some ch), w) \<Rightarrow> a\<lparr>a_world := l_spawn L s ch w, a_accepted := a_accepted a @ [s], a_forwarded := a_forwarded a @ [(s, ch)]\<rparr>
      | (_, w) \<Rightarrow> a\<lparr>a_world := l_close L s w, a_accepted := a_accepted a @ [s], a_closed := a_closed a @ [s]\<rparr>)"

partial_function (option) accept_loop :: "('v, 's, 'c) listener \<Rightarrow> ('v, 's, 'c) accepting \<Rightarrow> ('v, 's, 'c) accepting option" where
  "accept_loop L a =
     (if \<not> l_running L (a_world a) then Some a
      else (case l_accept L (a_world a) of
              (TimedOut, w) \<Rightarrow> accept_loop L (a\<lparr>a_world := w\<rparr>)
            | (ListenerGone, w) \<Rightarrow> Some (a\<lparr>a_world := w\<rparr>)
            | (Connection s, w) \<Rightarrow> accept_loop L (handle_connection L s (a\<lparr>a_world := w\<rparr>))))"

section \<open>Lemmas\<close>

text \<open>A source that delivers the chunks \<open>cs\<close> and then ends, to a destination that takes them.\<close>

inductive delivers :: "'v direction \<Rightarrow> 'v \<Rightarrow> bytes list \<Rightarrow> 'v \<Rightarrow> bool" for D where
  eof: "d_recv D w = (Inr [], v) \<Longrightarrow> delivers D w [] v"
| chunk: "d_recv D w = (Inr data, u) \<Longrightarrow> data \<noteq> [] \<Longrightarrow> d_sendall D data u = (Inr (), v) \<Longrightarrow> delivers D v cs z \<Longrightarrow> delivers D w (data # cs) z"

lemma copy_loop_delivers: "delivers D w cs v \<Longrightarrow> copy_loop D sent w = Some (Inr (), sent @ cs, v)"
  by (induction arbitrary: sent rule: delivers.induct) (subst copy_loop.simps, simp)+

text \<open>Every accepted connection is closed or forwarded, and none twice.\<close>

definition accounted :: "('v, 's, 'c) accepting \<Rightarrow> bool" where
  "accounted a \<longleftrightarrow> mset (a_accepted a) = mset (a_closed a) + mset (map fst (a_forwarded a))"

lemma accounted_handle [simp]: "accounted (handle_connection L s a) = accounted a"
  by (auto simp: accounted_def handle_connection_def split: prod.splits sum.splits option.splits)

lemma accounted_world [simp]: "accounted (a\<lparr>a_world := w\<rparr>) = accounted a"
  by (simp add: accounted_def)

lemma accept_loop_accounted:
  assumes "accept_loop L a = Some b" and "accounted a"
  shows "accounted b"
proof -
  from assms(1) have "accounted a \<longrightarrow> accounted b"
    by (rule accept_loop.raw_induct [of "\<lambda>L a b. accounted a \<longrightarrow> accounted b", rotated])
      (auto split: if_splits prod.splits accepted.splits)
  with assms(2) show ?thesis by blast
qed

text \<open>One round of the loop, and when a round is the last.\<close>

definition accept_round :: "('v, 's, 'c) listener \<Rightarrow> ('v, 's, 'c) accepting \<Rightarrow> ('v, 's, 'c) accepting" where
  "accept_round L a =
     (case l_accept L (a_world a) of
        (Connection s, w) \<Rightarrow> handle_connection L s (a\<lparr>a_world := w\<rparr>)
      | (_, w) \<Rightarrow> a\<lparr>a_world := w\<rparr>)"

definition stopped :: "('v, 's, 'c) listener \<Rightarrow> ('v, 's, 'c) accepting \<Rightarrow> bool" where
  "stopped L a \<longleftrightarrow> \<not> l_running L (a_world a) \<or> fst (l_accept L (a_world a)) = ListenerGone"

lemma accept_loop_last:
  "stopped L a \<Longrightarrow> accept_loop L a = Some (if l_running L (a_world a) then accept_round L a else a)"
  by (subst accept_loop.simps) (auto simp: stopped_def accept_round_def split: prod.splits accepted.splits)

lemma accept_loop_next: "\<not> stopped L a \<Longrightarrow> accept_loop L a = accept_loop L (accept_round L a)"
  by (subst accept_loop.simps) (auto simp: stopped_def accept_round_def split: prod.splits accepted.splits)

lemma accept_loop_rounds:
  "stopped L ((accept_round L ^^ n) a) \<Longrightarrow> \<exists>m \<le> Suc n. accept_loop L a = Some ((accept_round L ^^ m) a)"
proof (induction n arbitrary: a)
  case 0
  then show ?case by (auto simp: accept_loop_last intro: exI [of _ 0] exI [of _ 1])
next
  case (Suc n)
  show ?case
  proof (cases "stopped L a")
    case True
    then show ?thesis by (auto simp: accept_loop_last intro: exI [of _ 0] exI [of _ 1])
  next
    case False
    from Suc.prems have "stopped L ((accept_round L ^^ n) (accept_round L a))" by (simp add: funpow_swap1)
    from Suc.IH [OF this] obtain m where "m \<le> Suc n" "accept_loop L (accept_round L a) = Some ((accept_round L ^^ m) (accept_round L a))" by blast
    then show ?thesis using accept_loop_next [OF False] by (intro exI [of _ "Suc m"]) (simp add: funpow_swap1)
  qed
qed

lemma accept_loop_stopped:
  assumes "accept_loop L a = Some b"
  shows "\<exists>n. stopped L ((accept_round L ^^ n) a)"
  using assms
proof (rule accept_loop.raw_induct [of "\<lambda>L a b. \<exists>n. stopped L ((accept_round L ^^ n) a)", rotated])
  fix f L and a :: "('a, 'b, 'c) accepting" and b
  assume IH: "\<And>L a b. f L a = Some b \<Longrightarrow> \<exists>n. stopped L ((accept_round L ^^ n) a)"
    and run: "(if \<not> l_running L (a_world a) then Some a
      else (case l_accept L (a_world a) of
              (TimedOut, w) \<Rightarrow> f L (a\<lparr>a_world := w\<rparr>)
            | (ListenerGone, w) \<Rightarrow> Some (a\<lparr>a_world := w\<rparr>)
            | (Connection s, w) \<Rightarrow> f L (handle_connection L s (a\<lparr>a_world := w\<rparr>)))) = Some b"
  show "\<exists>n. stopped L ((accept_round L ^^ n) a)"
  proof (cases "stopped L a")
    case True
    then show ?thesis by (intro exI [of _ 0]) simp
  next
    case False
    with run have "f L (accept_round L a) = Some b"
      by (auto simp: stopped_def accept_round_def split: prod.splits accepted.splits)
    from IH [OF this] obtain n where "stopped L ((accept_round L ^^ n) (accept_round L a))" by blast
    then show ?thesis by (intro exI [of _ "Suc n"]) (simp add: funpow_swap1)
  qed
qed

section \<open>Properties\<close>

text \<open>
  C37. Forwarding ends and loses nothing. When the source delivers some chunks and then ends, and the
  destination takes them, \<^verbatim>\<open>_forward\<close> returns; it has passed on exactly these chunks, in order, and then
  closed the destination and the source.
\<close>

theorem forward_relays:
  assumes "delivers D w cs v"
  shows "forward D w = Some (cs, snd (d_close_src D (snd (d_close_dst D v))))"
  using copy_loop_delivers [OF assms, of "[]"] by (simp add: forward_def)

text \<open>
  C38. The accept loop ends when the tunnel is stopped, and only then. If some round finds the running
  flag cleared or the listening socket closed, which is what \<^verbatim>\<open>stop\<close> does, the thread returns at that
  round; if no round does, it goes on for ever. When it returns, every connection it accepted has
  either been closed or been given its two forwarding threads, none both and none twice.
\<close>

theorem accept_loop_ends:
  "((\<exists>b. accept_loop L a = Some b) \<longleftrightarrow> (\<exists>n. stopped L ((accept_round L ^^ n) a))) \<and>
   (stopped L ((accept_round L ^^ n) a) \<longrightarrow> (\<exists>m \<le> Suc n. accept_loop L a = Some ((accept_round L ^^ m) a))) \<and>
   (accept_loop L a = Some b \<longrightarrow> accounted a \<longrightarrow> mset (a_accepted b) = mset (a_closed b) + mset (map fst (a_forwarded b)))"
  using accept_loop_rounds accept_loop_stopped accept_loop_accounted unfolding accounted_def by blast

section \<open>Witness\<close>

text \<open>The world is the list of chunks still to come and the text received so far.\<close>

definition sample_direction :: "(bytes list \<times> bytes) direction" where
  "sample_direction = \<lparr>d_recv = (\<lambda>(xs, out). case xs of [] \<Rightarrow> (Inr [], xs, out) | x # ys \<Rightarrow> (Inr x, ys, out)),
     d_sendall = (\<lambda>b (xs, out). (Inr (), xs, out @ b)), d_close_dst = (\<lambda>w. (Inr (), w)), d_close_src = (\<lambda>w. (Inl (Exc OSError ''closed'' []), w))\<rparr>"

theorem forward_relays_witness: "forward sample_direction ([''ab'', ''c''], []) = Some ([''ab'', ''c''], [], ''abc'')"
proof -
  have "delivers sample_direction ([], ''abc'') [] ([], ''abc'')"
    by (rule delivers.eof) (simp add: sample_direction_def)
  then have "delivers sample_direction ([''c''], ''ab'') [''c''] ([], ''abc'')"
    by (intro delivers.chunk [of _ _ "''c''" "([], ''ab'')" "([], ''abc'')"]) (simp_all add: sample_direction_def)
  then have "delivers sample_direction ([''ab'', ''c''], []) [''ab'', ''c''] ([], ''abc'')"
    by (intro delivers.chunk [of _ _ "''ab''" "([''c''], [])" "([''c''], ''ab'')"]) (simp_all add: sample_direction_def)
  from forward_relays [OF this] show ?thesis by (simp add: sample_direction_def)
qed

text \<open>A tunnel that serves two connections, the second of which gets no channel, and is then stopped; the world counts the rounds.\<close>

definition sample_listener_run :: "(nat, nat, nat) listener" where
  "sample_listener_run = \<lparr>l_running = (\<lambda>w. w < 3), l_accept = (\<lambda>w. (if w = 1 then TimedOut else Connection w, Suc w)),
     l_open_channel = (\<lambda>s w. (if s = 0 then Inr (Some 9) else Inr None, w)), l_close = (\<lambda>_ w. w), l_spawn = (\<lambda>_ _ w. w)\<rparr>"

definition sample_accepting :: "(nat, nat, nat) accepting" where
  "sample_accepting = \<lparr>a_world = 0, a_accepted = [], a_closed = [], a_forwarded = []\<rparr>"

theorem accept_loop_ends_witness:
  "\<exists>b. accept_loop sample_listener_run sample_accepting = Some b \<and>
     mset (a_accepted b) = mset (a_closed b) + mset (map fst (a_forwarded b))"
proof -
  have "stopped sample_listener_run ((accept_round sample_listener_run ^^ 3) sample_accepting)" by code_simp
  moreover have "accounted sample_accepting" by (simp add: accounted_def sample_accepting_def)
  ultimately show ?thesis
    using accept_loop_ends [of sample_listener_run sample_accepting 3] accept_loop_ends [of sample_listener_run sample_accepting] by blast
qed

end
